(* ===== verification/Hass_Prelude.thy ===== *)
theory Hass_Prelude
  imports Main "HOL-Library.Char_ord" "HOL-Library.List_Lexorder"
begin

text \<open>
  Shared vocabulary of the development: effectful programs over an explicit state
  (an exception keeps the state it was raised in, as a Python exception does), the rules that
  walk such programs, canonical orderings of strings, and the character classes of the
  regular expressions the sources use.

  A Python string is represented by the list of its UTF-8 bytes.  The sources compare keys by
  \<open>item.encode("utf-8")\<close>, which is the lexicographic order of \<open>List_Lexorder\<close> on these lists.
\<close>

named_theorems effect_defs \<open>definitions that unfold the control structure of an effect\<close>
named_theorems guarantee_rules \<open>composition rules for guarantees\<close>

section \<open>Effects\<close>

type_synonym ('s, 'e, 'a) effect = "'s \<Rightarrow> ('e + 'a) \<times> 's"

definition return_eff :: "'a \<Rightarrow> ('s, 'e, 'a) effect" where
  "return_eff x s = (Inr x, s)"

definition raise_eff :: "'e \<Rightarrow> ('s, 'e, 'a) effect" where
  "raise_eff e s = (Inl e, s)"

definition bind_eff :: "('s, 'e, 'a) effect \<Rightarrow> ('a \<Rightarrow> ('s, 'e, 'b) effect) \<Rightarrow> ('s, 'e, 'b) effect" where
  "bind_eff m f s = (case m s of (Inl e, t) \<Rightarrow> (Inl e, t) | (Inr x, t) \<Rightarrow> f x t)"

definition then_eff :: "('s, 'e, 'a) effect \<Rightarrow> ('s, 'e, 'b) effect \<Rightarrow> ('s, 'e, 'b) effect" where
  "then_eff m k = bind_eff m (\<lambda>_. k)"

text \<open>\<open>try: m except e: h e\<close>; a handler that does not apply raises \<open>e\<close> again.\<close>

definition catch_eff :: "('s, 'e, 'a) effect \<Rightarrow> ('e \<Rightarrow> ('s, 'e, 'a) effect) \<Rightarrow> ('s, 'e, 'a) effect" where
  "catch_eff m h s = (case m s of (Inl e, t) \<Rightarrow> h e t | (Inr x, t) \<Rightarrow> (Inr x, t))"

text \<open>\<open>try: m finally: k\<close>; an exception of \<open>k\<close> replaces the outcome of \<open>m\<close>.\<close>

definition finally_eff :: "('s, 'e, 'a) effect \<Rightarrow> ('s, 'e, unit) effect \<Rightarrow> ('s, 'e, 'a) effect" where
  "finally_eff m k s =
     (case m s of (r, t) \<Rightarrow> (case k t of (Inl e, u) \<Rightarrow> (Inl e, u) | (Inr _, u) \<Rightarrow> (r, u)))"

text \<open>\<open>try: m except e: h e else: k x\<close>; the continuation runs outside the handler.\<close>

definition try_else_eff ::
  "('s, 'e, 'a) effect \<Rightarrow> ('e \<Rightarrow> ('s, 'e, 'b) effect) \<Rightarrow> ('a \<Rightarrow> ('s, 'e, 'b) effect) \<Rightarrow> ('s, 'e, 'b) effect"
  where
  "try_else_eff m h k s = (case m s of (Inl e, t) \<Rightarrow> h e t | (Inr x, t) \<Rightarrow> k x t)"

definition require :: "bool \<Rightarrow> 'e \<Rightarrow> ('s, 'e, unit) effect" where
  "require b e = (if b then return_eff () else raise_eff e)"

definition lift_eff :: "'e + 'a \<Rightarrow> ('s, 'e, 'a) effect" where
  "lift_eff r s = (r, s)"

definition read_eff :: "('s \<Rightarrow> 'a) \<Rightarrow> ('s, 'e, 'a) effect" where
  "read_eff f s = (Inr (f s), s)"

definition update_eff :: "('s \<Rightarrow> 's) \<Rightarrow> ('s, 'e, unit) effect" where
  "update_eff f s = (Inr (), f s)"

text \<open>\<open>for x in xs: f x\<close>\<close>

primrec for_each :: "('x \<Rightarrow> ('s, 'e, unit) effect) \<Rightarrow> 'x list \<Rightarrow> ('s, 'e, unit) effect" where
  "for_each f [] = return_eff ()"
| "for_each f (x # xs) = then_eff (f x) (for_each f xs)"

lemmas effect_basic_defs [effect_defs] =
  return_eff_def raise_eff_def bind_eff_def then_eff_def catch_eff_def finally_eff_def
  try_else_eff_def require_def lift_eff_def read_eff_def update_eff_def

lemma bind_return_left [simp]: "bind_eff (return_eff x) f = f x"
  by (rule ext) (simp add: bind_eff_def return_eff_def)

lemma bind_return_right [simp]: "bind_eff m return_eff = m"
  by (rule ext) (auto simp: bind_eff_def return_eff_def split: prod.splits sum.splits)

lemma bind_raise [simp]: "bind_eff (raise_eff e) f = raise_eff e"
  by (rule ext) (simp add: bind_eff_def raise_eff_def)

lemma bind_assoc: "bind_eff (bind_eff m f) g = bind_eff m (\<lambda>x. bind_eff (f x) g)"
  by (rule ext) (auto simp: bind_eff_def split: prod.splits sum.splits)

lemma require_simps [simp]: "require True e = return_eff ()" "require False e = raise_eff e"
  by (simp_all add: require_def)

lemma then_require_simps [simp]:
  "then_eff (require True e) k = k" "then_eff (require False e) k = raise_eff e"
  "then_eff (return_eff x) k = k" "then_eff (raise_eff e) k = raise_eff e"
  by (simp_all add: then_eff_def)

lemma then_raise_simp [simp]: "then_eff (then_eff m (raise_eff e)) k = then_eff m (raise_eff e)"
  by (rule ext) (auto simp: then_eff_def bind_eff_def raise_eff_def split: prod.splits sum.splits)

lemma bind_eff_okD:
  assumes "bind_eff m f s = (Inr y, u)"
  obtains x t where "m s = (Inr x, t)" "f x t = (Inr y, u)"
  using assms by (auto simp: bind_eff_def split: prod.splits sum.splits)

lemma then_eff_okD:
  assumes "then_eff m k s = (Inr y, u)"
  obtains x t where "m s = (Inr x, t)" "k t = (Inr y, u)"
  using assms by (auto simp: then_eff_def elim: bind_eff_okD)

lemma require_ok_iff [simp]: "require b e s = (Inr x, t) \<longleftrightarrow> b \<and> t = s"
  by (auto simp: require_def return_eff_def raise_eff_def)

lemma then_require_ok_iff [simp]:
  "then_eff (require b e) k s = (Inr x, t) \<longleftrightarrow> b \<and> k s = (Inr x, t)"
  by (cases b) (simp_all add: raise_eff_def)

lemma bind_lift_ok_iff [simp]:
  "bind_eff (lift_eff z) f s = (Inr x, t) \<longleftrightarrow> (\<exists>y. z = Inr y \<and> f y s = (Inr x, t))"
  by (cases z) (simp_all add: bind_eff_def lift_eff_def)

lemma return_ok_iff [simp]: "return_eff y s = (Inr x, t) \<longleftrightarrow> y = x \<and> t = s"
  by (auto simp: return_eff_def)

lemma raise_not_ok [simp]: "raise_eff e s \<noteq> (Inr x, t)"
  by (simp add: raise_eff_def)

lemma effect_cases:
  obtains (raised) e t where "m s = (Inl e, t)" | (returned) x t where "m s = (Inr x, t)"
  by (metis old.sum.exhaust surj_pair)

section \<open>Guarantees: relations every run of an effect respects\<close>

definition guarantees :: "('s \<Rightarrow> 's \<Rightarrow> bool) \<Rightarrow> ('s, 'e, 'a) effect \<Rightarrow> bool" where
  "guarantees R m \<longleftrightarrow> (\<forall>s. R s (snd (m s)))"

lemma guaranteesI: "(\<And>s r t. m s = (r, t) \<Longrightarrow> R s t) \<Longrightarrow> guarantees R m"
  by (metis guarantees_def prod.collapse)

lemma guaranteesD: "guarantees R m \<Longrightarrow> m s = (r, t) \<Longrightarrow> R s t"
  by (metis guarantees_def snd_conv)

text \<open>The same, for the runs that start where \<open>P\<close> holds.\<close>

definition guarantees_from :: "('s \<Rightarrow> bool) \<Rightarrow> ('s \<Rightarrow> 's \<Rightarrow> bool) \<Rightarrow> ('s, 'e, 'a) effect \<Rightarrow> bool" where
  "guarantees_from P R m \<longleftrightarrow> (\<forall>s. P s \<longrightarrow> R s (snd (m s)))"

lemma guarantees_fromI: "(\<And>s r t. P s \<Longrightarrow> m s = (r, t) \<Longrightarrow> R s t) \<Longrightarrow> guarantees_from P R m"
  by (metis guarantees_from_def prod.collapse)

lemma guarantees_fromD: "guarantees_from P R m \<Longrightarrow> P s \<Longrightarrow> m s = (r, t) \<Longrightarrow> R s t"
  by (metis guarantees_from_def snd_conv)

lemma guarantees_mono:
  "guarantees R m \<Longrightarrow> (\<And>s t. R s t \<Longrightarrow> Q s t) \<Longrightarrow> guarantees Q m"
  by (auto simp: guarantees_def)

lemma guarantees_from_all: "guarantees R m \<Longrightarrow> guarantees_from P R m"
  by (simp add: guarantees_def guarantees_from_def)

lemma guarantees_all_from: "guarantees_from (\<lambda>_. True) R m \<Longrightarrow> guarantees R m"
  by (simp add: guarantees_def guarantees_from_def)

text \<open>
  Any reflexive and transitive relation between states is respected by a whole program as soon as
  its primitive steps respect it, whichever of them raise, are caught or are run as clean-up.
\<close>

locale guarantee_relation =
  fixes R :: "'s \<Rightarrow> 's \<Rightarrow> bool"
  assumes refl: "R s s"
    and trans: "R s t \<Longrightarrow> R t u \<Longrightarrow> R s u"
begin

lemma return_guar [guarantee_rules]: "guarantees R (return_eff x)"
  by (simp add: guarantees_def return_eff_def refl)

lemma raise_guar [guarantee_rules]: "guarantees R (raise_eff e)"
  by (simp add: guarantees_def raise_eff_def refl)

lemma lift_guar [guarantee_rules]: "guarantees R (lift_eff r)"
  by (simp add: guarantees_def lift_eff_def refl)

lemma read_guar [guarantee_rules]: "guarantees R (read_eff f)"
  by (simp add: guarantees_def read_eff_def refl)

lemma require_guar [guarantee_rules]: "guarantees R (require b e)"
  by (simp add: require_def return_guar raise_guar)

lemma update_guar: "(\<And>s. R s (f s)) \<Longrightarrow> guarantees R (update_eff f)"
  by (simp add: guarantees_def update_eff_def)

lemma bind_guar [guarantee_rules]:
  assumes "guarantees R m" and "\<And>x. guarantees R (f x)"
  shows "guarantees R (bind_eff m f)"
proof (rule guaranteesI)
  fix s r u
  assume run: "bind_eff m f s = (r, u)"
  show "R s u"
  proof (cases m s rule: effect_cases)
    case (raised e t)
    with run have "u = t" by (simp add: bind_eff_def)
    with raised assms(1) show ?thesis by (auto dest: guaranteesD)
  next
    case (returned x t)
    with run have "f x t = (r, u)" by (simp add: bind_eff_def)
    with returned assms show ?thesis by (meson guaranteesD trans)
  qed
qed

lemma then_guar [guarantee_rules]:
  "guarantees R m \<Longrightarrow> guarantees R k \<Longrightarrow> guarantees R (then_eff m k)"
  by (simp add: then_eff_def bind_guar)

lemma try_else_guar [guarantee_rules]:
  assumes "guarantees R m" and "\<And>e. guarantees R (h e)" and "\<And>x. guarantees R (k x)"
  shows "guarantees R (try_else_eff m h k)"
proof (rule guaranteesI)
  fix s r u
  assume run: "try_else_eff m h k s = (r, u)"
  show "R s u"
  proof (cases m s rule: effect_cases)
    case (raised e t)
    with run have "h e t = (r, u)" by (simp add: try_else_eff_def)
    with raised assms show ?thesis by (meson guaranteesD trans)
  next
    case (returned x t)
    with run have "k x t = (r, u)" by (simp add: try_else_eff_def)
    with returned assms show ?thesis by (meson guaranteesD trans)
  qed
qed

lemma catch_guar [guarantee_rules]:
  assumes "guarantees R m" and "\<And>e. guarantees R (h e)"
  shows "guarantees R (catch_eff m h)"
proof -
  have "catch_eff m h = try_else_eff m h return_eff"
    by (rule ext) (auto simp: catch_eff_def try_else_eff_def return_eff_def split: prod.splits sum.splits)
  with assms show ?thesis by (simp add: try_else_guar return_guar)
qed

lemma finally_guar [guarantee_rules]:
  assumes "guarantees R m" and "guarantees R k"
  shows "guarantees R (finally_eff m k)"
proof (rule guaranteesI)
  fix s r u
  assume run: "finally_eff m k s = (r, u)"
  obtain r' t where m: "m s = (r', t)" by fastforce
  obtain r'' v where k: "k t = (r'', v)" by fastforce
  from run m k have "u = v" by (auto simp: finally_eff_def split: sum.splits)
  with m k assms show "R s u" by (meson guaranteesD trans)
qed

lemma for_each_guar [guarantee_rules]:
  "(\<And>x. guarantees R (f x)) \<Longrightarrow> guarantees R (for_each f xs)"
  by (induction xs) (simp_all add: return_guar then_guar)

lemma bind_from:
  assumes "guarantees_from P R m"
    and "\<And>s x t. P s \<Longrightarrow> m s = (Inr x, t) \<Longrightarrow> Q x t"
    and "\<And>x. guarantees_from (Q x) R (f x)"
  shows "guarantees_from P R (bind_eff m f)"
proof (rule guarantees_fromI)
  fix s r u
  assume P: "P s" and run: "bind_eff m f s = (r, u)"
  show "R s u"
  proof (cases m s rule: effect_cases)
    case (raised e t)
    with run have "u = t" by (simp add: bind_eff_def)
    with raised assms(1) P show ?thesis by (auto dest: guarantees_fromD)
  next
    case (returned x t)
    with run have "f x t = (r, u)" by (simp add: bind_eff_def)
    with returned assms P show ?thesis by (meson guarantees_fromD trans)
  qed
qed

lemma then_from:
  assumes "guarantees R m" and "\<And>s t. R' s t \<Longrightarrow> P s \<Longrightarrow> P t" and "guarantees R' m" and "guarantees_from P R k"
  shows "guarantees_from P R (then_eff m k)"
  unfolding then_eff_def
proof (rule bind_from)
  show "guarantees_from P R m" using assms(1) by (rule guarantees_from_all)
  show "P t" if "P s" "m s = (Inr x, t)" for s x t
    using guaranteesD [OF assms(3) that(2)] that(1) assms(2) by blast
qed (rule assms(4))

lemma then_from_any:
  "guarantees_from P R m \<Longrightarrow> guarantees R k \<Longrightarrow> guarantees_from P R (then_eff m k)"
  unfolding then_eff_def by (rule bind_from [where Q = "\<lambda>_ _. True"]) (simp_all add: guarantees_from_all)

lemma try_else_from_any:
  assumes "guarantees_from P R m" and "\<And>e. guarantees R (h e)" and "\<And>x. guarantees R (k x)"
  shows "guarantees_from P R (try_else_eff m h k)"
proof (rule guarantees_fromI)
  fix s r u
  assume P: "P s" and run: "try_else_eff m h k s = (r, u)"
  show "R s u"
  proof (cases m s rule: effect_cases)
    case (raised e t)
    with run have "h e t = (r, u)" by (simp add: try_else_eff_def)
    with raised P show ?thesis
      by (blast intro: trans guarantees_fromD [OF assms(1)] guaranteesD [OF assms(2)])
  next
    case (returned x t)
    with run have "k x t = (r, u)" by (simp add: try_else_eff_def)
    with returned P show ?thesis
      by (blast intro: trans guarantees_fromD [OF assms(1)] guaranteesD [OF assms(3)])
  qed
qed

lemma require_from: "(b \<Longrightarrow> guarantees_from P R k) \<Longrightarrow> guarantees_from P R (then_eff (require b e) k)"
  by (cases b) (simp_all add: guarantees_from_all raise_guar)

lemma lift_from:
  "(\<And>y. z = Inr y \<Longrightarrow> guarantees_from P R (f y)) \<Longrightarrow> guarantees_from P R (bind_eff (lift_eff z) f)"
  by (cases z) (simp_all add: guarantees_from_def bind_eff_def lift_eff_def refl)

lemma if_from:
  "(b \<Longrightarrow> guarantees_from P R m) \<Longrightarrow> (\<not> b \<Longrightarrow> guarantees_from P R k) \<Longrightarrow>
   guarantees_from P R (if b then m else k)"
  by simp

lemma raise_from: "guarantees_from P R (raise_eff e)"
  by (rule guarantees_from_all) (rule raise_guar)

lemma return_from: "guarantees_from P R (return_eff x)"
  by (rule guarantees_from_all) (rule return_guar)

lemmas from_rules = require_from lift_from if_from raise_from return_from

lemma if_guar [guarantee_rules]:
  "(b \<Longrightarrow> guarantees R m) \<Longrightarrow> (\<not> b \<Longrightarrow> guarantees R k) \<Longrightarrow> guarantees R (if b then m else k)"
  by simp

lemma case_option_guar [guarantee_rules]:
  "guarantees R n \<Longrightarrow> (\<And>x. guarantees R (f x)) \<Longrightarrow>
   guarantees R (case z of None \<Rightarrow> n | Some x \<Rightarrow> f x)"
  by (cases z) simp_all

lemma case_sum_guar [guarantee_rules]:
  "(\<And>e. guarantees R (g e)) \<Longrightarrow> (\<And>x. guarantees R (f x)) \<Longrightarrow>
   guarantees R (case z of Inl e \<Rightarrow> g e | Inr x \<Rightarrow> f x)"
  by (cases z) simp_all

lemma case_prod_guar [guarantee_rules]:
  "(\<And>x y. guarantees R (f x y)) \<Longrightarrow> guarantees R (case z of (x, y) \<Rightarrow> f x y)"
  by (cases z) simp

end

text \<open>What a run that returns yields.\<close>

definition yields :: "('a \<Rightarrow> bool) \<Rightarrow> ('s, 'e, 'a) effect \<Rightarrow> bool" where
  "yields Q m \<longleftrightarrow> (\<forall>s x t. m s = (Inr x, t) \<longrightarrow> Q x)"

named_theorems yield_rules \<open>composition rules for yields\<close>

lemma yieldsD: "yields Q m \<Longrightarrow> m s = (Inr x, t) \<Longrightarrow> Q x"
  by (auto simp: yields_def)

lemma yields_return [yield_rules]: "Q x \<Longrightarrow> yields Q (return_eff x)"
  by (simp add: yields_def return_eff_def)

lemma yields_raise [yield_rules]: "yields Q (raise_eff e)"
  by (simp add: yields_def raise_eff_def)

lemma yields_bind_post:
  assumes "yields P m" and "\<And>x. P x \<Longrightarrow> yields Q (f x)"
  shows "yields Q (bind_eff m f)"
  unfolding yields_def
proof (intro allI impI)
  fix s y u
  assume "bind_eff m f s = (Inr y, u)"
  then obtain x t where "m s = (Inr x, t)" "f x t = (Inr y, u)" by (rule bind_eff_okD)
  with assms show "Q y" by (meson yieldsD)
qed

lemma yields_bind [yield_rules]: "(\<And>x. yields Q (f x)) \<Longrightarrow> yields Q (bind_eff m f)"
  by (rule yields_bind_post [where P = "\<lambda>_. True"]) (simp_all add: yields_def)

lemma yields_then [yield_rules]: "yields Q k \<Longrightarrow> yields Q (then_eff m k)"
  by (auto simp: then_eff_def intro: yields_bind)

lemma yields_require: "(b \<Longrightarrow> yields Q k) \<Longrightarrow> yields Q (then_eff (require b e) k)"
  by (cases b) (simp_all add: yields_raise)

lemma yields_lift: "(\<And>y. z = Inr y \<Longrightarrow> yields Q (f y)) \<Longrightarrow> yields Q (bind_eff (lift_eff z) f)"
  by (cases z) (simp_all add: yields_def bind_eff_def lift_eff_def)

text \<open>Two instances every development uses: the part \<open>g\<close> of the state is untouched; \<open>P\<close> is kept.\<close>

definition same :: "('s \<Rightarrow> 'x) \<Rightarrow> 's \<Rightarrow> 's \<Rightarrow> bool" where
  "same g s t \<longleftrightarrow> g t = g s"

interpretation untouched: guarantee_relation "same g" for g
  by unfold_locales (simp_all add: same_def)

definition kept :: "('s \<Rightarrow> bool) \<Rightarrow> 's \<Rightarrow> 's \<Rightarrow> bool" where
  "kept P s t \<longleftrightarrow> (P s \<longrightarrow> P t)"

interpretation invariant: guarantee_relation "kept P" for P
  by unfold_locales (simp_all add: kept_def)

lemma same_comp: "guarantees (same g) m \<Longrightarrow> guarantees (same (\<lambda>s. f (g s))) m"
  by (simp add: guarantees_def same_def)

section \<open>Canonical order of strings\<close>

text \<open>\<open>tuple(sorted(set(values), key=lambda item: item.encode("utf-8")))\<close>\<close>

definition bytewise :: "string list \<Rightarrow> string list" where
  "bytewise values = sort (remdups values)"

lemma set_bytewise [simp]: "set (bytewise xs) = set xs"
  by (simp add: bytewise_def)

lemma distinct_bytewise [simp]: "distinct (bytewise xs)"
  by (simp add: bytewise_def)

lemma sorted_bytewise [simp]: "sorted (bytewise xs)"
  by (simp add: bytewise_def)

lemma bytewise_eq_iff: "bytewise xs = xs \<longleftrightarrow> sorted xs \<and> distinct xs"
proof
  assume "bytewise xs = xs"
  then show "sorted xs \<and> distinct xs" by (metis sorted_bytewise distinct_bytewise)
next
  assume "sorted xs \<and> distinct xs"
  then show "bytewise xs = xs" by (simp add: bytewise_def sorted_sort_id distinct_remdups_id)
qed

lemma bytewise_idem [simp]: "bytewise (bytewise xs) = bytewise xs"
  by (simp add: bytewise_eq_iff)

lemma bytewise_cong_set: "set xs = set ys \<Longrightarrow> bytewise xs = bytewise ys"
  by (metis distinct_bytewise set_bytewise sorted_bytewise sorted_distinct_set_unique)

lemma bytewise_Nil_iff [simp]: "bytewise xs = [] \<longleftrightarrow> xs = []"
  by (metis set_bytewise set_empty)

lemma length_bytewise_le: "length (bytewise xs) \<le> length xs"
  by (simp add: bytewise_def length_remdups_leq)

lemma length_bytewise_card: "length (bytewise xs) = card (set xs)"
  by (metis distinct_bytewise distinct_card set_bytewise)

section \<open>Character classes\<close>

definition lower_char :: "char \<Rightarrow> bool" where
  "lower_char c \<longleftrightarrow> CHR ''a'' \<le> c \<and> c \<le> CHR ''z''"

definition upper_char :: "char \<Rightarrow> bool" where
  "upper_char c \<longleftrightarrow> CHR ''A'' \<le> c \<and> c \<le> CHR ''Z''"

definition digit_char :: "char \<Rightarrow> bool" where
  "digit_char c \<longleftrightarrow> CHR ''0'' \<le> c \<and> c \<le> CHR ''9''"

end
