(* ===== verification/F3_Contracts.thy ===== *)
theory F3_Contracts
  imports Hass_Prelude
begin

text \<open>
  The adapter contract of \<open>f3/contracts.py\<close>: its enumerations, the results an adapter returns to the
  executor, and \<open>enum_value\<close> of \<open>f3/models.py\<close>, which turns an enumeration member into the string the
  durable records carry.  An adapter may also pass a plain string where the contract has an
  enumeration; the constructors \<open>OTHER_...\<close> stand for such strings, which \<open>enum_value\<close> passes through.
\<close>

section \<open>Constants\<close>

definition F3_ADAPTER_CONTRACT_MODEL :: string where
  "F3_ADAPTER_CONTRACT_MODEL = ''f3-operation-adapter-v1''"

definition F3_MAX_MUTATING_PROVIDER_INVOCATIONS_PER_OPERATION :: nat where
  "F3_MAX_MUTATING_PROVIDER_INVOCATIONS_PER_OPERATION = 1"

definition CALLBACK_FAILED_NOT_SENT_DECLARATION :: string where
  "CALLBACK_FAILED_NOT_SENT_DECLARATION = ''dispatch_callback_failed_not_sent''"

definition PROVIDER_CALL_NOT_SENT :: string where
  "PROVIDER_CALL_NOT_SENT = ''provider_call_not_sent''"

section \<open>Enumerations\<close>

datatype normalized_operation_outcome =
    PREFLIGHT_REJECTED
  | LOCK_CONFLICT
  | PROVIDER_UNAVAILABLE_PRE_DISPATCH
  | DISPATCH_FAILED_CONFIRMED
  | DISPATCH_INDETERMINATE
  | OBSERVING
  | VERIFICATION_MISMATCH
  | SUCCEEDED_VERIFIED
  | FAILED_PRE_DISPATCH
  | FAILED_POST_DISPATCH
  | MANUAL_REVIEW_REQUIRED
  | CANCELLED_PRE_DISPATCH
  | OTHER_OUTCOME string

datatype lock_scope = RESOURCE | PROVIDER | OTHER_SCOPE string

datatype lock_mode = SHARED | EXCLUSIVE | OTHER_MODE string

fun outcome_value :: "normalized_operation_outcome \<Rightarrow> string" where
  "outcome_value PREFLIGHT_REJECTED = ''preflight_rejected''"
| "outcome_value LOCK_CONFLICT = ''lock_conflict''"
| "outcome_value PROVIDER_UNAVAILABLE_PRE_DISPATCH = ''provider_unavailable_pre_dispatch''"
| "outcome_value DISPATCH_FAILED_CONFIRMED = ''dispatch_failed_confirmed''"
| "outcome_value DISPATCH_INDETERMINATE = ''dispatch_indeterminate''"
| "outcome_value OBSERVING = ''observing''"
| "outcome_value VERIFICATION_MISMATCH = ''verification_mismatch''"
| "outcome_value SUCCEEDED_VERIFIED = ''succeeded_verified''"
| "outcome_value FAILED_PRE_DISPATCH = ''failed_pre_dispatch''"
| "outcome_value FAILED_POST_DISPATCH = ''failed_post_dispatch''"
| "outcome_value MANUAL_REVIEW_REQUIRED = ''manual_review_required''"
| "outcome_value CANCELLED_PRE_DISPATCH = ''cancelled_pre_dispatch''"
| "outcome_value (OTHER_OUTCOME s) = s"

fun scope_value :: "lock_scope \<Rightarrow> string" where
  "scope_value RESOURCE = ''resource''"
| "scope_value PROVIDER = ''provider''"
| "scope_value (OTHER_SCOPE s) = s"

fun mode_value :: "lock_mode \<Rightarrow> string" where
  "mode_value SHARED = ''shared''"
| "mode_value EXCLUSIVE = ''exclusive''"
| "mode_value (OTHER_MODE s) = s"

section \<open>Operation identity and lock requests\<close>

record operation_target =
  target_type :: string
  target_id :: string

record lock_request =
  rq_key :: string
  rq_scopes :: "lock_scope list"
  rq_mode :: lock_mode
  rq_reason_codes :: "string list"

record adapter_capabilities =
  cap_adapter_id :: string
  cap_contract_model :: string
  cap_operation_family :: string
  cap_supported_operations :: "string list"
  cap_rollback_supported :: bool
  cap_readback_recovery_supported :: bool
  cap_exact_provider_contract_required :: bool

record prepared_operation =
  po_contract_model :: string
  po_adapter_id :: string
  po_operation :: string
  po_target :: operation_target
  po_current_state_fingerprint :: string
  po_normalized_proposed_hash :: string
  po_prepared_operation_hash :: string
  po_risk_level :: string
  po_policy_decision_hash :: string
  po_approval_bundle_hash :: string
  po_expected_effects :: "string list"
  po_verification_contract_model :: string
  po_verification_contract_hash :: string
  po_rollback_available :: bool

section \<open>Results of the adapter's phases\<close>

record preflight_result =
  pf_eligible :: bool
  pf_outcome :: "normalized_operation_outcome option"
  pf_confirmed_target :: "operation_target option"
  pf_observed_state_fingerprint :: "string option"
  pf_provider_contract :: "string option"
  pf_provider_operation :: "string option"
  pf_provider_arguments_hash :: "string option"
  pf_evidence_hash :: "string option"
  pf_diagnostic_codes :: "string list"
  pf_mismatch_fields :: "string list"

text \<open>
  The last two fields are attributes some adapters add to the result; the executor reads them with
  default 0.
\<close>

record dispatch_result =
  dr_outcome :: normalized_operation_outcome
  dr_dispatch_intent_recorded :: bool
  dr_mutating_invocation_count :: int
  dr_may_have_dispatched :: bool
  dr_provider_response_received :: bool
  dr_provider_operation_id :: "string option"
  dr_response_evidence_hash :: "string option"
  dr_diagnostic_codes :: "string list"
  dr_adapter_dispatch_count :: int
  dr_provider_mutation_count :: int

record observation_result =
  ob_outcome :: normalized_operation_outcome
  ob_attempt_count :: int
  ob_observation_complete :: bool
  ob_provider_reachable :: "bool option"
  ob_target_reachable :: "bool option"
  ob_readback_state_fingerprint :: "string option"
  ob_intended_result_observed :: "bool option"
  ob_mismatch_fields :: "string list"
  ob_evidence_hash :: "string option"
  ob_diagnostic_codes :: "string list"

record verification_result =
  vr_outcome :: normalized_operation_outcome
  vr_attempt_count :: int
  vr_verified :: "bool option"
  vr_resulting_state_fingerprint :: "string option"
  vr_mismatch_fields :: "string list"
  vr_evidence_hash :: "string option"
  vr_manual_review_reason_code :: "string option"

end
