(* ===== verification/F3_Models.thy ===== *)
theory F3_Models
  imports F3_Contracts
begin

text \<open>
  The validated models of \<open>f3/models.py\<close>.  Every \<open>validate\<close> method of the source either returns or
  raises \<open>ValueError\<close>; it is modelled by a predicate that holds exactly when it returns.  The model's
  records are typed, so the source's checks of dynamic types and of dictionary key sets have no
  counterpart here.  A stored timestamp is \<open>At t\<close> when \<open>datetime.fromisoformat\<close> reads it as the
  timezone-aware instant \<open>t\<close> (microseconds since the epoch, UTC) and \<open>Malformed s\<close> otherwise; the
  code writes only canonical UTC text, one text per instant, whose text order is the order of the
  instants.  Durations are integral microseconds, the resolution of \<open>timedelta\<close>.
\<close>

section \<open>Bounds and patterns\<close>

definition LOCK_RECORD_SCHEMA_VERSION :: int where "LOCK_RECORD_SCHEMA_VERSION = 1"
definition LOCK_STATE_SCHEMA_VERSION :: int where "LOCK_STATE_SCHEMA_VERSION = 1"
definition EXECUTION_RECORD_SCHEMA_VERSION :: int where "EXECUTION_RECORD_SCHEMA_VERSION = 1"

definition MAX_LOCK_KEY_LENGTH :: nat where "MAX_LOCK_KEY_LENGTH = 320"
definition MAX_EVIDENCE_ITEMS :: nat where "MAX_EVIDENCE_ITEMS = 16"
definition MAX_LOCK_TOKENS :: nat where "MAX_LOCK_TOKENS = 256"
definition MAX_DIAGNOSTIC_ITEMS :: nat where "MAX_DIAGNOSTIC_ITEMS = 16"
definition MAX_DIAGNOSTIC_LENGTH :: nat where "MAX_DIAGNOSTIC_LENGTH = 96"
definition MAX_EXECUTION_EVENTS :: nat where "MAX_EXECUTION_EVENTS = 128"

text \<open>\<^verbatim>\<open>^[a-z][a-z0-9_]{0,63}:[a-z0-9][a-z0-9_.-]{0,255}$\<close>\<close>

definition LOCK_KEY_PATTERN :: "string \<Rightarrow> bool" where
  "LOCK_KEY_PATTERN s =
     (let kind = takeWhile (\<lambda>c. c \<noteq> CHR '':'') s; rest = dropWhile (\<lambda>c. c \<noteq> CHR '':'') s
      in (case kind of [] \<Rightarrow> False
          | k # ks \<Rightarrow> lower_char k \<and> length ks \<le> 63 \<and>
              list_all (\<lambda>c. lower_char c \<or> digit_char c \<or> c = CHR ''_'') ks) \<and>
         (case rest of (colon # n # ns) \<Rightarrow> (lower_char n \<or> digit_char n) \<and> length ns \<le> 255 \<and>
              list_all (\<lambda>c. lower_char c \<or> digit_char c \<or> c \<in> set ''_.-'') ns
          | _ \<Rightarrow> False))"

text \<open>\<^verbatim>\<open>^[A-Za-z0-9][A-Za-z0-9_.:-]{0,127}$\<close>\<close>

definition IDENTIFIER_PATTERN :: "string \<Rightarrow> bool" where
  "IDENTIFIER_PATTERN s =
     (case s of [] \<Rightarrow> False
      | c # cs \<Rightarrow> (lower_char c \<or> upper_char c \<or> digit_char c) \<and> length cs \<le> 127 \<and>
          list_all (\<lambda>d. lower_char d \<or> upper_char d \<or> digit_char d \<or> d \<in> set ''_.:-'') cs)"

text \<open>\<^verbatim>\<open>^[a-z][a-z0-9_]{0,95}$\<close>\<close>

definition EVIDENCE_PATTERN :: "string \<Rightarrow> bool" where
  "EVIDENCE_PATTERN s =
     (case s of [] \<Rightarrow> False
      | c # cs \<Rightarrow> lower_char c \<and> length cs \<le> 95 \<and>
          list_all (\<lambda>d. lower_char d \<or> digit_char d \<or> d = CHR ''_'') cs)"

text \<open>\<^verbatim>\<open>^[a-f0-9]{64}$\<close>\<close>

definition SHA256_PATTERN :: "string \<Rightarrow> bool" where
  "SHA256_PATTERN s \<longleftrightarrow> length s = 64 \<and>
     list_all (\<lambda>c. CHR ''a'' \<le> c \<and> c \<le> CHR ''f'' \<or> digit_char c) s"

section \<open>Outcome tables\<close>

definition NORMALIZED_OUTCOME_TO_TASK_STATE :: "string \<rightharpoonup> string" where
  "NORMALIZED_OUTCOME_TO_TASK_STATE = map_of
    [(''preflight_rejected'', ''failed_pre_dispatch''),
     (''lock_conflict'', ''failed_pre_dispatch''),
     (''provider_unavailable_pre_dispatch'', ''failed_pre_dispatch''),
     (''dispatch_failed_confirmed'', ''failed_post_dispatch''),
     (''dispatch_indeterminate'', ''observing''),
     (''observing'', ''observing''),
     (''verification_mismatch'', ''failed_post_dispatch''),
     (''succeeded_verified'', ''succeeded_verified''),
     (''failed_pre_dispatch'', ''failed_pre_dispatch''),
     (''failed_post_dispatch'', ''failed_post_dispatch''),
     (''manual_review_required'', ''manual_review_required''),
     (''cancelled_pre_dispatch'', ''cancelled_pre_dispatch'')]"

definition TERMINAL_OUTCOMES :: "string list" where
  "TERMINAL_OUTCOMES =
    [''preflight_rejected'', ''lock_conflict'', ''provider_unavailable_pre_dispatch'',
     ''dispatch_failed_confirmed'', ''verification_mismatch'', ''succeeded_verified'',
     ''failed_pre_dispatch'', ''failed_post_dispatch'', ''manual_review_required'',
     ''cancelled_pre_dispatch'']"

definition PRE_DISPATCH_TERMINAL_OUTCOMES :: "string list" where
  "PRE_DISPATCH_TERMINAL_OUTCOMES =
    [''preflight_rejected'', ''lock_conflict'', ''provider_unavailable_pre_dispatch'',
     ''failed_pre_dispatch'', ''cancelled_pre_dispatch'']"

definition POST_INTENT_TERMINAL_OUTCOMES :: "string list" where
  "POST_INTENT_TERMINAL_OUTCOMES =
    [''dispatch_failed_confirmed'', ''verification_mismatch'', ''succeeded_verified'',
     ''failed_post_dispatch'', ''manual_review_required'']"

datatype execution_kind =
    PRE_INTENT | TERMINAL_PRE_DISPATCH | VERIFIED_NO_DISPATCH | POST_INTENT | TERMINAL_POST_INTENT

definition PRE_INTENT_EVENT_TYPES :: "string list" where
  "PRE_INTENT_EVENT_TYPES =
    [''execution_started'', ''execution_reclaimed'', ''locks_acquired'',
     ''preflight_completed'', ''pre_intent_retry_required'']"

definition PRE_DISPATCH_TERMINAL_EVENT_TYPES :: "string list" where
  "PRE_DISPATCH_TERMINAL_EVENT_TYPES = [''pre_dispatch_terminal'', ''execution_cancelled'']"

definition POST_INTENT_EVENT_TYPES :: "string list" where
  "POST_INTENT_EVENT_TYPES = PRE_INTENT_EVENT_TYPES @
    [''dispatch_intent_committed'', ''dispatch_result_recorded'', ''observation_recorded'',
     ''verification_recorded'', ''execution_claim_yielded'', ''recovery_claimed'',
     ''recovery_locks_transferred'', ''cancellation_rejected'']"

section \<open>Timestamps\<close>

datatype stamp = At int | Malformed string

instantiation stamp :: linorder
begin

fun less_eq_stamp :: "stamp \<Rightarrow> stamp \<Rightarrow> bool" where
  "less_eq_stamp (At a) (At b) = (a \<le> b)"
| "less_eq_stamp (At a) (Malformed t) = True"
| "less_eq_stamp (Malformed s) (At b) = False"
| "less_eq_stamp (Malformed s) (Malformed t) = (s \<le> t)"

definition less_stamp :: "stamp \<Rightarrow> stamp \<Rightarrow> bool" where
  "less_stamp s t \<longleftrightarrow> s \<le> t \<and> \<not> t \<le> s"

instance
proof
  fix x y z :: stamp
  show "x < y \<longleftrightarrow> x \<le> y \<and> \<not> y \<le> x" by (rule less_stamp_def)
  show "x \<le> x" by (cases x) simp_all
  show "x \<le> y \<or> y \<le> x" by (cases x; cases y) auto
  show "x \<le> y \<Longrightarrow> y \<le> x \<Longrightarrow> x = y" by (cases x; cases y) auto
  show "x \<le> y \<Longrightarrow> y \<le> z \<Longrightarrow> x \<le> z" by (cases x; cases y; cases z) auto
qed

end

definition timestamp :: "int \<Rightarrow> stamp" where
  "timestamp instant = At instant"

fun parse_timestamp :: "stamp \<Rightarrow> int option" where
  "parse_timestamp (At t) = Some t"
| "parse_timestamp (Malformed s) = None"

lemma parse_timestamp_timestamp [simp]: "parse_timestamp (timestamp t) = Some t"
  by (simp add: timestamp_def)

section \<open>Bounded codes and identifiers\<close>

text \<open>\<open>bounded_codes\<close>: \<open>None\<close> is \<open>ValueError\<close>.\<close>

definition bounded_codes :: "string list \<Rightarrow> string list option" where
  "bounded_codes values =
     (if list_all EVIDENCE_PATTERN values then
        (let result = bytewise values
         in if result = [] \<or> MAX_EVIDENCE_ITEMS < length result then None else Some result)
      else None)"

definition bounded_diagnostics :: "string list \<Rightarrow> string list" where
  "bounded_diagnostics values =
     bytewise (map (take MAX_DIAGNOSTIC_LENGTH)
       (filter EVIDENCE_PATTERN (take MAX_DIAGNOSTIC_ITEMS values)))"

definition valid_identifier :: "string \<Rightarrow> bool" where
  "valid_identifier s = IDENTIFIER_PATTERN s"

definition valid_lock_key :: "string \<Rightarrow> bool" where
  "valid_lock_key s \<longleftrightarrow>
     length s \<le> MAX_LOCK_KEY_LENGTH \<and> LOCK_KEY_PATTERN s \<and> count_list s (CHR '':'') = 1"

definition valid_sha256 :: "string \<Rightarrow> bool" where
  "valid_sha256 s = SHA256_PATTERN s"

section \<open>Lock timing, owners, tokens and handles\<close>

text \<open>Durations in microseconds.\<close>

record lock_timing =
  lease_seconds :: int
  renewal_interval_seconds :: int
  wait_timeout_seconds :: int
  poll_interval_seconds :: int

definition seconds :: "int \<Rightarrow> int" where
  "seconds n = n * 1000000"

definition valid_lock_timing :: "lock_timing \<Rightarrow> bool" where
  "valid_lock_timing t \<longleftrightarrow>
     (seconds 30 \<le> lease_seconds t \<and> lease_seconds t \<le> seconds 3600) \<and>
     (seconds 5 \<le> renewal_interval_seconds t \<and> renewal_interval_seconds t \<le> seconds 300) \<and>
     \<not> (lease_seconds t \<le> renewal_interval_seconds t) \<and>
     (0 \<le> wait_timeout_seconds t \<and> wait_timeout_seconds t \<le> seconds 30) \<and>
     (10000 \<le> poll_interval_seconds t \<and> poll_interval_seconds t \<le> seconds 1)"

record lock_owner =
  lo_owner_id :: string
  lo_task_id :: string
  lo_plan_id :: "string option"
  lo_operation_id :: string
  lo_attempt_id :: string

definition valid_plan_id :: "string option \<Rightarrow> bool" where
  "valid_plan_id p = (case p of None \<Rightarrow> True | Some s \<Rightarrow> valid_identifier s)"

definition valid_lock_owner :: "lock_owner \<Rightarrow> bool" where
  "valid_lock_owner w \<longleftrightarrow>
     valid_identifier (lo_owner_id w) \<and> valid_identifier (lo_task_id w) \<and>
     valid_plan_id (lo_plan_id w) \<and> valid_identifier (lo_operation_id w) \<and>
     valid_identifier (lo_attempt_id w)"

record normalized_request =
  nr_key :: string
  nr_scopes :: "string list"
  nr_mode :: string
  nr_reason_codes :: "string list"

definition valid_scopes :: "string list \<Rightarrow> bool" where
  "valid_scopes scopes \<longleftrightarrow> scopes \<noteq> [] \<and> set scopes \<subseteq> {''resource'', ''provider''}"

definition valid_mode :: "string \<Rightarrow> bool" where
  "valid_mode mode \<longleftrightarrow> mode = ''shared'' \<or> mode = ''exclusive''"

definition valid_normalized_request :: "normalized_request \<Rightarrow> bool" where
  "valid_normalized_request r \<longleftrightarrow>
     valid_lock_key (nr_key r) \<and>
     valid_scopes (nr_scopes r) \<and>
     bytewise (nr_scopes r) = nr_scopes r \<and>
     valid_mode (nr_mode r) \<and>
     bounded_codes (nr_reason_codes r) = Some (nr_reason_codes r)"

record lock_token =
  tk_key :: string
  tk_generation :: int
  tk_mode :: string

definition valid_lock_token :: "lock_token \<Rightarrow> bool" where
  "valid_lock_token t \<longleftrightarrow>
     valid_lock_key (tk_key t) \<and> \<not> tk_generation t < 1 \<and> valid_mode (tk_mode t)"

definition stamps_increase :: "stamp \<Rightarrow> stamp \<Rightarrow> bool" where
  "stamps_increase a b =
     (case (parse_timestamp a, parse_timestamp b) of
        (Some x, Some y) \<Rightarrow> x < y | _ \<Rightarrow> False)"

record lock_handle =
  lh_owner :: lock_owner
  lh_tokens :: "lock_token list"
  lh_acquired_at :: stamp
  lh_lease_expires_at :: stamp
  lh_timing :: lock_timing

definition valid_lock_handle :: "lock_handle \<Rightarrow> bool" where
  "valid_lock_handle h \<longleftrightarrow>
     valid_lock_owner (lh_owner h) \<and>
     valid_lock_timing (lh_timing h) \<and>
     \<not> (lh_tokens h = [] \<or> MAX_LOCK_TOKENS < length (lh_tokens h)) \<and>
     (let keys = map tk_key (lh_tokens h)
      in keys = sort keys \<and> distinct keys) \<and>
     list_all valid_lock_token (lh_tokens h) \<and>
     stamps_increase (lh_acquired_at h) (lh_lease_expires_at h)"

section \<open>Lock records\<close>

text \<open>
  The five owner fields of \<open>LockRecord\<close> are kept together as \<open>lr_owner\<close>; \<open>_same_owner\<close> compares
  all five.
\<close>

record lock_record =
  lr_schema_version :: int
  lr_key :: string
  lr_scopes :: "string list"
  lr_mode :: string
  lr_owner :: lock_owner
  lr_acquired_at :: stamp
  lr_lease_expires_at :: stamp
  lr_last_renewed_at :: stamp
  lr_generation :: int
  lr_evidence_references :: "string list"
  lr_conflict_hold :: bool

definition valid_lock_record :: "lock_record \<Rightarrow> bool" where
  "valid_lock_record r \<longleftrightarrow>
     lr_schema_version r = LOCK_RECORD_SCHEMA_VERSION \<and>
     valid_normalized_request
       \<lparr>nr_key = lr_key r, nr_scopes = lr_scopes r, nr_mode = lr_mode r,
        nr_reason_codes = lr_evidence_references r\<rparr> \<and>
     valid_lock_owner (lr_owner r) \<and>
     \<not> lr_generation r < 1 \<and>
     (case (parse_timestamp (lr_acquired_at r), parse_timestamp (lr_last_renewed_at r),
            parse_timestamp (lr_lease_expires_at r)) of
        (Some acquired, Some renewed, Some expires) \<Rightarrow> \<not> (renewed < acquired \<or> expires \<le> renewed)
      | _ \<Rightarrow> False)"

section \<open>Execution identity, timing and result\<close>

record execution_identity =
  ei_task_id :: string
  ei_plan_id :: "string option"
  ei_attempt_id :: string
  ei_request_id :: string
  ei_owner_id :: string

definition valid_execution_identity :: "execution_identity \<Rightarrow> bool" where
  "valid_execution_identity i \<longleftrightarrow>
     valid_identifier (ei_task_id i) \<and> valid_plan_id (ei_plan_id i) \<and>
     valid_identifier (ei_attempt_id i) \<and> valid_identifier (ei_request_id i) \<and>
     valid_identifier (ei_owner_id i)"

record executor_timing =
  post_dispatch_evidence_seconds :: int
  claim_lease_seconds :: int
  max_observation_attempts :: int
  max_verification_attempts :: int

definition valid_executor_timing :: "executor_timing \<Rightarrow> bool" where
  "valid_executor_timing t \<longleftrightarrow>
     (seconds 30 \<le> post_dispatch_evidence_seconds t \<and>
      post_dispatch_evidence_seconds t \<le> seconds 86400) \<and>
     (seconds 30 \<le> claim_lease_seconds t \<and> claim_lease_seconds t \<le> seconds 3600) \<and>
     (1 \<le> max_observation_attempts t \<and> max_observation_attempts t \<le> 32) \<and>
     (1 \<le> max_verification_attempts t \<and> max_verification_attempts t \<le> 32)"

record executor_result =
  er_task_id :: string
  er_attempt_id :: string
  er_outcome :: string
  er_task_state :: string
  er_terminal :: bool
  er_dispatch_intent_recorded :: bool
  er_dispatch_count :: int
  er_provider_response_received :: bool
  er_observation_required :: bool
  er_redispatch_prohibited :: bool
  er_lock_keys :: "string list"
  er_diagnostic_codes :: "string list"
  er_duplicate_execution :: bool

definition valid_executor_result :: "executor_result \<Rightarrow> bool" where
  "valid_executor_result r \<longleftrightarrow>
     valid_identifier (er_task_id r) \<and> valid_identifier (er_attempt_id r) \<and>
     NORMALIZED_OUTCOME_TO_TASK_STATE (er_outcome r) = Some (er_task_state r) \<and>
     (er_dispatch_count r = 0 \<or> er_dispatch_count r = 1) \<and>
     list_all valid_lock_key (er_lock_keys r)"

section \<open>Execution records\<close>

record recorded_token =
  rt_key :: string
  rt_generation :: int
  rt_mode :: string
  rt_owner_id :: string

record dispatch_intent =
  di_committed_at :: stamp
  di_evidence_deadline :: stamp
  di_request_id :: string
  di_provider_operation :: string
  di_provider_arguments_hash :: string
  di_lock_tokens :: "recorded_token list"
  di_possibly_dispatched :: bool

text \<open>The evidence dictionary: an absent key is \<open>None\<close>.\<close>

record execution_evidence =
  ee_evidence_hash :: "string option"
  ee_resulting_state_fingerprint :: "string option"
  ee_mismatch_fields :: "string list option"
  ee_manual_review_reason_code :: "string option"

definition no_evidence :: execution_evidence where
  "no_evidence = \<lparr>ee_evidence_hash = None, ee_resulting_state_fingerprint = None,
                  ee_mismatch_fields = None, ee_manual_review_reason_code = None\<rparr>"

record execution_event =
  ev_sequence :: int
  ev_event_type :: string
  ev_occurred_at :: stamp
  ev_diagnostic_codes :: "string list"

record execution_record =
  xr_schema_version :: int
  xr_identity :: execution_identity
  xr_adapter_model :: string
  xr_adapter_id :: string
  xr_operation :: string
  xr_target :: operation_target
  xr_prepared_operation_hash :: string
  xr_state :: string
  xr_normalized_outcome :: "string option"
  xr_task_state :: string
  xr_terminal :: bool
  xr_created_at :: stamp
  xr_updated_at :: stamp
  xr_claim_generation :: int
  xr_claim_expires_at :: stamp
  xr_lock_tokens :: "recorded_token list"
  xr_preflight_completed :: bool
  xr_dispatch_intent :: "dispatch_intent option"
  xr_dispatch_count :: int
  xr_provider_response_received :: bool
  xr_observation_attempts :: int
  xr_verification_attempts :: int
  xr_evidence :: execution_evidence
  xr_events :: "execution_event list"

definition event_types :: "execution_record \<Rightarrow> string list" where
  "event_types r = map ev_event_type (xr_events r)"

subsection \<open>The persisted dispatch class\<close>

text \<open>
  One step of the scan of \<open>execution_class\<close> over the events before the intent: which event may
  follow which.
\<close>

definition pre_intent_event_may_follow :: "string \<Rightarrow> string \<Rightarrow> bool" where
  "pre_intent_event_may_follow previous event_type =
     (if event_type = ''execution_reclaimed'' then True
      else if event_type = ''locks_acquired'' then
        previous \<in> {''execution_started'', ''execution_reclaimed'', ''pre_intent_retry_required''}
      else if event_type = ''preflight_completed'' then previous = ''locks_acquired''
      else if event_type = ''pre_intent_retry_required'' then previous = ''preflight_completed''
      else False)"

fun pre_intent_order_valid :: "string \<Rightarrow> string list \<Rightarrow> bool" where
  "pre_intent_order_valid previous [] = True"
| "pre_intent_order_valid previous (e # es) =
     (pre_intent_event_may_follow previous e \<and> pre_intent_order_valid e es)"

definition intent_positions :: "string list \<Rightarrow> nat list" where
  "intent_positions types =
     filter (\<lambda>i. types ! i = ''dispatch_intent_committed'') [0..<length types]"

definition writer_lifecycle_valid :: "dispatch_intent \<Rightarrow> execution_event list \<Rightarrow> bool" where
  "writer_lifecycle_valid intent events =
     (let types = map ev_event_type events in
      case intent_positions types of
        [i] \<Rightarrow>
          (let pre = take i types; post = drop (i + 1) types in
           3 \<le> length pre \<and>
           hd pre = ''execution_started'' \<and>
           count_list types ''execution_started'' = 1 \<and>
           take 3 (drop (i - 2) types) =
             [''locks_acquired'', ''preflight_completed'', ''dispatch_intent_committed''] \<and>
           set pre \<subseteq> set PRE_INTENT_EVENT_TYPES \<and>
           set post \<inter> set PRE_INTENT_EVENT_TYPES = {} \<and>
           di_committed_at intent = ev_occurred_at (events ! i) \<and>
           pre_intent_order_valid (hd pre) (tl pre))
      | _ \<Rightarrow> False)"

definition no_intent_class :: "execution_record \<Rightarrow> execution_kind option" where
  "no_intent_class r =
     (let types = set (event_types r) in
      if xr_dispatch_count r \<noteq> 0 \<or> xr_provider_response_received r \<or>
         xr_observation_attempts r \<noteq> 0 \<or> xr_verification_attempts r \<noteq> 0
      then None
      else if xr_terminal r then
        (if xr_state r \<noteq> ''terminal'' then None
         else if xr_normalized_outcome r = Some ''succeeded_verified'' then
           (if xr_task_state r \<noteq> ''succeeded_verified'' \<or> \<not> xr_preflight_completed r \<or>
               \<not> (ee_evidence_hash (xr_evidence r) \<noteq> None \<and>
                  ee_resulting_state_fingerprint (xr_evidence r) \<noteq> None \<and>
                  ee_mismatch_fields (xr_evidence r) = None \<and>
                  ee_manual_review_reason_code (xr_evidence r) = None) \<or>
               ''preflight_noop_verified'' \<notin> types \<or>
               \<not> types \<subseteq> set PRE_INTENT_EVENT_TYPES \<union> {''preflight_noop_verified''}
            then None else Some VERIFIED_NO_DISPATCH)
         else if xr_normalized_outcome r \<notin> Some ` set PRE_DISPATCH_TERMINAL_OUTCOMES \<or>
                 xr_evidence r \<noteq> no_evidence \<or>
                 \<not> types \<subseteq> set PRE_INTENT_EVENT_TYPES \<union> set PRE_DISPATCH_TERMINAL_EVENT_TYPES \<or>
                 length (filter (\<lambda>e. e \<in> types) PRE_DISPATCH_TERMINAL_EVENT_TYPES) \<noteq> 1 \<or>
                 xr_normalized_outcome r \<noteq> Some ''cancelled_pre_dispatch'' \<and>
                 ''execution_cancelled'' \<in> types
         then None else Some TERMINAL_PRE_DISPATCH)
      else if xr_normalized_outcome r \<noteq> None \<or> xr_evidence r \<noteq> no_evidence \<or>
              (xr_state r, xr_task_state r) \<notin>
                {(''planning'', ''created''), (''planning'', ''preflight''),
                 (''preflight'', ''preflight'')} \<or>
              \<not> types \<subseteq> set PRE_INTENT_EVENT_TYPES
      then None else Some PRE_INTENT)"

definition expected_nonterminal :: "string option \<rightharpoonup> string \<times> string" where
  "expected_nonterminal = map_of
    [(None, (''dispatching'', ''dispatching'')),
     (Some ''dispatch_indeterminate'', (''observation'', ''observing'')),
     (Some ''observing'', (''observation'', ''observing'')),
     (Some ''verification_mismatch'', (''observation'', ''failed_post_dispatch'')),
     (Some ''manual_review_required'', (''observation'', ''manual_review_required''))]"

definition intent_class :: "dispatch_intent \<Rightarrow> execution_record \<Rightarrow> execution_kind option" where
  "intent_class intent r =
     (let types = event_types r;
          dispatch_result_count = count_list types ''dispatch_result_recorded'' in
      if xr_dispatch_count r \<noteq> 1 \<or> \<not> xr_preflight_completed r \<or>
         \<not> writer_lifecycle_valid intent (xr_events r) \<or>
         \<not> set types \<subseteq> set POST_INTENT_EVENT_TYPES \<or>
         1 < dispatch_result_count \<or>
         int (count_list types ''observation_recorded'') \<noteq> xr_observation_attempts r \<or>
         int (count_list types ''verification_recorded'') \<noteq> xr_verification_attempts r \<or>
         (xr_provider_response_received r \<and> dispatch_result_count \<noteq> 1)
      then None
      else if xr_terminal r then
        (if xr_state r \<noteq> ''terminal'' \<or>
            xr_normalized_outcome r \<notin> Some ` set POST_INTENT_TERMINAL_OUTCOMES \<or>
            (xr_normalized_outcome r = Some ''dispatch_failed_confirmed'' \<and>
             (xr_observation_attempts r \<noteq> 0 \<or> xr_verification_attempts r \<noteq> 0 \<or>
              xr_evidence r \<noteq> no_evidence)) \<or>
            (xr_normalized_outcome r \<noteq> Some ''dispatch_failed_confirmed'' \<and>
             xr_verification_attempts r = 0)
         then None else Some TERMINAL_POST_INTENT)
      else if expected_nonterminal (xr_normalized_outcome r) \<noteq> Some (xr_state r, xr_task_state r)
      then None else Some POST_INTENT)"

definition execution_class :: "execution_record \<Rightarrow> execution_kind option" where
  "execution_class r =
     (case xr_dispatch_intent r of None \<Rightarrow> no_intent_class r | Some intent \<Rightarrow> intent_class intent r)"

subsection \<open>Validation\<close>

definition valid_recorded_token :: "recorded_token \<Rightarrow> bool" where
  "valid_recorded_token t \<longleftrightarrow>
     valid_lock_token \<lparr>tk_key = rt_key t, tk_generation = rt_generation t, tk_mode = rt_mode t\<rparr> \<and>
     valid_identifier (rt_owner_id t)"

definition valid_recorded_tokens :: "recorded_token list \<Rightarrow> bool" where
  "valid_recorded_tokens tokens \<longleftrightarrow>
     \<not> MAX_LOCK_TOKENS < length tokens \<and> list_all valid_recorded_token tokens \<and>
     (let keys = map rt_key tokens in keys = sort keys \<and> distinct keys)"

definition valid_intent :: "recorded_token list \<Rightarrow> dispatch_intent \<Rightarrow> bool" where
  "valid_intent tokens intent \<longleftrightarrow>
     parse_timestamp (di_committed_at intent) \<noteq> None \<and>
     parse_timestamp (di_evidence_deadline intent) \<noteq> None \<and>
     valid_sha256 (di_provider_arguments_hash intent) \<and>
     valid_identifier (di_request_id intent) \<and>
     valid_identifier (di_provider_operation intent) \<and>
     valid_recorded_tokens (di_lock_tokens intent) \<and>
     di_lock_tokens intent \<noteq> [] \<and>
     di_lock_tokens intent = tokens \<and>
     di_possibly_dispatched intent"

definition valid_evidence :: "execution_evidence \<Rightarrow> bool" where
  "valid_evidence e \<longleftrightarrow>
     (case ee_evidence_hash e of None \<Rightarrow> True | Some h \<Rightarrow> valid_sha256 h) \<and>
     (case ee_resulting_state_fingerprint e of None \<Rightarrow> True | Some h \<Rightarrow> valid_sha256 h) \<and>
     (case ee_mismatch_fields e of None \<Rightarrow> True | Some fs \<Rightarrow> bounded_diagnostics fs = fs) \<and>
     (case ee_manual_review_reason_code e of None \<Rightarrow> True | Some c \<Rightarrow> bounded_diagnostics [c] = [c])"

fun valid_events_from :: "int \<Rightarrow> execution_event list \<Rightarrow> bool" where
  "valid_events_from expected_sequence [] = True"
| "valid_events_from expected_sequence (event # events) =
     (ev_sequence event = expected_sequence \<and>
      EVIDENCE_PATTERN (ev_event_type event) \<and>
      parse_timestamp (ev_occurred_at event) \<noteq> None \<and>
      bounded_diagnostics (ev_diagnostic_codes event) = ev_diagnostic_codes event \<and>
      valid_events_from (expected_sequence + 1) events)"

definition allowed_states :: "string list" where
  "allowed_states = [''planning'', ''preflight'', ''dispatching'', ''observation'', ''terminal'']"

definition allowed_task_states :: "string list" where
  "allowed_task_states =
    [''created'', ''preflight'', ''dispatching'', ''observing'', ''verifying'',
     ''succeeded_verified'', ''failed_pre_dispatch'', ''failed_post_dispatch'',
     ''manual_review_required'', ''cancelled_pre_dispatch'']"

definition valid_outcome_projection :: "execution_record \<Rightarrow> bool" where
  "valid_outcome_projection r =
     (case xr_normalized_outcome r of
        Some outcome \<Rightarrow>
          NORMALIZED_OUTCOME_TO_TASK_STATE outcome \<noteq> None \<and>
          \<not> (xr_terminal r \<and> Some (xr_task_state r) \<noteq> NORMALIZED_OUTCOME_TO_TASK_STATE outcome)
      | None \<Rightarrow> \<not> xr_terminal r)"

definition valid_execution_record :: "execution_record \<Rightarrow> bool" where
  "valid_execution_record r \<longleftrightarrow>
     xr_schema_version r = EXECUTION_RECORD_SCHEMA_VERSION \<and>
     valid_execution_identity (xr_identity r) \<and>
     xr_adapter_model r = F3_ADAPTER_CONTRACT_MODEL \<and>
     valid_identifier (xr_adapter_id r) \<and>
     valid_identifier (xr_operation r) \<and>
     valid_identifier (target_type (xr_target r)) \<and>
     valid_identifier (target_id (xr_target r)) \<and>
     valid_sha256 (xr_prepared_operation_hash r) \<and>
     xr_state r \<in> set allowed_states \<and>
     xr_task_state r \<in> set allowed_task_states \<and>
     valid_outcome_projection r \<and>
     (xr_dispatch_count r = 0 \<or> xr_dispatch_count r = 1) \<and>
     valid_recorded_tokens (xr_lock_tokens r) \<and>
     (case xr_dispatch_intent r of None \<Rightarrow> True
      | Some intent \<Rightarrow> valid_intent (xr_lock_tokens r) intent) \<and>
     parse_timestamp (xr_created_at r) \<noteq> None \<and>
     parse_timestamp (xr_updated_at r) \<noteq> None \<and>
     parse_timestamp (xr_claim_expires_at r) \<noteq> None \<and>
     \<not> xr_claim_generation r < 1 \<and>
     (0 \<le> xr_observation_attempts r \<and> xr_observation_attempts r \<le> 32) \<and>
     (0 \<le> xr_verification_attempts r \<and> xr_verification_attempts r \<le> 32) \<and>
     valid_evidence (xr_evidence r) \<and>
     \<not> MAX_EXECUTION_EVENTS < length (xr_events r) \<and>
     valid_events_from 1 (xr_events r) \<and>
     execution_class r \<noteq> None"

text \<open>\<open>append_execution_event\<close>: \<open>None\<close> is \<open>ValueError\<close>.\<close>

definition append_execution_event ::
  "execution_record \<Rightarrow> string \<Rightarrow> stamp \<Rightarrow> string list \<Rightarrow> execution_record option" where
  "append_execution_event r event_type occurred_at diagnostic_codes =
     (if \<not> EVIDENCE_PATTERN event_type then None
      else if parse_timestamp occurred_at = None then None
      else if MAX_EXECUTION_EVENTS \<le> length (xr_events r) then None
      else Some (r\<lparr>xr_events := xr_events r @
                    [\<lparr>ev_sequence = int (length (xr_events r)) + 1, ev_event_type = event_type,
                      ev_occurred_at = occurred_at,
                      ev_diagnostic_codes = bounded_diagnostics diagnostic_codes\<rparr>],
                  xr_updated_at := occurred_at\<rparr>))"

end
