(* ===== verification/F3_World.thy ===== *)
theory F3_World
  imports F3_Models
begin

text \<open>
  The state the F3 execution core acts on: the two durable stores (the lock state file and one file
  per execution record), the process-local counters and audit events, and everything the
  environment decides.  A run consumes the environment's decisions in order:
  \<^item> \<open>faults\<close>: at every file operation and every fault-injection point, whether an exception is
    raised there (\<open>OSError\<close>, the loss of the process, or any other);
  \<^item> \<open>lock_others\<close> and \<open>execution_others\<close>: what other processes did to the lock store or to the
    execution store since our last transaction on it (a transaction excludes them by an exclusive
    \<open>flock\<close> on that store);
  \<^item> \<open>ticks\<close> and \<open>jitter\<close>: how the wall clock and the monotonic clock advance.
\<close>

section \<open>Exceptions\<close>

datatype exn =
    ValueError
  | IndexError
  | OSError
  | LockStorageError
  | LockRecordCorrupt
  | LockConflict "string list"
  | LockWaitTimeout
  | LockWaitCancelled
  | LockOwnershipError
  | LockLeaseExpired
  | ExecutionStorageError
  | ExecutionRecordCorrupt
  | DuplicateExecutionActive execution_record
  | BlindRedispatchProhibited
  | ExecutionClaimLost
  | OperationExecutorError
  | PreparedOperationInvalid
  | AdapterContractViolation
  | PreIntentRetryRequired string
  | DispatchAuthorityRefused string
  | OtherException string
  | SimulatedProcessLoss

text \<open>Subclasses, for the \<open>except\<close> clauses.\<close>

fun is_DurableLockError :: "exn \<Rightarrow> bool" where
  "is_DurableLockError LockStorageError = True"
| "is_DurableLockError LockRecordCorrupt = True"
| "is_DurableLockError (LockConflict ks) = True"
| "is_DurableLockError LockWaitTimeout = True"
| "is_DurableLockError LockWaitCancelled = True"
| "is_DurableLockError LockOwnershipError = True"
| "is_DurableLockError LockLeaseExpired = True"
| "is_DurableLockError _ = False"

fun is_ExecutionStorageError :: "exn \<Rightarrow> bool" where
  "is_ExecutionStorageError ExecutionStorageError = True"
| "is_ExecutionStorageError ExecutionRecordCorrupt = True"
| "is_ExecutionStorageError (DuplicateExecutionActive r) = True"
| "is_ExecutionStorageError BlindRedispatchProhibited = True"
| "is_ExecutionStorageError ExecutionClaimLost = True"
| "is_ExecutionStorageError _ = False"

text \<open>\<open>SimulatedProcessLoss\<close> derives from \<open>BaseException\<close>: \<open>except Exception\<close> lets it pass.\<close>

definition is_Exception :: "exn \<Rightarrow> bool" where
  "is_Exception e \<longleftrightarrow> e \<noteq> SimulatedProcessLoss"

section \<open>The world\<close>

record lock_state =
  ls_next_generation :: int
  ls_records :: "lock_record list"

text \<open>
  The lock state file: absent, holding a state of some schema version, or holding text that does
  not decode to an object of that shape.
\<close>

datatype lock_file = NO_LOCK_FILE | LOCK_FILE int lock_state | GARBLED_LOCK_FILE

datatype execution_file = EXECUTION_FILE execution_record | GARBLED_EXECUTION_FILE

type_synonym execution_files = "string \<rightharpoonup> execution_file"

record audit_event =
  ae_event_type :: string
  ae_task_id :: string
  ae_attempt_id :: "string option"
  ae_owner_id :: string
  ae_lock_key :: "string option"
  ae_generation :: "int option"
  ae_reason_code :: "string option"
  ae_diagnostic_codes :: "string list"

text \<open>
  The variables one run of the executor keeps beside its durable effects: those its
  \<open>before_dispatch\<close> closure assigns, and the state of its lease renewer (the handle it last renewed,
  whether it has stopped, and an exception its task ended with).
\<close>

record run_variables =
  rv_boundary_invoked :: bool
  rv_approval_started :: bool
  rv_approval_succeeded :: bool
  rv_metric_recorded :: bool
  rv_committed :: bool
  rv_callback_failed :: "string option"
  rv_renewing :: "lock_handle option"
  rv_renewer_error :: "exn option"

definition fresh_run :: run_variables where
  "fresh_run = \<lparr>rv_boundary_invoked = False, rv_approval_started = False,
     rv_approval_succeeded = False, rv_metric_recorded = False, rv_committed = False,
     rv_callback_failed = None, rv_renewing = None, rv_renewer_error = None\<rparr>"

record world =
  lock_disk :: lock_file
  execution_disk :: execution_files
  lock_counters :: "string \<Rightarrow> nat"
  executor_counters :: "string \<Rightarrow> nat"
  audit_log :: "audit_event list"
  faults :: "exn option list"
  lock_others :: "(lock_file \<Rightarrow> lock_file) list"
  execution_others :: "(execution_files \<Rightarrow> execution_files) list"
  wall_clock :: int
  ticks :: "int list"
  monotonic_clock :: int
  jitter :: "nat list"
  renewals :: "nat list"
  provider_calls :: "string list"
  approvals_consumed :: nat
  authority_log :: "string list"
  run_state :: run_variables

type_synonym 'a eff = "(world, exn, 'a) effect"

section \<open>Primitive effects\<close>

definition fault_point :: "unit eff" where
  "fault_point w =
     (case faults w of
        [] \<Rightarrow> (Inr (), w)
      | None # fs \<Rightarrow> (Inr (), w\<lparr>faults := fs\<rparr>)
      | Some e # fs \<Rightarrow> (Inl e, w\<lparr>faults := fs\<rparr>))"

definition lock_interference :: "unit eff" where
  "lock_interference w =
     (case lock_others w of
        [] \<Rightarrow> (Inr (), w)
      | f # fs \<Rightarrow> (Inr (), w\<lparr>lock_others := fs, lock_disk := f (lock_disk w)\<rparr>))"

definition execution_interference :: "unit eff" where
  "execution_interference w =
     (case execution_others w of
        [] \<Rightarrow> (Inr (), w)
      | f # fs \<Rightarrow> (Inr (), w\<lparr>execution_others := fs, execution_disk := f (execution_disk w)\<rparr>))"

definition now_reading :: "int eff" where
  "now_reading w =
     (case ticks w of
        [] \<Rightarrow> (Inr (wall_clock w), w)
      | d # ds \<Rightarrow> (Inr (wall_clock w + d), w\<lparr>wall_clock := wall_clock w + d, ticks := ds\<rparr>))"

definition monotonic_reading :: "int eff" where
  "monotonic_reading = read_eff monotonic_clock"

text \<open>\<open>sleep\<close> returns after at least the requested duration.\<close>

definition sleep :: "int \<Rightarrow> unit eff" where
  "sleep d w =
     (case jitter w of
        [] \<Rightarrow> (Inr (), w\<lparr>monotonic_clock := monotonic_clock w + d\<rparr>)
      | j # js \<Rightarrow> (Inr (), w\<lparr>monotonic_clock := monotonic_clock w + d + int j, jitter := js\<rparr>))"

definition LOCK_COUNTERS :: "string list" where
  "LOCK_COUNTERS =
    [''acquisition_attempts'', ''acquisitions'', ''conflicts'', ''wait_timeouts'', ''renewals'',
     ''renewal_failures'', ''releases'', ''release_failures'', ''stale_recoveries'',
     ''corrupted_records'', ''fencing_rejections'']"

definition EXECUTOR_COUNTERS :: "string list" where
  "EXECUTOR_COUNTERS =
    [''executions_started'', ''preflight_rejections'', ''preflight_noop_successes'',
     ''durable_intents_committed'', ''durable_intent_failures'', ''dispatch_attempts'',
     ''confirmed_dispatch_failures'', ''indeterminate_dispatches'', ''observations'',
     ''verification_successes'', ''verification_mismatches'', ''manual_review_transitions'',
     ''duplicate_execution_preventions'', ''blind_redispatch_preventions'', ''cancellations'']"

text \<open>\<open>CounterSnapshot.increment\<close>\<close>

definition increment :: "string list \<Rightarrow> string \<Rightarrow> int \<Rightarrow> (string \<Rightarrow> nat) \<Rightarrow> (string \<Rightarrow> nat) option" where
  "increment allowed name amount values =
     (if name \<notin> set allowed \<or> amount < 0 then None
      else Some (values(name := values name + nat amount)))"

definition lock_metric_by :: "string \<Rightarrow> int \<Rightarrow> unit eff" where
  "lock_metric_by name amount w =
     (case increment LOCK_COUNTERS name amount (lock_counters w) of
        None \<Rightarrow> (Inl ValueError, w)
      | Some values \<Rightarrow> (Inr (), w\<lparr>lock_counters := values\<rparr>))"

definition lock_metric :: "string \<Rightarrow> unit eff" where
  "lock_metric name = lock_metric_by name 1"

definition executor_metric :: "string \<Rightarrow> unit eff" where
  "executor_metric name w =
     (case increment EXECUTOR_COUNTERS name 1 (executor_counters w) of
        None \<Rightarrow> (Inl ValueError, w)
      | Some values \<Rightarrow> (Inr (), w\<lparr>executor_counters := values\<rparr>))"

text \<open>The event sink is supplied by the caller and may raise.\<close>

definition event_sink :: "audit_event \<Rightarrow> unit eff" where
  "event_sink ev = then_eff fault_point (update_eff (\<lambda>w. w\<lparr>audit_log := audit_log w @ [ev]\<rparr>))"

text \<open>\<open>except OSError as exc: raise storage_error from exc\<close>\<close>

definition convert_os_error :: "exn \<Rightarrow> 'a eff \<Rightarrow> 'a eff" where
  "convert_os_error storage_error m =
     catch_eff m (\<lambda>e. if e = OSError then raise_eff storage_error else raise_eff e)"

text \<open>\<open>try: m except Exception: pass\<close>\<close>

definition ignore_exceptions :: "unit eff \<Rightarrow> unit eff" where
  "ignore_exceptions m = catch_eff m (\<lambda>e. if is_Exception e then return_eff () else raise_eff e)"

text \<open>An optional result whose \<open>None\<close> is \<open>ValueError\<close>.\<close>

definition value_of :: "'a option \<Rightarrow> 'a eff" where
  "value_of z = (case z of None \<Rightarrow> raise_eff ValueError | Some x \<Rightarrow> return_eff x)"

end
