(* ===== verification/F3_Locks.thy ===== *)
theory F3_Locks
  imports F3_World "HOL-Library.Product_Lexorder"
begin

text \<open>
  The durable lock store of \<open>f3/locks.py\<close>: \<open>normalize_lock_requests\<close> and every operation of
  \<open>DurableLockStore\<close> that reads or changes the lock state, each as one transaction that reads and
  validates the state file, computes the new state and replaces the file atomically.
\<close>

section \<open>Normalisation of requests\<close>

record merged_entry =
  me_scopes :: "string list"
  me_mode :: string
  me_reasons :: "string list"

text \<open>
  The dictionary \<open>merged\<close>; sets are kept as lists, the ordering below makes them canonical.
  \<open>None\<close> is \<open>ValueError\<close>.
\<close>

definition merge_request ::
  "lock_request \<Rightarrow> (string \<times> merged_entry) list \<Rightarrow> (string \<times> merged_entry) list option" where
  "merge_request request merged =
     (let key = rq_key request; scopes = map scope_value (rq_scopes request);
          mode = mode_value (rq_mode request) in
      if \<not> valid_lock_key key \<or> \<not> valid_scopes scopes then None
      else case bounded_codes (rq_reason_codes request) of None \<Rightarrow> None
      | Some canonical_reasons \<Rightarrow>
        if \<not> valid_mode mode then None
        else
          (let entry = (case map_of merged key of
                  None \<Rightarrow> \<lparr>me_scopes = [], me_mode = ''shared'', me_reasons = []\<rparr> | Some e \<Rightarrow> e);
               others = filter (\<lambda>(k, e). k \<noteq> key) merged in
           if MAX_LOCK_TOKENS < length others + 1 then None
           else Some ((key, \<lparr>me_scopes = me_scopes entry @ scopes,
                     me_mode = (if mode = ''exclusive'' then ''exclusive'' else me_mode entry),
                     me_reasons = me_reasons entry @ canonical_reasons\<rparr>) # others)))"

fun merge_requests ::
  "lock_request list \<Rightarrow> (string \<times> merged_entry) list \<Rightarrow> (string \<times> merged_entry) list option" where
  "merge_requests [] merged = Some merged"
| "merge_requests (request # requests) merged =
     (case merge_request request merged of None \<Rightarrow> None
      | Some merged' \<Rightarrow> merge_requests requests merged')"

definition normalized_entry :: "string \<times> merged_entry \<Rightarrow> normalized_request" where
  "normalized_entry ke =
     \<lparr>nr_key = fst ke, nr_scopes = bytewise (me_scopes (snd ke)), nr_mode = me_mode (snd ke),
      nr_reason_codes = bytewise (me_reasons (snd ke))\<rparr>"

definition normalize_lock_requests :: "lock_request list \<Rightarrow> normalized_request list option" where
  "normalize_lock_requests requests =
     (case merge_requests requests [] of None \<Rightarrow> None
      | Some merged \<Rightarrow>
        if requests = [] then None
        else
          (let normalized = map normalized_entry (sort_key fst merged) in
           if list_all valid_normalized_request normalized then Some normalized else None))"

section \<open>Transactions on the state file\<close>

definition empty_state :: lock_state where
  "empty_state = \<lparr>ls_next_generation = 1, ls_records = []\<rparr>"

definition record_identity :: "lock_record \<Rightarrow> string \<times> int" where
  "record_identity r = (lr_key r, lr_generation r)"

definition valid_lock_state :: "lock_state \<Rightarrow> bool" where
  "valid_lock_state st \<longleftrightarrow>
     list_all valid_lock_record (ls_records st) \<and>
     ls_records st = sort_key record_identity (ls_records st) \<and>
     distinct (map record_identity (ls_records st)) \<and>
     \<not> ls_next_generation st < 1 \<and>
     list_all (\<lambda>r. lr_generation r < ls_next_generation st) (ls_records st)"

definition read_state :: "lock_state eff" where
  "read_state =
     then_eff (convert_os_error LockStorageError (then_eff fault_point fault_point))
     (bind_eff (read_eff lock_disk) (\<lambda>file.
        case file of
          NO_LOCK_FILE \<Rightarrow> return_eff empty_state
        | GARBLED_LOCK_FILE \<Rightarrow>
            then_eff (lock_metric ''corrupted_records'') (raise_eff LockRecordCorrupt)
        | LOCK_FILE schema st \<Rightarrow>
            if schema = LOCK_STATE_SCHEMA_VERSION \<and> valid_lock_state st then return_eff st
            else then_eff (lock_metric ''corrupted_records'') (raise_eff LockRecordCorrupt)))"

text \<open>
  Serialising validates every record.  The file changes at \<open>os.replace\<close> and nowhere else; a failure
  after it (the directory \<open>fsync\<close>) is reported although the new state is in place.
\<close>

definition write_state :: "lock_state \<Rightarrow> unit eff" where
  "write_state st =
     (let records = sort_key record_identity (ls_records st) in
      then_eff (require (list_all valid_lock_record records) ValueError)
      (convert_os_error LockStorageError
        (then_eff fault_point
        (then_eff fault_point
        (then_eff fault_point
        (then_eff fault_point
        (then_eff (update_eff (\<lambda>w. w\<lparr>lock_disk :=
                     LOCK_FILE LOCK_STATE_SCHEMA_VERSION (st\<lparr>ls_records := records\<rparr>)\<rparr>))
        (then_eff fault_point fault_point))))))))"

definition exclusive_transaction :: "'a eff \<Rightarrow> 'a eff" where
  "exclusive_transaction m =
     convert_os_error LockStorageError
       (then_eff fault_point (then_eff lock_interference m))"

definition transact :: "(lock_state \<Rightarrow> ('a \<times> bool \<times> lock_state) eff) \<Rightarrow> 'a eff" where
  "transact mutator =
     exclusive_transaction
       (bind_eff read_state (\<lambda>state.
        bind_eff (mutator state) (\<lambda>(result, changed, state').
        then_eff (if changed then write_state state' else return_eff ())
          (return_eff result))))"

section \<open>Predicates on records\<close>

definition same_owner :: "lock_record \<Rightarrow> lock_owner \<Rightarrow> bool" where
  "same_owner record w \<longleftrightarrow> lr_owner record = w"

definition lease_after :: "stamp \<Rightarrow> int \<Rightarrow> bool" where
  "lease_after s now = (case parse_timestamp s of None \<Rightarrow> False | Some t \<Rightarrow> now < t)"

definition record_active :: "lock_record \<Rightarrow> int \<Rightarrow> bool" where
  "record_active record now \<longleftrightarrow>
     lr_conflict_hold record \<or> lease_after (lr_lease_expires_at record) now"

definition holder_blocks :: "lock_record \<Rightarrow> string \<Rightarrow> int \<Rightarrow> bool" where
  "holder_blocks holder request_mode now \<longleftrightarrow>
     lr_conflict_hold holder \<or> request_mode = ''exclusive'' \<or> lr_mode holder = ''exclusive'' \<or>
     \<not> record_active holder now"

definition matching :: "lock_token \<Rightarrow> lock_record list \<Rightarrow> lock_record list" where
  "matching token records =
     filter (\<lambda>r. lr_key r = tk_key token \<and> lr_generation r = tk_generation token) records"

text \<open>
  The selection loop of every fenced operation: each token must name exactly one record of the
  handle's owner, and that record must pass a further check, which raises otherwise.
\<close>

fun select_records ::
  "lock_owner \<Rightarrow> (lock_token \<Rightarrow> lock_record \<Rightarrow> exn option) \<Rightarrow> lock_token list \<Rightarrow>
   lock_record list \<Rightarrow> exn + lock_record list" where
  "select_records w check [] records = Inr []"
| "select_records w check (token # tokens) records =
     (case matching token records of
        [record] \<Rightarrow>
          if \<not> same_owner record w then Inl LockOwnershipError
          else (case check token record of Some e \<Rightarrow> Inl e
            | None \<Rightarrow>
              (case select_records w check tokens records of Inl e \<Rightarrow> Inl e
               | Inr selected \<Rightarrow> Inr (record # selected)))
      | _ \<Rightarrow> Inl LockOwnershipError)"

text \<open>\<open>records.remove(record)\<close>; \<open>None\<close> is \<open>ValueError\<close>.\<close>

fun remove_records :: "lock_record list \<Rightarrow> lock_record list \<Rightarrow> lock_record list option" where
  "remove_records [] records = Some records"
| "remove_records (r # rs) records =
     (if r \<in> set records then remove_records rs (remove1 r records) else None)"

text \<open>Records are mutable objects of the list; an update reaches the one with that identity.\<close>

definition update_record ::
  "lock_record \<Rightarrow> (lock_record \<Rightarrow> lock_record) \<Rightarrow> lock_record list \<Rightarrow> lock_record list" where
  "update_record record f records =
     map (\<lambda>r. if record_identity r = record_identity record then f r else r) records"

definition update_records ::
  "lock_record list \<Rightarrow> (lock_record \<Rightarrow> lock_record) \<Rightarrow> lock_record list \<Rightarrow> lock_record list" where
  "update_records selected f records = foldl (\<lambda>rs r. update_record r f rs) records selected"

definition token_of :: "lock_record \<Rightarrow> lock_token" where
  "token_of r = \<lparr>tk_key = lr_key r, tk_generation = lr_generation r, tk_mode = lr_mode r\<rparr>"

section \<open>Acquisition\<close>

definition existing_matches :: "(string \<rightharpoonup> lock_record) \<Rightarrow> int \<Rightarrow> normalized_request \<Rightarrow> bool" where
  "existing_matches by_key now item =
     (case by_key (nr_key item) of None \<Rightarrow> False
      | Some record \<Rightarrow>
          record_active record now \<and> lr_mode record = nr_mode item \<and>
          lr_scopes record = nr_scopes item \<and>
          lr_evidence_references record = nr_reason_codes item)"

definition new_record :: "normalized_request \<Rightarrow> lock_owner \<Rightarrow> stamp \<Rightarrow> stamp \<Rightarrow> int \<Rightarrow> lock_record" where
  "new_record request w acquired_at lease_expires_at generation =
     \<lparr>lr_schema_version = LOCK_RECORD_SCHEMA_VERSION, lr_key = nr_key request,
      lr_scopes = nr_scopes request, lr_mode = nr_mode request, lr_owner = w,
      lr_acquired_at = acquired_at, lr_lease_expires_at = lease_expires_at,
      lr_last_renewed_at = acquired_at, lr_generation = generation,
      lr_evidence_references = nr_reason_codes request, lr_conflict_hold = False\<rparr>"

fun grant_records ::
  "lock_owner \<Rightarrow> stamp \<Rightarrow> stamp \<Rightarrow> int \<Rightarrow> normalized_request list \<Rightarrow> lock_record list" where
  "grant_records w acquired_at lease_expires_at generation [] = []"
| "grant_records w acquired_at lease_expires_at generation (request # requests) =
     new_record request w acquired_at lease_expires_at generation #
     grant_records w acquired_at lease_expires_at (generation + 1) requests"

definition conflicting_keys :: "normalized_request list \<Rightarrow> lock_record list \<Rightarrow> int \<Rightarrow> string list" where
  "conflicting_keys normalized records now =
     bytewise (map nr_key (filter (\<lambda>request.
       list_ex (\<lambda>holder. lr_key holder = nr_key request \<and> holder_blocks holder (nr_mode request) now)
         records) normalized))"

definition existing_handle ::
  "normalized_request list \<Rightarrow> (string \<rightharpoonup> lock_record) \<Rightarrow> lock_record list \<Rightarrow> lock_owner \<Rightarrow> lock_timing \<Rightarrow> lock_handle"
  where
  "existing_handle normalized by_key existing w timing =
     \<lparr>lh_owner = w,
      lh_tokens = map (\<lambda>item. \<lparr>tk_key = nr_key item,
        tk_generation = lr_generation (the (by_key (nr_key item))), tk_mode = nr_mode item\<rparr>) normalized,
      lh_acquired_at = min_list (map lr_acquired_at existing),
      lh_lease_expires_at = min_list (map lr_lease_expires_at existing),
      lh_timing = timing\<rparr>"

definition acquire_mutator ::
  "normalized_request list \<Rightarrow> lock_owner \<Rightarrow> lock_timing \<Rightarrow> int \<Rightarrow> lock_state \<Rightarrow>
   (lock_handle \<times> bool \<times> lock_state) eff" where
  "acquire_mutator normalized w timing now st =
     (let records = ls_records st;
          existing = filter (\<lambda>r. same_owner r w) records;
          requested_keys = map nr_key normalized;
          acquired_at = timestamp now;
          lease_expires_at = timestamp (now + lease_seconds timing) in
      if existing \<noteq> [] then
        (let by_key = map_of (rev (map (\<lambda>r. (lr_key r, r)) existing)) in
         then_eff (require (bytewise (map lr_key existing) = requested_keys) LockOwnershipError)
         (then_eff (require (list_all (existing_matches by_key now) normalized) LockOwnershipError)
         (let handle = existing_handle normalized by_key existing w timing in
          then_eff (require (valid_lock_handle handle) ValueError)
            (return_eff (handle, False, st)))))
      else if conflicting_keys normalized records now \<noteq> [] then
        then_eff (lock_metric ''conflicts'')
          (raise_eff (LockConflict (conflicting_keys normalized records now)))
      else
        (let granted = grant_records w acquired_at lease_expires_at (ls_next_generation st) normalized;
             handle = \<lparr>lh_owner = w, lh_tokens = map token_of granted,
               lh_acquired_at = acquired_at, lh_lease_expires_at = lease_expires_at,
               lh_timing = timing\<rparr> in
         then_eff (require (list_all valid_lock_record granted) ValueError)
         (then_eff (require (valid_lock_handle handle) ValueError)
           (return_eff (handle, True,
             st\<lparr>ls_next_generation := ls_next_generation st + int (length normalized),
                ls_records := records @ granted\<rparr>)))))"

definition lock_event :: "string \<Rightarrow> lock_owner \<Rightarrow> string option \<Rightarrow> int option \<Rightarrow> string option \<Rightarrow> audit_event" where
  "lock_event event_type w key generation reason =
     \<lparr>ae_event_type = event_type, ae_task_id = lo_task_id w, ae_attempt_id = Some (lo_attempt_id w),
      ae_owner_id = lo_owner_id w, ae_lock_key = key, ae_generation = generation,
      ae_reason_code = reason, ae_diagnostic_codes = []\<rparr>"

definition acquire_once ::
  "lock_request list \<Rightarrow> lock_owner \<Rightarrow> lock_timing \<Rightarrow> int \<Rightarrow> lock_handle eff" where
  "acquire_once requests w timing now =
     then_eff (require (valid_lock_owner w) ValueError)
     (then_eff (require (valid_lock_timing timing) ValueError)
     (bind_eff (value_of (normalize_lock_requests requests)) (\<lambda>normalized.
      then_eff (lock_metric ''acquisition_attempts'')
      (bind_eff
        (catch_eff (transact (acquire_mutator normalized w timing now))
          (\<lambda>e. case e of
             LockConflict keys \<Rightarrow>
               then_eff (for_each (\<lambda>key. ignore_exceptions
                   (event_sink (lock_event ''lock_conflict'' w (Some key) None None))) keys)
                 (raise_eff e)
           | _ \<Rightarrow> raise_eff e))
        (\<lambda>handle.
         then_eff (lock_metric ''acquisitions'')
         (then_eff (for_each (\<lambda>token. event_sink
             (lock_event ''lock_acquired'' w (Some (tk_key token)) (Some (tk_generation token)) None))
             (lh_tokens handle))
           (return_eff handle)))))))"

text \<open>
  The polling loop of \<open>acquire\<close>.  \<open>None\<close> is "no more fuel"; \<open>acquire_enough_fuel\<close> below shows that
  the fuel \<open>acquire\<close> gives is enough.
\<close>

fun acquire_loop ::
  "nat \<Rightarrow> int \<Rightarrow> lock_request list \<Rightarrow> lock_owner \<Rightarrow> lock_timing \<Rightarrow> bool eff \<Rightarrow> lock_handle option eff" where
  "acquire_loop 0 started requests w timing cancelled = return_eff None"
| "acquire_loop (Suc fuel) started requests w timing cancelled =
     bind_eff cancelled (\<lambda>stop.
     if stop then raise_eff LockWaitCancelled
     else bind_eff now_reading (\<lambda>now.
       try_else_eff (acquire_once requests w timing now)
         (\<lambda>e. case e of
            LockConflict keys \<Rightarrow>
              bind_eff monotonic_reading (\<lambda>reading.
              let elapsed = reading - started in
              if wait_timeout_seconds timing = 0 then raise_eff e
              else if wait_timeout_seconds timing \<le> elapsed then
                then_eff (lock_metric ''wait_timeouts'') (raise_eff LockWaitTimeout)
              else
                then_eff (sleep (min (poll_interval_seconds timing)
                           (wait_timeout_seconds timing - elapsed)))
                  (acquire_loop fuel started requests w timing cancelled))
          | _ \<Rightarrow> raise_eff e)
         (\<lambda>handle. return_eff (Some handle))))"

definition acquire_fuel :: "lock_timing \<Rightarrow> nat" where
  "acquire_fuel timing = nat (wait_timeout_seconds timing div poll_interval_seconds timing) + 3"

definition acquire ::
  "lock_request list \<Rightarrow> lock_owner \<Rightarrow> lock_timing \<Rightarrow> bool eff \<Rightarrow> lock_handle option eff" where
  "acquire requests w timing cancelled =
     then_eff (require (valid_lock_timing timing) ValueError)
     (bind_eff monotonic_reading (\<lambda>started.
        acquire_loop (acquire_fuel timing) started requests w timing cancelled))"

end
