(* ===== verification/F3_Lock_Operations.thy ===== *)
theory F3_Lock_Operations
  imports F3_Locks
begin

text \<open>
  The fenced operations of \<open>DurableLockStore\<close> on locks already held: transfer to a successor,
  validation, renewal, release, settlement of an unrecorded acquisition, conflict holds and the
  recovery of expired leases.
\<close>

section \<open>Validation, renewal, release\<close>

definition handle_check :: "int \<Rightarrow> bool \<Rightarrow> lock_token \<Rightarrow> lock_record \<Rightarrow> exn option" where
  "handle_check now allow_conflict_hold token record =
     (if lr_conflict_hold record \<and> \<not> allow_conflict_hold then Some LockOwnershipError
      else if \<not> lr_conflict_hold record \<and> \<not> record_active record now then Some LockLeaseExpired
      else None)"

text \<open>
  \<open>validate_handle\<close> counts a fencing rejection when a token is stale; the checks that follow do not
  count.
\<close>

fun validate_tokens ::
  "lock_owner \<Rightarrow> int \<Rightarrow> bool \<Rightarrow> lock_token list \<Rightarrow> lock_record list \<Rightarrow> unit eff" where
  "validate_tokens w now allow_conflict_hold [] records = return_eff ()"
| "validate_tokens w now allow_conflict_hold (token # tokens) records =
     (case matching token records of
        [record] \<Rightarrow>
          if \<not> same_owner record w then
            then_eff (lock_metric ''fencing_rejections'') (raise_eff LockOwnershipError)
          else (case handle_check now allow_conflict_hold token record of
              Some e \<Rightarrow> raise_eff e
            | None \<Rightarrow> validate_tokens w now allow_conflict_hold tokens records)
      | _ \<Rightarrow> then_eff (lock_metric ''fencing_rejections'') (raise_eff LockOwnershipError))"

definition validate_handle :: "lock_handle \<Rightarrow> int \<Rightarrow> bool \<Rightarrow> unit eff" where
  "validate_handle handle now allow_conflict_hold =
     then_eff (require (valid_lock_handle handle) ValueError)
       (transact (\<lambda>st.
          then_eff (validate_tokens (lh_owner handle) now allow_conflict_hold (lh_tokens handle)
                     (ls_records st))
            (return_eff ((), False, st))))"

definition renew_check :: "int \<Rightarrow> lock_token \<Rightarrow> lock_record \<Rightarrow> exn option" where
  "renew_check now token record =
     (if lr_conflict_hold record then Some LockOwnershipError
      else if \<not> record_active record now then Some LockLeaseExpired
      else None)"

definition renew_mutator :: "lock_handle \<Rightarrow> int \<Rightarrow> lock_state \<Rightarrow> (lock_handle \<times> bool \<times> lock_state) eff" where
  "renew_mutator handle now st =
     (let renewed_at = timestamp now;
          expires_at = timestamp (now + lease_seconds (lh_timing handle)) in
      bind_eff (lift_eff (select_records (lh_owner handle) (renew_check now) (lh_tokens handle)
                 (ls_records st))) (\<lambda>selected.
      then_eff fault_point
      (let renewed = handle\<lparr>lh_lease_expires_at := expires_at\<rparr> in
       then_eff (require (valid_lock_handle renewed) ValueError)
         (return_eff (renewed, True,
            st\<lparr>ls_records := update_records selected
                 (\<lambda>r. r\<lparr>lr_last_renewed_at := renewed_at, lr_lease_expires_at := expires_at\<rparr>)
                 (ls_records st)\<rparr>)))))"

text \<open>\<open>except DurableLockError\<close>: count the failure and raise again.\<close>

definition count_lock_failure :: "string \<Rightarrow> 'a eff \<Rightarrow> 'a eff" where
  "count_lock_failure counter m =
     catch_eff m (\<lambda>e. if is_DurableLockError e then
         then_eff (lock_metric counter) (then_eff (lock_metric ''fencing_rejections'') (raise_eff e))
       else raise_eff e)"

definition renew :: "lock_handle \<Rightarrow> int \<Rightarrow> lock_handle eff" where
  "renew handle now =
     then_eff (require (valid_lock_handle handle) ValueError)
     (bind_eff (count_lock_failure ''renewal_failures'' (transact (renew_mutator handle now)))
       (\<lambda>result. then_eff (lock_metric ''renewals'') (return_eff result)))"

definition release_check :: "bool \<Rightarrow> lock_token \<Rightarrow> lock_record \<Rightarrow> exn option" where
  "release_check pre_dispatch_cleanup token record =
     (if pre_dispatch_cleanup \<and> (lr_conflict_hold record \<or> lr_mode record \<noteq> tk_mode token)
      then Some LockOwnershipError else None)"

definition release_mutator ::
  "lock_handle \<Rightarrow> bool \<Rightarrow> lock_state \<Rightarrow> (string list \<times> bool \<times> lock_state) eff" where
  "release_mutator handle pre_dispatch_cleanup st =
     (let reverse_tokens = rev (lh_tokens handle) in
      bind_eff (lift_eff (select_records (lh_owner handle) (release_check pre_dispatch_cleanup)
                 reverse_tokens (ls_records st))) (\<lambda>selected.
      then_eff fault_point
      (bind_eff (value_of (remove_records selected (ls_records st))) (\<lambda>records.
        return_eff (map tk_key reverse_tokens, True, st\<lparr>ls_records := records\<rparr>)))))"

definition release :: "lock_handle \<Rightarrow> bool \<Rightarrow> string list eff" where
  "release handle pre_dispatch_cleanup =
     then_eff (require (valid_lock_handle handle) ValueError)
     (bind_eff (count_lock_failure ''release_failures''
                 (transact (release_mutator handle pre_dispatch_cleanup))) (\<lambda>released.
      then_eff (lock_metric ''releases'')
      (then_eff (for_each (\<lambda>key. event_sink (lock_event ''lock_released'' (lh_owner handle) (Some key) None None))
                  (if pre_dispatch_cleanup then [] else released))
        (return_eff released))))"

section \<open>Transfer to a sequence successor\<close>

fun transferred_records ::
  "lock_owner \<Rightarrow> stamp \<Rightarrow> stamp \<Rightarrow> int \<Rightarrow> lock_record list \<Rightarrow> lock_record list" where
  "transferred_records w acquired expires generation [] = []"
| "transferred_records w acquired expires generation (r # rs) =
     r\<lparr>lr_owner := w, lr_generation := generation, lr_acquired_at := acquired,
       lr_last_renewed_at := acquired, lr_lease_expires_at := expires\<rparr> #
     transferred_records w acquired expires (generation + 1) rs"

text \<open>The new versions take the places of the old ones in the list.\<close>

definition replace_records :: "(lock_record \<times> lock_record) list \<Rightarrow> lock_record list \<Rightarrow> lock_record list" where
  "replace_records pairs records =
     map (\<lambda>r. case map_of pairs r of None \<Rightarrow> r | Some r' \<Rightarrow> r') records"

definition transfer_mutator ::
  "lock_record list \<Rightarrow> lock_owner \<Rightarrow> lock_owner \<Rightarrow> lock_timing \<Rightarrow> int eff \<Rightarrow> int option \<Rightarrow> lock_state \<Rightarrow>
   (lock_handle \<times> bool \<times> lock_state) eff" where
  "transfer_mutator expected predecessor_owner w timing clock valid_until st =
     bind_eff clock (\<lambda>instant.
     then_eff (require (case valid_until of None \<Rightarrow> True | Some u \<Rightarrow> instant < u) LockLeaseExpired)
     (let records = ls_records st;
          selected = filter (\<lambda>r. same_owner r predecessor_owner) records in
      then_eff (require (\<not> (selected \<noteq> expected \<or> list_ex (\<lambda>r. same_owner r w) records \<or>
                            list_ex lr_conflict_hold selected)) LockOwnershipError)
      (then_eff (require (\<not> list_ex (\<lambda>item. list_ex (\<lambda>other.
            lr_key other = lr_key item \<and> other \<notin> set selected \<and>
            (lr_conflict_hold other \<or> lr_mode other = ''exclusive'' \<or> lr_mode item = ''exclusive'' \<or>
             \<not> record_active other instant)) records) selected) LockOwnershipError)
      (then_eff (require (list_all (\<lambda>r. record_active r instant) selected) LockLeaseExpired)
      (let acquired = timestamp instant;
           expires = timestamp (instant + lease_seconds timing);
           moved = transferred_records w acquired expires (ls_next_generation st) selected;
           handle = \<lparr>lh_owner = w, lh_tokens = map token_of moved, lh_acquired_at = acquired,
             lh_lease_expires_at = expires, lh_timing = timing\<rparr> in
       then_eff (require (valid_lock_handle handle) ValueError)
         (return_eff (handle, True,
            st\<lparr>ls_next_generation := ls_next_generation st + int (length selected),
               ls_records := replace_records (zip selected moved) records\<rparr>)))))))"

definition request_contract :: "lock_record \<Rightarrow> normalized_request" where
  "request_contract r =
     \<lparr>nr_key = lr_key r, nr_scopes = lr_scopes r, nr_mode = lr_mode r,
      nr_reason_codes = lr_evidence_references r\<rparr>"

definition transfer_complete ::
  "lock_request list \<Rightarrow> lock_handle \<Rightarrow> lock_record list \<Rightarrow> lock_owner \<Rightarrow> lock_timing \<Rightarrow>
   int eff \<Rightarrow> int option \<Rightarrow> lock_handle eff" where
  "transfer_complete requests predecessor expected_records w timing clock valid_until =
     then_eff (require (valid_lock_handle predecessor) ValueError)
     (then_eff (require (valid_lock_owner w) ValueError)
     (then_eff (require (valid_lock_timing timing) ValueError)
     (bind_eff (value_of (normalize_lock_requests requests)) (\<lambda>normalized.
     (let old = lh_owner predecessor in
      then_eff (require (\<not> (lo_task_id w = lo_task_id old \<or> lo_attempt_id w = lo_attempt_id old \<or>
                            lo_plan_id w \<noteq> lo_plan_id old)) LockOwnershipError)
      (then_eff (require (\<not> (expected_records = [] \<or> MAX_LOCK_TOKENS < length expected_records))
                  LockOwnershipError)
      (let expected = sort_key lr_key expected_records in
       then_eff (require (list_all valid_lock_record expected) ValueError)
       (then_eff (require (distinct (map lr_key expected) \<and>
                           map token_of expected = lh_tokens predecessor) LockOwnershipError)
       (then_eff (require (normalized = map request_contract expected) LockOwnershipError)
         (transact (transfer_mutator expected old w timing clock valid_until)))))))))))"

section \<open>Settlement of an unrecorded acquisition\<close>

fun consecutive_generations :: "lock_record list \<Rightarrow> bool" where
  "consecutive_generations (left # right # rest) =
     (lr_generation right = lr_generation left + 1 \<and> consecutive_generations (right # rest))"
| "consecutive_generations _ = True"

definition within :: "int \<Rightarrow> stamp \<Rightarrow> int \<Rightarrow> bool" where
  "within created s updated =
     (case parse_timestamp s of None \<Rightarrow> False | Some t \<Rightarrow> created \<le> t \<and> t \<le> updated)"

text \<open>
  \<open>digest\<close> stands for the SHA-256 of the canonical JSON of the complete request list.
\<close>

definition settle_mutator ::
  "(normalized_request list \<Rightarrow> string) \<Rightarrow> lock_owner \<Rightarrow> lock_record list \<Rightarrow> string \<Rightarrow> int \<Rightarrow> int \<Rightarrow>
   (lock_handle \<Rightarrow> unit eff) \<Rightarrow> lock_timing \<Rightarrow> int \<Rightarrow> lock_state \<Rightarrow> (nat \<times> bool \<times> lock_state) eff" where
  "settle_mutator digest w expected_records complete_request_hash created updated persist_tokens timing now st =
     (let selected = sort_key lr_key (filter (\<lambda>r. lo_task_id (lr_owner r) = lo_task_id w) (ls_records st));
          expected = sort_key lr_key expected_records in
      then_eff (require (selected = expected \<and> list_all (\<lambda>r. same_owner r w \<and> \<not> lr_conflict_hold r \<and>
            \<not> record_active r now \<and> lr_last_renewed_at r = lr_acquired_at r \<and>
            within created (lr_acquired_at r) updated) selected) LockOwnershipError)
      (then_eff (require (card (set (map lr_acquired_at selected)) = 1 \<and>
                          consecutive_generations selected) LockOwnershipError)
      (then_eff (require (digest (map request_contract selected) = complete_request_hash)
                  LockOwnershipError)
      (let handle = \<lparr>lh_owner = w, lh_tokens = map token_of selected,
             lh_acquired_at = lr_acquired_at (hd selected),
             lh_lease_expires_at = lr_lease_expires_at (hd selected), lh_timing = timing\<rparr> in
       then_eff (require (valid_lock_handle handle) ValueError)
       (then_eff (persist_tokens handle)
       (then_eff fault_point
       (bind_eff (value_of (remove_records selected (ls_records st))) (\<lambda>records.
         return_eff (length selected, True, st\<lparr>ls_records := records\<rparr>)))))))))"

definition settle_unrecorded ::
  "(normalized_request list \<Rightarrow> string) \<Rightarrow> lock_owner \<Rightarrow> lock_record list \<Rightarrow> string \<Rightarrow> stamp \<Rightarrow> stamp \<Rightarrow>
   (lock_handle \<Rightarrow> unit eff) \<Rightarrow> lock_timing \<Rightarrow> int \<Rightarrow> nat eff" where
  "settle_unrecorded digest w expected_records complete_request_hash execution_created_at
     execution_updated_at persist_tokens timing now =
     then_eff (require (valid_lock_owner w) ValueError)
     (then_eff (require (valid_lock_timing timing) ValueError)
     (then_eff (require (valid_sha256 complete_request_hash) ValueError)
     (then_eff (require (\<not> (expected_records = [] \<or> MAX_LOCK_TOKENS < length expected_records))
                 LockOwnershipError)
     (bind_eff (value_of (parse_timestamp execution_created_at)) (\<lambda>created.
      bind_eff (value_of (parse_timestamp execution_updated_at)) (\<lambda>updated.
      bind_eff (transact (settle_mutator digest w expected_records complete_request_hash created updated
                 persist_tokens timing now)) (\<lambda>count.
      then_eff (lock_metric ''releases'') (return_eff count))))))))"

section \<open>Conflict holds\<close>

definition no_check :: "lock_token \<Rightarrow> lock_record \<Rightarrow> exn option" where
  "no_check token record = None"

definition hold_record :: "string \<Rightarrow> lock_record \<Rightarrow> lock_record" where
  "hold_record reason r =
     r\<lparr>lr_conflict_hold := True,
       lr_evidence_references := bytewise (lr_evidence_references r @ [reason])\<rparr>"

text \<open>The loop over \<open>zip(handle.tokens, selected)\<close>.\<close>

fun hold_loop ::
  "string list \<Rightarrow> string \<Rightarrow> (lock_token \<times> lock_record) list \<Rightarrow> lock_record list \<Rightarrow>
   exn + lock_token list \<times> lock_record list" where
  "hold_loop retained reason [] records = Inr ([], records)"
| "hold_loop retained reason ((token, record) # pairs) records =
     (if tk_key token \<notin> set retained then
        (case remove_records [record] records of None \<Rightarrow> Inl ValueError
         | Some records' \<Rightarrow> hold_loop retained reason pairs records')
      else if 16 < length (lr_evidence_references (hold_record reason record)) then
        Inl LockOwnershipError
      else
        (case hold_loop retained reason pairs (update_record record (hold_record reason) records) of
           Inl e \<Rightarrow> Inl e
         | Inr (held, records') \<Rightarrow> Inr (token # held, records')))"

definition promote_mutator ::
  "lock_handle \<Rightarrow> string list \<Rightarrow> string \<Rightarrow> lock_state \<Rightarrow> (lock_token list \<times> bool \<times> lock_state) eff" where
  "promote_mutator handle retained reason st =
     bind_eff (lift_eff (select_records (lh_owner handle) no_check (lh_tokens handle) (ls_records st)))
       (\<lambda>selected.
      then_eff fault_point
      (bind_eff (lift_eff (hold_loop retained reason (zip (lh_tokens handle) selected) (ls_records st)))
        (\<lambda>(held, records). return_eff (held, True, st\<lparr>ls_records := records\<rparr>))))"

definition promote_selective_conflict_hold ::
  "lock_handle \<Rightarrow> string list \<Rightarrow> string \<Rightarrow> lock_token list eff" where
  "promote_selective_conflict_hold handle retained_keys reason_code =
     bind_eff (value_of (map_option hd (bounded_codes [reason_code]))) (\<lambda>reason.
     then_eff (require (list_all valid_lock_key retained_keys) ValueError)
     (let retained = bytewise retained_keys in
      then_eff (require (retained \<noteq> [] \<and> set retained \<subseteq> set (map tk_key (lh_tokens handle)))
                  LockOwnershipError)
      (bind_eff (transact (promote_mutator handle retained reason)) (\<lambda>held.
       then_eff (event_sink (lock_event ''conflict_hold_created'' (lh_owner handle) None None (Some reason)))
         (return_eff held)))))"

definition promote_to_conflict_hold :: "lock_handle \<Rightarrow> string \<Rightarrow> unit eff" where
  "promote_to_conflict_hold handle reason_code =
     then_eff (promote_selective_conflict_hold handle (map tk_key (lh_tokens handle)) reason_code)
       (return_eff ())"

definition hold_check :: "lock_token \<Rightarrow> lock_record \<Rightarrow> exn option" where
  "hold_check token record = (if lr_conflict_hold record then None else Some LockOwnershipError)"

definition release_hold_mutator ::
  "lock_owner \<Rightarrow> lock_token list \<Rightarrow> lock_state \<Rightarrow> (string list \<times> bool \<times> lock_state) eff" where
  "release_hold_mutator w tokens st =
     bind_eff (lift_eff (select_records w hold_check tokens (ls_records st))) (\<lambda>selected.
     then_eff fault_point
     (bind_eff (value_of (remove_records selected (ls_records st))) (\<lambda>records.
       return_eff (map tk_key tokens, True, st\<lparr>ls_records := records\<rparr>))))"

definition release_conflict_hold :: "lock_owner \<Rightarrow> lock_token list \<Rightarrow> string \<Rightarrow> string list eff" where
  "release_conflict_hold w tokens reason_code =
     then_eff (require (valid_lock_owner w) ValueError)
     (bind_eff (value_of (map_option hd (bounded_codes [reason_code]))) (\<lambda>reason.
     then_eff (require (tokens \<noteq> []) LockOwnershipError)
     (then_eff (require (list_all valid_lock_token tokens) ValueError)
     (bind_eff (transact (release_hold_mutator w tokens)) (\<lambda>released.
      then_eff (event_sink (lock_event ''conflict_hold_released'' w None None (Some reason)))
        (return_eff released))))))"

section \<open>Expired leases\<close>

datatype stale_recovery_action = RELEASE | TRANSFER_FOR_OBSERVATION | CONFLICT_HOLD

record stale_recovery_decision =
  sd_action :: stale_recovery_action
  sd_reason_code :: string

record stale_recovery_result =
  sr_released :: "lock_token list"
  sr_held :: "lock_token list"
  sr_transferred_handle :: "lock_handle option"

definition valid_decision :: "stale_recovery_decision \<Rightarrow> bool" where
  "valid_decision d \<longleftrightarrow> bounded_codes [sd_reason_code d] = Some [sd_reason_code d]"

definition expired :: "int \<Rightarrow> lock_record \<Rightarrow> bool" where
  "expired now r \<longleftrightarrow> \<not> lr_conflict_hold r \<and> \<not> lease_after (lr_lease_expires_at r) now"

definition expired_records :: "int \<Rightarrow> lock_record list eff" where
  "expired_records now =
     transact (\<lambda>st. return_eff (filter (expired now) (ls_records st), False, st))"

text \<open>The state of the recovery loop: the lock state and the three lists it fills.\<close>

record recovery_progress =
  rp_state :: lock_state
  rp_released :: "lock_token list"
  rp_held :: "lock_token list"
  rp_transferred :: "lock_token list"

definition same_task_identity :: "lock_owner \<Rightarrow> lock_owner \<Rightarrow> bool" where
  "same_task_identity a b \<longleftrightarrow>
     lo_task_id a = lo_task_id b \<and> lo_plan_id a = lo_plan_id b \<and>
     lo_operation_id a = lo_operation_id b \<and> lo_attempt_id a = lo_attempt_id b"

definition transfer_record :: "lock_owner \<Rightarrow> lock_timing \<Rightarrow> int \<Rightarrow> int \<Rightarrow> string \<Rightarrow> lock_record \<Rightarrow> lock_record" where
  "transfer_record w timing now generation reason r =
     r\<lparr>lr_owner := (lr_owner r)\<lparr>lo_owner_id := lo_owner_id w\<rparr>,
       lr_acquired_at := timestamp now, lr_last_renewed_at := timestamp now,
       lr_lease_expires_at := timestamp (now + lease_seconds timing),
       lr_generation := generation,
       lr_evidence_references := bytewise (lr_evidence_references r @ [reason])\<rparr>"

definition recover_one ::
  "lock_owner option \<Rightarrow> lock_timing option \<Rightarrow> int \<Rightarrow> (string \<times> int) \<times> stale_recovery_decision \<Rightarrow>
   recovery_progress \<Rightarrow> exn + recovery_progress" where
  "recover_one transfer_owner transfer_timing now item p =
     (case item of ((key, generation), decision) \<Rightarrow>
      let st = rp_state p; records = ls_records st in
      case filter (\<lambda>r. lr_key r = key \<and> lr_generation r = generation) records of
        [record] \<Rightarrow>
          if lr_conflict_hold record \<or> record_active record now then Inl LockOwnershipError
          else (case sd_action decision of
              RELEASE \<Rightarrow> Inr (p\<lparr>rp_state := st\<lparr>ls_records := remove1 record records\<rparr>,
                               rp_released := rp_released p @ [token_of record]\<rparr>)
            | CONFLICT_HOLD \<Rightarrow>
                Inr (p\<lparr>rp_state := st\<lparr>ls_records :=
                         update_record record (hold_record (sd_reason_code decision)) records\<rparr>,
                       rp_held := rp_held p @ [token_of record]\<rparr>)
            | TRANSFER_FOR_OBSERVATION \<Rightarrow>
                (case (transfer_owner, transfer_timing) of
                   (Some w, Some timing) \<Rightarrow>
                     if \<not> same_task_identity w (lr_owner record) then Inl LockOwnershipError
                     else
                       Inr (p\<lparr>rp_state := \<lparr>ls_next_generation = ls_next_generation st + 1,
                                ls_records = update_record record
                                  (transfer_record w timing now (ls_next_generation st)
                                     (sd_reason_code decision)) records\<rparr>,
                              rp_transferred := rp_transferred p @
                                [\<lparr>tk_key = lr_key record, tk_generation = ls_next_generation st,
                                  tk_mode = lr_mode record\<rparr>]\<rparr>)
                 | _ \<Rightarrow> Inl LockOwnershipError))
      | _ \<Rightarrow> Inl LockOwnershipError)"

fun recover_all ::
  "lock_owner option \<Rightarrow> lock_timing option \<Rightarrow> int \<Rightarrow> ((string \<times> int) \<times> stale_recovery_decision) list \<Rightarrow>
   recovery_progress \<Rightarrow> exn + recovery_progress" where
  "recover_all transfer_owner transfer_timing now [] p = Inr p"
| "recover_all transfer_owner transfer_timing now (item # items) p =
     (case recover_one transfer_owner transfer_timing now item p of
        Inl e \<Rightarrow> Inl e | Inr p' \<Rightarrow> recover_all transfer_owner transfer_timing now items p')"

definition recover_mutator ::
  "((string \<times> int) \<times> stale_recovery_decision) list \<Rightarrow> lock_owner option \<Rightarrow> lock_timing option \<Rightarrow> int \<Rightarrow>
   lock_state \<Rightarrow> (stale_recovery_result \<times> bool \<times> lock_state) eff" where
  "recover_mutator decisions transfer_owner transfer_timing now st =
     bind_eff (lift_eff (recover_all transfer_owner transfer_timing now (sort_key fst decisions)
        \<lparr>rp_state = st, rp_released = [], rp_held = [], rp_transferred = []\<rparr>)) (\<lambda>p.
     case (rp_transferred p, transfer_owner, transfer_timing) of
       (token # tokens, Some w, Some timing) \<Rightarrow>
         (let handle = \<lparr>lh_owner = w, lh_tokens = sort_key tk_key (rp_transferred p),
                lh_acquired_at = timestamp now,
                lh_lease_expires_at = timestamp (now + lease_seconds timing), lh_timing = timing\<rparr> in
          then_eff (require (valid_lock_handle handle) ValueError)
            (return_eff (\<lparr>sr_released = rp_released p, sr_held = rp_held p,
               sr_transferred_handle = Some handle\<rparr>, decisions \<noteq> [], rp_state p)))
     | _ \<Rightarrow> return_eff (\<lparr>sr_released = rp_released p, sr_held = rp_held p,
               sr_transferred_handle = None\<rparr>, decisions \<noteq> [], rp_state p))"

definition valid_optional_owner :: "lock_owner option \<Rightarrow> bool" where
  "valid_optional_owner z = (case z of None \<Rightarrow> True | Some w \<Rightarrow> valid_lock_owner w)"

definition valid_optional_timing :: "lock_timing option \<Rightarrow> bool" where
  "valid_optional_timing z = (case z of None \<Rightarrow> True | Some t \<Rightarrow> valid_lock_timing t)"

definition recovered_count :: "stale_recovery_result \<Rightarrow> nat" where
  "recovered_count r =
     length (sr_released r) + length (sr_held r) +
     (case sr_transferred_handle r of None \<Rightarrow> 0 | Some h \<Rightarrow> length (lh_tokens h))"

text \<open>The dictionary of decisions is an association list with one entry per identity.\<close>

definition recover_expired ::
  "((string \<times> int) \<times> stale_recovery_decision) list \<Rightarrow> lock_owner option \<Rightarrow> lock_timing option \<Rightarrow> int \<Rightarrow>
   stale_recovery_result eff" where
  "recover_expired decisions transfer_owner transfer_timing now =
     then_eff (require (list_all (\<lambda>d. valid_decision (snd d)) decisions) ValueError)
     (then_eff (require (valid_optional_owner transfer_owner) ValueError)
     (then_eff (require (valid_optional_timing transfer_timing) ValueError)
     (bind_eff (transact (recover_mutator decisions transfer_owner transfer_timing now)) (\<lambda>result.
      then_eff (lock_metric_by ''stale_recoveries'' (int (recovered_count result)))
        (return_eff result)))))"

section \<open>Reading the store\<close>

definition records_of_store :: "lock_record list eff" where
  "records_of_store = transact (\<lambda>st. return_eff (ls_records st, False, st))"

record lock_gauges =
  current_active_lock_count :: nat
  current_conflict_hold_count :: nat
  current_expired_lease_count :: int

definition lock_snapshot :: "int \<Rightarrow> ((string \<Rightarrow> nat) \<times> lock_gauges) eff" where
  "lock_snapshot now =
     bind_eff records_of_store (\<lambda>records.
     let active = length (filter (\<lambda>r. record_active r now) records);
         holds = length (filter lr_conflict_hold records);
         expired_count = int (length records) - int active in
     then_eff (require (0 \<le> expired_count) ValueError)
       (bind_eff (read_eff lock_counters) (\<lambda>counters.
         return_eff (counters, \<lparr>current_active_lock_count = active,
           current_conflict_hold_count = holds, current_expired_lease_count = expired_count\<rparr>))))"

end
