(* ===== verification/F3_Lock_Environment.thy ===== *)
theory F3_Lock_Environment
  imports F3_Lock_Operations
begin

text \<open>
  What the lock store promises to any relation between states: a relation respected by the store's
  clock, fault, counter and event effects and by each of its transactions is respected by each of
  its operations, whatever they raise and however often they retry.
\<close>

section \<open>Effects every component shares\<close>

locale shared_effects = guarantee_relation R for R :: "world \<Rightarrow> world \<Rightarrow> bool" +
  assumes fault_point_guar: "guarantees R fault_point"
    and now_reading_guar: "guarantees R now_reading"
    and event_sink_guar: "guarantees R (event_sink ev)"
begin

lemmas shared_guar [guarantee_rules] = fault_point_guar now_reading_guar event_sink_guar

lemma convert_os_error_guar [guarantee_rules]:
  "guarantees R m \<Longrightarrow> guarantees R (convert_os_error e m)"
  unfolding convert_os_error_def by (intro guarantee_rules)

lemma ignore_exceptions_guar [guarantee_rules]:
  "guarantees R m \<Longrightarrow> guarantees R (ignore_exceptions m)"
  unfolding ignore_exceptions_def by (intro guarantee_rules)

lemma value_of_guar [guarantee_rules]: "guarantees R (value_of z)"
  unfolding value_of_def by (intro guarantee_rules)

lemma case_conflict_guar [guarantee_rules]:
  "(\<And>keys. guarantees R (f keys)) \<Longrightarrow> guarantees R d \<Longrightarrow>
   guarantees R (case e of LockConflict keys \<Rightarrow> f keys | _ \<Rightarrow> d)"
  by (cases e) simp_all

end

section \<open>The operations of the lock store\<close>

locale lock_environment = shared_effects R for R :: "world \<Rightarrow> world \<Rightarrow> bool" +
  assumes sleep_guar: "guarantees R (sleep d)"
    and lock_metric_by_guar: "guarantees R (lock_metric_by name amount)"
    and transact_acquire: "guarantees R (transact (acquire_mutator normalized w timing now))"
    and transact_validate: "guarantees R (transact (\<lambda>st.
          then_eff (validate_tokens (lh_owner handle) now allow (lh_tokens handle) (ls_records st))
            (return_eff ((), False, st))))"
    and transact_renew: "guarantees R (transact (renew_mutator handle now))"
    and transact_release: "guarantees R (transact (release_mutator handle pre_dispatch_cleanup))"
    and transact_promote: "guarantees R (transact (promote_mutator handle retained reason))"
    and transact_release_hold: "guarantees R (transact (release_hold_mutator w tokens))"
    and transact_read: "guarantees R (transact (\<lambda>st.
          return_eff (view (ls_records st) :: lock_record list, False, st)))"
    and transact_recover: "guarantees R (transact (recover_mutator decisions tw tt now))"
begin

lemmas lock_transaction_guar [guarantee_rules] =
  sleep_guar lock_metric_by_guar transact_acquire transact_validate transact_renew transact_release
  transact_promote transact_release_hold transact_read transact_recover

lemma lock_metric_guar [guarantee_rules]: "guarantees R (lock_metric name)"
  unfolding lock_metric_def by (intro guarantee_rules)

lemma count_lock_failure_guar [guarantee_rules]:
  "guarantees R m \<Longrightarrow> guarantees R (count_lock_failure counter m)"
  unfolding count_lock_failure_def by (intro guarantee_rules)

lemma acquire_once_guar [guarantee_rules]: "guarantees R (acquire_once requests w timing now)"
  unfolding acquire_once_def by (intro guarantee_rules)

lemma acquire_loop_guar [guarantee_rules]:
  assumes "guarantees R cancelled"
  shows "guarantees R (acquire_loop fuel started requests w timing cancelled)"
  by (induction fuel)
    (auto simp: monotonic_reading_def Let_def intro!: guarantee_rules assms)

lemma acquire_guar [guarantee_rules]:
  "guarantees R cancelled \<Longrightarrow> guarantees R (acquire requests w timing cancelled)"
  unfolding acquire_def monotonic_reading_def by (intro guarantee_rules)

lemma validate_handle_guar [guarantee_rules]: "guarantees R (validate_handle handle now allow)"
  unfolding validate_handle_def by (intro guarantee_rules)

lemma renew_guar [guarantee_rules]: "guarantees R (renew handle now)"
  unfolding renew_def by (intro guarantee_rules)

lemma release_guar [guarantee_rules]: "guarantees R (release handle pre_dispatch_cleanup)"
  unfolding release_def by (intro guarantee_rules)

lemma promote_selective_guar [guarantee_rules]:
  "guarantees R (promote_selective_conflict_hold handle retained_keys reason)"
  unfolding promote_selective_conflict_hold_def Let_def by (intro guarantee_rules)

lemma promote_guar [guarantee_rules]: "guarantees R (promote_to_conflict_hold handle reason)"
  unfolding promote_to_conflict_hold_def by (intro guarantee_rules)

lemma release_hold_guar [guarantee_rules]: "guarantees R (release_conflict_hold w tokens reason)"
  unfolding release_conflict_hold_def by (intro guarantee_rules)

lemma expired_records_guar [guarantee_rules]: "guarantees R (expired_records now)"
  unfolding expired_records_def by (intro guarantee_rules)

lemma records_of_store_guar [guarantee_rules]: "guarantees R records_of_store"
proof -
  have "guarantees R (transact (\<lambda>st. return_eff (id (ls_records st), False, st)))"
    by (rule transact_read)
  then show ?thesis by (simp add: records_of_store_def)
qed

lemma recover_expired_guar [guarantee_rules]: "guarantees R (recover_expired decisions tw tt now)"
  unfolding recover_expired_def by (intro guarantee_rules)

lemma lock_snapshot_guar [guarantee_rules]: "guarantees R (lock_snapshot now)"
  unfolding lock_snapshot_def Let_def by (intro guarantee_rules)

end

text \<open>
  The two operations whose transaction runs an effect of the caller: the clock and the token
  persistence are passed in.
\<close>

locale lock_handover = lock_environment R for R :: "world \<Rightarrow> world \<Rightarrow> bool" +
  assumes transact_transfer: "guarantees (same lock_disk) clock \<Longrightarrow> guarantees (same lock_others) clock \<Longrightarrow>
      guarantees R clock \<Longrightarrow> guarantees R (transact (transfer_mutator expected old w timing clock valid_until))"
    and transact_settle: "(\<And>h. guarantees (same lock_disk) (persist h)) \<Longrightarrow>
      (\<And>h. guarantees (same lock_others) (persist h)) \<Longrightarrow> (\<And>h. guarantees R (persist h)) \<Longrightarrow>
      guarantees R (transact (settle_mutator digest w expected h created updated persist timing now))"
begin

lemma transfer_complete_guar:
  assumes "guarantees (same lock_disk) clock" and "guarantees (same lock_others) clock"
    and "guarantees R clock"
  shows "guarantees R (transfer_complete requests predecessor expected w timing clock valid_until)"
  unfolding transfer_complete_def Let_def by (intro guarantee_rules transact_transfer assms)

lemma settle_unrecorded_guar:
  assumes "\<And>h. guarantees (same lock_disk) (persist h)"
    and "\<And>h. guarantees (same lock_others) (persist h)" and "\<And>h. guarantees R (persist h)"
  shows "guarantees R (settle_unrecorded digest w expected h created updated persist timing now)"
  unfolding settle_unrecorded_def by (intro guarantee_rules transact_settle assms)

end

end
