(* ===== verification/F3_Persistence.thy ===== *)
theory F3_Persistence
  imports F3_World
begin

text \<open>
  The durable execution repository of \<open>f3/persistence.py\<close>: one file per task, every operation one
  exclusive transaction that reads and validates the record, changes it and replaces its file
  atomically.  The file of a task is named by the SHA-256 of its identifier; the model's disk is
  indexed by the identifier itself.
\<close>

section \<open>Transactions on the record of a task\<close>

definition execution_transaction :: "'a eff \<Rightarrow> 'a eff" where
  "execution_transaction m =
     convert_os_error ExecutionStorageError
       (then_eff fault_point (then_eff execution_interference m))"

definition read_unlocked :: "string \<Rightarrow> execution_record option eff" where
  "read_unlocked task_id =
     then_eff (require (valid_identifier task_id) ValueError)
     (then_eff (convert_os_error ExecutionStorageError (then_eff fault_point fault_point))
     (bind_eff (read_eff execution_disk) (\<lambda>disk.
        case disk task_id of
          None \<Rightarrow> return_eff None
        | Some GARBLED_EXECUTION_FILE \<Rightarrow> raise_eff ExecutionRecordCorrupt
        | Some (EXECUTION_FILE record) \<Rightarrow>
            if valid_execution_record record \<and> ei_task_id (xr_identity record) = task_id
            then return_eff (Some record) else raise_eff ExecutionRecordCorrupt)))"

definition write_unlocked :: "execution_record \<Rightarrow> unit eff" where
  "write_unlocked record =
     then_eff (require (valid_execution_record record) ValueError)
     (convert_os_error ExecutionStorageError
       (then_eff fault_point
       (then_eff fault_point
       (then_eff fault_point
       (then_eff fault_point
       (then_eff (update_eff (\<lambda>w. w\<lparr>execution_disk :=
                    (execution_disk w)(ei_task_id (xr_identity record) \<mapsto> EXECUTION_FILE record)\<rparr>))
       (then_eff fault_point fault_point)))))))"

text \<open>\<open>append_execution_event\<close> as a step of a mutator.\<close>

definition append_event ::
  "string \<Rightarrow> stamp \<Rightarrow> string list \<Rightarrow> execution_record \<Rightarrow> exn + execution_record" where
  "append_event event_type occurred_at diagnostic_codes record =
     (case append_execution_event record event_type occurred_at diagnostic_codes of
        None \<Rightarrow> Inl ValueError | Some r \<Rightarrow> Inr r)"

section \<open>Claims\<close>

type_synonym operation_identity = "string \<times> string \<times> operation_target \<times> string"

text \<open>\<open>_prepared_identity\<close>\<close>

definition prepared_identity :: "prepared_operation \<Rightarrow> exn + operation_identity" where
  "prepared_identity prepared =
     (if po_contract_model prepared \<noteq> F3_ADAPTER_CONTRACT_MODEL then Inl ExecutionStorageError
      else if valid_identifier (po_adapter_id prepared) \<and> valid_identifier (po_operation prepared) \<and>
              valid_identifier (target_type (po_target prepared)) \<and>
              valid_identifier (target_id (po_target prepared)) \<and>
              valid_sha256 (po_prepared_operation_hash prepared)
      then Inr (po_adapter_id prepared, po_operation prepared, po_target prepared,
                po_prepared_operation_hash prepared)
      else Inl ValueError)"

definition same_operation ::
  "execution_record \<Rightarrow> execution_identity \<Rightarrow> operation_identity \<Rightarrow> bool" where
  "same_operation record identity op =
     (case op of (adapter_id, operation, target, prepared_hash) \<Rightarrow>
        \<not> (ei_task_id (xr_identity record) \<noteq> ei_task_id identity \<or>
           ei_plan_id (xr_identity record) \<noteq> ei_plan_id identity \<or>
           ei_attempt_id (xr_identity record) \<noteq> ei_attempt_id identity \<or>
           xr_adapter_id record \<noteq> adapter_id \<or>
           xr_operation record \<noteq> operation \<or>
           xr_target record \<noteq> target \<or>
           xr_prepared_operation_hash record \<noteq> prepared_hash))"

definition initial_record ::
  "execution_identity \<Rightarrow> operation_identity \<Rightarrow> stamp \<Rightarrow> stamp \<Rightarrow> execution_record" where
  "initial_record identity op now_text claim_expiry =
     (case op of (adapter_id, operation, target, prepared_hash) \<Rightarrow>
        \<lparr>xr_schema_version = EXECUTION_RECORD_SCHEMA_VERSION, xr_identity = identity,
         xr_adapter_model = F3_ADAPTER_CONTRACT_MODEL, xr_adapter_id = adapter_id,
         xr_operation = operation, xr_target = target, xr_prepared_operation_hash = prepared_hash,
         xr_state = ''planning'', xr_normalized_outcome = None, xr_task_state = ''created'',
         xr_terminal = False, xr_created_at = now_text, xr_updated_at = now_text,
         xr_claim_generation = 1, xr_claim_expires_at = claim_expiry, xr_lock_tokens = [],
         xr_preflight_completed = False, xr_dispatch_intent = None, xr_dispatch_count = 0,
         xr_provider_response_received = False, xr_observation_attempts = 0,
         xr_verification_attempts = 0, xr_evidence = no_evidence, xr_events = []\<rparr>)"

definition claim_live :: "execution_record \<Rightarrow> int \<Rightarrow> bool" where
  "claim_live record instant =
     (case parse_timestamp (xr_claim_expires_at record) of None \<Rightarrow> False | Some t \<Rightarrow> instant < t)"

record execution_claim =
  cl_record :: execution_record
  cl_claim_generation :: int
  cl_created :: bool

text \<open>A new owner takes over an expired claim.\<close>

definition take_over :: "execution_identity \<Rightarrow> stamp \<Rightarrow> execution_record \<Rightarrow> execution_record" where
  "take_over identity claim_expiry record =
     record\<lparr>xr_identity := (xr_identity record)\<lparr>ei_owner_id := ei_owner_id identity,
                                              ei_request_id := ei_request_id identity\<rparr>,
            xr_claim_generation := xr_claim_generation record + 1,
            xr_claim_expires_at := claim_expiry\<rparr>"

definition claim ::
  "execution_identity \<Rightarrow> prepared_operation \<Rightarrow> executor_timing \<Rightarrow> int \<Rightarrow> execution_claim eff" where
  "claim identity prepared timing instant =
     then_eff (require (valid_execution_identity identity) ValueError)
     (then_eff (require (valid_executor_timing timing) ValueError)
     (let now_text = timestamp instant;
          claim_expiry = timestamp (instant + claim_lease_seconds timing) in
      bind_eff (lift_eff (prepared_identity prepared)) (\<lambda>op.
      execution_transaction
        (bind_eff (read_unlocked (ei_task_id identity)) (\<lambda>found.
         case found of
           None \<Rightarrow>
             bind_eff (lift_eff (append_event ''execution_started'' now_text []
                         (initial_record identity op now_text claim_expiry))) (\<lambda>record.
             then_eff (write_unlocked record)
               (return_eff \<lparr>cl_record = record, cl_claim_generation = 1, cl_created = True\<rparr>))
         | Some record \<Rightarrow>
             then_eff (require (same_operation record identity op) ExecutionRecordCorrupt)
             (if xr_terminal record then
                return_eff \<lparr>cl_record = record, cl_claim_generation = xr_claim_generation record,
                            cl_created = False\<rparr>
              else if claim_live record instant then raise_eff (DuplicateExecutionActive record)
              else
                bind_eff (lift_eff
                  (if xr_dispatch_intent record \<noteq> None then
                     append_event ''recovery_claimed'' now_text [''redispatch_prohibited'']
                       (take_over identity claim_expiry record)
                   else
                     append_event ''execution_reclaimed'' now_text []
                       ((take_over identity claim_expiry record)
                          \<lparr>xr_state := ''planning'', xr_task_state := ''preflight'',
                           xr_normalized_outcome := None\<rparr>))) (\<lambda>record'.
                then_eff (write_unlocked record')
                  (return_eff \<lparr>cl_record = record', cl_claim_generation = xr_claim_generation record',
                               cl_created = False\<rparr>))))))))"

definition holds_claim :: "execution_record \<Rightarrow> string \<Rightarrow> int \<Rightarrow> bool" where
  "holds_claim record owner_id claim_generation \<longleftrightarrow>
     \<not> (ei_owner_id (xr_identity record) \<noteq> owner_id \<or> xr_claim_generation record \<noteq> claim_generation)"

type_synonym mutator = "execution_record \<Rightarrow> exn + execution_record"

definition mutate_claimed :: "string \<Rightarrow> string \<Rightarrow> int \<Rightarrow> mutator \<Rightarrow> execution_record eff" where
  "mutate_claimed task_id owner_id claim_generation mutator =
     execution_transaction
       (bind_eff (read_unlocked task_id) (\<lambda>found.
        case found of
          None \<Rightarrow> raise_eff ExecutionRecordCorrupt
        | Some record \<Rightarrow>
            then_eff (require (holds_claim record owner_id claim_generation) ExecutionClaimLost)
            (bind_eff (lift_eff (mutator record)) (\<lambda>record'.
             then_eff (require (valid_execution_record record') ValueError)
             (then_eff (write_unlocked record') (return_eff record'))))))"

section \<open>Mutators of the pre-intent phases\<close>

definition recorded_tokens :: "lock_handle \<Rightarrow> recorded_token list" where
  "recorded_tokens handle =
     map (\<lambda>token. \<lparr>rt_key = tk_key token, rt_generation = tk_generation token,
                   rt_mode = tk_mode token, rt_owner_id = lo_owner_id (lh_owner handle)\<rparr>)
       (lh_tokens handle)"

definition locks_mutator :: "lock_handle \<Rightarrow> stamp \<Rightarrow> mutator" where
  "locks_mutator handle now_text record =
     (if xr_terminal record then Inl ExecutionStorageError
      else if xr_dispatch_intent record \<noteq> None then Inl BlindRedispatchProhibited
      else append_event ''locks_acquired'' now_text []
        (record\<lparr>xr_lock_tokens := recorded_tokens handle, xr_state := ''preflight'',
                xr_task_state := ''preflight''\<rparr>))"

definition record_locks :: "string \<Rightarrow> string \<Rightarrow> int \<Rightarrow> lock_handle \<Rightarrow> int \<Rightarrow> execution_record eff" where
  "record_locks task_id owner_id claim_generation handle now =
     then_eff (require (valid_lock_handle handle) ValueError)
       (mutate_claimed task_id owner_id claim_generation (locks_mutator handle (timestamp now)))"

definition preflight_mutator :: "stamp \<Rightarrow> mutator" where
  "preflight_mutator now_text record =
     (if xr_lock_tokens record = [] \<or> xr_dispatch_intent record \<noteq> None then Inl ExecutionStorageError
      else append_event ''preflight_completed'' now_text [] (record\<lparr>xr_preflight_completed := True\<rparr>))"

definition record_preflight :: "string \<Rightarrow> string \<Rightarrow> int \<Rightarrow> int \<Rightarrow> execution_record eff" where
  "record_preflight task_id owner_id claim_generation now =
     mutate_claimed task_id owner_id claim_generation (preflight_mutator (timestamp now))"

text \<open>The terminal pre-dispatch classification shared by several operations.\<close>

definition terminal_pre_dispatch :: "string \<Rightarrow> execution_record \<Rightarrow> execution_record" where
  "terminal_pre_dispatch outcome record =
     record\<lparr>xr_normalized_outcome := Some outcome,
            xr_task_state := the (NORMALIZED_OUTCOME_TO_TASK_STATE outcome),
            xr_state := ''terminal'', xr_terminal := True\<rparr>"

definition fail_lock_body ::
  "string \<Rightarrow> string \<Rightarrow> int \<Rightarrow> unit eff option \<Rightarrow> stamp \<Rightarrow> (string list \<times> (exn + execution_record)) eff" where
  "fail_lock_body task_id owner_id claim_generation cleanup now_text =
     bind_eff (read_unlocked task_id) (\<lambda>found.
     case found of
       None \<Rightarrow> raise_eff ExecutionStorageError
     | Some record \<Rightarrow>
         then_eff (require (holds_claim record owner_id claim_generation) ExecutionClaimLost)
         (then_eff (require (\<not> (xr_dispatch_intent record \<noteq> None \<or> xr_dispatch_count record \<noteq> 0))
                     BlindRedispatchProhibited)
         (then_eff (require (\<not> xr_terminal record) ExecutionStorageError)
         (bind_eff (lift_eff (append_event ''pre_dispatch_terminal'' now_text [''lock_storage_failure'']
                     (terminal_pre_dispatch ''failed_pre_dispatch'' record))) (\<lambda>failed.
          bind_eff (try_else_eff (write_unlocked failed)
                     (\<lambda>e. if is_ExecutionStorageError e \<or> e = ValueError then return_eff (Some e)
                          else raise_eff e)
                     (\<lambda>_. return_eff None)) (\<lambda>write_error.
          bind_eff (case cleanup of
                      None \<Rightarrow> return_eff ''lock_cleanup_not_acquired''
                    | Some action \<Rightarrow>
                        try_else_eff action
                          (\<lambda>e. if is_Exception e then return_eff ''lock_cleanup_failed'' else raise_eff e)
                          (\<lambda>_. return_eff ''lock_cleanup_completed'')) (\<lambda>cleanup_code.
          let codes = [''lock_storage_failure'', cleanup_code] @
                (if write_error \<noteq> None then [''lock_terminalization_failed''] else []) in
          try_else_eff
            (case write_error of
               Some e \<Rightarrow> raise_eff e
             | None \<Rightarrow>
                 bind_eff (lift_eff (append_event ''pre_dispatch_terminal'' now_text codes failed)) (\<lambda>record'.
                 then_eff (write_unlocked record') (return_eff record')))
            (\<lambda>e. return_eff (codes, Inl e))
            (\<lambda>record'. return_eff (codes, Inr record')))))))))"

definition fail_lock_acquisition ::
  "string \<Rightarrow> string \<Rightarrow> int \<Rightarrow> unit eff option \<Rightarrow> int \<Rightarrow> (execution_record \<times> string list) eff" where
  "fail_lock_acquisition task_id owner_id claim_generation cleanup now =
     bind_eff (execution_transaction
        (fail_lock_body task_id owner_id claim_generation cleanup (timestamp now))) (\<lambda>(codes, outcome).
     then_eff (ignore_exceptions (event_sink
         \<lparr>ae_event_type = ''lock_failure_cleanup'', ae_task_id = task_id, ae_attempt_id = None,
          ae_owner_id = owner_id, ae_lock_key = None, ae_generation = None, ae_reason_code = None,
          ae_diagnostic_codes = codes\<rparr>))
     (bind_eff (lift_eff outcome) (\<lambda>record. return_eff (record, codes))))"

section \<open>The dispatch intent\<close>

definition intent_mutator ::
  "string \<Rightarrow> string \<Rightarrow> string \<Rightarrow> stamp \<Rightarrow> stamp \<Rightarrow> mutator" where
  "intent_mutator request_id provider_operation provider_arguments_hash now_text deadline record =
     append_event ''dispatch_intent_committed'' now_text [''possibly_dispatched'']
       (record\<lparr>xr_dispatch_intent := Some
                 \<lparr>di_committed_at = now_text, di_evidence_deadline = deadline,
                  di_request_id = request_id, di_provider_operation = provider_operation,
                  di_provider_arguments_hash = provider_arguments_hash,
                  di_lock_tokens = xr_lock_tokens record, di_possibly_dispatched = True\<rparr>,
               xr_dispatch_count := 1, xr_state := ''dispatching'',
               xr_task_state := ''dispatching''\<rparr>)"

text \<open>What the commit does with the record it finds.\<close>

definition commit_step ::
  "string \<Rightarrow> int \<Rightarrow> string \<Rightarrow> string \<Rightarrow> string \<Rightarrow> executor_timing \<Rightarrow> int \<Rightarrow> execution_record \<Rightarrow>
   execution_record eff" where
  "commit_step owner_id claim_generation request_id provider_operation provider_arguments_hash timing
     instant record =
     then_eff (require (holds_claim record owner_id claim_generation) ExecutionClaimLost)
     (then_eff (require (\<not> xr_terminal record) ExecutionStorageError)
     (then_eff (if xr_dispatch_intent record \<noteq> None \<or> xr_dispatch_count record \<noteq> 0 then
                  then_eff (executor_metric ''blind_redispatch_preventions'')
                    (raise_eff BlindRedispatchProhibited)
                else return_eff ())
     (then_eff (require (\<not> (\<not> xr_preflight_completed record \<or> xr_lock_tokens record = []))
                 ExecutionStorageError)
     (then_eff fault_point
     (bind_eff (lift_eff (intent_mutator request_id provider_operation provider_arguments_hash
                  (timestamp instant)
                  (timestamp (instant + post_dispatch_evidence_seconds timing)) record)) (\<lambda>record'.
      then_eff (write_unlocked record')
      (then_eff fault_point (return_eff record'))))))))"

definition commit_dispatch_intent ::
  "string \<Rightarrow> string \<Rightarrow> int \<Rightarrow> string \<Rightarrow> string \<Rightarrow> string \<Rightarrow> executor_timing \<Rightarrow> int \<Rightarrow> execution_record eff" where
  "commit_dispatch_intent task_id owner_id claim_generation request_id provider_operation
     provider_arguments_hash timing instant =
     then_eff (require (valid_identifier request_id) ValueError)
     (then_eff (require (valid_identifier provider_operation) ValueError)
     (then_eff (require (valid_sha256 provider_arguments_hash) ValueError)
     (then_eff (require (valid_executor_timing timing) ValueError)
     (execution_transaction
       (bind_eff (read_unlocked task_id) (\<lambda>found.
        case found of
          None \<Rightarrow> raise_eff ExecutionRecordCorrupt
        | Some record \<Rightarrow>
            commit_step owner_id claim_generation request_id provider_operation
              provider_arguments_hash timing instant record))))))"

section \<open>Mutators of the post-intent phases\<close>

definition replace_locks_mutator :: "lock_handle \<Rightarrow> stamp \<Rightarrow> mutator" where
  "replace_locks_mutator handle now_text record =
     (case xr_dispatch_intent record of
        None \<Rightarrow> Inl ExecutionStorageError
      | Some intent \<Rightarrow>
          append_event ''recovery_locks_transferred'' now_text [''observation_only'']
            (record\<lparr>xr_lock_tokens := recorded_tokens handle,
                    xr_dispatch_intent := Some (intent\<lparr>di_lock_tokens := recorded_tokens handle\<rparr>)\<rparr>))"

definition replace_recovery_locks ::
  "string \<Rightarrow> string \<Rightarrow> int \<Rightarrow> lock_handle \<Rightarrow> int \<Rightarrow> execution_record eff" where
  "replace_recovery_locks task_id owner_id claim_generation handle now =
     then_eff (require (valid_lock_handle handle) ValueError)
       (mutate_claimed task_id owner_id claim_generation (replace_locks_mutator handle (timestamp now)))"

definition dispatch_result_mutator :: "string \<Rightarrow> bool \<Rightarrow> string list \<Rightarrow> stamp \<Rightarrow> mutator" where
  "dispatch_result_mutator outcome provider_response_received diagnostic_codes now_text record =
     (if xr_dispatch_intent record = None \<or> xr_dispatch_count record \<noteq> 1 then Inl ExecutionStorageError
      else append_event ''dispatch_result_recorded'' now_text (bounded_diagnostics diagnostic_codes)
        (record\<lparr>xr_normalized_outcome := Some outcome,
                xr_task_state := the (NORMALIZED_OUTCOME_TO_TASK_STATE outcome),
                xr_state := (if outcome = ''dispatch_failed_confirmed'' then ''terminal''
                             else ''observation''),
                xr_terminal := (outcome = ''dispatch_failed_confirmed''),
                xr_provider_response_received := provider_response_received\<rparr>))"

definition record_dispatch_result ::
  "string \<Rightarrow> string \<Rightarrow> int \<Rightarrow> string \<Rightarrow> bool \<Rightarrow> string list \<Rightarrow> int \<Rightarrow> execution_record eff" where
  "record_dispatch_result task_id owner_id claim_generation outcome provider_response_received
     diagnostic_codes now =
     then_eff (require (outcome \<in> {''dispatch_failed_confirmed'', ''dispatch_indeterminate'', ''observing''})
                ValueError)
       (mutate_claimed task_id owner_id claim_generation
         (dispatch_result_mutator outcome provider_response_received diagnostic_codes (timestamp now)))"

definition observation_mutator :: "string \<Rightarrow> string list \<Rightarrow> stamp \<Rightarrow> mutator" where
  "observation_mutator outcome diagnostic_codes now_text record =
     (if xr_dispatch_intent record = None then Inl ExecutionStorageError
      else append_event ''observation_recorded'' now_text (bounded_diagnostics diagnostic_codes)
        (record\<lparr>xr_observation_attempts := xr_observation_attempts record + 1,
                xr_normalized_outcome := Some outcome,
                xr_task_state := the (NORMALIZED_OUTCOME_TO_TASK_STATE outcome),
                xr_state := ''observation''\<rparr>))"

definition record_observation ::
  "string \<Rightarrow> string \<Rightarrow> int \<Rightarrow> string \<Rightarrow> string list \<Rightarrow> int \<Rightarrow> execution_record eff" where
  "record_observation task_id owner_id claim_generation outcome diagnostic_codes now =
     then_eff (require (outcome \<in> {''observing'', ''verification_mismatch'', ''manual_review_required''})
                ValueError)
       (mutate_claimed task_id owner_id claim_generation
         (observation_mutator outcome diagnostic_codes (timestamp now)))"

text \<open>
  \<open>_bounded_evidence\<close>; indexing the empty tuple of a non-canonical review code is \<open>IndexError\<close>.
\<close>

definition bounded_evidence :: "execution_evidence \<Rightarrow> exn + execution_evidence" where
  "bounded_evidence e =
     (if \<not> (case ee_evidence_hash e of None \<Rightarrow> True | Some h \<Rightarrow> valid_sha256 h) \<or>
         \<not> (case ee_resulting_state_fingerprint e of None \<Rightarrow> True | Some h \<Rightarrow> valid_sha256 h)
      then Inl ValueError
      else case ee_manual_review_reason_code e of
          None \<Rightarrow> Inr (e\<lparr>ee_mismatch_fields := map_option bounded_diagnostics (ee_mismatch_fields e)\<rparr>)
        | Some code \<Rightarrow>
            (case bounded_diagnostics [code] of
               [] \<Rightarrow> Inl IndexError
             | c # _ \<Rightarrow> Inr (e\<lparr>ee_mismatch_fields := map_option bounded_diagnostics (ee_mismatch_fields e),
                              ee_manual_review_reason_code := Some c\<rparr>)))"

definition verification_mutator ::
  "string \<Rightarrow> bool \<Rightarrow> string list \<Rightarrow> execution_evidence \<Rightarrow> stamp \<Rightarrow> mutator" where
  "verification_mutator outcome terminal diagnostic_codes evidence now_text record =
     (if xr_dispatch_intent record = None then Inl ExecutionStorageError
      else case bounded_evidence evidence of
          Inl e \<Rightarrow> Inl e
        | Inr bounded \<Rightarrow>
            append_event ''verification_recorded'' now_text (bounded_diagnostics diagnostic_codes)
              (record\<lparr>xr_verification_attempts := xr_verification_attempts record + 1,
                      xr_normalized_outcome := Some outcome,
                      xr_task_state := the (NORMALIZED_OUTCOME_TO_TASK_STATE outcome),
                      xr_state := (if terminal then ''terminal'' else ''observation''),
                      xr_terminal := terminal, xr_evidence := bounded\<rparr>))"

definition verification_outcomes :: "string list" where
  "verification_outcomes =
    [''observing'', ''verification_mismatch'', ''succeeded_verified'', ''failed_post_dispatch'',
     ''manual_review_required'']"

definition record_verification ::
  "string \<Rightarrow> string \<Rightarrow> int \<Rightarrow> string \<Rightarrow> bool \<Rightarrow> string list \<Rightarrow> execution_evidence \<Rightarrow> int \<Rightarrow> execution_record eff" where
  "record_verification task_id owner_id claim_generation outcome terminal diagnostic_codes evidence now =
     then_eff (require (outcome \<in> set verification_outcomes) ValueError)
     (then_eff (require (terminal = (outcome \<noteq> ''observing'')) ValueError)
       (mutate_claimed task_id owner_id claim_generation
         (verification_mutator outcome terminal diagnostic_codes evidence (timestamp now))))"

definition yield_mutator :: "stamp \<Rightarrow> mutator" where
  "yield_mutator now_text record =
     (if xr_terminal record then Inl ExecutionStorageError
      else append_event ''execution_claim_yielded'' now_text [''observation_resume_allowed'']
        (record\<lparr>xr_claim_expires_at := now_text\<rparr>))"

definition yield_claim :: "string \<Rightarrow> string \<Rightarrow> int \<Rightarrow> int \<Rightarrow> execution_record eff" where
  "yield_claim task_id owner_id claim_generation now =
     mutate_claimed task_id owner_id claim_generation (yield_mutator (timestamp now))"

definition retry_mutator :: "string list \<Rightarrow> stamp \<Rightarrow> mutator" where
  "retry_mutator codes now_text record =
     (if xr_terminal record then Inl ExecutionStorageError
      else if xr_dispatch_intent record \<noteq> None \<or> xr_dispatch_count record \<noteq> 0 then
        Inl BlindRedispatchProhibited
      else if \<not> xr_preflight_completed record \<or> xr_lock_tokens record = [] then
        Inl ExecutionStorageError
      else append_event ''pre_intent_retry_required'' now_text codes
        (record\<lparr>xr_normalized_outcome := None, xr_state := ''preflight'',
                xr_task_state := ''preflight'', xr_claim_expires_at := now_text\<rparr>))"

definition record_pre_intent_retry ::
  "string \<Rightarrow> string \<Rightarrow> int \<Rightarrow> string \<Rightarrow> int \<Rightarrow> execution_record eff" where
  "record_pre_intent_retry task_id owner_id claim_generation diagnostic_code now =
     mutate_claimed task_id owner_id claim_generation
       (retry_mutator (bounded_diagnostics [diagnostic_code]) (timestamp now))"

section \<open>Terminal pre-dispatch classifications\<close>

definition terminalize_mutator :: "string \<Rightarrow> string list \<Rightarrow> stamp \<Rightarrow> mutator" where
  "terminalize_mutator outcome diagnostic_codes now_text record =
     (if xr_dispatch_intent record \<noteq> None then Inl BlindRedispatchProhibited
      else append_event ''pre_dispatch_terminal'' now_text (bounded_diagnostics diagnostic_codes)
        (terminal_pre_dispatch outcome record))"

definition terminalize_pre_dispatch ::
  "string \<Rightarrow> string \<Rightarrow> int \<Rightarrow> string \<Rightarrow> string list \<Rightarrow> int \<Rightarrow> execution_record eff" where
  "terminalize_pre_dispatch task_id owner_id claim_generation outcome diagnostic_codes now =
     then_eff (require (outcome \<in> set PRE_DISPATCH_TERMINAL_OUTCOMES) ValueError)
       (mutate_claimed task_id owner_id claim_generation
         (terminalize_mutator outcome diagnostic_codes (timestamp now)))"

definition terminalize_expired_claim_pre_dispatch ::
  "string \<Rightarrow> int \<Rightarrow> string list \<Rightarrow> int \<Rightarrow> execution_record eff" where
  "terminalize_expired_claim_pre_dispatch task_id expected_claim_generation diagnostic_codes instant =
     execution_transaction
       (bind_eff (read_unlocked task_id) (\<lambda>found.
        case found of
          None \<Rightarrow> raise_eff ExecutionRecordCorrupt
        | Some record \<Rightarrow>
            then_eff (require (\<not> (xr_dispatch_intent record \<noteq> None \<or> xr_dispatch_count record \<noteq> 0))
                       BlindRedispatchProhibited)
            (then_eff (require (\<not> xr_terminal record) ExecutionStorageError)
            (then_eff (require (\<not> (xr_claim_generation record \<noteq> expected_claim_generation \<or>
                                   claim_live record instant)) ExecutionClaimLost)
            (bind_eff (lift_eff (append_event ''pre_dispatch_terminal'' (timestamp instant)
                         (bounded_diagnostics diagnostic_codes)
                         (terminal_pre_dispatch ''preflight_rejected'' record))) (\<lambda>record'.
             then_eff (require (valid_execution_record record') ValueError)
             (then_eff (write_unlocked record') (return_eff record'))))))))"

definition materialize_expired_pre_dispatch ::
  "execution_identity \<Rightarrow> string \<Rightarrow> string \<Rightarrow> operation_target \<Rightarrow> string \<Rightarrow> string list \<Rightarrow> int \<Rightarrow>
   execution_record option eff" where
  "materialize_expired_pre_dispatch identity adapter_id operation target prepared_operation_hash
     diagnostic_codes now =
     then_eff (require (valid_execution_identity identity \<and> valid_identifier adapter_id \<and>
                 valid_identifier operation \<and> valid_identifier (target_type target) \<and>
                 valid_identifier (target_id target) \<and> valid_sha256 prepared_operation_hash) ValueError)
     (execution_transaction
       (bind_eff (read_unlocked (ei_task_id identity)) (\<lambda>found.
        if found \<noteq> None then return_eff None
        else
          (let now_text = timestamp now;
               record = terminal_pre_dispatch ''preflight_rejected''
                 (initial_record identity (adapter_id, operation, target, prepared_operation_hash)
                    now_text now_text) in
           bind_eff (lift_eff (append_event ''execution_started'' now_text [] record)) (\<lambda>started.
           bind_eff (lift_eff (append_event ''pre_dispatch_terminal'' now_text
                       (bounded_diagnostics diagnostic_codes) started)) (\<lambda>record'.
           then_eff (require (valid_execution_record record') ValueError)
           (then_eff (write_unlocked record') (return_eff (Some record')))))))))"

definition verified_no_dispatch_mutator :: "string \<Rightarrow> string \<Rightarrow> string list \<Rightarrow> stamp \<Rightarrow> mutator" where
  "verified_no_dispatch_mutator resulting_state_fingerprint evidence_hash diagnostic_codes now_text record =
     (if xr_dispatch_intent record \<noteq> None \<or> xr_dispatch_count record \<noteq> 0 \<or> xr_lock_tokens record = []
      then Inl ExecutionStorageError
      else case bounded_evidence (no_evidence\<lparr>ee_evidence_hash := Some evidence_hash,
                 ee_resulting_state_fingerprint := Some resulting_state_fingerprint\<rparr>) of
          Inl e \<Rightarrow> Inl e
        | Inr evidence \<Rightarrow>
            append_event ''preflight_noop_verified'' now_text (bounded_diagnostics diagnostic_codes)
              (record\<lparr>xr_preflight_completed := True,
                      xr_normalized_outcome := Some ''succeeded_verified'',
                      xr_task_state := ''succeeded_verified'', xr_state := ''terminal'',
                      xr_terminal := True, xr_evidence := evidence\<rparr>))"

definition terminalize_verified_no_dispatch ::
  "string \<Rightarrow> string \<Rightarrow> int \<Rightarrow> string \<Rightarrow> string \<Rightarrow> string list \<Rightarrow> int \<Rightarrow> execution_record eff" where
  "terminalize_verified_no_dispatch task_id owner_id claim_generation resulting_state_fingerprint
     evidence_hash diagnostic_codes now =
     then_eff (require (valid_sha256 resulting_state_fingerprint) ValueError)
     (then_eff (require (valid_sha256 evidence_hash) ValueError)
       (mutate_claimed task_id owner_id claim_generation
         (verified_no_dispatch_mutator resulting_state_fingerprint evidence_hash diagnostic_codes
            (timestamp now))))"

section \<open>Cancellation\<close>

definition cancel ::
  "string \<Rightarrow> int \<Rightarrow> string list \<Rightarrow> int option \<Rightarrow> bool \<Rightarrow> bool eff" where
  "cancel task_id now diagnostic_codes expected_claim_generation require_expired_claim =
     (let bounded = (if diagnostic_codes \<noteq> [] then bounded_diagnostics diagnostic_codes else []) in
      execution_transaction
       (bind_eff (read_unlocked task_id) (\<lambda>found.
        case found of
          None \<Rightarrow> return_eff False
        | Some record \<Rightarrow>
            if (case expected_claim_generation of None \<Rightarrow> False
                | Some g \<Rightarrow> xr_claim_generation record \<noteq> g) then return_eff False
            else if require_expired_claim \<and> claim_live record now then return_eff False
            else if xr_dispatch_intent record \<noteq> None then
              bind_eff (lift_eff (append_event ''cancellation_rejected'' (timestamp now)
                          [''dispatch_intent_exists''] record)) (\<lambda>record'.
              then_eff (write_unlocked record') (return_eff False))
            else if xr_terminal record then
              return_eff (xr_normalized_outcome record = Some ''cancelled_pre_dispatch'')
            else
              bind_eff (lift_eff (append_event ''execution_cancelled'' (timestamp now) bounded
                          (record\<lparr>xr_normalized_outcome := Some ''cancelled_pre_dispatch'',
                                  xr_task_state := ''cancelled_pre_dispatch'',
                                  xr_state := ''terminal'', xr_terminal := True\<rparr>))) (\<lambda>record'.
              then_eff (write_unlocked record')
              (then_eff (executor_metric ''cancellations'') (return_eff True))))))"

section \<open>Reading, listing and retention\<close>

definition get_execution :: "string \<Rightarrow> execution_record option eff" where
  "get_execution task_id = execution_transaction (read_unlocked task_id)"

text \<open>
  \<open>names\<close> is the directory listing, in file-name order; every name of a file of the store.
\<close>

fun load_records :: "string list \<Rightarrow> execution_record list eff" where
  "load_records [] = return_eff []"
| "load_records (name # names) =
     bind_eff (convert_os_error ExecutionRecordCorrupt fault_point) (\<lambda>_.
     bind_eff (read_eff execution_disk) (\<lambda>disk.
     case disk name of
       Some (EXECUTION_FILE record) \<Rightarrow>
         if valid_execution_record record then
           bind_eff (load_records names) (\<lambda>records. return_eff (record # records))
         else raise_eff ExecutionRecordCorrupt
     | _ \<Rightarrow> raise_eff ExecutionRecordCorrupt))"

definition list_executions :: "string list \<Rightarrow> execution_record list eff" where
  "list_executions names =
     execution_transaction
       (bind_eff (load_records names) (\<lambda>records.
        then_eff (require (distinct (map (\<lambda>r. ei_task_id (xr_identity r)) records)) ExecutionRecordCorrupt)
          (return_eff (sort_key xr_created_at records))))"

definition retention_expired :: "execution_record \<Rightarrow> int \<Rightarrow> bool" where
  "retention_expired record cutoff =
     (case parse_timestamp (xr_updated_at record) of
        None \<Rightarrow> False | Some updated \<Rightarrow> xr_terminal record \<and> updated < cutoff)"

fun cleanup_files :: "int \<Rightarrow> nat \<Rightarrow> string list \<Rightarrow> nat eff" where
  "cleanup_files cutoff removed [] = return_eff removed"
| "cleanup_files cutoff removed (name # names) =
     bind_eff (convert_os_error ExecutionRecordCorrupt fault_point) (\<lambda>_.
     bind_eff (read_eff execution_disk) (\<lambda>disk.
     case disk name of
       None \<Rightarrow> cleanup_files cutoff removed names
     | Some GARBLED_EXECUTION_FILE \<Rightarrow> raise_eff ExecutionRecordCorrupt
     | Some (EXECUTION_FILE record) \<Rightarrow>
         if \<not> valid_execution_record record then raise_eff ExecutionRecordCorrupt
         else if retention_expired record cutoff then
           bind_eff (convert_os_error ExecutionRecordCorrupt fault_point) (\<lambda>_.
           then_eff (update_eff (\<lambda>w. w\<lparr>execution_disk := (execution_disk w)(name := None)\<rparr>))
             (cleanup_files cutoff (removed + 1) names))
         else cleanup_files cutoff removed names))"

definition cleanup_executions :: "int \<Rightarrow> string list \<Rightarrow> int \<Rightarrow> nat eff" where
  "cleanup_executions retention_days names instant =
     execution_transaction (cleanup_files (instant - retention_days * seconds 86400) 0 names)"

end
