(* ===== verification/F3_Executor.thy ===== *)
theory F3_Executor
  imports F3_Lock_Operations F3_Persistence
begin

text \<open>
  The shared executor of \<open>f3/executor.py\<close>: it claims the task, acquires its locks, runs the adapter's
  preflight, lets the adapter dispatch behind the \<open>before_dispatch\<close> callback that commits the durable
  intent, and observes and verifies the result.  Adapters and the dispatch authority belong to other
  components; here they are records of their answers, and an adapter's dispatch is a script of
  callback invocations and provider calls.
\<close>

section \<open>Adapters and authorities\<close>

datatype dispatch_step = INVOKE_CALLBACK | SEND

text \<open>
  \<open>ds_steps\<close> is what the adapter does while the callback returns normally, \<open>ds_result\<close> what its
  \<open>dispatch\<close> then returns or raises, and \<open>ds_callback_failed\<close> what it does with an exception of the
  callback.
\<close>

record dispatch_script =
  ds_steps :: "dispatch_step list"
  ds_result :: "exn + dispatch_result"
  ds_callback_failed :: "exn \<Rightarrow> exn + dispatch_result"

record recovery_context =
  rc_dispatch_intent_recorded :: bool
  rc_provider_invocation_may_have_occurred :: bool
  rc_provider_response_received :: bool
  rc_prior_observation_attempts :: int
  rc_prior_verification_attempts :: int
  rc_post_dispatch_deadline :: stamp
  rc_dispatch_diagnostic_codes :: "string list"

record adapter =
  ad_capabilities :: adapter_capabilities
  ad_lock_requests :: "exn + lock_request list"
  ad_preflight :: "normalized_request list \<Rightarrow> exn + preflight_result"
  ad_dispatch :: dispatch_script
  ad_observe :: "dispatch_result \<Rightarrow> exn + observation_result"
  ad_recover :: "recovery_context \<Rightarrow> exn + observation_result"
  ad_verify :: "observation_result \<Rightarrow> exn + verification_result"

text \<open>\<open>True\<close> stands for an authority (a set of commits), \<open>False\<close> for \<open>None\<close>.\<close>

record dispatch_authority =
  da_acquire :: "preflight_result \<Rightarrow> exn + bool"
  da_consume :: "exn + bool"
  da_revalidate :: "exn + bool"
  da_release :: "exn + unit"
  da_finish :: "exn + unit"

record executor =
  ex_lock_timing :: lock_timing
  ex_executor_timing :: executor_timing
  ex_final_read_at_deadline :: bool

definition DISPATCH_AUTHORITY_REFUSAL_CODES :: "string list" where
  "DISPATCH_AUTHORITY_REFUSAL_CODES =
    [''dispatch_authority_unavailable'', ''core_requirement_unmapped'',
     ''core_authority_unavailable'', ''pending_signed_registry_admission'',
     ''core_authority_changed_since_plan'']"

definition authority_refusal_code :: "exn \<Rightarrow> string" where
  "authority_refusal_code e =
     (case e of
        DispatchAuthorityRefused code \<Rightarrow>
          if code \<in> set DISPATCH_AUTHORITY_REFUSAL_CODES then code else ''dispatch_authority_unavailable''
      | _ \<Rightarrow> ''dispatch_authority_unavailable'')"

definition STAGE_AUTHORITY_RETIRED_BEFORE_SEND :: string where
  "STAGE_AUTHORITY_RETIRED_BEFORE_SEND = ''dispatch_authority_retired_before_send''"

definition STAGE_BEFORE_DISPATCH_FAILED :: string where
  "STAGE_BEFORE_DISPATCH_FAILED = ''before_dispatch_failed''"

section \<open>Validation of what the adapter supplies\<close>

definition valid_prepared_operation :: "adapter_capabilities \<Rightarrow> prepared_operation \<Rightarrow> bool" where
  "valid_prepared_operation capabilities prepared \<longleftrightarrow>
     \<not> (po_contract_model prepared \<noteq> F3_ADAPTER_CONTRACT_MODEL \<or>
        cap_contract_model capabilities \<noteq> F3_ADAPTER_CONTRACT_MODEL \<or>
        po_adapter_id prepared \<noteq> cap_adapter_id capabilities \<or>
        po_operation prepared \<notin> set (cap_supported_operations capabilities) \<or>
        po_rollback_available prepared \<noteq> cap_rollback_supported capabilities) \<and>
     valid_identifier (po_adapter_id prepared) \<and>
     valid_identifier (po_operation prepared) \<and>
     valid_identifier (target_type (po_target prepared)) \<and>
     valid_identifier (target_id (po_target prepared)) \<and>
     valid_sha256 (po_current_state_fingerprint prepared) \<and>
     valid_sha256 (po_normalized_proposed_hash prepared) \<and>
     valid_sha256 (po_prepared_operation_hash prepared) \<and>
     valid_sha256 (po_policy_decision_hash prepared) \<and>
     valid_sha256 (po_approval_bundle_hash prepared) \<and>
     valid_sha256 (po_verification_contract_hash prepared) \<and>
     valid_identifier (po_verification_contract_model prepared) \<and>
     po_expected_effects prepared \<noteq> [] \<and>
     bounded_codes (po_expected_effects prepared) \<noteq> None"

definition optional_identifier :: "string option \<Rightarrow> bool" where
  "optional_identifier z = (case z of None \<Rightarrow> False | Some s \<Rightarrow> valid_identifier s)"

definition optional_sha256 :: "string option \<Rightarrow> bool" where
  "optional_sha256 z = (case z of None \<Rightarrow> False | Some s \<Rightarrow> valid_sha256 s)"

text \<open>\<open>_validate_preflight\<close>: the outcome string of an ineligible preflight, or \<open>None\<close>.\<close>

definition validate_preflight :: "prepared_operation \<Rightarrow> preflight_result \<Rightarrow> exn + string option" where
  "validate_preflight prepared preflight =
     (let outcome = map_option outcome_value (pf_outcome preflight);
          same_target = (pf_confirmed_target preflight = Some (po_target prepared)) in
      if \<not> pf_eligible preflight then
        (if outcome = Some ''succeeded_verified'' then
           (if \<not> same_target then Inl AdapterContractViolation
            else if \<not> (optional_identifier (pf_provider_contract preflight) \<and>
                       optional_identifier (pf_provider_operation preflight) \<and>
                       optional_sha256 (pf_provider_arguments_hash preflight) \<and>
                       optional_sha256 (pf_observed_state_fingerprint preflight) \<and>
                       optional_sha256 (pf_evidence_hash preflight)) then Inl AdapterContractViolation
            else if ''desired_state_already_reached'' \<notin> set (bounded_diagnostics (pf_diagnostic_codes preflight))
            then Inl AdapterContractViolation
            else Inr outcome)
         else if outcome \<notin> {Some ''preflight_rejected'', Some ''provider_unavailable_pre_dispatch'',
                            Some ''failed_pre_dispatch''} then Inl AdapterContractViolation
         else Inr outcome)
      else if outcome \<noteq> None then Inl AdapterContractViolation
      else if \<not> same_target then Inl AdapterContractViolation
      else if \<not> (optional_identifier (pf_provider_contract preflight) \<and>
                 optional_identifier (pf_provider_operation preflight) \<and>
                 optional_sha256 (pf_provider_arguments_hash preflight) \<and>
                 optional_sha256 (pf_evidence_hash preflight)) then Inl AdapterContractViolation
      else Inr None)"

text \<open>\<open>_pre_intent_refusal_codes\<close>\<close>

definition pre_intent_refusal_codes :: "dispatch_result \<Rightarrow> string list option" where
  "pre_intent_refusal_codes dispatch =
     (if outcome_value (dr_outcome dispatch) \<noteq> ''failed_pre_dispatch'' \<or>
         dr_dispatch_intent_recorded dispatch \<or>
         dr_mutating_invocation_count dispatch \<noteq> 0 \<or>
         dr_may_have_dispatched dispatch \<or>
         dr_provider_response_received dispatch
      then None
      else (case bounded_diagnostics (dr_diagnostic_codes dispatch) of [] \<Rightarrow> None | codes \<Rightarrow> Some codes))"

definition declares_callback_not_sent :: "dispatch_result \<Rightarrow> bool" where
  "declares_callback_not_sent dispatch =
     (case pre_intent_refusal_codes dispatch of
        None \<Rightarrow> False
      | Some codes \<Rightarrow>
          CALLBACK_FAILED_NOT_SENT_DECLARATION \<in> set codes \<and>
          dr_adapter_dispatch_count dispatch = 0 \<and> dr_provider_mutation_count dispatch = 0)"

definition validate_dispatch :: "dispatch_result \<Rightarrow> exn + unit" where
  "validate_dispatch dispatch =
     (if outcome_value (dr_outcome dispatch) \<notin>
           {''dispatch_failed_confirmed'', ''dispatch_indeterminate'', ''observing''}
      then Inl AdapterContractViolation
      else if \<not> dr_dispatch_intent_recorded dispatch \<or> dr_mutating_invocation_count dispatch \<noteq> 1 \<or>
              \<not> dr_may_have_dispatched dispatch
      then Inl AdapterContractViolation
      else Inr ())"

definition validate_observation :: "observation_result \<Rightarrow> exn + unit" where
  "validate_observation observation =
     (if outcome_value (ob_outcome observation) \<notin>
           {''observing'', ''verification_mismatch'', ''manual_review_required''}
      then Inl AdapterContractViolation
      else if ob_attempt_count observation < 1 then Inl AdapterContractViolation
      else if \<not> (case ob_evidence_hash observation of None \<Rightarrow> True | Some h \<Rightarrow> valid_sha256 h)
      then Inl ValueError
      else Inr ())"

definition validate_verification :: "verification_result \<Rightarrow> exn + string \<times> bool" where
  "validate_verification verification =
     (let outcome = outcome_value (vr_outcome verification) in
      if outcome \<notin> set verification_outcomes then Inl AdapterContractViolation
      else if vr_attempt_count verification < 1 then Inl AdapterContractViolation
      else if outcome = ''succeeded_verified'' \<and> vr_verified verification \<noteq> Some True
      then Inl AdapterContractViolation
      else if outcome = ''verification_mismatch'' \<and> vr_verified verification \<noteq> Some False
      then Inl AdapterContractViolation
      else if \<not> (case vr_evidence_hash verification of None \<Rightarrow> True | Some h \<Rightarrow> valid_sha256 h) \<or>
              \<not> (case vr_resulting_state_fingerprint verification of None \<Rightarrow> True | Some h \<Rightarrow> valid_sha256 h)
      then Inl ValueError
      else if outcome = ''manual_review_required'' \<and>
              (case vr_manual_review_reason_code verification of
                 None \<Rightarrow> True | Some c \<Rightarrow> bounded_diagnostics [c] = [])
      then Inl AdapterContractViolation
      else Inr (outcome, outcome \<noteq> ''observing''))"

section \<open>Results\<close>

text \<open>\<open>_result\<close>\<close>

definition result_of :: "execution_record \<Rightarrow> bool \<Rightarrow> string list \<Rightarrow> exn + executor_result" where
  "result_of record duplicate extra_codes =
     (let outcome = (case xr_normalized_outcome record of
             Some s \<Rightarrow> s
           | None \<Rightarrow> if xr_dispatch_intent record \<noteq> None then ''dispatch_indeterminate'' else ''observing'') in
      case (if xr_terminal record then Some (xr_task_state record)
            else NORMALIZED_OUTCOME_TO_TASK_STATE outcome) of
        None \<Rightarrow> Inl (OtherException ''KeyError'')
      | Some task_state \<Rightarrow>
          (let result =
             \<lparr>er_task_id = ei_task_id (xr_identity record),
              er_attempt_id = ei_attempt_id (xr_identity record),
              er_outcome = outcome, er_task_state = task_state, er_terminal = xr_terminal record,
              er_dispatch_intent_recorded = (xr_dispatch_intent record \<noteq> None),
              er_dispatch_count = xr_dispatch_count record,
              er_provider_response_received = xr_provider_response_received record,
              er_observation_required = (xr_dispatch_intent record \<noteq> None \<and> \<not> xr_terminal record),
              er_redispatch_prohibited = (xr_dispatch_intent record \<noteq> None),
              er_lock_keys = bytewise (map rt_key (xr_lock_tokens record)),
              er_diagnostic_codes = bounded_diagnostics extra_codes,
              er_duplicate_execution = duplicate\<rparr> in
           if valid_executor_result result then Inr result else Inl ValueError))"

definition result :: "execution_record \<Rightarrow> executor_result eff" where
  "result record = lift_eff (result_of record False [])"

definition owner_of :: "execution_identity \<Rightarrow> prepared_operation \<Rightarrow> lock_owner" where
  "owner_of identity prepared =
     \<lparr>lo_owner_id = ei_owner_id identity, lo_task_id = ei_task_id identity,
      lo_plan_id = ei_plan_id identity, lo_operation_id = po_operation prepared,
      lo_attempt_id = ei_attempt_id identity\<rparr>"

section \<open>Locks of a run\<close>

definition release_safely :: "lock_handle \<Rightarrow> unit eff" where
  "release_safely handle =
     try_else_eff (release handle False)
       (\<lambda>e. if is_DurableLockError e then return_eff () else raise_eff e)
       (\<lambda>_. return_eff ())"

definition cancelled_check :: "string \<Rightarrow> bool eff" where
  "cancelled_check task_id =
     try_else_eff (get_execution task_id)
       (\<lambda>e. if is_ExecutionStorageError e then return_eff True else raise_eff e)
       (\<lambda>found. return_eff (case found of None \<Rightarrow> False
          | Some record \<Rightarrow> xr_normalized_outcome record = Some ''cancelled_pre_dispatch''))"

text \<open>The handle over the store's records for recorded tokens; \<open>None\<close> when one is missing or held.\<close>

definition record_for :: "lock_record list \<Rightarrow> recorded_token \<Rightarrow> lock_record option" where
  "record_for records t =
     find (\<lambda>r. lr_key r = rt_key t \<and> lr_generation r = rt_generation t \<and> \<not> lr_conflict_hold r) records"

definition handle_for :: "lock_timing \<Rightarrow> recorded_token list \<Rightarrow> lock_record list \<Rightarrow> lock_handle" where
  "handle_for timing tokens selected =
     \<lparr>lh_owner = lr_owner (hd selected),
      lh_tokens = map (\<lambda>t. \<lparr>tk_key = rt_key t, tk_generation = rt_generation t, tk_mode = rt_mode t\<rparr>) tokens,
      lh_acquired_at = min_list (map lr_acquired_at selected),
      lh_lease_expires_at = min_list (map lr_lease_expires_at selected), lh_timing = timing\<rparr>"

definition one_owner_id :: "lock_record list \<Rightarrow> bool" where
  "one_owner_id selected \<longleftrightarrow> card (set (map (\<lambda>r. lo_owner_id (lr_owner r)) selected)) = 1"

definition settle_terminal_locks :: "executor \<Rightarrow> execution_record \<Rightarrow> unit eff" where
  "settle_terminal_locks ex record =
     (if xr_lock_tokens record = [] then return_eff ()
      else if xr_normalized_outcome record = Some ''manual_review_required'' then return_eff ()
      else bind_eff records_of_store (\<lambda>records.
        let candidates = map (record_for records) (xr_lock_tokens record) in
        if None \<in> set candidates then return_eff ()
        else if \<not> one_owner_id (map the candidates) then return_eff ()
        else release_safely (handle_for (ex_lock_timing ex) (xr_lock_tokens record) (map the candidates))))"

definition release_expired_pre_dispatch_locks :: "execution_identity \<Rightarrow> prepared_operation \<Rightarrow> unit eff" where
  "release_expired_pre_dispatch_locks identity prepared =
     bind_eff now_reading (\<lambda>now.
     bind_eff (expired_records now) (\<lambda>records.
     let mine = filter (\<lambda>r. lo_task_id (lr_owner r) = ei_task_id identity \<and>
                            lo_plan_id (lr_owner r) = ei_plan_id identity \<and>
                            lo_operation_id (lr_owner r) = po_operation prepared \<and>
                            lo_attempt_id (lr_owner r) = ei_attempt_id identity) records in
     if mine = [] then return_eff ()
     else bind_eff now_reading (\<lambda>now'.
       then_eff (recover_expired
           (map (\<lambda>r. (record_identity r,
                      \<lparr>sd_action = RELEASE, sd_reason_code = ''pre_dispatch_process_reconstruction''\<rparr>)) mine)
           None None now')
         (return_eff ()))))"

section \<open>Manual review and yielding\<close>

definition timed :: "(int \<Rightarrow> 'a eff) \<Rightarrow> 'a eff" where
  "timed f = bind_eff now_reading f"

definition claim_args :: "execution_identity \<Rightarrow> execution_claim \<Rightarrow> (string \<Rightarrow> string \<Rightarrow> int \<Rightarrow> 'a) \<Rightarrow> 'a" where
  "claim_args identity cl f = f (ei_task_id identity) (ei_owner_id identity) (cl_claim_generation cl)"

definition manual_review ::
  "execution_claim \<Rightarrow> execution_identity \<Rightarrow> lock_handle \<Rightarrow> string \<Rightarrow> executor_result eff" where
  "manual_review cl identity handle reason_code =
     bind_eff (timed (claim_args identity cl record_verification ''manual_review_required'' True
                 [reason_code] (no_evidence\<lparr>ee_manual_review_reason_code := Some reason_code\<rparr>)))
       (\<lambda>record.
     then_eff (executor_metric ''manual_review_transitions'')
     (then_eff (catch_eff (promote_to_conflict_hold handle ''manual_review_unresolved_dispatch'')
                 (\<lambda>e. if is_DurableLockError e then return_eff () else raise_eff e))
       (result record)))"

definition terminal_pre_dispatch_record ::
  "execution_claim \<Rightarrow> execution_identity \<Rightarrow> string \<Rightarrow> string list \<Rightarrow> execution_record eff" where
  "terminal_pre_dispatch_record cl identity outcome codes =
     timed (claim_args identity cl terminalize_pre_dispatch outcome codes)"

definition yield_and_result :: "execution_claim \<Rightarrow> execution_identity \<Rightarrow> executor_result eff" where
  "yield_and_result cl identity =
     bind_eff (timed (claim_args identity cl yield_claim)) result"

definition renewal_failure_result ::
  "execution_claim \<Rightarrow> execution_identity \<Rightarrow> lock_handle \<Rightarrow> executor_result option eff" where
  "renewal_failure_result cl identity handle =
     try_else_eff (timed (renew handle))
       (\<lambda>e. if is_DurableLockError e then
              bind_eff (manual_review cl identity handle ''lock_renewal_failed'') (\<lambda>r. return_eff (Some r))
            else raise_eff e)
       (\<lambda>_. return_eff None)"

text \<open>\<open>_renewal_failure_result\<close> followed by \<open>_yield_and_result\<close>, as every continuing path does.\<close>

definition renew_and_yield ::
  "execution_claim \<Rightarrow> execution_identity \<Rightarrow> lock_handle \<Rightarrow> executor_result eff" where
  "renew_and_yield cl identity handle =
     bind_eff (renewal_failure_result cl identity handle) (\<lambda>failure.
     case failure of Some r \<Rightarrow> return_eff r | None \<Rightarrow> yield_and_result cl identity)"

definition deadline_expired :: "execution_record \<Rightarrow> bool eff" where
  "deadline_expired record =
     (case xr_dispatch_intent record of
        None \<Rightarrow> return_eff False
      | Some intent \<Rightarrow>
          (case parse_timestamp (di_evidence_deadline intent) of
             None \<Rightarrow> raise_eff ValueError
           | Some deadline \<Rightarrow> bind_eff now_reading (\<lambda>now. return_eff (deadline \<le> now))))"

section \<open>The lease renewer\<close>

text \<open>
  \<open>_LeaseRenewer\<close> renews in the background while the run awaits its adapter; \<open>renewals\<close> says how often
  it gets to renew during each await.
\<close>

fun renewer_rounds :: "nat \<Rightarrow> unit eff" where
  "renewer_rounds 0 = return_eff ()"
| "renewer_rounds (Suc n) =
     bind_eff (read_eff run_state) (\<lambda>rv.
     case rv_renewing rv of
       None \<Rightarrow> return_eff ()
     | Some handle \<Rightarrow>
         try_else_eff (timed (renew handle))
           (\<lambda>e. update_eff (\<lambda>w. w\<lparr>run_state := (run_state w)\<lparr>rv_renewing := None,
                  rv_renewer_error := (if is_DurableLockError e then None else Some e)\<rparr>\<rparr>))
           (\<lambda>renewed.
              then_eff (update_eff (\<lambda>w. w\<lparr>run_state := (run_state w)\<lparr>rv_renewing := Some renewed\<rparr>\<rparr>))
                (renewer_rounds n)))"

definition await_point :: "unit eff" where
  "await_point w =
     (case renewals w of
        [] \<Rightarrow> (Inr (), w)
      | n # ns \<Rightarrow> renewer_rounds n (w\<lparr>renewals := ns\<rparr>))"

definition renewer_start :: "lock_handle \<Rightarrow> unit eff" where
  "renewer_start handle =
     update_eff (\<lambda>w. w\<lparr>run_state := (run_state w)\<lparr>rv_renewing := Some handle, rv_renewer_error := None\<rparr>\<rparr>)"

text \<open>\<open>stop\<close> awaits the task, which raises an exception it ended with.\<close>

definition renewer_stop :: "unit eff" where
  "renewer_stop =
     bind_eff (read_eff run_state) (\<lambda>rv.
     then_eff (update_eff (\<lambda>w. w\<lparr>run_state := (run_state w)\<lparr>rv_renewing := None, rv_renewer_error := None\<rparr>\<rparr>))
       (case rv_renewer_error rv of None \<Rightarrow> return_eff () | Some e \<Rightarrow> raise_eff e))"

section \<open>Observation and verification\<close>

definition recovery_context_of :: "execution_record \<Rightarrow> dispatch_intent \<Rightarrow> recovery_context" where
  "recovery_context_of record intent =
     \<lparr>rc_dispatch_intent_recorded = True, rc_provider_invocation_may_have_occurred = True,
      rc_provider_response_received = xr_provider_response_received record,
      rc_prior_observation_attempts = xr_observation_attempts record,
      rc_prior_verification_attempts = xr_verification_attempts record,
      rc_post_dispatch_deadline = di_evidence_deadline intent,
      rc_dispatch_diagnostic_codes =
        (case find (\<lambda>ev. ev_event_type ev = ''dispatch_result_recorded'') (rev (xr_events record)) of
           None \<Rightarrow> [] | Some ev \<Rightarrow> ev_diagnostic_codes ev)\<rparr>"

text \<open>The observation block: an early result, or the observation to verify.\<close>

definition observe_block ::
  "executor \<Rightarrow> adapter \<Rightarrow> execution_claim \<Rightarrow> execution_identity \<Rightarrow> lock_handle \<Rightarrow> dispatch_result option \<Rightarrow>
   execution_record \<Rightarrow> dispatch_intent \<Rightarrow> (executor_result + observation_result) eff" where
  "observe_block ex ad cl identity handle dispatch record intent =
     then_eff await_point
     (bind_eff (lift_eff (case dispatch of
                  None \<Rightarrow> ad_recover ad (recovery_context_of record intent)
                | Some d \<Rightarrow> ad_observe ad d)) (\<lambda>observation.
      then_eff (lift_eff (validate_observation observation))
      (then_eff (executor_metric ''observations'')
      (bind_eff (timed (claim_args identity cl record_observation (outcome_value (ob_outcome observation))
                   (bounded_diagnostics (ob_diagnostic_codes observation)))) (\<lambda>record'.
      then_eff fault_point
      (if outcome_value (ob_outcome observation) = ''manual_review_required'' then
         bind_eff (manual_review cl identity handle ''adapter_recovery_requires_manual_review'')
           (\<lambda>r. return_eff (Inl r))
       else if \<not> ob_observation_complete observation then
         bind_eff (if max_observation_attempts (ex_executor_timing ex) \<le> xr_observation_attempts record'
                   then return_eff True else deadline_expired record') (\<lambda>exhausted.
         if exhausted then
           bind_eff (manual_review cl identity handle ''observation_evidence_exhausted'')
             (\<lambda>r. return_eff (Inl r))
         else bind_eff (renew_and_yield cl identity handle) (\<lambda>r. return_eff (Inl r)))
       else return_eff (Inr observation)))))))"

definition observe_failed ::
  "executor \<Rightarrow> execution_claim \<Rightarrow> execution_identity \<Rightarrow> lock_handle \<Rightarrow> executor_result eff" where
  "observe_failed ex cl identity handle =
     bind_eff (get_execution (ei_task_id identity)) (\<lambda>found.
     case found of
       None \<Rightarrow> raise_eff OperationExecutorError
     | Some record \<Rightarrow>
         bind_eff (if max_observation_attempts (ex_executor_timing ex) \<le> xr_observation_attempts record
                   then return_eff True else deadline_expired record) (\<lambda>exhausted.
         if exhausted then manual_review cl identity handle ''observation_failed_exhausted''
         else
           then_eff (timed (claim_args identity cl record_observation ''observing'' [''observation_failed'']))
             (renew_and_yield cl identity handle)))"

definition verification_evidence :: "verification_result \<Rightarrow> execution_evidence" where
  "verification_evidence v =
     \<lparr>ee_evidence_hash = vr_evidence_hash v,
      ee_resulting_state_fingerprint = vr_resulting_state_fingerprint v,
      ee_mismatch_fields = (if vr_mismatch_fields v = [] then None else Some (vr_mismatch_fields v)),
      ee_manual_review_reason_code = vr_manual_review_reason_code v\<rparr>"

definition verify_block ::
  "executor \<Rightarrow> adapter \<Rightarrow> execution_claim \<Rightarrow> execution_identity \<Rightarrow> lock_handle \<Rightarrow> observation_result \<Rightarrow>
   executor_result eff" where
  "verify_block ex ad cl identity handle observation =
     then_eff await_point
     (bind_eff (lift_eff (ad_verify ad observation)) (\<lambda>verification.
      bind_eff (lift_eff (validate_verification verification)) (\<lambda>(outcome, terminal).
      bind_eff (timed (claim_args identity cl record_verification outcome terminal
                  [if outcome = ''succeeded_verified'' then ''exact_readback_verified''
                   else ''exact_readback_not_verified''] (verification_evidence verification))) (\<lambda>record.
      then_eff (if outcome = ''succeeded_verified'' then executor_metric ''verification_successes''
                else if outcome = ''verification_mismatch'' then executor_metric ''verification_mismatches''
                else return_eff ())
      (then_eff fault_point
      (if terminal then
         then_eff
           (if outcome = ''manual_review_required'' then
              then_eff (executor_metric ''manual_review_transitions'')
                (promote_to_conflict_hold handle ''manual_review_unresolved_dispatch'')
            else release_safely handle)
           (result record)
       else
         bind_eff (if ex_final_read_at_deadline ex then deadline_expired record else return_eff False)
           (\<lambda>decided.
          if decided then manual_review cl identity handle ''post_dispatch_evidence_deadline_expired''
          else renew_and_yield cl identity handle)))))))"

definition verify_failed ::
  "executor \<Rightarrow> execution_claim \<Rightarrow> execution_identity \<Rightarrow> lock_handle \<Rightarrow> executor_result eff" where
  "verify_failed ex cl identity handle =
     bind_eff (get_execution (ei_task_id identity)) (\<lambda>found.
     case found of
       None \<Rightarrow> raise_eff OperationExecutorError
     | Some record \<Rightarrow>
         bind_eff (if max_verification_attempts (ex_executor_timing ex) \<le> xr_verification_attempts record
                   then return_eff True else deadline_expired record) (\<lambda>exhausted.
         if exhausted then manual_review cl identity handle ''verification_failed_exhausted''
         else
           then_eff (timed (claim_args identity cl record_verification ''observing'' False
                       [''verification_failed''] no_evidence))
             (renew_and_yield cl identity handle)))"

text \<open>\<open>except SimulatedProcessLoss: raise\<close> before \<open>except Exception\<close>.\<close>

definition on_exception :: "'a eff \<Rightarrow> exn \<Rightarrow> 'a eff" where
  "on_exception h e = (if is_Exception e then h else raise_eff e)"

definition observe_and_verify ::
  "executor \<Rightarrow> adapter \<Rightarrow> execution_claim \<Rightarrow> execution_identity \<Rightarrow> lock_handle \<Rightarrow> dispatch_result option \<Rightarrow>
   executor_result eff" where
  "observe_and_verify ex ad cl identity handle dispatch =
     try_else_eff (timed (\<lambda>now. validate_handle handle now False))
       (\<lambda>e. if is_DurableLockError e then manual_review cl identity handle ''lock_ownership_uncertain''
            else raise_eff e)
       (\<lambda>_.
        bind_eff (get_execution (ei_task_id identity)) (\<lambda>found.
        case found of
          None \<Rightarrow> raise_eff OperationExecutorError
        | Some record \<Rightarrow>
          (case xr_dispatch_intent record of
             None \<Rightarrow> raise_eff OperationExecutorError
           | Some intent \<Rightarrow>
             bind_eff (if ex_final_read_at_deadline ex then return_eff False else deadline_expired record)
               (\<lambda>late.
             if late then manual_review cl identity handle ''post_dispatch_evidence_deadline_expired''
             else
               bind_eff (catch_eff (observe_block ex ad cl identity handle dispatch record intent)
                   (on_exception (bind_eff (observe_failed ex cl identity handle) (\<lambda>r. return_eff (Inl r)))))
                 (\<lambda>outcome.
                  case outcome of
                    Inl r \<Rightarrow> return_eff r
                  | Inr observation \<Rightarrow>
                      catch_eff (verify_block ex ad cl identity handle observation)
                        (on_exception (verify_failed ex cl identity handle)))))))"

section \<open>Recovery of a run whose intent is durable\<close>

text \<open>
  \<open>_recovery_handle\<close>: the run's own live handle, the handle of the expired locks transferred to it, or
  \<open>None\<close> when the locks are missing, held, or another owner's lease still runs.
\<close>

definition transfer_for_observation :: "lock_record \<Rightarrow> (string \<times> int) \<times> stale_recovery_decision" where
  "transfer_for_observation r =
     (record_identity r,
      \<lparr>sd_action = TRANSFER_FOR_OBSERVATION, sd_reason_code = ''process_reconstruction_observation''\<rparr>)"

definition transfer_expired_locks ::
  "executor \<Rightarrow> execution_claim \<Rightarrow> execution_identity \<Rightarrow> prepared_operation \<Rightarrow> lock_record list \<Rightarrow>
   lock_handle option eff" where
  "transfer_expired_locks ex cl identity prepared selected =
     bind_eff (timed (recover_expired (map transfer_for_observation selected)
                 (Some (owner_of identity prepared)) (Some (ex_lock_timing ex)))) (\<lambda>recovery.
     case sr_transferred_handle recovery of
       None \<Rightarrow> return_eff None
     | Some handle \<Rightarrow>
         then_eff (timed (claim_args identity cl replace_recovery_locks handle))
           (return_eff (Some handle)))"

definition recovery_handle ::
  "executor \<Rightarrow> execution_claim \<Rightarrow> execution_identity \<Rightarrow> prepared_operation \<Rightarrow> lock_handle option eff" where
  "recovery_handle ex cl identity prepared =
     bind_eff records_of_store (\<lambda>records.
     let tokens = xr_lock_tokens (cl_record cl); candidates = map (record_for records) tokens in
     if tokens = [] then return_eff None
     else if None \<in> set candidates then return_eff None
     else
       (let selected = map the candidates; handle = handle_for (ex_lock_timing ex) tokens selected in
        then_eff (require (one_owner_id selected) OperationExecutorError)
          (try_else_eff (timed (\<lambda>now. validate_handle handle now False))
             (\<lambda>e. if e = LockLeaseExpired then transfer_expired_locks ex cl identity prepared selected
                  else if e = LockOwnershipError then return_eff None
                  else raise_eff e)
             (\<lambda>_. return_eff
                (if lo_owner_id (lh_owner handle) \<noteq> ei_owner_id identity then None else Some handle)))))"

definition recover_claimed ::
  "executor \<Rightarrow> adapter \<Rightarrow> execution_claim \<Rightarrow> execution_identity \<Rightarrow> prepared_operation \<Rightarrow>
   executor_result eff" where
  "recover_claimed ex ad cl identity prepared =
     then_eff (require (xr_dispatch_intent (cl_record cl) \<noteq> None) OperationExecutorError)
     (bind_eff (recovery_handle ex cl identity prepared) (\<lambda>found.
      case found of
        None \<Rightarrow>
          bind_eff (timed (claim_args identity cl yield_claim)) (\<lambda>yielded.
            lift_eff (result_of yielded True [''recovery_waiting_for_lock_lease'']))
      | Some handle \<Rightarrow> observe_and_verify ex ad cl identity handle None))"

section \<open>The irreversible boundary\<close>

text \<open>Calls to the approval recorder and to the authority are logged when they are made.\<close>

definition consume_approval :: "exn + unit \<Rightarrow> unit eff" where
  "consume_approval approval =
     then_eff await_point
     (then_eff (update_eff (\<lambda>w. w\<lparr>approvals_consumed := approvals_consumed w + 1\<rparr>))
       (lift_eff approval))"

definition authority_call :: "string \<Rightarrow> exn + 'a \<Rightarrow> 'a eff" where
  "authority_call name answer =
     then_eff (update_eff (\<lambda>w. w\<lparr>authority_log := authority_log w @ [name]\<rparr>)) (lift_eff answer)"

definition set_run :: "(run_variables \<Rightarrow> run_variables) \<Rightarrow> unit eff" where
  "set_run f = update_eff (\<lambda>w. w\<lparr>run_state := f (run_state w)\<rparr>)"

text \<open>The part of \<open>before_dispatch\<close> that may still refuse without a durable trace.\<close>

definition before_intent ::
  "execution_identity \<Rightarrow> lock_handle \<Rightarrow> exn + unit \<Rightarrow> dispatch_authority option \<Rightarrow> unit eff" where
  "before_intent identity handle approval authority =
     bind_eff (read_eff run_state) (\<lambda>rv.
     then_eff (require (\<not> rv_boundary_invoked rv) AdapterContractViolation)
     (then_eff (set_run (\<lambda>rv. rv\<lparr>rv_boundary_invoked := True\<rparr>))
     (bind_eff (get_execution (ei_task_id identity)) (\<lambda>current.
      case current of
        None \<Rightarrow> raise_eff ExecutionStorageError
      | Some record \<Rightarrow>
          then_eff (require (\<not> xr_terminal record) ExecutionStorageError)
          (then_eff (timed (\<lambda>now. validate_handle handle now False))
          (then_eff (set_run (\<lambda>rv. rv\<lparr>rv_approval_started := True\<rparr>))
          (then_eff (consume_approval approval)
          (then_eff (set_run (\<lambda>rv. rv\<lparr>rv_approval_succeeded := True\<rparr>))
          (then_eff fault_point
            (case authority of
               None \<Rightarrow> return_eff ()
             | Some da \<Rightarrow>
                 bind_eff (authority_call ''consume'' (da_consume da)) (\<lambda>commits.
                 then_eff (set_run (\<lambda>rv. rv\<lparr>rv_committed := commits\<rparr>))
                 (then_eff (require commits OperationExecutorError) fault_point))))))))))))"

text \<open>The part after the intent is durable: a failure is remembered with its stage and raised again.\<close>

definition remember_stage :: "string \<Rightarrow> 'a eff \<Rightarrow> 'a eff" where
  "remember_stage stage m =
     catch_eff m (\<lambda>e. if is_Exception e
       then then_eff (set_run (\<lambda>rv. rv\<lparr>rv_callback_failed := Some stage\<rparr>)) (raise_eff e)
       else raise_eff e)"

definition after_intent :: "dispatch_authority option \<Rightarrow> unit eff" where
  "after_intent authority =
     bind_eff
       (remember_stage STAGE_BEFORE_DISPATCH_FAILED
         (then_eff (executor_metric ''durable_intents_committed'')
         (then_eff (executor_metric ''dispatch_attempts'')
         (then_eff (set_run (\<lambda>rv. rv\<lparr>rv_metric_recorded := True\<rparr>))
         (then_eff fault_point
           (case authority of
              None \<Rightarrow> return_eff True
            | Some da \<Rightarrow>
                bind_eff (read_eff run_state) (\<lambda>rv.
                then_eff (require (rv_committed rv) OperationExecutorError)
                  (authority_call ''revalidate'' (da_revalidate da)))))))))
       (\<lambda>valid. if valid then return_eff ()
         else remember_stage STAGE_AUTHORITY_RETIRED_BEFORE_SEND (raise_eff OperationExecutorError))"

definition before_dispatch ::
  "executor \<Rightarrow> execution_claim \<Rightarrow> execution_identity \<Rightarrow> lock_handle \<Rightarrow> preflight_result \<Rightarrow> exn + unit \<Rightarrow>
   dispatch_authority option \<Rightarrow> unit eff" where
  "before_dispatch ex cl identity handle preflight approval authority =
     then_eff (before_intent identity handle approval authority)
     (then_eff (timed (claim_args identity cl commit_dispatch_intent (ei_request_id identity)
                  (the (pf_provider_operation preflight)) (the (pf_provider_arguments_hash preflight))
                  (ex_executor_timing ex)))
       (after_intent authority))"

section \<open>Dispatch\<close>

text \<open>The adapter's \<open>dispatch\<close>: its steps in order until the callback raises.\<close>

fun run_steps :: "string \<Rightarrow> unit eff \<Rightarrow> dispatch_step list \<Rightarrow> exn option eff" where
  "run_steps task_id callback [] = return_eff None"
| "run_steps task_id callback (INVOKE_CALLBACK # steps) =
     then_eff await_point
       (try_else_eff callback
         (\<lambda>e. if is_Exception e then return_eff (Some e) else raise_eff e)
         (\<lambda>_. run_steps task_id callback steps))"
| "run_steps task_id callback (SEND # steps) =
     then_eff await_point
     (then_eff fault_point
     (then_eff (update_eff (\<lambda>w. w\<lparr>provider_calls := provider_calls w @ [task_id]\<rparr>))
     (then_eff fault_point (run_steps task_id callback steps))))"

definition adapter_dispatch :: "adapter \<Rightarrow> string \<Rightarrow> unit eff \<Rightarrow> dispatch_result eff" where
  "adapter_dispatch ad task_id callback =
     bind_eff (run_steps task_id callback (ds_steps (ad_dispatch ad))) (\<lambda>failed.
     lift_eff (case failed of None \<Rightarrow> ds_result (ad_dispatch ad)
                | Some e \<Rightarrow> ds_callback_failed (ad_dispatch ad) e))"

definition dispatch_accepted ::
  "executor \<Rightarrow> adapter \<Rightarrow> execution_claim \<Rightarrow> execution_identity \<Rightarrow> lock_handle \<Rightarrow> dispatch_result \<Rightarrow>
   executor_result eff" where
  "dispatch_accepted ex ad cl identity handle dispatch =
     then_eff (lift_eff (validate_dispatch dispatch))
     (bind_eff (get_execution (ei_task_id identity)) (\<lambda>persisted.
      then_eff (require (case persisted of None \<Rightarrow> False | Some r \<Rightarrow> xr_dispatch_intent r \<noteq> None)
                 AdapterContractViolation)
      (let outcome = outcome_value (dr_outcome dispatch) in
       bind_eff (timed (claim_args identity cl record_dispatch_result outcome
                   (dr_provider_response_received dispatch)
                   (bounded_diagnostics (dr_diagnostic_codes dispatch)))) (\<lambda>record.
       if outcome = ''dispatch_failed_confirmed'' then
         then_eff (executor_metric ''confirmed_dispatch_failures'')
           (then_eff (release_safely handle) (result record))
       else then_eff fault_point (observe_and_verify ex ad cl identity handle (Some dispatch))))))"

definition dispatch_not_sent ::
  "executor \<Rightarrow> adapter \<Rightarrow> execution_claim \<Rightarrow> execution_identity \<Rightarrow> lock_handle \<Rightarrow> dispatch_result \<Rightarrow>
   executor_result eff" where
  "dispatch_not_sent ex ad cl identity handle dispatch =
     bind_eff (read_eff run_state) (\<lambda>rv.
     case rv_callback_failed rv of
       None \<Rightarrow> dispatch_accepted ex ad cl identity handle dispatch
     | Some stage \<Rightarrow>
         if \<not> declares_callback_not_sent dispatch then
           dispatch_accepted ex ad cl identity handle dispatch
         else
           bind_eff (get_execution (ei_task_id identity)) (\<lambda>persisted.
           if (case persisted of None \<Rightarrow> False
               | Some r \<Rightarrow> xr_dispatch_intent r \<noteq> None \<and> \<not> xr_terminal r) then
             bind_eff (timed (claim_args identity cl record_dispatch_result ''dispatch_failed_confirmed''
                         False [PROVIDER_CALL_NOT_SENT, stage])) (\<lambda>record.
             then_eff (executor_metric ''confirmed_dispatch_failures'')
               (then_eff (release_safely handle) (result record)))
           else dispatch_accepted ex ad cl identity handle dispatch))"

definition dispatch_block ::
  "executor \<Rightarrow> adapter \<Rightarrow> execution_claim \<Rightarrow> execution_identity \<Rightarrow> lock_handle \<Rightarrow> preflight_result \<Rightarrow>
   exn + unit \<Rightarrow> dispatch_authority option \<Rightarrow> executor_result eff" where
  "dispatch_block ex ad cl identity handle preflight approval authority =
     bind_eff (adapter_dispatch ad (ei_task_id identity)
                 (before_dispatch ex cl identity handle preflight approval authority)) (\<lambda>dispatch.
     bind_eff (read_eff run_state) (\<lambda>rv.
     case (if rv_boundary_invoked rv then None else pre_intent_refusal_codes dispatch) of
       None \<Rightarrow> dispatch_not_sent ex ad cl identity handle dispatch
     | Some refusal \<Rightarrow>
         bind_eff (get_execution (ei_task_id identity)) (\<lambda>persisted.
         if (case persisted of None \<Rightarrow> False
             | Some r \<Rightarrow> xr_dispatch_intent r = None \<and> \<not> xr_terminal r) then
           bind_eff (terminal_pre_dispatch_record cl identity ''failed_pre_dispatch'' refusal) (\<lambda>record.
           then_eff (release_safely handle) (result record))
         else dispatch_not_sent ex ad cl identity handle dispatch)))"

definition failure_code :: "run_variables \<Rightarrow> string" where
  "failure_code rv =
     (if rv_approval_succeeded rv then ''approval_consumed_intent_not_recorded''
      else if rv_approval_started rv then ''approval_consumption_failed''
      else ''adapter_failed_before_irreversible_boundary'')"

definition failed_before_intent ::
  "execution_claim \<Rightarrow> execution_identity \<Rightarrow> lock_handle \<Rightarrow> run_variables \<Rightarrow> execution_record \<Rightarrow>
   executor_result eff" where
  "failed_before_intent cl identity handle rv persisted =
     then_eff (if rv_approval_succeeded rv then executor_metric ''durable_intent_failures''
               else return_eff ())
     (if xr_terminal persisted then then_eff (release_safely handle) (result persisted)
      else if \<not> rv_approval_started rv then
        bind_eff (terminal_pre_dispatch_record cl identity ''failed_pre_dispatch'' [failure_code rv])
          (\<lambda>record. then_eff (release_safely handle) (result record))
      else
        then_eff (timed (claim_args identity cl record_pre_intent_retry (failure_code rv)))
        (then_eff (release_safely handle)
          (raise_eff (PreIntentRetryRequired (failure_code rv)))))"

definition failed_after_intent ::
  "executor \<Rightarrow> adapter \<Rightarrow> execution_claim \<Rightarrow> execution_identity \<Rightarrow> lock_handle \<Rightarrow> run_variables \<Rightarrow>
   execution_record \<Rightarrow> executor_result eff" where
  "failed_after_intent ex ad cl identity handle rv persisted =
     then_eff (if rv_metric_recorded rv then return_eff ()
               else then_eff (executor_metric ''durable_intents_committed'')
                      (executor_metric ''dispatch_attempts''))
     (then_eff (executor_metric ''indeterminate_dispatches'')
     (then_eff
       (if xr_terminal persisted then return_eff ()
        else then_eff (timed (claim_args identity cl record_dispatch_result ''dispatch_indeterminate''
                         False [''provider_result_uncertain'']))
               (return_eff ()))
       (observe_and_verify ex ad cl identity handle None)))"

definition dispatch_failed ::
  "executor \<Rightarrow> adapter \<Rightarrow> execution_claim \<Rightarrow> execution_identity \<Rightarrow> lock_handle \<Rightarrow> executor_result eff" where
  "dispatch_failed ex ad cl identity handle =
     bind_eff (get_execution (ei_task_id identity)) (\<lambda>found.
     case found of
       None \<Rightarrow> then_eff (release_safely handle) (raise_eff OperationExecutorError)
     | Some persisted \<Rightarrow>
         bind_eff (read_eff run_state) (\<lambda>rv.
         if xr_dispatch_intent persisted = None
         then failed_before_intent cl identity handle rv persisted
         else failed_after_intent ex ad cl identity handle rv persisted))"

text \<open>The \<open>finally\<close> clause.\<close>

definition close_run :: "dispatch_authority option \<Rightarrow> unit eff" where
  "close_run authority =
     then_eff renewer_stop
       (case authority of
          None \<Rightarrow> return_eff ()
        | Some da \<Rightarrow>
            bind_eff (read_eff run_state) (\<lambda>rv.
            if rv_committed rv then authority_call ''finish'' (da_finish da)
            else authority_call ''release'' (da_release da)))"

definition dispatch_phase ::
  "executor \<Rightarrow> adapter \<Rightarrow> execution_claim \<Rightarrow> execution_identity \<Rightarrow> lock_handle \<Rightarrow> preflight_result \<Rightarrow>
   exn + unit \<Rightarrow> dispatch_authority option \<Rightarrow> executor_result eff" where
  "dispatch_phase ex ad cl identity handle preflight approval authority =
     then_eff (renewer_start handle)
       (finally_eff
         (catch_eff (dispatch_block ex ad cl identity handle preflight approval authority)
           (on_exception (dispatch_failed ex ad cl identity handle)))
         (close_run authority))"

section \<open>Acquiring the locks and the authority\<close>

text \<open>The normalized requests are handed to \<open>acquire\<close>, which normalizes them once more.\<close>

definition as_request :: "normalized_request \<Rightarrow> lock_request" where
  "as_request r =
     \<lparr>rq_key = nr_key r, rq_scopes = map OTHER_SCOPE (nr_scopes r),
      rq_mode = OTHER_MODE (nr_mode r), rq_reason_codes = nr_reason_codes r\<rparr>"

definition acquire_locks ::
  "executor \<Rightarrow> adapter \<Rightarrow> execution_claim \<Rightarrow> execution_identity \<Rightarrow> prepared_operation \<Rightarrow>
   (normalized_request list \<times> lock_handle) eff" where
  "acquire_locks ex ad cl identity prepared =
     then_eff fault_point
     (then_eff (if cl_created cl then return_eff ()
                else release_expired_pre_dispatch_locks identity prepared)
     (bind_eff (lift_eff (ad_lock_requests ad)) (\<lambda>wanted.
      bind_eff (value_of (normalize_lock_requests wanted)) (\<lambda>requests.
      bind_eff (acquire (map as_request requests) (owner_of identity prepared) (ex_lock_timing ex)
                  (cancelled_check (ei_task_id identity))) (\<lambda>found.
      case found of
        None \<Rightarrow> raise_eff (OtherException ''the polling loop of acquire ran out of fuel'')
      | Some handle \<Rightarrow> return_eff (requests, handle))))))"

definition persist_locks ::
  "execution_claim \<Rightarrow> execution_identity \<Rightarrow> lock_handle \<Rightarrow> unit eff" where
  "persist_locks cl identity handle =
     then_eff fault_point
     (then_eff (timed (claim_args identity cl record_locks handle)) fault_point)"

definition lock_conflict_result ::
  "execution_claim \<Rightarrow> execution_identity \<Rightarrow> string \<Rightarrow> executor_result eff" where
  "lock_conflict_result cl identity code =
     bind_eff (terminal_pre_dispatch_record cl identity ''lock_conflict'' [code]) result"

definition lock_failure ::
  "execution_claim \<Rightarrow> execution_identity \<Rightarrow> lock_handle option \<Rightarrow> exn \<Rightarrow> executor_result eff" where
  "lock_failure cl identity acquired e =
     (case e of
        LockConflict keys \<Rightarrow> lock_conflict_result cl identity ''lock_conflict''
      | LockWaitTimeout \<Rightarrow> lock_conflict_result cl identity ''wait_timeout''
      | LockWaitCancelled \<Rightarrow>
          then_eff (timed (\<lambda>now. cancel (ei_task_id identity) now [] None False))
          (bind_eff (get_execution (ei_task_id identity)) (\<lambda>found.
           case found of None \<Rightarrow> raise_eff OperationExecutorError | Some record \<Rightarrow> result record))
      | _ \<Rightarrow>
          if is_DurableLockError e \<or> is_ExecutionStorageError e \<or> e = ValueError then
            bind_eff (timed (claim_args identity cl fail_lock_acquisition
                (map_option (\<lambda>handle. then_eff (release handle True) (return_eff ())) acquired)))
              (\<lambda>(record, codes). lift_eff (result_of record False codes))
          else raise_eff e)"

text \<open>Preflight: an early result, or the eligible preflight the dispatch uses.\<close>

definition preflight_block ::
  "adapter \<Rightarrow> execution_claim \<Rightarrow> execution_identity \<Rightarrow> prepared_operation \<Rightarrow> normalized_request list \<Rightarrow>
   lock_handle \<Rightarrow> (executor_result + preflight_result) eff" where
  "preflight_block ad cl identity prepared requests handle =
     bind_eff (lift_eff (ad_preflight ad requests)) (\<lambda>preflight.
     bind_eff (lift_eff (validate_preflight prepared preflight)) (\<lambda>outcome.
     let codes = bounded_diagnostics (pf_diagnostic_codes preflight) in
     case outcome of
       Some refused \<Rightarrow>
         if refused = ''succeeded_verified'' then
           bind_eff (timed (claim_args identity cl terminalize_verified_no_dispatch
               (the (pf_observed_state_fingerprint preflight)) (the (pf_evidence_hash preflight)) codes))
             (\<lambda>record.
           then_eff (executor_metric ''verification_successes'')
           (then_eff (executor_metric ''preflight_noop_successes'')
           (then_eff (release_safely handle)
             (bind_eff (lift_eff (result_of record False codes)) (\<lambda>r. return_eff (Inl r))))))
         else
           then_eff (executor_metric ''preflight_rejections'')
           (bind_eff (timed (claim_args identity cl terminalize_pre_dispatch refused codes)) (\<lambda>record.
            then_eff (release handle False)
              (bind_eff (result record) (\<lambda>r. return_eff (Inl r)))))
     | None \<Rightarrow>
         then_eff (timed (claim_args identity cl record_preflight))
         (then_eff fault_point (return_eff (Inr preflight)))))"

definition preflight_failed ::
  "execution_claim \<Rightarrow> execution_identity \<Rightarrow> lock_handle \<Rightarrow> exn \<Rightarrow> executor_result eff" where
  "preflight_failed cl identity handle e =
     bind_eff (get_execution (ei_task_id identity)) (\<lambda>found.
     case (case found of None \<Rightarrow> None | Some r \<Rightarrow> if xr_terminal r then Some r else None) of
       Some persisted \<Rightarrow> then_eff (release_safely handle) (result persisted)
     | None \<Rightarrow>
         bind_eff (terminal_pre_dispatch_record cl identity ''provider_unavailable_pre_dispatch''
             [case e of DispatchAuthorityRefused c \<Rightarrow> authority_refusal_code e
                      | _ \<Rightarrow> ''preflight_failed'']) (\<lambda>record.
         then_eff (release_safely handle) (result record)))"

text \<open>The authority: the refusal code when there is none, or when acquiring it raised.\<close>

definition acquire_authority :: "dispatch_authority option \<Rightarrow> preflight_result \<Rightarrow> string option eff" where
  "acquire_authority authority preflight =
     (case authority of
        None \<Rightarrow> return_eff None
      | Some da \<Rightarrow>
          try_else_eff (authority_call ''acquire'' (da_acquire da preflight))
            (\<lambda>e. if is_Exception e then return_eff (Some (authority_refusal_code e)) else raise_eff e)
            (\<lambda>acquired. return_eff (if acquired then None else Some ''dispatch_authority_unavailable'')))"

definition authority_refused ::
  "execution_claim \<Rightarrow> execution_identity \<Rightarrow> lock_handle \<Rightarrow> string \<Rightarrow> executor_result eff" where
  "authority_refused cl identity handle code =
     bind_eff (terminal_pre_dispatch_record cl identity ''provider_unavailable_pre_dispatch'' [code])
       (\<lambda>record. then_eff (release_safely handle) (result record))"

section \<open>Execution\<close>

definition execute_locked_handle ::
  "executor \<Rightarrow> adapter \<Rightarrow> execution_claim \<Rightarrow> execution_identity \<Rightarrow> prepared_operation \<Rightarrow> exn + unit \<Rightarrow>
   dispatch_authority option \<Rightarrow> normalized_request list \<Rightarrow> lock_handle \<Rightarrow> executor_result eff" where
  "execute_locked_handle ex ad cl identity prepared approval authority requests handle =
     bind_eff
       (catch_eff (preflight_block ad cl identity prepared requests handle)
         (\<lambda>e. if is_Exception e then
                 bind_eff (preflight_failed cl identity handle e) (\<lambda>r. return_eff (Inl r))
               else raise_eff e))
       (\<lambda>outcome.
        case outcome of
          Inl r \<Rightarrow> return_eff r
        | Inr preflight \<Rightarrow>
            bind_eff (acquire_authority authority preflight) (\<lambda>refusal.
            case refusal of
              Some code \<Rightarrow> authority_refused cl identity handle code
            | None \<Rightarrow> dispatch_phase ex ad cl identity handle preflight approval authority))"

definition execute_new ::
  "executor \<Rightarrow> adapter \<Rightarrow> execution_claim \<Rightarrow> execution_identity \<Rightarrow> prepared_operation \<Rightarrow> exn + unit \<Rightarrow>
   dispatch_authority option \<Rightarrow> executor_result eff" where
  "execute_new ex ad cl identity prepared approval authority =
     try_else_eff (acquire_locks ex ad cl identity prepared)
       (lock_failure cl identity None)
       (\<lambda>(requests, handle).
        try_else_eff (persist_locks cl identity handle)
          (lock_failure cl identity (Some handle))
          (\<lambda>_. execute_locked_handle ex ad cl identity prepared approval authority requests handle))"

definition duplicate_event :: "execution_identity \<Rightarrow> audit_event" where
  "duplicate_event identity =
     \<lparr>ae_event_type = ''duplicate_execution_prevented'', ae_task_id = ei_task_id identity,
      ae_attempt_id = Some (ei_attempt_id identity), ae_owner_id = ei_owner_id identity,
      ae_lock_key = None, ae_generation = None, ae_reason_code = None, ae_diagnostic_codes = []\<rparr>"

text \<open>\<open>_execute_locked\<close>\<close>

definition execute_claimed ::
  "executor \<Rightarrow> adapter \<Rightarrow> execution_claim \<Rightarrow> execution_identity \<Rightarrow> prepared_operation \<Rightarrow> exn + unit \<Rightarrow>
   dispatch_authority option \<Rightarrow> executor_result eff" where
  "execute_claimed ex ad cl identity prepared approval authority =
     (if xr_terminal (cl_record cl) then
        then_eff (settle_terminal_locks ex (cl_record cl))
          (lift_eff (result_of (cl_record cl) (\<not> cl_created cl) []))
      else if xr_dispatch_intent (cl_record cl) \<noteq> None then
        then_eff (executor_metric ''blind_redispatch_preventions'')
          (recover_claimed ex ad cl identity prepared)
      else execute_new ex ad cl identity prepared approval authority)"

definition execute_locked ::
  "executor \<Rightarrow> adapter \<Rightarrow> execution_identity \<Rightarrow> prepared_operation \<Rightarrow> exn + unit \<Rightarrow>
   dispatch_authority option \<Rightarrow> executor_result eff" where
  "execute_locked ex ad identity prepared approval authority =
     then_eff (executor_metric ''executions_started'')
       (try_else_eff (timed (claim identity prepared (ex_executor_timing ex)))
         (\<lambda>e. case e of
            DuplicateExecutionActive record \<Rightarrow>
              then_eff (executor_metric ''duplicate_execution_preventions'')
              (then_eff (event_sink (duplicate_event identity))
                (lift_eff (result_of record True [''active_execution_exists''])))
          | _ \<Rightarrow> raise_eff e)
         (\<lambda>cl. execute_claimed ex ad cl identity prepared approval authority))"

text \<open>
  \<open>execute\<close>.  The per-task \<open>asyncio.Lock\<close> serialises the runs of one process; the runs of other
  processes act through \<open>lock_others\<close> and \<open>execution_others\<close>.
\<close>

definition execute ::
  "executor \<Rightarrow> adapter \<Rightarrow> execution_identity \<Rightarrow> prepared_operation \<Rightarrow> exn + unit \<Rightarrow>
   dispatch_authority option \<Rightarrow> executor_result eff" where
  "execute ex ad identity prepared approval authority =
     then_eff (require (valid_execution_identity identity) ValueError)
     (then_eff (require (valid_prepared_operation (ad_capabilities ad) prepared) PreparedOperationInvalid)
     (then_eff (set_run (\<lambda>_. fresh_run))
       (execute_locked ex ad identity prepared approval authority)))"

definition cancel_execution :: "executor \<Rightarrow> string \<Rightarrow> bool eff" where
  "cancel_execution ex task_id =
     then_eff (require (valid_identifier task_id) ValueError)
     (bind_eff (get_execution task_id) (\<lambda>before.
      bind_eff (timed (\<lambda>now. cancel task_id now [] None False)) (\<lambda>cancelled.
      if \<not> cancelled \<or> (case before of None \<Rightarrow> True | Some r \<Rightarrow> xr_dispatch_intent r \<noteq> None)
      then return_eff cancelled
      else
        bind_eff (get_execution task_id) (\<lambda>after.
        then_eff (case after of None \<Rightarrow> return_eff () | Some r \<Rightarrow> settle_terminal_locks ex r)
          (return_eff True)))))"

end
