(* ===== verification/F3_Executor_Environment.thy ===== *)
theory F3_Executor_Environment
  imports F3_Lock_Environment F3_Executor
begin

text \<open>
  What the two stores promise to the executor: a relation between states that every operation of the
  lock store and of the execution repository respects is respected by every phase of the executor,
  and by \<open>execute\<close> and \<open>cancel\<close> as a whole once the adapter's dispatch respects it.
\<close>

section \<open>The operations of the execution repository\<close>

locale execution_environment = shared_effects R for R :: "world \<Rightarrow> world \<Rightarrow> bool" +
  assumes executor_metric_guar: "guarantees R (executor_metric name)"
    and claim_guar: "guarantees R (claim identity prepared timing now)"
    and record_locks_guar: "guarantees R (record_locks task_id owner_id g handle now)"
    and record_preflight_guar: "guarantees R (record_preflight task_id owner_id g now)"
    and fail_lock_acquisition_guar: "guarantees R (fail_lock_acquisition task_id owner_id g
          (map_option (\<lambda>handle. then_eff (release handle True) (return_eff ())) acquired) now)"
    and commit_dispatch_intent_guar: "guarantees R (commit_dispatch_intent task_id owner_id g
          request_id provider_operation arguments_hash timing now)"
    and replace_recovery_locks_guar: "guarantees R (replace_recovery_locks task_id owner_id g handle now)"
    and record_dispatch_result_guar:
      "guarantees R (record_dispatch_result task_id owner_id g outcome received codes now)"
    and record_observation_guar: "guarantees R (record_observation task_id owner_id g outcome codes now)"
    and record_verification_guar:
      "guarantees R (record_verification task_id owner_id g outcome terminal codes evidence now)"
    and yield_claim_guar: "guarantees R (yield_claim task_id owner_id g now)"
    and record_pre_intent_retry_guar: "guarantees R (record_pre_intent_retry task_id owner_id g code now)"
    and terminalize_pre_dispatch_guar:
      "guarantees R (terminalize_pre_dispatch task_id owner_id g outcome codes now)"
    and terminalize_verified_no_dispatch_guar:
      "guarantees R (terminalize_verified_no_dispatch task_id owner_id g fingerprint evidence_hash codes now)"
    and cancel_guar: "guarantees R (cancel task_id now codes expected require_expired)"
    and get_execution_guar: "guarantees R (get_execution task_id)"
begin

lemmas execution_operation_guar [guarantee_rules] =
  executor_metric_guar claim_guar record_locks_guar record_preflight_guar fail_lock_acquisition_guar
  commit_dispatch_intent_guar replace_recovery_locks_guar record_dispatch_result_guar
  record_observation_guar record_verification_guar yield_claim_guar record_pre_intent_retry_guar
  terminalize_pre_dispatch_guar terminalize_verified_no_dispatch_guar cancel_guar get_execution_guar

lemma timed_guar [guarantee_rules]: "(\<And>now. guarantees R (f now)) \<Longrightarrow> guarantees R (timed f)"
  unfolding timed_def by (intro guarantee_rules)

lemma case_duplicate_guar [guarantee_rules]:
  "(\<And>r. guarantees R (f r)) \<Longrightarrow> guarantees R d \<Longrightarrow>
   guarantees R (case e of DuplicateExecutionActive r \<Rightarrow> f r | _ \<Rightarrow> d)"
  by (cases e) simp_all

end

section \<open>The phases of a run\<close>

locale executor_environment = lock_environment R + execution_environment R
  for R :: "world \<Rightarrow> world \<Rightarrow> bool" +
  assumes renewals_step: "R w (w\<lparr>renewals := ns\<rparr>)"
    and run_step: "R w (w\<lparr>run_state := rv\<rparr>)"
    and approval_step: "R w (w\<lparr>approvals_consumed := n\<rparr>)"
    and authority_step: "R w (w\<lparr>authority_log := names\<rparr>)"
begin

lemma set_run_guar [guarantee_rules]: "guarantees R (set_run f)"
  unfolding set_run_def by (rule update_guar) (rule run_step)

lemma run_update_guar [guarantee_rules]: "guarantees R (update_eff (\<lambda>w. w\<lparr>run_state := f w\<rparr>))"
  by (rule update_guar) (rule run_step)

lemma authority_call_guar [guarantee_rules]: "guarantees R (authority_call name answer)"
  unfolding authority_call_def by (intro guarantee_rules update_guar authority_step)

lemma release_safely_guar [guarantee_rules]: "guarantees R (release_safely handle)"
  unfolding release_safely_def by (intro guarantee_rules)

lemma cancelled_check_guar [guarantee_rules]: "guarantees R (cancelled_check task_id)"
  unfolding cancelled_check_def by (intro guarantee_rules)

lemma settle_terminal_locks_guar [guarantee_rules]: "guarantees R (settle_terminal_locks ex record)"
  unfolding settle_terminal_locks_def Let_def by (intro guarantee_rules)

lemma release_expired_guar [guarantee_rules]:
  "guarantees R (release_expired_pre_dispatch_locks identity prepared)"
  unfolding release_expired_pre_dispatch_locks_def Let_def by (intro guarantee_rules)

lemma result_guar [guarantee_rules]: "guarantees R (result record)"
  unfolding result_def by (intro guarantee_rules)

lemma manual_review_guar [guarantee_rules]: "guarantees R (manual_review cl identity handle reason)"
  unfolding manual_review_def claim_args_def by (intro guarantee_rules)

lemma terminal_pre_dispatch_record_guar [guarantee_rules]:
  "guarantees R (terminal_pre_dispatch_record cl identity outcome codes)"
  unfolding terminal_pre_dispatch_record_def claim_args_def by (intro guarantee_rules)

lemma renew_and_yield_guar [guarantee_rules]: "guarantees R (renew_and_yield cl identity handle)"
  unfolding renew_and_yield_def renewal_failure_result_def yield_and_result_def claim_args_def
  by (intro guarantee_rules)

lemma deadline_expired_guar [guarantee_rules]: "guarantees R (deadline_expired record)"
  unfolding deadline_expired_def by (intro guarantee_rules)

lemma renewer_rounds_guar [guarantee_rules]: "guarantees R (renewer_rounds n)"
proof (induction n)
  case 0
  show ?case by (simp add: return_guar)
next
  case (Suc n)
  show ?case unfolding renewer_rounds.simps
    by (intro guarantee_rules Suc)
qed

lemma await_point_guar [guarantee_rules]: "guarantees R await_point"
proof (rule guaranteesI)
  fix w r t
  assume run: "await_point w = (r, t)"
  show "R w t"
  proof (cases "renewals w")
    case Nil
    with run show ?thesis by (simp add: await_point_def refl)
  next
    case (Cons n ns)
    with run have "renewer_rounds n (w\<lparr>renewals := ns\<rparr>) = (r, t)" by (simp add: await_point_def)
    then have "R (w\<lparr>renewals := ns\<rparr>) t" by (rule guaranteesD [OF renewer_rounds_guar])
    with renewals_step show ?thesis by (rule trans)
  qed
qed

lemma renewer_start_guar [guarantee_rules]: "guarantees R (renewer_start handle)"
  unfolding renewer_start_def by (intro guarantee_rules)

lemma renewer_stop_guar [guarantee_rules]: "guarantees R renewer_stop"
  unfolding renewer_stop_def by (intro guarantee_rules)

lemma on_exception_guar [guarantee_rules]: "guarantees R h \<Longrightarrow> guarantees R (on_exception h e)"
  unfolding on_exception_def by (intro guarantee_rules)

lemma observe_block_guar [guarantee_rules]:
  "guarantees R (observe_block ex ad cl identity handle dispatch record intent)"
  unfolding observe_block_def claim_args_def by (intro guarantee_rules)

lemma observe_failed_guar [guarantee_rules]: "guarantees R (observe_failed ex cl identity handle)"
  unfolding observe_failed_def claim_args_def by (intro guarantee_rules)

lemma verify_block_guar [guarantee_rules]:
  "guarantees R (verify_block ex ad cl identity handle observation)"
  unfolding verify_block_def claim_args_def by (intro guarantee_rules)

lemma verify_failed_guar [guarantee_rules]: "guarantees R (verify_failed ex cl identity handle)"
  unfolding verify_failed_def claim_args_def by (intro guarantee_rules)

lemma observe_and_verify_guar [guarantee_rules]:
  "guarantees R (observe_and_verify ex ad cl identity handle dispatch)"
  unfolding observe_and_verify_def by (intro guarantee_rules)

lemma recovery_handle_guar [guarantee_rules]:
  "guarantees R (recovery_handle ex cl identity prepared)"
  unfolding recovery_handle_def transfer_expired_locks_def claim_args_def Let_def
  by (intro guarantee_rules)

lemma recover_claimed_guar [guarantee_rules]:
  "guarantees R (recover_claimed ex ad cl identity prepared)"
  unfolding recover_claimed_def claim_args_def by (intro guarantee_rules)

lemma consume_approval_guar [guarantee_rules]: "guarantees R (consume_approval approval)"
  unfolding consume_approval_def by (intro guarantee_rules update_guar approval_step)

lemma before_intent_guar [guarantee_rules]:
  "guarantees R (before_intent identity handle approval authority)"
  unfolding before_intent_def by (intro guarantee_rules)

lemma remember_stage_guar [guarantee_rules]:
  "guarantees R m \<Longrightarrow> guarantees R (remember_stage stage m)"
  unfolding remember_stage_def by (intro guarantee_rules)

lemma after_intent_guar [guarantee_rules]: "guarantees R (after_intent authority)"
  unfolding after_intent_def by (intro guarantee_rules)

lemma before_dispatch_guar [guarantee_rules]:
  "guarantees R (before_dispatch ex cl identity handle preflight approval authority)"
  unfolding before_dispatch_def claim_args_def by (intro guarantee_rules)

lemma dispatch_accepted_guar [guarantee_rules]:
  "guarantees R (dispatch_accepted ex ad cl identity handle dispatch)"
  unfolding dispatch_accepted_def claim_args_def Let_def by (intro guarantee_rules)

lemma dispatch_not_sent_guar [guarantee_rules]:
  "guarantees R (dispatch_not_sent ex ad cl identity handle dispatch)"
  unfolding dispatch_not_sent_def claim_args_def by (intro guarantee_rules)

lemma dispatch_failed_guar [guarantee_rules]:
  "guarantees R (dispatch_failed ex ad cl identity handle)"
  unfolding dispatch_failed_def failed_before_intent_def failed_after_intent_def claim_args_def
  by (intro guarantee_rules)

lemma close_run_guar [guarantee_rules]: "guarantees R (close_run authority)"
  unfolding close_run_def by (intro guarantee_rules)

lemma acquire_locks_guar [guarantee_rules]: "guarantees R (acquire_locks ex ad cl identity prepared)"
  unfolding acquire_locks_def by (intro guarantee_rules)

lemma persist_locks_guar [guarantee_rules]: "guarantees R (persist_locks cl identity handle)"
  unfolding persist_locks_def claim_args_def by (intro guarantee_rules)

lemma lock_failure_guar [guarantee_rules]: "guarantees R (lock_failure cl identity acquired e)"
  unfolding lock_failure_def lock_conflict_result_def claim_args_def
  by (cases e; simp only: exn.case; intro guarantee_rules)

lemma preflight_block_guar [guarantee_rules]:
  "guarantees R (preflight_block ad cl identity prepared requests handle)"
  unfolding preflight_block_def claim_args_def Let_def by (intro guarantee_rules)

lemma preflight_failed_guar [guarantee_rules]: "guarantees R (preflight_failed cl identity handle e)"
  unfolding preflight_failed_def by (intro guarantee_rules)

lemma acquire_authority_guar [guarantee_rules]: "guarantees R (acquire_authority authority preflight)"
  unfolding acquire_authority_def by (intro guarantee_rules)

lemma authority_refused_guar [guarantee_rules]: "guarantees R (authority_refused cl identity handle code)"
  unfolding authority_refused_def by (intro guarantee_rules)

lemma cancel_execution_guar: "guarantees R (cancel_execution ex task_id)"
  unfolding cancel_execution_def by (intro guarantee_rules)

end

section \<open>Whole runs\<close>

locale dispatching_environment = executor_environment R for R :: "world \<Rightarrow> world \<Rightarrow> bool" +
  fixes conforming :: "adapter \<Rightarrow> bool"
  assumes adapter_dispatch_guar: "conforming ad \<Longrightarrow>
      guarantees R (adapter_dispatch ad (ei_task_id identity)
        (before_dispatch ex cl identity handle preflight approval authority))"
begin

lemma dispatch_phase_guar:
  "conforming ad \<Longrightarrow>
   guarantees R (dispatch_phase ex ad cl identity handle preflight approval authority)"
  unfolding dispatch_phase_def dispatch_block_def
  by (intro guarantee_rules adapter_dispatch_guar)

lemma execute_guar:
  "conforming ad \<Longrightarrow> guarantees R (execute ex ad identity prepared approval authority)"
  unfolding execute_def execute_locked_def execute_claimed_def execute_new_def
    execute_locked_handle_def
  by (intro guarantee_rules dispatch_phase_guar)

end

end
