(* ===== verification/F3_Independence.thy ===== *)
theory F3_Independence
  imports F3_Executor_Environment
begin

text \<open>
  Which part of the world each component touches.  A relation that ignores the clocks, the counters,
  the audit log and the consumed faults is \<open>ambient\<close>; an ambient relation that also ignores the lock
  state is respected by every operation of the lock store, and one that also ignores the execution
  records is respected by every operation of the repository.
\<close>

section \<open>Ambient relations\<close>

lemma convert_os_error_okD: "convert_os_error e m w = (Inr x, w') \<Longrightarrow> m w = (Inr x, w')"
  by (auto simp: convert_os_error_def catch_eff_def raise_eff_def split: prod.splits sum.splits if_splits)

locale ambient = guarantee_relation R for R :: "world \<Rightarrow> world \<Rightarrow> bool" +
  assumes faults_step: "R w (w\<lparr>faults := fs\<rparr>)"
    and wall_step: "R w (w\<lparr>wall_clock := t, ticks := ds\<rparr>)"
    and monotonic_step: "R w (w\<lparr>monotonic_clock := t\<rparr>)"
    and jitter_step: "R w (w\<lparr>jitter := js\<rparr>)"
    and audit_step: "R w (w\<lparr>audit_log := evs\<rparr>)"
    and lock_counters_step: "R w (w\<lparr>lock_counters := lc\<rparr>)"
    and executor_counters_step: "R w (w\<lparr>executor_counters := ec\<rparr>)"
begin

lemma ambient_fault_point: "guarantees R fault_point"
  by (rule guaranteesI) (auto simp: fault_point_def refl faults_step split: list.splits option.splits)

lemma ambient_now_reading: "guarantees R now_reading"
  by (rule guaranteesI) (auto simp: now_reading_def refl wall_step split: list.splits)

lemma ambient_event_sink: "guarantees R (event_sink ev)"
  unfolding event_sink_def by (intro then_guar ambient_fault_point update_guar audit_step)

end

sublocale ambient \<subseteq> shared_effects R
  by unfold_locales (rule ambient_fault_point ambient_now_reading ambient_event_sink)+

context ambient
begin

lemma ambient_sleep: "guarantees R (sleep d)"
proof (rule guaranteesI)
  fix w r t
  assume run: "sleep d w = (r, t)"
  show "R w t"
  proof (cases "jitter w")
    case Nil
    with run show ?thesis by (auto simp: sleep_def monotonic_step)
  next
    case (Cons j js)
    with run have "t = w\<lparr>monotonic_clock := monotonic_clock w + d + int j\<rparr>\<lparr>jitter := js\<rparr>"
      by (simp add: sleep_def)
    then show ?thesis using trans [OF monotonic_step jitter_step] by simp
  qed
qed

lemma ambient_lock_metric_by: "guarantees R (lock_metric_by name amount)"
  by (rule guaranteesI) (auto simp: lock_metric_by_def refl lock_counters_step split: option.splits)

lemma ambient_executor_metric: "guarantees R (executor_metric name)"
  by (rule guaranteesI) (auto simp: executor_metric_def refl executor_counters_step split: option.splits)

lemma ambient_read_state: "guarantees R read_state"
  unfolding read_state_def lock_metric_def
  by (intro guarantee_rules ambient_lock_metric_by) (auto intro!: guarantee_rules ambient_lock_metric_by split: lock_file.splits)

lemma ambient_validate_tokens: "guarantees R (validate_tokens w now allow tokens records)"
proof (induction tokens)
  case Nil
  show ?case by (simp add: return_guar)
next
  case (Cons token tokens)
  then show ?case
    by (auto simp: lock_metric_def
        intro!: then_guar raise_guar ambient_lock_metric_by split: list.splits option.splits)
qed

lemma ambient_recover_mutator: "guarantees R (recover_mutator decisions tw tt now st)"
  unfolding recover_mutator_def Let_def
  by (intro guarantee_rules) (auto split: list.splits option.splits intro!: guarantee_rules)

end

section \<open>Relations that ignore the lock state\<close>

locale ignores_locks = ambient R for R :: "world \<Rightarrow> world \<Rightarrow> bool" +
  assumes lock_disk_step: "R w (w\<lparr>lock_disk := file\<rparr>)"
    and lock_others_step: "R w (w\<lparr>lock_others := fs, lock_disk := file\<rparr>)"
begin

lemma ignored_interference: "guarantees R lock_interference"
  by (rule guaranteesI) (auto simp: lock_interference_def refl lock_others_step split: list.splits)

lemma ignored_write_state: "guarantees R (write_state st)"
  unfolding write_state_def Let_def by (intro guarantee_rules update_guar lock_disk_step)

lemma ignored_transact:
  assumes "\<And>st. guarantees R (mutator st)"
  shows "guarantees R (transact mutator)"
  unfolding transact_def exclusive_transaction_def
  by (intro guarantee_rules ignored_interference ambient_read_state ignored_write_state assms)

lemma ignored_acquire_mutator: "guarantees R (acquire_mutator normalized w timing now st)"
  unfolding acquire_mutator_def Let_def lock_metric_def
  by (intro guarantee_rules ambient_lock_metric_by)

end

sublocale ignores_locks \<subseteq> lock_handover R
proof unfold_locales
  show "guarantees R (transact (recover_mutator decisions tw tt now))" for decisions tw tt now
    by (rule ignored_transact) (rule ambient_recover_mutator)
  show "guarantees R (transact (acquire_mutator normalized w timing now))" for normalized w timing now
    by (rule ignored_transact) (rule ignored_acquire_mutator)
  show "guarantees R (transact (transfer_mutator expected old w timing clock valid_until))"
    if "guarantees R clock" for expected old w timing clock valid_until
    using that unfolding transfer_mutator_def Let_def by (intro ignored_transact guarantee_rules)
  show "guarantees R (transact (settle_mutator digest w expected h created updated persist timing now))"
    if "\<And>h. guarantees R (persist h)" for digest w expected h created updated persist timing now
    unfolding settle_mutator_def Let_def by (intro ignored_transact guarantee_rules that)
qed (unfold renew_mutator_def release_mutator_def promote_mutator_def release_hold_mutator_def Let_def,
    (intro ignored_transact guarantee_rules ambient_sleep ambient_lock_metric_by ambient_validate_tokens)+)

section \<open>Relations that ignore the execution records\<close>

locale ignores_executions = lock_environment R + ambient R for R :: "world \<Rightarrow> world \<Rightarrow> bool" +
  assumes execution_disk_step: "R w (w\<lparr>execution_disk := disk\<rparr>)"
    and execution_others_step: "R w (w\<lparr>execution_others := fs, execution_disk := disk\<rparr>)"
begin

lemma ignored_execution_interference: "guarantees R execution_interference"
  by (rule guaranteesI)
    (auto simp: execution_interference_def refl execution_others_step split: list.splits)

lemma ignored_execution_transaction [guarantee_rules]:
  "guarantees R m \<Longrightarrow> guarantees R (execution_transaction m)"
  unfolding execution_transaction_def by (intro guarantee_rules ignored_execution_interference)

lemma ignored_read_unlocked [guarantee_rules]: "guarantees R (read_unlocked task_id)"
  unfolding read_unlocked_def
  by (intro guarantee_rules) (auto split: execution_file.splits option.splits intro!: guarantee_rules)

lemma ignored_write_unlocked [guarantee_rules]: "guarantees R (write_unlocked record)"
  unfolding write_unlocked_def by (intro guarantee_rules update_guar execution_disk_step)

lemma ignored_mutate_claimed [guarantee_rules]: "guarantees R (mutate_claimed task_id owner_id g mutator)"
  unfolding mutate_claimed_def by (intro guarantee_rules)

end

sublocale ignores_executions \<subseteq> execution_environment R
proof unfold_locales
  show "guarantees R (fail_lock_acquisition task_id owner_id g
     (map_option (\<lambda>handle. then_eff (release handle True) (return_eff ())) acquired) now)"
    for task_id owner_id g acquired now
    unfolding fail_lock_acquisition_def fail_lock_body_def Let_def
    by (cases acquired; simp only: option.map option.case; intro guarantee_rules)
qed (unfold claim_def record_locks_def record_preflight_def commit_dispatch_intent_def commit_step_def
      replace_recovery_locks_def record_dispatch_result_def record_observation_def
      record_verification_def yield_claim_def record_pre_intent_retry_def
      terminalize_pre_dispatch_def terminalize_verified_no_dispatch_def cancel_def get_execution_def Let_def,
    (intro guarantee_rules ambient_executor_metric)+)

end
