(* ===== verification/F3_Execution_Evolution.thy ===== *)
theory F3_Execution_Evolution
  imports F3_Independence "HOL-Library.Sublist"
begin

text \<open>
  How an execution record may change: the abstract contract every operation of the repository keeps.
  \<open>evolves\<close> relates a stored record to any later version of it, \<open>store_evolves\<close> the whole store; both
  are reflexive and transitive.  Every mutator of \<open>f3/persistence.py\<close> is shown to be one such step.
\<close>

section \<open>Records\<close>

definition intent_core :: "dispatch_intent \<Rightarrow> stamp \<times> stamp \<times> string \<times> string \<times> string" where
  "intent_core i =
     (di_committed_at i, di_evidence_deadline i, di_request_id i, di_provider_operation i,
      di_provider_arguments_hash i)"

definition operation_of :: "execution_record \<Rightarrow>
    string \<times> string option \<times> string \<times> string \<times> string \<times> operation_target \<times> string \<times> stamp" where
  "operation_of r =
     (ei_task_id (xr_identity r), ei_plan_id (xr_identity r), ei_attempt_id (xr_identity r),
      xr_adapter_id r, xr_operation r, xr_target r, xr_prepared_operation_hash r, xr_created_at r)"

definition settled_without_intent :: "execution_record \<Rightarrow> bool" where
  "settled_without_intent r \<longleftrightarrow> xr_terminal r \<and> xr_dispatch_intent r = None"

definition evolves :: "execution_record \<Rightarrow> execution_record \<Rightarrow> bool" where
  "evolves r r' \<longleftrightarrow>
     operation_of r' = operation_of r \<and>
     xr_claim_generation r \<le> xr_claim_generation r' \<and>
     (xr_claim_generation r' = xr_claim_generation r \<longrightarrow> xr_identity r' = xr_identity r) \<and>
     prefix (xr_events r) (xr_events r') \<and>
     (xr_dispatch_intent r \<noteq> None \<longrightarrow> map_option intent_core (xr_dispatch_intent r') =
        map_option intent_core (xr_dispatch_intent r)) \<and>
     xr_dispatch_count r \<le> xr_dispatch_count r' \<and>
     xr_observation_attempts r \<le> xr_observation_attempts r' \<and>
     xr_verification_attempts r \<le> xr_verification_attempts r' \<and>
     (xr_preflight_completed r \<longrightarrow> xr_preflight_completed r') \<and>
     (settled_without_intent r \<longrightarrow> settled_without_intent r')"

lemma evolves_refl [simp]: "evolves r r"
  by (simp add: evolves_def)

lemma evolves_trans:
  assumes ab: "evolves a b" and bc: "evolves b c"
  shows "evolves a c"
proof -
  have identity: "xr_identity c = xr_identity a" if "xr_claim_generation c = xr_claim_generation a"
  proof -
    have "xr_claim_generation b = xr_claim_generation a" "xr_claim_generation c = xr_claim_generation b"
      using that ab bc by (auto simp: evolves_def)
    with ab bc show ?thesis by (auto simp: evolves_def)
  qed
  have intent: "map_option intent_core (xr_dispatch_intent c) = map_option intent_core (xr_dispatch_intent a)"
    if "xr_dispatch_intent a \<noteq> None"
  proof -
    have b: "map_option intent_core (xr_dispatch_intent b) = map_option intent_core (xr_dispatch_intent a)"
      using that ab by (simp add: evolves_def)
    with that have "xr_dispatch_intent b \<noteq> None" by auto
    with bc b show ?thesis by (simp add: evolves_def)
  qed
  have events: "prefix (xr_events a) (xr_events c)"
    using ab bc prefix_order.trans by (auto simp: evolves_def)
  show ?thesis using ab bc identity intent events by (auto simp: evolves_def)
qed

lemma evolves_intent:
  "evolves r r' \<Longrightarrow> xr_dispatch_intent r \<noteq> None \<Longrightarrow> xr_dispatch_intent r' \<noteq> None"
  by (auto simp: evolves_def)

lemma evolves_task: "evolves r r' \<Longrightarrow> ei_task_id (xr_identity r') = ei_task_id (xr_identity r)"
  by (simp add: evolves_def operation_of_def)

section \<open>The mutators\<close>

lemma append_event_okD:
  assumes "append_event event_type occurred codes r = Inr r'"
  obtains ev where "r' = r\<lparr>xr_events := xr_events r @ [ev], xr_updated_at := occurred\<rparr>"
    and "ev_event_type ev = event_type"
  using assms
  by (auto simp: append_event_def append_execution_event_def split: if_splits option.splits)

lemmas evolution_defs = evolves_def operation_of_def settled_without_intent_def intent_core_def

text \<open>Appending an event to a record that itself is a legal successor.\<close>

lemma append_event_evolves:
  assumes "append_event event_type occurred codes r1 = Inr r'"
    and "evolves r r1" and "xr_events r1 = xr_events r"
  shows "evolves r r'"
proof -
  obtain ev where "r' = r1\<lparr>xr_events := xr_events r1 @ [ev], xr_updated_at := occurred\<rparr>"
    using assms(1) by (rule append_event_okD)
  with assms(2,3) show ?thesis by (simp add: evolution_defs)
qed

lemma locks_evolves: "locks_mutator h t r = Inr r' \<Longrightarrow> evolves r r'"
  by (auto simp: locks_mutator_def split: if_splits)
    (erule append_event_evolves; simp add: evolution_defs)

lemma preflight_evolves: "preflight_mutator t r = Inr r' \<Longrightarrow> evolves r r'"
  by (auto simp: preflight_mutator_def split: if_splits)
    (erule append_event_evolves; simp add: evolution_defs)

lemma replace_locks_evolves: "replace_locks_mutator h t r = Inr r' \<Longrightarrow> evolves r r'"
  by (auto simp: replace_locks_mutator_def split: option.splits)
    (erule append_event_evolves; simp add: evolution_defs)

lemma dispatch_result_evolves: "dispatch_result_mutator outcome b codes t r = Inr r' \<Longrightarrow> evolves r r'"
  by (auto simp: dispatch_result_mutator_def split: if_splits)
    (erule append_event_evolves; simp add: evolution_defs)+

lemma observation_evolves: "observation_mutator outcome codes t r = Inr r' \<Longrightarrow> evolves r r'"
  by (auto simp: observation_mutator_def split: if_splits)
    (erule append_event_evolves; simp add: evolution_defs)

lemma verification_evolves:
  "verification_mutator outcome terminal codes e t r = Inr r' \<Longrightarrow> evolves r r'"
  by (auto simp: verification_mutator_def split: if_splits sum.splits)
    (erule append_event_evolves; simp add: evolution_defs)+

lemma yield_evolves: "yield_mutator t r = Inr r' \<Longrightarrow> evolves r r'"
  by (auto simp: yield_mutator_def split: if_splits)
    (erule append_event_evolves; simp add: evolution_defs)

lemma retry_evolves: "retry_mutator codes t r = Inr r' \<Longrightarrow> evolves r r'"
  by (auto simp: retry_mutator_def split: if_splits)
    (erule append_event_evolves; simp add: evolution_defs)

lemma terminal_pre_dispatch_evolves:
  "append_event event_type t codes (terminal_pre_dispatch outcome r) = Inr r' \<Longrightarrow> evolves r r'"
  by (erule append_event_evolves; simp add: evolution_defs terminal_pre_dispatch_def)

lemma terminalize_evolves: "terminalize_mutator outcome codes t r = Inr r' \<Longrightarrow> evolves r r'"
  by (auto simp: terminalize_mutator_def split: if_splits intro: terminal_pre_dispatch_evolves)

lemma verified_no_dispatch_evolves: "verified_no_dispatch_mutator f h codes t r = Inr r' \<Longrightarrow> evolves r r'"
  by (auto simp: verified_no_dispatch_mutator_def split: if_splits sum.splits)
    (erule append_event_evolves; simp add: evolution_defs)

lemma intent_evolves:
  "intent_mutator q po h t dl r = Inr r' \<Longrightarrow> \<not> xr_terminal r \<Longrightarrow> xr_dispatch_intent r = None \<Longrightarrow>
   xr_dispatch_count r = 0 \<Longrightarrow> evolves r r'"
  unfolding intent_mutator_def by (erule append_event_evolves; simp add: evolution_defs)

lemma take_over_evolves:
  "append_event event_type t codes (take_over identity expiry r) = Inr r' \<Longrightarrow> evolves r r'"
  by (erule append_event_evolves; simp add: evolution_defs take_over_def)

lemma reclaim_evolves:
  "append_event event_type t codes ((take_over identity expiry r)
      \<lparr>xr_state := s, xr_task_state := ts, xr_normalized_outcome := oc\<rparr>) = Inr r' \<Longrightarrow> evolves r r'"
  by (erule append_event_evolves; simp add: evolution_defs take_over_def)

lemma cancel_evolves:
  "append_event event_type t codes (r\<lparr>xr_normalized_outcome := oc, xr_task_state := ts,
      xr_state := s, xr_terminal := True\<rparr>) = Inr r' \<Longrightarrow> xr_dispatch_intent r = None \<Longrightarrow> evolves r r'"
  by (erule append_event_evolves; simp add: evolution_defs)

lemma event_evolves: "append_event event_type t codes r = Inr r' \<Longrightarrow> evolves r r'"
  by (erule append_event_evolves; simp)

section \<open>The store\<close>

definition sound_record :: "string \<Rightarrow> execution_record \<Rightarrow> bool" where
  "sound_record task_id r \<longleftrightarrow> valid_execution_record r \<and> ei_task_id (xr_identity r) = task_id"

definition store_sound :: "execution_files \<Rightarrow> bool" where
  "store_sound d \<longleftrightarrow> (\<forall>task_id file. d task_id = Some file \<longrightarrow>
     (\<exists>r. file = EXECUTION_FILE r \<and> sound_record task_id r))"

definition store_evolves :: "execution_files \<Rightarrow> execution_files \<Rightarrow> bool" where
  "store_evolves d d' \<longleftrightarrow>
     (\<forall>task_id r. d task_id = Some (EXECUTION_FILE r) \<and> sound_record task_id r \<longrightarrow>
        (\<exists>r'. d' task_id = Some (EXECUTION_FILE r') \<and> sound_record task_id r' \<and> evolves r r')) \<and>
     (store_sound d \<longrightarrow> store_sound d')"

lemma store_evolvesD:
  assumes "store_evolves d d'" and "d task_id = Some (EXECUTION_FILE r)" and "sound_record task_id r"
  obtains r' where "d' task_id = Some (EXECUTION_FILE r')" "sound_record task_id r'" "evolves r r'"
  using assms unfolding store_evolves_def by blast

lemma store_evolves_refl [simp]: "store_evolves d d"
  by (auto simp: store_evolves_def)

lemma store_evolves_trans:
  assumes "store_evolves a b" and "store_evolves b c"
  shows "store_evolves a c"
  using assms unfolding store_evolves_def by (meson evolves_trans)

text \<open>Writing one sound record that is a step of the one it replaces.\<close>

lemma store_evolves_update:
  assumes "sound_record task_id r'"
    and "\<And>r. d task_id = Some (EXECUTION_FILE r) \<Longrightarrow> sound_record task_id r \<Longrightarrow> evolves r r'"
  shows "store_evolves d (d(task_id \<mapsto> EXECUTION_FILE r'))"
  using assms by (auto simp: store_evolves_def store_sound_def)

definition executions_respected :: "world \<Rightarrow> bool" where
  "executions_respected w \<longleftrightarrow> (\<forall>f \<in> set (execution_others w). \<forall>d. store_evolves d (f d))"

text \<open>
  What an operation guarantees about the store, provided the other processes guarantee the same.
\<close>

definition execution_guarantee :: "world \<Rightarrow> world \<Rightarrow> bool" where
  "execution_guarantee w w' \<longleftrightarrow> (executions_respected w \<longrightarrow>
     executions_respected w' \<and> store_evolves (execution_disk w) (execution_disk w'))"

lemma execution_guarantee_unchanged:
  "execution_others w' = execution_others w \<Longrightarrow> execution_disk w' = execution_disk w \<Longrightarrow>
   execution_guarantee w w'"
  by (simp add: execution_guarantee_def executions_respected_def)

interpretation execution: ignores_locks execution_guarantee
proof unfold_locales
  show "execution_guarantee s u" if "execution_guarantee s t" "execution_guarantee t u" for s t u
    using that by (auto simp: execution_guarantee_def intro: store_evolves_trans)
qed (simp_all add: execution_guarantee_unchanged)

end
