(* ===== verification/F3_Execution_Safety.thy ===== *)
theory F3_Execution_Safety
  imports F3_Execution_Evolution
begin

text \<open>
  Every operation of the execution repository respects \<open>execution_guarantee\<close>: whatever faults occur
  and whatever the other processes do within the same contract, stored records stay valid and only
  evolve.  The interpretation at the end hands this contract to the executor.
\<close>

section \<open>What a transaction sees\<close>

definition execution_view :: "world \<Rightarrow> execution_files \<times> (execution_files \<Rightarrow> execution_files) list" where
  "execution_view w = (execution_disk w, execution_others w)"

interpretation execution_unseen: ignores_locks "same execution_view"
  by unfold_locales (simp_all add: same_def execution_view_def)

lemma unseen_execution_guarantee:
  "guarantees (same execution_view) m \<Longrightarrow> guarantees execution_guarantee m"
  by (erule guarantees_mono) (simp add: same_def execution_view_def execution_guarantee_unchanged)

definition stored :: "string \<Rightarrow> execution_record \<Rightarrow> world \<Rightarrow> bool" where
  "stored task_id r w \<longleftrightarrow>
     execution_disk w task_id = Some (EXECUTION_FILE r) \<and> sound_record task_id r"

definition absent :: "string \<Rightarrow> world \<Rightarrow> bool" where
  "absent task_id w \<longleftrightarrow> execution_disk w task_id = None"

lemma stored_unseen: "same execution_view w w' \<Longrightarrow> stored task_id r w \<Longrightarrow> stored task_id r w'"
  by (simp add: same_def execution_view_def stored_def)

lemma read_unlocked_unseen: "guarantees (same execution_view) (read_unlocked task_id)"
  unfolding read_unlocked_def
  by (intro guarantee_rules) (auto split: execution_file.splits option.splits intro!: guarantee_rules)

lemma read_unlocked_okD:
  assumes "read_unlocked task_id w = (Inr found, w')"
  shows "case found of None \<Rightarrow> absent task_id w' | Some r \<Rightarrow> stored task_id r w'"
  using assms unfolding read_unlocked_def
  by (auto simp: read_eff_def return_eff_def raise_eff_def absent_def stored_def sound_record_def
      elim!: then_eff_okD bind_eff_okD split: option.splits execution_file.splits if_splits)

lemma read_from:
  assumes "guarantees_from (absent task_id) execution_guarantee (f None)"
    and "\<And>r. guarantees_from (stored task_id r) execution_guarantee (f (Some r))"
  shows "guarantees execution_guarantee (bind_eff (read_unlocked task_id) f)"
proof (rule guarantees_all_from,
    rule execution.bind_from [where Q = "case_option (absent task_id) (stored task_id)"])
  show "guarantees_from (\<lambda>_. True) execution_guarantee (read_unlocked task_id)"
    by (intro guarantees_from_all unseen_execution_guarantee read_unlocked_unseen)
next
  fix w found w'
  assume "read_unlocked task_id w = (Inr found, w')"
  from read_unlocked_okD [OF this]
  show "case_option (absent task_id) (stored task_id) found w'"
    by (simp split: option.splits)
next
  fix found
  show "guarantees_from (case_option (absent task_id) (stored task_id) found)
          execution_guarantee (f found)"
    using assms by (cases found) simp_all
qed

text \<open>A write either leaves the store as it was or installs the valid record.\<close>

definition installed :: "execution_record \<Rightarrow> world \<Rightarrow> world \<Rightarrow> bool" where
  "installed record w w' \<longleftrightarrow> valid_execution_record record \<and> execution_disk w' =
     (execution_disk w)(ei_task_id (xr_identity record) \<mapsto> EXECUTION_FILE record)"

definition installs :: "execution_record \<Rightarrow> world \<Rightarrow> world \<Rightarrow> bool" where
  "installs record w w' \<longleftrightarrow> execution_others w' = execution_others w \<and>
     (execution_disk w' = execution_disk w \<or> installed record w w')"

interpretation install: ambient "installs new" for new
  by unfold_locales (auto simp: installs_def installed_def)

lemma fault_point_view:
  "fault_point w = (r, w') \<Longrightarrow>
   execution_disk w' = execution_disk w \<and> execution_others w' = execution_others w"
  by (drule guaranteesD [OF execution_unseen.ambient_fault_point])
    (simp add: same_def execution_view_def)

lemma write_unlocked_installs:
  "guarantees (installs record) (write_unlocked record)"
proof (cases "valid_execution_record record")
  case True
  have "installs record w (w\<lparr>execution_disk :=
      (execution_disk w)(ei_task_id (xr_identity record) \<mapsto> EXECUTION_FILE record)\<rparr>)" for w
    using True by (simp add: installs_def installed_def)
  then show ?thesis unfolding write_unlocked_def by (intro guarantee_rules install.update_guar)
next
  case False
  then show ?thesis by (simp add: write_unlocked_def install.raise_guar)
qed

lemma write_unlocked_okD:
  assumes "write_unlocked record w = (Inr x, w')"
  shows "installed record w w'" and "execution_others w' = execution_others w"
  using assms unfolding write_unlocked_def
  by (auto simp: update_eff_def installed_def dest!: convert_os_error_okD fault_point_view
      elim!: then_eff_okD)

lemma write_from:
  assumes "\<And>r. evolves r record \<or> \<not> P' r" and "\<And>w r. P w \<Longrightarrow> stored task_id r w \<Longrightarrow> P' r"
    and "ei_task_id (xr_identity record) = task_id"
  shows "guarantees_from P execution_guarantee (write_unlocked record)"
proof (rule guarantees_fromI)
  fix w r w'
  assume P: "P w" and run: "write_unlocked record w = (r, w')"
  have "installs record w w'" using write_unlocked_installs run by (rule guaranteesD)
  moreover have "store_evolves (execution_disk w) (execution_disk w')" if "installed record w w'"
  proof -
    have "sound_record task_id record"
      using that assms(3) by (simp add: installed_def sound_record_def)
    moreover have "evolves r record"
      if "execution_disk w task_id = Some (EXECUTION_FILE r)" "sound_record task_id r" for r
      using assms(1,2) P that by (auto simp: stored_def)
    ultimately show ?thesis
      using that assms(3) by (simp add: installed_def store_evolves_update)
  qed
  ultimately show "execution_guarantee w w'"
    by (auto simp: installs_def execution_guarantee_def executions_respected_def)
qed

lemma write_stored:
  "evolves r record \<Longrightarrow> ei_task_id (xr_identity r) = task_id \<Longrightarrow>
   guarantees_from (stored task_id r) execution_guarantee (write_unlocked record)"
  by (rule write_from [where P' = "\<lambda>r'. r' = r"]) (auto simp: stored_def dest: evolves_task)

lemma write_absent:
  "ei_task_id (xr_identity record) = task_id \<Longrightarrow>
   guarantees_from (absent task_id) execution_guarantee (write_unlocked record)"
  by (rule write_from [where P' = "\<lambda>_. False"]) (auto simp: stored_def absent_def)

section \<open>The operations\<close>

lemma execution_interference_guar: "guarantees execution_guarantee execution_interference"
  by (rule guaranteesI)
    (auto simp: execution_interference_def execution_guarantee_def executions_respected_def
      split: list.splits)

lemma execution_transaction_guar:
  "guarantees execution_guarantee m \<Longrightarrow> guarantees execution_guarantee (execution_transaction m)"
  unfolding execution_transaction_def
  by (intro guarantee_rules execution_interference_guar)

lemma write_and_return:
  "evolves r record \<Longrightarrow> ei_task_id (xr_identity r) = task_id \<Longrightarrow> guarantees execution_guarantee k \<Longrightarrow>
   guarantees_from (stored task_id r) execution_guarantee (then_eff (write_unlocked record) k)"
  by (intro execution.then_from_any write_stored)

text \<open>A stored record bears the identifier of its file.\<close>

lemma from_storedI:
  "(ei_task_id (xr_identity r) = task_id \<Longrightarrow> guarantees_from (stored task_id r) G m) \<Longrightarrow>
   guarantees_from (stored task_id r) G m"
  by (auto simp: guarantees_from_def stored_def sound_record_def)

lemma mutate_claimed_guar:
  assumes "\<And>r r'. mutator r = Inr r' \<Longrightarrow> evolves r r'"
  shows "guarantees execution_guarantee (mutate_claimed task_id owner_id g mutator)"
  unfolding mutate_claimed_def
proof (rule execution_transaction_guar, rule read_from, goal_cases)
  case 1
  show ?case by (simp add: execution.raise_from)
next
  case (2 r)
  show ?case unfolding option.case
    by (rule from_storedI, rule execution.require_from, rule execution.lift_from,
        rule execution.require_from, rule write_and_return)
      (auto intro: assms execution.return_guar)
qed

lemma initial_record_task [simp]:
  "ei_task_id (xr_identity (initial_record identity op t e)) = ei_task_id identity"
  by (simp add: initial_record_def split: prod.splits)

lemma append_event_task:
  "append_event event_type t codes r = Inr r' \<Longrightarrow>
   ei_task_id (xr_identity r') = ei_task_id (xr_identity r)"
  by (drule event_evolves) (rule evolves_task)

lemma write_new_and_return:
  "append_event event_type t codes r = Inr r' \<Longrightarrow> ei_task_id (xr_identity r) = task_id \<Longrightarrow>
   guarantees execution_guarantee k \<Longrightarrow>
   guarantees_from (absent task_id) execution_guarantee (then_eff (write_unlocked r') k)"
  by (rule execution.then_from_any, rule write_absent) (auto dest: append_event_task)

lemma claim_guarantee: "guarantees execution_guarantee (claim identity prepared timing now)"
  unfolding claim_def Let_def
proof (rule execution.then_guar, rule execution.require_guar, rule execution.then_guar,
    rule execution.require_guar, rule execution.bind_guar, rule execution.lift_guar,
    rule execution_transaction_guar, rule read_from, goal_cases)
  case (1 op)
  show ?case unfolding option.case
    by (rule execution.lift_from, erule write_new_and_return) (simp_all add: execution.return_guar)
next
  case (2 op r)
  show ?case unfolding option.case
    by (rule from_storedI, intro execution.require_from execution.if_from execution.return_from
        execution.raise_from execution.lift_from write_and_return execution.return_guar)
      (auto split: if_splits intro: take_over_evolves reclaim_evolves)
qed

lemma installed_stored:
  "installed record w w' \<Longrightarrow> ei_task_id (xr_identity record) = task_id \<Longrightarrow> stored task_id record w'"
  by (simp add: installed_def stored_def sound_record_def)

lemma fail_lock_tail:
  assumes cleanup: "\<And>action. cleanup = Some action \<Longrightarrow> guarantees (same execution_view) action"
    and task: "ei_task_id (xr_identity failed) = task_id"
  shows "guarantees_from (\<lambda>w. write_error = None \<longrightarrow> stored task_id failed w) execution_guarantee
     (bind_eff (case cleanup of
                  None \<Rightarrow> return_eff ''lock_cleanup_not_acquired''
                | Some action \<Rightarrow>
                    try_else_eff action
                      (\<lambda>e. if is_Exception e then return_eff ''lock_cleanup_failed'' else raise_eff e)
                      (\<lambda>_. return_eff ''lock_cleanup_completed'')) (\<lambda>cleanup_code.
      try_else_eff
        (case write_error of
           Some e \<Rightarrow> raise_eff e
         | None \<Rightarrow>
             bind_eff (lift_eff (append_event ''pre_dispatch_terminal'' t (codes cleanup_code) failed)) (\<lambda>record'.
             then_eff (write_unlocked record') (return_eff record')))
        (\<lambda>e. return_eff (codes cleanup_code, Inl e))
        (\<lambda>record'. return_eff (codes cleanup_code, Inr record'))))"
    (is "guarantees_from ?P _ (bind_eff ?cleanup ?rest)")
proof (rule execution.bind_from)
  have unseen: "guarantees (same execution_view) ?cleanup"
    by (cases cleanup; simp only: option.case) (intro guarantee_rules cleanup; simp)+
  then show "guarantees_from ?P execution_guarantee ?cleanup"
    by (intro guarantees_from_all unseen_execution_guarantee)
  show "?P w'" if "?P w" "?cleanup w = (Inr x, w')" for w x w'
    using that(1) stored_unseen [OF guaranteesD [OF unseen that(2)]] by blast
next
  fix cleanup_code
  show "guarantees_from ?P execution_guarantee (?rest cleanup_code)"
  proof (cases write_error)
    case None
    have "guarantees_from (stored task_id failed) execution_guarantee
       (bind_eff (lift_eff (append_event ''pre_dispatch_terminal'' t (codes cleanup_code) failed)) (\<lambda>record'.
        then_eff (write_unlocked record') (return_eff record')))"
      by (rule execution.lift_from, rule write_and_return)
        (auto intro: event_evolves execution.return_guar task)
    with None show ?thesis
      by (auto intro!: execution.try_else_from_any execution.return_guar)
  next
    case (Some e)
    then show ?thesis
      by (auto intro!: execution.try_else_from_any execution.return_guar execution.raise_from)
  qed
qed

lemma attempt_write_okD:
  assumes "try_else_eff (write_unlocked failed)
       (\<lambda>e. if c e then return_eff (Some e) else raise_eff e) (\<lambda>_. return_eff None) w = (Inr None, w')"
  shows "installed failed w w'"
  using assms
  by (auto simp: try_else_eff_def return_eff_def raise_eff_def
      split: prod.splits sum.splits if_splits dest: write_unlocked_okD)

lemma fail_lock_write:
  assumes "evolves r failed" and "ei_task_id (xr_identity r) = task_id"
    and "\<And>write_error. guarantees_from (\<lambda>w. write_error = None \<longrightarrow> stored task_id failed w)
           execution_guarantee (f write_error)"
  shows "guarantees_from (stored task_id r) execution_guarantee
     (bind_eff (try_else_eff (write_unlocked failed)
        (\<lambda>e. if c e then return_eff (Some e) else raise_eff e) (\<lambda>_. return_eff None)) f)"
proof (rule execution.bind_from)
  show "write_error = None \<longrightarrow> stored task_id failed w'"
    if "try_else_eff (write_unlocked failed) (\<lambda>e. if c e then return_eff (Some e) else raise_eff e)
          (\<lambda>_. return_eff None) w = (Inr write_error, w')" for w write_error w'
  proof
    assume "write_error = None"
    with that have "installed failed w w'" by (simp add: attempt_write_okD)
    then show "stored task_id failed w'"
      by (rule installed_stored) (simp add: evolves_task [OF assms(1)] assms(2))
  qed
qed (intro execution.try_else_from_any write_stored assms(1,2) guarantee_rules, rule assms(3))

lemma fail_lock_guarantee:
  assumes "\<And>action. cleanup = Some action \<Longrightarrow> guarantees (same execution_view) action"
  shows "guarantees execution_guarantee (fail_lock_acquisition task_id owner_id g cleanup now)"
proof -
  have body: "guarantees execution_guarantee (fail_lock_body task_id owner_id g cleanup t)" for t
    unfolding fail_lock_body_def
  proof (rule read_from, goal_cases)
    case 1
    show ?case by (simp add: execution.raise_from)
  next
    case (2 r)
    show ?case unfolding option.case Let_def
      by (rule from_storedI, intro execution.require_from, rule execution.lift_from,
          rule fail_lock_write, erule terminal_pre_dispatch_evolves, assumption,
          intro fail_lock_tail assms)
        (auto dest!: append_event_task simp: terminal_pre_dispatch_def)
  qed
  show ?thesis
    unfolding fail_lock_acquisition_def
    by (intro guarantee_rules execution_transaction_guar body)
qed

lemma fault_point_from:
  "guarantees_from (stored task_id r) execution_guarantee k \<Longrightarrow>
   guarantees_from (stored task_id r) execution_guarantee (then_eff fault_point k)"
  by (rule execution.then_from [where R' = "same execution_view"])
    (auto intro: guarantee_rules stored_unseen)

lemma commit_guarantee:
  "guarantees execution_guarantee (commit_dispatch_intent task_id owner_id g q po h timing now)"
  unfolding commit_dispatch_intent_def
proof (rule execution.then_guar, rule execution.require_guar, rule execution.then_guar,
    rule execution.require_guar, rule execution.then_guar, rule execution.require_guar,
    rule execution.then_guar, rule execution.require_guar,
    rule execution_transaction_guar, rule read_from, goal_cases)
  case 1
  show ?case by (simp add: execution.raise_from)
next
  case (2 r)
  show ?case
  proof (cases "xr_dispatch_intent r \<noteq> None \<or> xr_dispatch_count r \<noteq> 0")
    case True
    show ?thesis unfolding option.case commit_step_def
      by (rule guarantees_from_all)
        (use True in \<open>auto simp: execution.ambient_executor_metric intro!: guarantee_rules execution.ambient_executor_metric\<close>)
  next
    case False
    show ?thesis
      unfolding option.case commit_step_def
      by (simp only: False if_False then_require_simps)
        (rule from_storedI, rule execution.require_from, rule execution.require_from,
          rule execution.require_from, rule fault_point_from, rule execution.lift_from,
          rule write_and_return,
          insert False, auto intro: intent_evolves intro!: guarantee_rules)
  qed
qed

lemma cancel_guarantee:
  "guarantees execution_guarantee (cancel task_id now codes expected require_expired)"
  unfolding cancel_def Let_def
proof (rule execution_transaction_guar, rule read_from, goal_cases)
  case 1
  show ?case by (simp add: execution.return_from)
next
  case (2 r)
  show ?case unfolding option.case(2)
    by (rule from_storedI, intro execution.if_from execution.return_from execution.lift_from
        write_and_return)
      (auto intro: event_evolves cancel_evolves intro!: guarantee_rules execution.ambient_executor_metric)
qed

lemma terminalize_expired_claim_guarantee:
  "guarantees execution_guarantee (terminalize_expired_claim_pre_dispatch task_id g codes now)"
  unfolding terminalize_expired_claim_pre_dispatch_def
proof (rule execution_transaction_guar, rule read_from, goal_cases)
  case 1
  show ?case by (simp add: execution.raise_from)
next
  case (2 r)
  show ?case unfolding option.case
    by (rule from_storedI, intro execution.require_from, rule execution.lift_from,
        rule execution.require_from, rule write_and_return)
      (auto intro: terminal_pre_dispatch_evolves execution.return_guar)
qed

lemma materialize_guarantee:
  "guarantees execution_guarantee
     (materialize_expired_pre_dispatch identity adapter_id operation target h codes now)"
  unfolding materialize_expired_pre_dispatch_def Let_def
proof (rule execution.then_guar, rule execution.require_guar, rule execution_transaction_guar,
    rule read_from, goal_cases)
  case 1
  show ?case
    by (simp, rule execution.lift_from, rule execution.lift_from, rule execution.require_from,
        erule write_new_and_return)
      (auto dest!: append_event_task simp: terminal_pre_dispatch_def intro: execution.return_guar)
next
  case (2 r)
  show ?case by (simp add: execution.return_from)
qed

lemma get_guarantee: "guarantees execution_guarantee (get_execution task_id)"
  unfolding get_execution_def
  by (intro execution_transaction_guar unseen_execution_guarantee read_unlocked_unseen)

lemma release_unseen: "guarantees (same execution_view) (then_eff (release handle True) (return_eff ()))"
  by (intro guarantee_rules)

text \<open>The repository keeps its contract: the executor may rely on it.\<close>

interpretation execution: executor_environment execution_guarantee
proof unfold_locales
  show "guarantees execution_guarantee (fail_lock_acquisition task_id owner_id g
     (map_option (\<lambda>handle. then_eff (release handle True) (return_eff ())) acquired) now)"
    for task_id owner_id g acquired now
    by (rule fail_lock_guarantee) (auto simp: release_unseen)
qed (unfold record_locks_def record_preflight_def replace_recovery_locks_def record_dispatch_result_def
      record_observation_def record_verification_def yield_claim_def record_pre_intent_retry_def
      terminalize_pre_dispatch_def terminalize_verified_no_dispatch_def,
    (intro execution.then_guar execution.require_guar execution.ambient_executor_metric
      claim_guarantee commit_guarantee cancel_guarantee get_guarantee mutate_claimed_guar |
     erule locks_evolves preflight_evolves replace_locks_evolves dispatch_result_evolves
      observation_evolves verification_evolves yield_evolves retry_evolves terminalize_evolves
      verified_no_dispatch_evolves |
     simp add: execution_guarantee_unchanged)+)

lemma run_steps_guarantee:
  "guarantees execution_guarantee callback \<Longrightarrow>
   guarantees execution_guarantee (run_steps task_id callback steps)"
proof (induction task_id callback steps rule: run_steps.induct)
  case (3 task_id callback steps)
  then show ?case
    by (auto intro!: guarantee_rules execution.update_guar simp: execution_guarantee_unchanged)
qed (auto intro!: guarantee_rules)

interpretation execution: dispatching_environment execution_guarantee "\<lambda>_. True"
  by unfold_locales
    (unfold adapter_dispatch_def, intro guarantee_rules run_steps_guarantee)

end
