(* ===== verification/F3_Dispatch_Once.thy ===== *)
theory F3_Dispatch_Once
  imports F3_Execution_Safety
begin

text \<open>
  The one-dispatch boundary: a run sends at most one provider call for its task, and only if it made
  the dispatch intent durable itself.  The durable intent is what every later run, in this process
  or another, finds.
\<close>

section \<open>The durable intent\<close>

definition intent_durable :: "string \<Rightarrow> execution_files \<Rightarrow> bool" where
  "intent_durable task_id d \<longleftrightarrow> (\<exists>r. d task_id = Some (EXECUTION_FILE r) \<and>
     sound_record task_id r \<and> xr_dispatch_intent r \<noteq> None)"

lemma intent_durable_evolves:
  assumes "store_evolves d d'" and "intent_durable task_id d"
  shows "intent_durable task_id d'"
proof -
  obtain r where r: "d task_id = Some (EXECUTION_FILE r)" "sound_record task_id r"
    "xr_dispatch_intent r \<noteq> None"
    using assms(2) by (auto simp: intent_durable_def)
  obtain r' where "d' task_id = Some (EXECUTION_FILE r')" "sound_record task_id r'" "evolves r r'"
    using assms(1) r(1,2) by (rule store_evolvesD)
  with r(3) show ?thesis by (auto simp: intent_durable_def dest: evolves_intent)
qed

lemma stored_intent:
  "stored task_id r w \<Longrightarrow> intent_durable task_id (execution_disk w) \<longleftrightarrow> xr_dispatch_intent r \<noteq> None"
  by (auto simp: stored_def intent_durable_def)

section \<open>Provider calls\<close>

definition calls :: "string \<Rightarrow> world \<Rightarrow> nat" where
  "calls task_id w = count_list (provider_calls w) task_id"

definition dispatches_once :: "string \<Rightarrow> world \<Rightarrow> world \<Rightarrow> bool" where
  "dispatches_once task_id w w' \<longleftrightarrow> (executions_respected w \<longrightarrow>
     executions_respected w' \<and> store_evolves (execution_disk w) (execution_disk w') \<and>
     (calls task_id w' = calls task_id w \<or>
      calls task_id w' = calls task_id w + 1 \<and> \<not> intent_durable task_id (execution_disk w) \<and>
        intent_durable task_id (execution_disk w')))"

lemma dispatches_once_trans:
  assumes ab: "dispatches_once t a b" and bc: "dispatches_once t b c"
  shows "dispatches_once t a c"
proof -
  { assume "executions_respected a"
    with ab have b: "executions_respected b" "store_evolves (execution_disk a) (execution_disk b)"
      and sent_ab: "calls t b = calls t a \<or> calls t b = calls t a + 1 \<and>
         \<not> intent_durable t (execution_disk a) \<and> intent_durable t (execution_disk b)"
      by (simp_all add: dispatches_once_def)
    with bc have c: "executions_respected c" "store_evolves (execution_disk b) (execution_disk c)"
      and sent_bc: "calls t c = calls t b \<or> calls t c = calls t b + 1 \<and>
         \<not> intent_durable t (execution_disk b) \<and> intent_durable t (execution_disk c)"
      by (simp_all add: dispatches_once_def)
    have "store_evolves (execution_disk a) (execution_disk c)"
      using b(2) c(2) by (rule store_evolves_trans)
    moreover have "calls t c = calls t a \<or> calls t c = calls t a + 1 \<and>
         \<not> intent_durable t (execution_disk a) \<and> intent_durable t (execution_disk c)"
      using sent_ab sent_bc intent_durable_evolves [OF b(2), of t] intent_durable_evolves [OF c(2), of t]
      by auto
    ultimately have "executions_respected c \<and> store_evolves (execution_disk a) (execution_disk c) \<and>
      (calls t c = calls t a \<or> calls t c = calls t a + 1 \<and>
         \<not> intent_durable t (execution_disk a) \<and> intent_durable t (execution_disk c))"
      using c(1) by blast }
  then show ?thesis by (simp add: dispatches_once_def)
qed

lemma dispatches_once_unchanged:
  "execution_others w' = execution_others w \<Longrightarrow> execution_disk w' = execution_disk w \<Longrightarrow>
   provider_calls w' = provider_calls w \<Longrightarrow> dispatches_once task_id w w'"
  by (simp add: dispatches_once_def executions_respected_def calls_def)

interpretation once: ignores_locks "dispatches_once task_id" for task_id
proof unfold_locales
  show "dispatches_once task_id s u" if "dispatches_once task_id s t" "dispatches_once task_id t u"
    for s t u using that by (rule dispatches_once_trans)
qed (simp_all add: dispatches_once_unchanged)

text \<open>Neither store calls the provider.\<close>

interpretation calls: ignores_locks "same provider_calls"
  by unfold_locales (simp_all add: same_def)

interpretation calls: ignores_executions "same provider_calls"
  by unfold_locales (simp_all add: same_def)

interpretation calls: executor_environment "same provider_calls"
  by unfold_locales (simp_all add: same_def)

lemma quiet:
  assumes "guarantees execution_guarantee m" and "guarantees (same provider_calls) m"
  shows "guarantees (dispatches_once task_id) m"
proof (rule guaranteesI)
  fix w r w' assume "m w = (r, w')"
  then have "execution_guarantee w w'" "same provider_calls w w'"
    using assms by (auto dest: guaranteesD)
  then show "dispatches_once task_id w w'"
    by (simp add: execution_guarantee_def dispatches_once_def same_def calls_def)
qed

interpretation once: executor_environment "dispatches_once task_id" for task_id
  by unfold_locales
    ((rule quiet, (rule execution.execution_operation_guar calls.execution_operation_guar)+) |
     simp add: dispatches_once_unchanged)+

section \<open>Committing the intent\<close>

lemma execution_transaction_okD:
  assumes "execution_transaction m w = (Inr x, w')"
  obtains w1 where "m w1 = (Inr x, w')" and "execution_guarantee w w1"
proof -
  from assms obtain w0 w1 where "fault_point w = (Inr (), w0)"
    "execution_interference w0 = (Inr (), w1)" "m w1 = (Inr x, w')"
    unfolding execution_transaction_def
    by (auto dest!: convert_os_error_okD elim!: then_eff_okD)
  then show thesis
    by (blast intro: that execution.trans guaranteesD [OF execution.ambient_fault_point]
        guaranteesD [OF execution_interference_guar])
qed

lemma read_unlocked_unchanged:
  "read_unlocked task_id w = (r, w') \<Longrightarrow> execution_disk w' = execution_disk w"
  by (drule guaranteesD [OF read_unlocked_unseen]) (simp add: same_def execution_view_def)

lemma read_okE:
  assumes "bind_eff (read_unlocked task_id) f w = (Inr x, w')" and "\<And>t. f None t \<noteq> (Inr x, w')"
  obtains r w1 where "stored task_id r w1" "execution_guarantee w w1" "f (Some r) w1 = (Inr x, w')"
proof -
  obtain found w1 where read: "read_unlocked task_id w = (Inr found, w1)" and f: "f found w1 = (Inr x, w')"
    using assms(1) by (rule bind_eff_okD)
  with assms(2) obtain r where found: "found = Some r" by (cases found) auto
  have "stored task_id r w1" using read_unlocked_okD [OF read] found by simp
  moreover have "execution_guarantee w w1"
    using read_unlocked_unseen read by (metis guaranteesD unseen_execution_guarantee)
  ultimately show thesis using f found by (blast intro: that)
qed

text \<open>
  A commit that returns found the claimed, non-terminal, preflighted record without an intent, and
  left it with the intent.
\<close>

lemma commit_okD:
  assumes run: "commit_dispatch_intent task_id owner_id g q po h timing now w = (Inr r', w')"
  obtains r w1 where "execution_guarantee w w1" and "stored task_id r w1"
    and "holds_claim r owner_id g" and "\<not> xr_terminal r" and "xr_dispatch_intent r = None"
    and "xr_preflight_completed r" and "xr_lock_tokens r \<noteq> []"
    and "intent_mutator q po h (timestamp now)
           (timestamp (now + post_dispatch_evidence_seconds timing)) r = Inr r'"
    and "stored task_id r' w'"
proof -
  from run obtain w0 where guarantee: "execution_guarantee w w0" and body:
    "bind_eff (read_unlocked task_id) (\<lambda>found. case found of
        None \<Rightarrow> raise_eff ExecutionRecordCorrupt
      | Some record \<Rightarrow> commit_step owner_id g q po h timing now record) w0 = (Inr r', w')"
    unfolding commit_dispatch_intent_def by (auto elim!: execution_transaction_okD)
  from body obtain r w1 where r: "stored task_id r w1" "execution_guarantee w0 w1"
    and step: "commit_step owner_id g q po h timing now r w1 = (Inr r', w')"
    by (rule read_okE) simp_all
  have fresh: "\<not> (xr_dispatch_intent r \<noteq> None \<or> xr_dispatch_count r \<noteq> 0)"
  proof
    assume "xr_dispatch_intent r \<noteq> None \<or> xr_dispatch_count r \<noteq> 0"
    with step show False by (auto simp: commit_step_def elim!: then_eff_okD)
  qed
  with step have guards: "holds_claim r owner_id g" "\<not> xr_terminal r" "xr_preflight_completed r"
      "xr_lock_tokens r \<noteq> []"
    and mutated: "intent_mutator q po h (timestamp now)
        (timestamp (now + post_dispatch_evidence_seconds timing)) r = Inr r'"
    by (auto simp: commit_step_def elim!: then_eff_okD)
  from step fresh obtain w2 w3 where wr: "write_unlocked r' w2 = (Inr (), w3)"
    and last: "fault_point w3 = (Inr (), w')"
    by (auto simp: commit_step_def elim!: then_eff_okD)
  have "ei_task_id (xr_identity r') = task_id"
  proof -
    have "ei_task_id (xr_identity r') = ei_task_id (xr_identity r)"
      using mutated unfolding intent_mutator_def by (auto dest!: append_event_task)
    with r(1) show ?thesis by (simp add: stored_def sound_record_def)
  qed
  with write_unlocked_okD(1) [OF wr] have "stored task_id r' w3" by (rule installed_stored)
  moreover have "execution_disk w' = execution_disk w3" using fault_point_view [OF last] by simp
  ultimately have "stored task_id r' w'" by (simp add: stored_def)
  moreover have "execution_guarantee w w1" using guarantee r(2) by (rule execution.trans)
  moreover have "xr_dispatch_intent r = None" using fresh by simp
  ultimately show thesis using r(1) guards mutated by (intro that)
qed

lemma commit_makes_durable:
  assumes "commit_dispatch_intent task_id owner_id g q po h timing now w = (Inr r', w')"
    and "executions_respected w"
  shows "\<not> intent_durable task_id (execution_disk w)" and "intent_durable task_id (execution_disk w')"
proof -
  from assms(1) obtain r w1 where w1: "execution_guarantee w w1" and r: "stored task_id r w1"
    and none: "xr_dispatch_intent r = None"
    and mutated: "intent_mutator q po h (timestamp now)
        (timestamp (now + post_dispatch_evidence_seconds timing)) r = Inr r'"
    and r': "stored task_id r' w'"
    by (rule commit_okD)
  have "store_evolves (execution_disk w) (execution_disk w1)"
    using w1 assms(2) by (simp add: execution_guarantee_def)
  then show "\<not> intent_durable task_id (execution_disk w)"
    using stored_intent [OF r] none by (auto dest: intent_durable_evolves)
  have "xr_dispatch_intent r' \<noteq> None"
    using mutated by (auto simp: intent_mutator_def elim!: append_event_okD)
  then show "intent_durable task_id (execution_disk w')" using stored_intent [OF r'] by simp
qed

text \<open>The callback returns only if it made the intent durable.\<close>

lemma before_dispatch_makes_durable:
  assumes run: "before_dispatch ex cl identity handle preflight approval authority w = (Inr (), w')"
    and respected: "executions_respected w"
  shows "\<not> intent_durable (ei_task_id identity) (execution_disk w)"
    and "intent_durable (ei_task_id identity) (execution_disk w')"
proof -
  let ?T = "ei_task_id identity"
  from run obtain w1 w2 w3 now r where
    before: "before_intent identity handle approval authority w = (Inr (), w1)" and
    clock: "now_reading w1 = (Inr now, w2)" and
    commit: "commit_dispatch_intent ?T (ei_owner_id identity) (cl_claim_generation cl)
      (ei_request_id identity) (the (pf_provider_operation preflight))
      (the (pf_provider_arguments_hash preflight)) (ex_executor_timing ex) now w2 = (Inr r, w3)" and
    after: "after_intent authority w3 = (Inr (), w')"
    unfolding before_dispatch_def timed_def claim_args_def
    by (auto elim!: then_eff_okD bind_eff_okD)
  have "execution_guarantee w w2"
    using execution.trans guaranteesD [OF execution.before_intent_guar before]
      guaranteesD [OF execution.ambient_now_reading clock] by blast
  with respected have w2: "executions_respected w2" "store_evolves (execution_disk w) (execution_disk w2)"
    by (simp_all add: execution_guarantee_def)
  show "\<not> intent_durable ?T (execution_disk w)"
    using commit_makes_durable(1) [OF commit w2(1)] w2(2) by (auto dest: intent_durable_evolves)
  have "executions_respected w3"
    using guaranteesD [OF commit_guarantee commit] w2(1) by (simp add: execution_guarantee_def)
  then have "store_evolves (execution_disk w3) (execution_disk w')"
    using guaranteesD [OF execution.after_intent_guar after] by (simp add: execution_guarantee_def)
  then show "intent_durable ?T (execution_disk w')"
    using commit_makes_durable(2) [OF commit w2(1)] by (rule intent_durable_evolves)
qed

section \<open>Disciplined adapters\<close>

text \<open>Each provider call directly follows its own invocation of the callback.\<close>

fun guarded :: "bool \<Rightarrow> dispatch_step list \<Rightarrow> bool" where
  "guarded armed [] = True"
| "guarded armed (INVOKE_CALLBACK # steps) = guarded True steps"
| "guarded armed (SEND # steps) = (armed \<and> guarded False steps)"

definition disciplined :: "adapter \<Rightarrow> bool" where
  "disciplined ad = guarded False (ds_steps (ad_dispatch ad))"

definition quiet_step :: "string \<Rightarrow> world \<Rightarrow> world \<Rightarrow> bool" where
  "quiet_step task_id w w' \<longleftrightarrow> executions_respected w' \<and>
     store_evolves (execution_disk w) (execution_disk w') \<and> calls task_id w' = calls task_id w"

lemma quiet_stepI:
  assumes "guarantees execution_guarantee m" and "guarantees (same provider_calls) m"
    and "m w = (r, w')" and "executions_respected w"
  shows "quiet_step task_id w w'"
  using guaranteesD [OF assms(1,3)] guaranteesD [OF assms(2,3)] assms(4)
  by (simp add: quiet_step_def execution_guarantee_def same_def calls_def)

lemma quiet_step_trans: "quiet_step t a b \<Longrightarrow> quiet_step t b c \<Longrightarrow> quiet_step t a c"
  by (auto simp: quiet_step_def intro: store_evolves_trans)

text \<open>What the rest of a script may do: nothing new after the call, one call while armed.\<close>

definition script_outcome :: "bool \<Rightarrow> string \<Rightarrow> world \<Rightarrow> world \<Rightarrow> bool" where
  "script_outcome armed task_id w w' \<longleftrightarrow>
     (if armed then executions_respected w' \<and> store_evolves (execution_disk w) (execution_disk w') \<and>
        (intent_durable task_id (execution_disk w) \<longrightarrow>
           calls task_id w' = calls task_id w \<or> calls task_id w' = calls task_id w + 1)
      else dispatches_once task_id w w')"

lemma script_outcome_quiet: "quiet_step task_id w w' \<Longrightarrow> script_outcome armed task_id w w'"
  by (simp add: script_outcome_def quiet_step_def dispatches_once_def)

lemma script_outcome_after_quiet:
  "quiet_step t w w1 \<Longrightarrow> script_outcome armed t w1 w' \<Longrightarrow> script_outcome armed t w w'"
  by (auto simp: script_outcome_def quiet_step_def dispatches_once_def
      intro: store_evolves_trans intent_durable_evolves)

lemma await_quiet:
  "await_point w = (r, w') \<Longrightarrow> executions_respected w \<Longrightarrow> quiet_step task_id w w'"
  by (rule quiet_stepI [OF execution.await_point_guar calls.await_point_guar])

lemma fault_quiet:
  "fault_point w = (r, w') \<Longrightarrow> executions_respected w \<Longrightarrow> quiet_step task_id w w'"
  by (rule quiet_stepI [OF execution.ambient_fault_point calls.ambient_fault_point])

text \<open>After the callback returned, the rest of the script runs armed.\<close>

lemma script_outcome_armed:
  assumes cb: "quiet_step t w w1" and fresh: "\<not> intent_durable t (execution_disk w)"
    and durable: "intent_durable t (execution_disk w1)" and rest: "script_outcome True t w1 w'"
  shows "script_outcome armed t w w'"
proof -
  have evolves: "store_evolves (execution_disk w) (execution_disk w')" and respected: "executions_respected w'"
    using cb rest by (auto simp: script_outcome_def quiet_step_def intro: store_evolves_trans)
  have "intent_durable t (execution_disk w')"
    using rest durable by (auto simp: script_outcome_def intro: intent_durable_evolves)
  moreover have "calls t w' = calls t w \<or> calls t w' = calls t w + 1"
    using cb rest durable by (auto simp: script_outcome_def quiet_step_def)
  ultimately show ?thesis
    using evolves respected fresh by (auto simp: script_outcome_def dispatches_once_def)
qed

text \<open>The provider call itself, made while the intent is durable.\<close>

lemma script_outcome_send:
  assumes before: "quiet_step t w w1" and w2: "w2 = w1\<lparr>provider_calls := provider_calls w1 @ [t]\<rparr>"
    and rest: "script_outcome False t w2 w'"
  shows "script_outcome True t w w'"
proof -
  have respected: "executions_respected w2" and disk: "execution_disk w2 = execution_disk w1"
    and calls: "calls t w2 = calls t w + 1"
    using before by (auto simp: w2 quiet_step_def executions_respected_def calls_def)
  then have "dispatches_once t w2 w'" using rest by (simp add: script_outcome_def)
  with respected disk calls before show ?thesis
    by (auto simp: script_outcome_def dispatches_once_def quiet_step_def
        intro: store_evolves_trans dest: intent_durable_evolves)
qed

lemma run_steps_once:
  assumes callback: "callback = before_dispatch ex cl identity handle preflight approval authority"
    and "T = ei_task_id identity"
    and "guarded armed steps" and "run_steps T callback steps w = (r, w')" and "executions_respected w"
  shows "script_outcome armed T w w'"
  using assms(3-)
proof (induction steps arbitrary: armed w)
  case Nil
  then show ?case by (auto simp: return_eff_def quiet_step_def intro!: script_outcome_quiet)
next
  case (Cons step steps)
  show ?case
  proof (cases step)
    case INVOKE_CALLBACK
    obtain r1 w1 where await: "await_point w = (r1, w1)" by fastforce
    then have q1: "quiet_step T w w1" using Cons.prems(3) by (rule await_quiet)
    show ?thesis
    proof (cases r1)
      case (Inl e)
      with Cons.prems(2) await q1 INVOKE_CALLBACK show ?thesis
        by (auto simp: then_eff_def bind_eff_def intro: script_outcome_quiet)
    next
      case (Inr u)
      obtain r2 w2 where cb: "callback w1 = (r2, w2)" by fastforce
      have respected: "executions_respected w1" using q1 by (simp add: quiet_step_def)
      have q2: "quiet_step T w1 w2"
        using quiet_stepI [OF execution.before_dispatch_guar calls.before_dispatch_guar] cb respected
        unfolding callback by blast
      show ?thesis
      proof (cases r2)
        case (Inl e)
        with Cons.prems(2) await cb Inr INVOKE_CALLBACK have "w' = w2"
          by (auto simp: then_eff_def bind_eff_def try_else_eff_def return_eff_def raise_eff_def split: if_splits)
        with q1 q2 show ?thesis by (blast intro: script_outcome_quiet quiet_step_trans)
      next
        case (Inr v)
        with Cons.prems(2) await cb \<open>r1 = Inr u\<close> INVOKE_CALLBACK
        have "run_steps T callback steps w2 = (r, w')"
          by (auto simp: then_eff_def bind_eff_def try_else_eff_def)
        then have rest: "script_outcome True T w2 w'"
          using Cons.IH [of True] Cons.prems(1) INVOKE_CALLBACK q2 by (simp add: quiet_step_def)
        have "\<not> intent_durable T (execution_disk w1)" "intent_durable T (execution_disk w2)"
          using before_dispatch_makes_durable [OF _ respected] cb Inr unfolding callback assms(2) by auto
        with q2 rest have "script_outcome armed T w1 w'" by (blast intro: script_outcome_armed)
        with q1 show ?thesis by (rule script_outcome_after_quiet)
      qed
    qed
  next
    case SEND
    with Cons.prems(1) have armed: "armed" "guarded False steps" by simp_all
    obtain r1 w1 where await: "await_point w = (r1, w1)" by fastforce
    then have q1: "quiet_step T w w1" using Cons.prems(3) by (rule await_quiet)
    obtain r2 w2 where fault: "fault_point w1 = (r2, w2)" by fastforce
    have "executions_respected w1" using q1 by (simp add: quiet_step_def)
    with fault have q2: "quiet_step T w1 w2" by (rule fault_quiet)
    let ?w3 = "w2\<lparr>provider_calls := provider_calls w2 @ [T]\<rparr>"
    obtain r4 w4 where fault': "fault_point ?w3 = (r4, w4)" by fastforce
    have "executions_respected ?w3" using q2 by (simp add: quiet_step_def executions_respected_def)
    with fault' have q4: "quiet_step T ?w3 w4" by (rule fault_quiet)
    show ?thesis
    proof (cases "\<exists>e. r1 = Inl e \<or> r2 = Inl e")
      case True
      with Cons.prems(2) await fault SEND have "w' = w1 \<or> w' = w2"
        by (cases r1) (auto simp: then_eff_def bind_eff_def)
      with q1 q2 show ?thesis by (blast intro: script_outcome_quiet quiet_step_trans)
    next
      case False
      then obtain u v where ok: "r1 = Inr u" "r2 = Inr v" by (metis sum.exhaust)
      have "script_outcome False T ?w3 w'"
      proof (cases r4)
        case (Inl e)
        with Cons.prems(2) await fault fault' ok SEND have "w' = w4"
          by (auto simp: then_eff_def bind_eff_def update_eff_def)
        with q4 show ?thesis by (auto intro: script_outcome_quiet)
      next
        case (Inr x)
        with Cons.prems(2) await fault fault' ok SEND have "run_steps T callback steps w4 = (r, w')"
          by (auto simp: then_eff_def bind_eff_def update_eff_def)
        then have "script_outcome False T w4 w'"
          using Cons.IH [OF armed(2)] q4 by (simp add: quiet_step_def)
        with q4 show ?thesis by (rule script_outcome_after_quiet)
      qed
      with quiet_step_trans [OF q1 q2] show ?thesis
        using armed(1) by (auto intro: script_outcome_send)
    qed
  qed
qed

lemma run_steps_other:
  assumes "other \<noteq> task_id" and "guarantees (dispatches_once other) callback"
  shows "guarantees (dispatches_once other) (run_steps task_id callback steps)"
  using assms
proof (induction task_id callback steps rule: run_steps.induct)
  case (3 task_id callback steps)
  then have "dispatches_once other w (w\<lparr>provider_calls := provider_calls w @ [task_id]\<rparr>)" for w
    by (simp add: dispatches_once_def executions_respected_def calls_def)
  with 3 show ?case unfolding run_steps.simps by (intro guarantee_rules once.update_guar)
qed (auto intro!: guarantee_rules)

lemma adapter_dispatch_once:
  assumes "disciplined ad"
  shows "guarantees (dispatches_once task_id) (adapter_dispatch ad (ei_task_id identity)
     (before_dispatch ex cl identity handle preflight approval authority))"
proof -
  let ?callback = "before_dispatch ex cl identity handle preflight approval authority"
  have "guarantees (dispatches_once task_id) (run_steps (ei_task_id identity) ?callback (ds_steps (ad_dispatch ad)))"
  proof (cases "task_id = ei_task_id identity")
    case True
    show ?thesis
    proof (rule guaranteesI)
      fix w r w'
      assume run: "run_steps (ei_task_id identity) ?callback (ds_steps (ad_dispatch ad)) w = (r, w')"
      show "dispatches_once task_id w w'"
      proof (cases "executions_respected w")
        case respected: True
        have "script_outcome False (ei_task_id identity) w w'"
          using assms run respected by (intro run_steps_once [OF HOL.refl HOL.refl]) (simp_all add: disciplined_def)
        with True show ?thesis by (simp add: script_outcome_def)
      qed (simp add: dispatches_once_def)
    qed
  next
    case False
    then show ?thesis by (intro run_steps_other once.before_dispatch_guar)
  qed
  then show ?thesis unfolding adapter_dispatch_def by (intro guarantee_rules)
qed

interpretation once: dispatching_environment "dispatches_once task_id" disciplined for task_id
  by unfold_locales (rule adapter_dispatch_once)

end
