(* ===== verification/F3_Lock_Evolution.thy ===== *)
theory F3_Lock_Evolution
  imports F3_Independence
begin

text \<open>
  How the lock state may change.  \<open>coherent\<close> is the invariant of the store: identities are unique,
  generations lie below the next one, and two records of one key are both shared.  \<open>lock_evolves\<close> is
  the fencing contract: a record whose generation was already issued is the continuation of one
  that was there.  Every mutator of \<open>f3/locks.py\<close> keeps both.
\<close>

section \<open>Coherence and evolution\<close>

definition compatible :: "lock_record list \<Rightarrow> bool" where
  "compatible rs \<longleftrightarrow> (\<forall>r \<in> set rs. \<forall>r' \<in> set rs. lr_key r = lr_key r' \<longrightarrow> r \<noteq> r' \<longrightarrow>
     lr_mode r = ''shared'' \<and> lr_mode r' = ''shared'')"

definition coherent :: "lock_state \<Rightarrow> bool" where
  "coherent st \<longleftrightarrow> distinct (map record_identity (ls_records st)) \<and> 1 \<le> ls_next_generation st \<and>
     (\<forall>r \<in> set (ls_records st). lr_generation r < ls_next_generation st) \<and> compatible (ls_records st)"

definition continues :: "lock_record \<Rightarrow> lock_record \<Rightarrow> bool" where
  "continues r r' \<longleftrightarrow> record_identity r' = record_identity r \<and> lr_owner r' = lr_owner r \<and>
     lr_mode r' = lr_mode r \<and> lr_scopes r' = lr_scopes r \<and> lr_acquired_at r' = lr_acquired_at r \<and>
     (lr_conflict_hold r \<longrightarrow> lr_conflict_hold r')"

definition lock_evolves :: "lock_state \<Rightarrow> lock_state \<Rightarrow> bool" where
  "lock_evolves st st' \<longleftrightarrow> ls_next_generation st \<le> ls_next_generation st' \<and>
     (\<forall>r' \<in> set (ls_records st'). lr_generation r' < ls_next_generation st \<longrightarrow>
        (\<exists>r \<in> set (ls_records st). continues r r'))"

definition proposes :: "lock_state \<Rightarrow> lock_state \<Rightarrow> bool" where
  "proposes st st' \<longleftrightarrow> (coherent st \<longrightarrow> coherent st' \<and> lock_evolves st st')"

lemma continues_refl [simp]: "continues r r"
  by (simp add: continues_def)

lemma continues_trans: "continues a b \<Longrightarrow> continues b c \<Longrightarrow> continues a c"
  by (simp add: continues_def)

lemma continues_same:
  "continues r r' \<Longrightarrow> lr_key r' = lr_key r \<and> lr_generation r' = lr_generation r \<and> lr_mode r' = lr_mode r"
  by (simp add: continues_def record_identity_def)

lemma lock_evolves_refl [simp]: "lock_evolves st st"
  unfolding lock_evolves_def by (blast intro: continues_refl)

lemma lock_evolves_trans:
  assumes ab: "lock_evolves a b" and bc: "lock_evolves b c"
  shows "lock_evolves a c"
  unfolding lock_evolves_def
proof (intro conjI ballI impI)
  show "ls_next_generation a \<le> ls_next_generation c"
    using ab bc by (simp add: lock_evolves_def)
  fix r'' assume r'': "r'' \<in> set (ls_records c)" "lr_generation r'' < ls_next_generation a"
  then have "lr_generation r'' < ls_next_generation b"
    using ab by (simp add: lock_evolves_def)
  then obtain r' where r': "r' \<in> set (ls_records b)" "continues r' r''"
    using bc r'' by (auto simp: lock_evolves_def)
  moreover have "lr_generation r' < ls_next_generation a"
    using r'' continues_same [OF r'(2)] by simp
  ultimately obtain r where "r \<in> set (ls_records a)" "continues r r'"
    using ab by (auto simp: lock_evolves_def)
  with r' show "\<exists>r \<in> set (ls_records a). continues r r''" by (blast intro: continues_trans)
qed

lemma proposes_refl [simp]: "proposes st st"
  by (simp add: proposes_def)

lemma proposes_trans: "proposes a b \<Longrightarrow> proposes b c \<Longrightarrow> proposes a c"
  by (auto simp: proposes_def intro: lock_evolves_trans)

lemma coherent_empty [simp]: "coherent empty_state"
  by (simp add: coherent_def compatible_def empty_state_def)

text \<open>Dropping records, and changing them in place without touching what \<open>continues\<close> keeps.\<close>

lemma compatible_continued:
  assumes "compatible rs" and "distinct (map record_identity rs')"
    and continued: "\<And>r'. r' \<in> set rs' \<Longrightarrow> \<exists>r \<in> set rs. continues r r'"
  shows "compatible rs'"
  unfolding compatible_def
proof (intro ballI impI)
  fix r' s' assume r': "r' \<in> set rs'" and s': "s' \<in> set rs'"
    and key: "lr_key r' = lr_key s'" and differ: "r' \<noteq> s'"
  obtain r s where r: "r \<in> set rs" "continues r r'" and s: "s \<in> set rs" "continues s s'"
    using continued r' s' by meson
  have "record_identity r' \<noteq> record_identity s'"
    using r' s' differ assms(2) by (metis distinct_map inj_on_def)
  then have "r \<noteq> s" using r s by (auto simp: continues_def)
  moreover have "lr_key r = lr_key s" using key continues_same [OF r(2)] continues_same [OF s(2)] by simp
  ultimately show "lr_mode r' = ''shared'' \<and> lr_mode s' = ''shared''"
    using assms(1) r s continues_same [OF r(2)] continues_same [OF s(2)]
    by (auto simp: compatible_def)
qed

lemma proposes_continued:
  assumes "distinct (map record_identity rs')"
    and continued: "\<And>r'. r' \<in> set rs' \<Longrightarrow> \<exists>r \<in> set (ls_records st). continues r r'"
  shows "proposes st (st\<lparr>ls_records := rs'\<rparr>)"
proof -
  have "lr_generation r' < ls_next_generation st" if "coherent st" "r' \<in> set rs'" for r'
    using continued [OF that(2)] that(1) by (auto simp: coherent_def dest: continues_same)
  moreover have "compatible rs'" if "coherent st"
    using that assms by (auto simp: coherent_def intro: compatible_continued)
  moreover have "lock_evolves st (st\<lparr>ls_records := rs'\<rparr>)"
    using continued by (simp add: lock_evolves_def)
  ultimately show ?thesis using assms(1) by (simp add: proposes_def coherent_def)
qed

text \<open>Giving some records a fresh generation, keeping keys and modes.\<close>

lemma proposes_renumbered:
  assumes shape: "\<And>r. r \<in> set (ls_records st) \<Longrightarrow> lr_key (g r) = lr_key r \<and> lr_mode (g r) = lr_mode r"
    and fresh: "\<And>r. r \<in> set (ls_records st) \<Longrightarrow>
        continues r (g r) \<or> ls_next_generation st \<le> lr_generation (g r) \<and> lr_generation (g r) < n"
    and distinct: "coherent st \<Longrightarrow> distinct (map record_identity (map g (ls_records st)))"
    and n: "ls_next_generation st \<le> n"
  shows "proposes st \<lparr>ls_next_generation = n, ls_records = map g (ls_records st)\<rparr>"
  unfolding proposes_def
proof (intro impI conjI)
  let ?rs = "ls_records st"
  assume coherent: "coherent st"
  have "lr_generation (g r) < n" if "r \<in> set ?rs" for r
    using fresh [OF that] that coherent n by (fastforce simp: coherent_def dest: continues_same)
  moreover have "compatible (map g ?rs)"
    using coherent shape by (auto simp: compatible_def coherent_def)
  ultimately show "coherent \<lparr>ls_next_generation = n, ls_records = map g ?rs\<rparr>"
    using coherent distinct n by (auto simp: coherent_def)
  show "lock_evolves st \<lparr>ls_next_generation = n, ls_records = map g ?rs\<rparr>"
    using fresh n by (fastforce simp: lock_evolves_def)
qed

section \<open>Dropping and updating records\<close>

definition descends :: "lock_record list \<Rightarrow> lock_record list \<Rightarrow> bool" where
  "descends rs rs' \<longleftrightarrow>
     (distinct (map record_identity rs) \<longrightarrow> distinct (map record_identity rs')) \<and>
     (\<forall>r' \<in> set rs'. \<exists>r \<in> set rs. continues r r')"

lemma descends_refl [simp]: "descends rs rs"
  unfolding descends_def by (blast intro: continues_refl)

lemma descends_trans: "descends a b \<Longrightarrow> descends b c \<Longrightarrow> descends a c"
  unfolding descends_def by (meson continues_trans)

lemma proposes_descends:
  "descends (ls_records st) rs' \<Longrightarrow> proposes st (st\<lparr>ls_records := rs'\<rparr>)"
proof (cases "coherent st")
  case True
  assume "descends (ls_records st) rs'"
  with True show ?thesis by (intro proposes_continued) (simp_all add: descends_def coherent_def)
qed (simp add: proposes_def)

lemma descends_remove1: "descends rs (remove1 r rs)"
proof -
  have "distinct (map record_identity (remove1 r rs))" if "distinct (map record_identity rs)"
    using that set_remove1_subset [of r rs]
    by (auto simp: distinct_map intro: inj_on_subset distinct_remove1)
  then show ?thesis
    unfolding descends_def by (meson continues_refl notin_set_remove1)
qed

lemma descends_remove_records: "remove_records selected rs = Some rs' \<Longrightarrow> descends rs rs'"
proof (induction selected arbitrary: rs)
  case (Cons r selected)
  then have "descends (remove1 r rs) rs'" by (simp split: if_splits)
  then show ?case by (rule descends_trans [OF descends_remove1])
qed simp

lemma descends_update_record:
  assumes "\<And>r. continues r (f r)"
  shows "descends rs (update_record record f rs)"
proof -
  have "map record_identity (update_record record f rs) = map record_identity rs"
    using assms by (simp add: update_record_def continues_def)
  moreover have "\<exists>r \<in> set rs. continues r r'" if "r' \<in> set (update_record record f rs)" for r'
    using that assms by (auto simp: update_record_def intro: continues_refl)
  ultimately show ?thesis by (simp add: descends_def)
qed

lemma descends_update_records:
  assumes "\<And>r. continues r (f r)"
  shows "descends rs (update_records selected f rs)"
  unfolding update_records_def
proof (induction selected arbitrary: rs)
  case (Cons r selected)
  show ?case using descends_trans [OF descends_update_record Cons] assms by simp
qed simp

lemma continues_hold [simp]: "continues r (hold_record reason r)"
  by (simp add: continues_def hold_record_def record_identity_def)

lemma descends_hold_loop:
  "hold_loop retained reason pairs rs = Inr (held, rs') \<Longrightarrow> descends rs rs'"
proof (induction retained reason pairs rs arbitrary: held rule: hold_loop.induct)
  case (2 retained reason token item pairs rs)
  show ?case
  proof (cases "tk_key token \<in> set retained")
    case False
    with "2.prems" obtain rs1 where rs1: "remove_records [item] rs = Some rs1"
      "hold_loop retained reason pairs rs1 = Inr (held, rs')"
      by (auto split: option.splits)
    with "2.IH"(1) [OF False] show ?thesis
      by (blast intro: descends_trans descends_remove_records)
  next
    case True
    with "2.prems" obtain held1 where
      small: "\<not> 16 < length (lr_evidence_references (hold_record reason item))" and
      loop: "hold_loop retained reason pairs (update_record item (hold_record reason) rs) = Inr (held1, rs')"
      by (auto split: sum.splits if_splits)
    from True have "\<not> tk_key token \<notin> set retained" by simp
    from "2.IH"(2) [OF this small loop] show ?thesis
      by (rule descends_trans [OF descends_update_record [OF continues_hold]])
  qed
qed simp

section \<open>Granting\<close>

lemma grant_records_shape:
  "map lr_key (grant_records w a e g requests) = map nr_key requests"
  "map lr_generation (grant_records w a e g requests) = map (\<lambda>i. g + int i) [0..<length requests]"
  "map lr_mode (grant_records w a e g requests) = map nr_mode requests"
proof (induction requests arbitrary: g)
  case (Cons q requests)
  { case 1 show ?case using Cons(1) by (simp add: new_record_def) }
  { case 2 show ?case using Cons(2) [of "g + 1"]
      by (simp add: new_record_def map_upt_Suc del: upt_Suc) }
  { case 3 show ?case using Cons(3) by (simp add: new_record_def) }
qed simp_all

lemma grant_record_from_request:
  "r \<in> set (grant_records w a e g requests) \<Longrightarrow>
   \<exists>q \<in> set requests. lr_key r = nr_key q \<and> lr_mode r = nr_mode q \<and> g \<le> lr_generation r \<and>
     lr_generation r < g + int (length requests) \<and> lr_owner r = w \<and> \<not> lr_conflict_hold r"
  by (induction requests arbitrary: g) (fastforce simp: new_record_def)+

lemma distinct_grant_identities:
  "distinct (map record_identity (grant_records w a e g requests))"
proof -
  have "distinct (map lr_generation (grant_records w a e g requests))"
    by (simp add: grant_records_shape distinct_map inj_on_def)
  then show ?thesis
    by (auto simp: distinct_map record_identity_def inj_on_def)
qed

lemma no_conflict:
  "conflicting_keys normalized records now = [] \<Longrightarrow> q \<in> set normalized \<Longrightarrow> h \<in> set records \<Longrightarrow>
   lr_key h = nr_key q \<Longrightarrow> \<not> holder_blocks h (nr_mode q) now"
  by (auto simp: conflicting_keys_def filter_empty_conv list_ex_iff)

lemma proposes_grant:
  assumes "conflicting_keys normalized (ls_records st) now = []"
    and granted: "granted = grant_records w a e (ls_next_generation st) normalized"
    and "list_all valid_lock_record granted" and "list_all valid_lock_record (ls_records st)"
    and keys: "distinct (map nr_key normalized)"
  shows "proposes st (st\<lparr>ls_next_generation := ls_next_generation st + int (length normalized),
           ls_records := ls_records st @ granted\<rparr>)" (is "proposes st ?st'")
  unfolding proposes_def
proof (intro impI conjI)
  assume coherent: "coherent st"
  let ?rs = "ls_records st"
  have modes: "valid_mode (lr_mode r)" if "r \<in> set ?rs \<union> set granted" for r
    using assms(3,4) that by (auto simp: list_all_iff valid_lock_record_def valid_normalized_request_def)
  have mixed: "lr_mode r = ''shared'' \<and> lr_mode s = ''shared''"
    if r: "r \<in> set ?rs" and s: "s \<in> set granted" and key: "lr_key r = lr_key s" for r s
  proof -
    obtain q where "q \<in> set normalized" "lr_key s = nr_key q" "lr_mode s = nr_mode q"
      using grant_record_from_request [of s w a e "ls_next_generation st" normalized] s
      unfolding granted by blast
    with no_conflict [OF assms(1), of q r] r s key modes [of r] modes [of s] show ?thesis
      by (auto simp: holder_blocks_def valid_mode_def)
  qed
  have own: "r = s" if "r \<in> set granted" "s \<in> set granted" "lr_key r = lr_key s" for r s
  proof -
    have "inj_on lr_key (set granted)"
      using keys grant_records_shape(1) [of w a e "ls_next_generation st" normalized]
      unfolding granted by (metis distinct_map)
    with that show ?thesis by (auto dest: inj_onD)
  qed
  have "compatible (?rs @ granted)"
    unfolding compatible_def set_append
  proof (intro ballI impI)
    fix r s assume "r \<in> set ?rs \<union> set granted" "s \<in> set ?rs \<union> set granted"
      "lr_key r = lr_key s" "r \<noteq> s"
    with coherent mixed [of r s] mixed [of s r] own [of r s]
    show "lr_mode r = ''shared'' \<and> lr_mode s = ''shared''"
      by (auto simp: coherent_def compatible_def)
  qed
  moreover have "distinct (map record_identity (?rs @ granted))"
    using coherent distinct_grant_identities [of w a e "ls_next_generation st" normalized]
    by (fastforce simp: granted coherent_def record_identity_def dest: grant_record_from_request)
  ultimately show "coherent ?st'"
    using coherent by (fastforce simp: granted coherent_def dest: grant_record_from_request)
  show "lock_evolves st ?st'"
    by (fastforce simp: granted lock_evolves_def dest: grant_record_from_request intro: continues_refl)
qed

section \<open>Handing over\<close>

lemma transferred_records_shape:
  "length (transferred_records w a e g rs) = length rs"
  "i < length rs \<Longrightarrow> lr_key (transferred_records w a e g rs ! i) = lr_key (rs ! i) \<and>
     lr_mode (transferred_records w a e g rs ! i) = lr_mode (rs ! i) \<and>
     lr_generation (transferred_records w a e g rs ! i) = g + int i \<and>
     lr_owner (transferred_records w a e g rs ! i) = w"
proof (induction rs arbitrary: g i)
  case (Cons r rs)
  { case 1 show ?case using Cons(1) by simp }
  { case 2 then show ?case using Cons(2) [of "i - 1" "g + 1"] by (cases i) simp_all }
qed simp_all

lemma map_of_zip_index:
  "map_of (zip xs ys) x = Some y \<Longrightarrow> \<exists>i < length xs. i < length ys \<and> xs ! i = x \<and> ys ! i = y"
  by (drule map_of_SomeD) (auto simp: in_set_zip)

lemma distinct_renumbered:
  assumes coherent: "coherent st"
    and unchanged_or_fresh: "\<And>r. r \<in> set (ls_records st) \<Longrightarrow>
        record_identity (g r) = record_identity r \<or> ls_next_generation st \<le> lr_generation (g r)"
    and fresh_apart: "\<And>r s. r \<in> set (ls_records st) \<Longrightarrow> s \<in> set (ls_records st) \<Longrightarrow>
        ls_next_generation st \<le> lr_generation (g r) \<Longrightarrow> lr_generation (g r) = lr_generation (g s) \<Longrightarrow> r = s"
  shows "distinct (map record_identity (map g (ls_records st)))"
proof -
  have "r = s" if r: "r \<in> set (ls_records st)" and s: "s \<in> set (ls_records st)"
    and same: "record_identity (g r) = record_identity (g s)" for r s
  proof (cases "ls_next_generation st \<le> lr_generation (g r)")
    case True
    then show ?thesis using fresh_apart r s same by (simp add: record_identity_def)
  next
    case False
    moreover from False same have "\<not> ls_next_generation st \<le> lr_generation (g s)"
      by (simp add: record_identity_def)
    ultimately have "record_identity (g r) = record_identity r" "record_identity (g s) = record_identity s"
      using unchanged_or_fresh [OF r] unchanged_or_fresh [OF s] by blast+
    with coherent r s same show ?thesis by (auto simp: coherent_def distinct_map dest: inj_onD)
  qed
  with coherent show ?thesis by (auto simp: coherent_def distinct_map inj_on_def)
qed

lemma proposes_transfer:
  assumes moved: "moved = transferred_records w a e (ls_next_generation st) selected"
  shows "proposes st (st\<lparr>ls_next_generation := ls_next_generation st + int (length selected),
           ls_records := replace_records (zip selected moved) (ls_records st)\<rparr>)"
proof -
  define g where "g = (\<lambda>r. case map_of (zip selected moved) r of None \<Rightarrow> r | Some r' \<Rightarrow> r')"
  have step: "g r = r \<or> (\<exists>i < length selected. selected ! i = r \<and> lr_key (g r) = lr_key r \<and>
      lr_mode (g r) = lr_mode r \<and> lr_generation (g r) = ls_next_generation st + int i)" for r
  proof (cases "map_of (zip selected moved) r")
    case (Some r')
    then obtain i where "i < length selected" "selected ! i = r" "moved ! i = r'"
      by (auto dest!: map_of_zip_index)
    with Some transferred_records_shape(2) [of i selected w a e] show ?thesis
      by (auto simp: g_def moved)
  qed (simp add: g_def)
  have "proposes st \<lparr>ls_next_generation = ls_next_generation st + int (length selected),
          ls_records = map g (ls_records st)\<rparr>"
  proof (rule proposes_renumbered)
    show "lr_key (g r) = lr_key r \<and> lr_mode (g r) = lr_mode r" for r
      using step [of r] by auto
    show "continues r (g r) \<or> ls_next_generation st \<le> lr_generation (g r) \<and>
        lr_generation (g r) < ls_next_generation st + int (length selected)" for r
      using step [of r] by auto
    assume coherent: "coherent st"
    then show "distinct (map record_identity (map g (ls_records st)))"
    proof (rule distinct_renumbered)
      show "record_identity (g r) = record_identity r \<or> ls_next_generation st \<le> lr_generation (g r)" for r
        using step [of r] by auto
      fix r s assume rs: "r \<in> set (ls_records st)" "s \<in> set (ls_records st)"
        and fresh: "ls_next_generation st \<le> lr_generation (g r)"
        and same: "lr_generation (g r) = lr_generation (g s)"
      from rs coherent have "lr_generation r < ls_next_generation st" "lr_generation s < ls_next_generation st"
        by (auto simp: coherent_def)
      with fresh same step [of r] step [of s] show "r = s" by auto
    qed
  qed simp
  then show ?thesis by (cases st) (simp add: replace_records_def g_def)
qed

lemma proposes_transfer_one:
  assumes present: "r0 \<in> set (ls_records st)"
    and f: "\<And>r. lr_key (f r) = lr_key r \<and> lr_mode (f r) = lr_mode r \<and>
              lr_generation (f r) = ls_next_generation st"
  shows "proposes st \<lparr>ls_next_generation = ls_next_generation st + 1,
           ls_records = update_record r0 f (ls_records st)\<rparr>"
  unfolding update_record_def
proof (rule proposes_renumbered)
  assume coherent: "coherent st"
  then show "distinct (map record_identity (map (\<lambda>r. if record_identity r = record_identity r0
      then f r else r) (ls_records st)))"
  proof (rule distinct_renumbered)
    fix r s assume rs: "r \<in> set (ls_records st)" "s \<in> set (ls_records st)"
      and "ls_next_generation st \<le> lr_generation (if record_identity r = record_identity r0 then f r else r)"
      and "lr_generation (if record_identity r = record_identity r0 then f r else r) =
           lr_generation (if record_identity s = record_identity r0 then f s else s)"
    moreover have "lr_generation r < ls_next_generation st" "lr_generation s < ls_next_generation st"
      using rs coherent by (auto simp: coherent_def)
    ultimately have "record_identity r = record_identity s" by (auto split: if_splits)
    with coherent rs show "r = s" by (auto simp: coherent_def distinct_map dest: inj_onD)
  qed (use f in auto)
qed (use f in auto)

section \<open>Recovering expired leases\<close>

lemma recover_one_proposes:
  assumes "recover_one tw tt now item p = Inr p'"
  shows "proposes (rp_state p) (rp_state p')"
proof -
  obtain key generation decision where item: "item = ((key, generation), decision)"
    by (metis surj_pair)
  let ?rs = "ls_records (rp_state p)"
  obtain r0 where "filter (\<lambda>r. lr_key r = key \<and> lr_generation r = generation) ?rs = [r0]"
    and active: "\<not> (lr_conflict_hold r0 \<or> record_active r0 now)"
    using assms by (auto simp: recover_one_def item Let_def split: list.splits if_splits)
  then have r0: "r0 \<in> set ?rs"
    and unfold: "recover_one tw tt now item p = (case sd_action decision of
              RELEASE \<Rightarrow> Inr (p\<lparr>rp_state := (rp_state p)\<lparr>ls_records := remove1 r0 ?rs\<rparr>,
                               rp_released := rp_released p @ [token_of r0]\<rparr>)
            | CONFLICT_HOLD \<Rightarrow>
                Inr (p\<lparr>rp_state := (rp_state p)\<lparr>ls_records :=
                         update_record r0 (hold_record (sd_reason_code decision)) ?rs\<rparr>,
                       rp_held := rp_held p @ [token_of r0]\<rparr>)
            | TRANSFER_FOR_OBSERVATION \<Rightarrow>
                (case (tw, tt) of
                   (Some w, Some timing) \<Rightarrow>
                     if \<not> same_task_identity w (lr_owner r0) then Inl LockOwnershipError
                     else
                       Inr (p\<lparr>rp_state := \<lparr>ls_next_generation = ls_next_generation (rp_state p) + 1,
                                ls_records = update_record r0
                                  (transfer_record w timing now (ls_next_generation (rp_state p))
                                     (sd_reason_code decision)) ?rs\<rparr>,
                              rp_transferred := rp_transferred p @
                                [\<lparr>tk_key = lr_key r0, tk_generation = ls_next_generation (rp_state p),
                                  tk_mode = lr_mode r0\<rparr>]\<rparr>)
                 | _ \<Rightarrow> Inl LockOwnershipError))"
    using filter_set [of "\<lambda>r. lr_key r = key \<and> lr_generation r = generation" ?rs]
    by (auto simp: recover_one_def item Let_def)
  show ?thesis
  proof (cases "sd_action decision")
    case RELEASE
    with assms show ?thesis unfolding unfold by (auto intro!: proposes_descends descends_remove1)
  next
    case CONFLICT_HOLD
    with assms show ?thesis unfolding unfold
      by (auto intro!: proposes_descends descends_update_record)
  next
    case TRANSFER_FOR_OBSERVATION
    with assms r0 show ?thesis unfolding unfold
      by (auto simp: transfer_record_def split: option.splits if_splits intro!: proposes_transfer_one)
  qed
qed

lemma recover_all_proposes:
  "recover_all tw tt now items p = Inr p' \<Longrightarrow> proposes (rp_state p) (rp_state p')"
proof (induction items arbitrary: p)
  case (Cons item items)
  then show ?case by (auto split: sum.splits intro: proposes_trans recover_one_proposes)
qed simp

end
