(* ===== verification/F3_Lock_Safety.thy ===== *)
theory F3_Lock_Safety
  imports F3_Lock_Evolution
begin

text \<open>
  Every transaction of the lock store respects \<open>lock_guarantee\<close>: whatever faults occur, and whatever
  the other processes do within the same contract, a coherent lock file stays coherent and only
  evolves.  The interpretations hand this contract to every operation of the store and to the
  executor.
\<close>

section \<open>Lock files\<close>

definition file_state :: "lock_file \<Rightarrow> lock_state option" where
  "file_state file =
     (case file of
        NO_LOCK_FILE \<Rightarrow> Some empty_state
      | LOCK_FILE schema st \<Rightarrow>
          if schema = LOCK_STATE_SCHEMA_VERSION \<and> valid_lock_state st then Some st else None
      | GARBLED_LOCK_FILE \<Rightarrow> None)"

definition lock_file_evolves :: "lock_file \<Rightarrow> lock_file \<Rightarrow> bool" where
  "lock_file_evolves f f' \<longleftrightarrow> (\<forall>st. file_state f = Some st \<and> compatible (ls_records st) \<longrightarrow>
     (\<exists>st'. file_state f' = Some st' \<and> compatible (ls_records st') \<and> lock_evolves st st'))"

definition locks_respected :: "world \<Rightarrow> bool" where
  "locks_respected w \<longleftrightarrow> (\<forall>f \<in> set (lock_others w). \<forall>file. lock_file_evolves file (f file))"

definition lock_guarantee :: "world \<Rightarrow> world \<Rightarrow> bool" where
  "lock_guarantee w w' \<longleftrightarrow> (locks_respected w \<longrightarrow>
     locks_respected w' \<and> lock_file_evolves (lock_disk w) (lock_disk w'))"

lemma lock_file_evolves_refl [simp]: "lock_file_evolves f f"
  by (auto simp: lock_file_evolves_def)

lemma lock_file_evolves_trans:
  assumes ab: "lock_file_evolves a b" and bc: "lock_file_evolves b c"
  shows "lock_file_evolves a c"
  unfolding lock_file_evolves_def
proof (intro allI impI)
  fix st assume "file_state a = Some st \<and> compatible (ls_records st)"
  with ab obtain st' where st': "file_state b = Some st'" "compatible (ls_records st')" "lock_evolves st st'"
    by (auto simp: lock_file_evolves_def)
  with bc obtain st'' where "file_state c = Some st''" "compatible (ls_records st'')" "lock_evolves st' st''"
    by (auto simp: lock_file_evolves_def)
  with st' show "\<exists>st''. file_state c = Some st'' \<and> compatible (ls_records st'') \<and> lock_evolves st st''"
    by (blast intro: lock_evolves_trans)
qed

lemma lock_guarantee_unchanged:
  "lock_others w' = lock_others w \<Longrightarrow> lock_disk w' = lock_disk w \<Longrightarrow> lock_guarantee w w'"
  by (simp add: lock_guarantee_def locks_respected_def)

interpretation lock: ambient lock_guarantee
proof unfold_locales
  show "lock_guarantee s u" if "lock_guarantee s t" "lock_guarantee t u" for s t u
    using that by (auto simp: lock_guarantee_def intro: lock_file_evolves_trans)
qed (simp_all add: lock_guarantee_unchanged)

lemma file_state_coherent:
  "file_state f = Some st \<Longrightarrow> coherent st \<longleftrightarrow> compatible (ls_records st)"
  by (auto simp: file_state_def coherent_def valid_lock_state_def list_all_iff
      compatible_def empty_state_def split: lock_file.splits if_splits)

lemma file_state_valid: "file_state f = Some st \<Longrightarrow> valid_lock_state st"
  by (auto simp: file_state_def empty_state_def valid_lock_state_def
      split: lock_file.splits if_splits)

section \<open>What a transaction sees\<close>

definition lock_view :: "world \<Rightarrow> lock_file \<times> (lock_file \<Rightarrow> lock_file) list" where
  "lock_view w = (lock_disk w, lock_others w)"

interpretation lock_unseen: ambient "same lock_view"
  by unfold_locales (simp_all add: same_def lock_view_def)

lemma unseen_lock_guarantee: "guarantees (same lock_view) m \<Longrightarrow> guarantees lock_guarantee m"
  by (erule guarantees_mono) (simp add: same_def lock_view_def lock_guarantee_unchanged)

definition holds_state :: "lock_state \<Rightarrow> world \<Rightarrow> bool" where
  "holds_state st w \<longleftrightarrow> file_state (lock_disk w) = Some st"

lemma holds_state_unseen: "same lock_view w w' \<Longrightarrow> holds_state st w \<Longrightarrow> holds_state st w'"
  by (simp add: same_def lock_view_def holds_state_def)

lemma read_state_okD:
  assumes "read_state w = (Inr st, w')"
  shows "holds_state st w'"
  using assms unfolding read_state_def
  by (auto simp: read_eff_def return_eff_def raise_eff_def holds_state_def file_state_def
      elim!: then_eff_okD bind_eff_okD split: lock_file.splits if_splits)

section \<open>Writing\<close>

definition sorted_state :: "lock_state \<Rightarrow> lock_state" where
  "sorted_state st = st\<lparr>ls_records := sort_key record_identity (ls_records st)\<rparr>"

definition wrote :: "lock_state \<Rightarrow> world \<Rightarrow> world \<Rightarrow> bool" where
  "wrote st w w' \<longleftrightarrow> list_all valid_lock_record (ls_records st) \<and>
     lock_disk w' = LOCK_FILE LOCK_STATE_SCHEMA_VERSION (sorted_state st)"

definition writes :: "lock_state \<Rightarrow> world \<Rightarrow> world \<Rightarrow> bool" where
  "writes st w w' \<longleftrightarrow> lock_others w' = lock_others w \<and>
     (lock_disk w' = lock_disk w \<or> wrote st w w')"

interpretation lock_write: ambient "writes st" for st
  by unfold_locales (auto simp: writes_def wrote_def)

lemma write_state_writes: "guarantees (writes st) (write_state st)"
proof (cases "list_all valid_lock_record (sort_key record_identity (ls_records st))")
  case True
  have "writes st w (w\<lparr>lock_disk := LOCK_FILE LOCK_STATE_SCHEMA_VERSION
      (st\<lparr>ls_records := sort_key record_identity (ls_records st)\<rparr>)\<rparr>)" for w
    using True by (simp add: writes_def wrote_def sorted_state_def list_all_iff)
  then show ?thesis unfolding write_state_def Let_def by (intro guarantee_rules lock_write.update_guar)
next
  case False
  then show ?thesis by (simp add: write_state_def lock_write.raise_guar)
qed

lemma fault_point_locks:
  "fault_point w = (r, w') \<Longrightarrow> lock_disk w' = lock_disk w \<and> lock_others w' = lock_others w"
  by (drule guaranteesD [OF lock_unseen.ambient_fault_point]) (simp add: same_def lock_view_def)

lemma write_state_okD:
  assumes "write_state st w = (Inr x, w')"
  shows "wrote st w w'"
  using assms unfolding write_state_def Let_def
  by (auto simp: update_eff_def wrote_def sorted_state_def list_all_iff
      dest!: convert_os_error_okD fault_point_locks elim!: then_eff_okD)

lemma sorted_state_valid:
  assumes "list_all valid_lock_record (ls_records st)" and coherent: "coherent st"
  shows "valid_lock_state (sorted_state st)" and "coherent (sorted_state st)"
proof -
  from coherent have d: "distinct (map record_identity (sort_key record_identity (ls_records st)))"
    by (simp add: coherent_def distinct_map)
  have "sort_key record_identity (sort_key record_identity (ls_records st)) =
      sort_key record_identity (ls_records st)"
    by (rule sort_key_id_if_sorted) simp
  with assms d show "valid_lock_state (sorted_state st)"
    by (simp add: valid_lock_state_def sorted_state_def coherent_def list_all_iff)
  show "coherent (sorted_state st)"
    using coherent d by (simp add: coherent_def sorted_state_def compatible_def)
qed

lemma lock_evolves_sorted [simp]: "lock_evolves st (sorted_state st') = lock_evolves st st'"
  by (simp add: lock_evolves_def sorted_state_def)

lemma lock_write_from:
  assumes "proposes st st'"
  shows "guarantees_from (holds_state st) lock_guarantee (write_state st')"
proof (rule guarantees_fromI)
  fix w r w'
  assume st: "holds_state st w" and run: "write_state st' w = (r, w')"
  have "lock_file_evolves (lock_disk w) (lock_disk w')" if wrote: "wrote st' w w'"
    unfolding lock_file_evolves_def
  proof (intro allI impI)
    fix s assume s: "file_state (lock_disk w) = Some s \<and> compatible (ls_records s)"
    with st have [simp]: "s = st" by (simp add: holds_state_def)
    from s have "coherent st" using file_state_coherent by auto
    with assms have "coherent st'" "lock_evolves st st'" by (simp_all add: proposes_def)
    with sorted_state_valid [of st'] wrote
    show "\<exists>s'. file_state (lock_disk w') = Some s' \<and> compatible (ls_records s') \<and> lock_evolves s s'"
      by (auto simp: wrote_def file_state_def coherent_def)
  qed
  then show "lock_guarantee w w'"
    using guaranteesD [OF write_state_writes run]
    by (auto simp: writes_def lock_guarantee_def locks_respected_def)
qed

section \<open>Transactions\<close>

definition honest :: "(lock_state \<Rightarrow> ('a \<times> bool \<times> lock_state) eff) \<Rightarrow> bool" where
  "honest mutator \<longleftrightarrow> (\<forall>st. guarantees (same lock_view) (mutator st) \<and>
     (valid_lock_state st \<longrightarrow>
        yields (\<lambda>(x, changed, st'). changed \<longrightarrow> proposes st st') (mutator st)))"

lemma honestI:
  "(\<And>st. guarantees (same lock_view) (mutator st)) \<Longrightarrow>
   (\<And>st. valid_lock_state st \<Longrightarrow>
      yields (\<lambda>(x, changed, st'). changed \<longrightarrow> proposes st st') (mutator st)) \<Longrightarrow> honest mutator"
  by (simp add: honest_def)

lemma lock_interference_guar: "guarantees lock_guarantee lock_interference"
  by (rule guaranteesI)
    (auto simp: lock_interference_def lock_guarantee_def locks_respected_def split: list.splits)

lemma transact_honest:
  assumes "honest mutator"
  shows "guarantees lock_guarantee (transact mutator)"
proof -
  let ?step = "\<lambda>st. \<lambda>(x, changed, st').
      then_eff (if changed then write_state st' else return_eff ()) (return_eff x)"
  have step: "guarantees_from (holds_state st) lock_guarantee (bind_eff (mutator st) (?step st))" for st
  proof (rule lock.bind_from)
    have unseen: "guarantees (same lock_view) (mutator st)"
      using assms by (simp add: honest_def)
    then show "guarantees_from (holds_state st) lock_guarantee (mutator st)"
      by (intro guarantees_from_all unseen_lock_guarantee)
    show "holds_state st w' \<and> (case p of (x, changed, st') \<Rightarrow> changed \<longrightarrow> proposes st st')"
      if "holds_state st w" "mutator st w = (Inr p, w')" for w p w'
    proof
      show "holds_state st w'"
        using guaranteesD [OF unseen that(2)] that(1) by (rule holds_state_unseen)
      have "valid_lock_state st"
        using that(1) by (auto simp: holds_state_def dest: file_state_valid)
      with assms that(2) show "case p of (x, changed, st') \<Rightarrow> changed \<longrightarrow> proposes st st'"
        by (auto simp: honest_def dest: yieldsD)
    qed
  next
    fix p :: "'a \<times> bool \<times> lock_state"
    obtain x changed st' where p: "p = (x, changed, st')" by (metis surj_pair)
    show "guarantees_from (\<lambda>w. holds_state st w \<and> (case p of (x, changed, st') \<Rightarrow>
            changed \<longrightarrow> proposes st st')) lock_guarantee (?step st p)"
    proof (cases "changed \<and> \<not> proposes st st'")
      case True
      then show ?thesis by (simp add: p guarantees_from_def)
    next
      case False
      then have "guarantees_from (holds_state st) lock_guarantee (?step st p)"
        unfolding p by (auto intro!: lock.then_from_any lock_write_from lock.return_guar lock.return_from)
      then show ?thesis by (simp add: guarantees_from_def)
    qed
  qed
  have "guarantees lock_guarantee (bind_eff read_state (\<lambda>st. bind_eff (mutator st) (?step st)))"
  proof (rule guarantees_all_from, rule lock.bind_from)
    show "holds_state st w'" if "read_state w = (Inr st, w')" for w st w'
      using that by (rule read_state_okD)
  qed (intro guarantees_from_all lock.ambient_read_state, rule step)
  then show ?thesis
    unfolding transact_def exclusive_transaction_def
    by (intro lock.convert_os_error_guar lock.then_guar lock.ambient_fault_point
        lock_interference_guar)
qed

section \<open>The mutators are honest\<close>

lemma yields_value:
  "(\<And>y. z = Some y \<Longrightarrow> yields Q (f y)) \<Longrightarrow> yields Q (bind_eff (value_of z) f)"
  by (cases z) (simp_all add: value_of_def yields_raise)

lemma honest_acquire: "honest (acquire_mutator normalized w timing now)"
proof (rule honestI)
  show "guarantees (same lock_view) (acquire_mutator normalized w timing now st)" for st
    unfolding acquire_mutator_def Let_def lock_metric_def
    by (intro guarantee_rules lock_unseen.ambient_lock_metric_by)
  fix st assume valid: "valid_lock_state st"
  let ?granted = "\<lambda>a e. grant_records w a e (ls_next_generation st) normalized"
  have keys: "distinct (map nr_key normalized)"
    if "valid_lock_handle \<lparr>lh_owner = w, lh_tokens = map token_of (?granted a e),
          lh_acquired_at = a, lh_lease_expires_at = e, lh_timing = timing\<rparr>" for a e
  proof -
    have "distinct (map lr_key (?granted a e))"
      using that by (simp add: valid_lock_handle_def Let_def token_of_def comp_def)
    then show ?thesis by (simp only: grant_records_shape)
  qed
  have old: "list_all valid_lock_record (ls_records st)"
    using valid by (simp add: valid_lock_state_def)
  show "yields (\<lambda>(x, changed, st'). changed \<longrightarrow> proposes st st')
          (acquire_mutator normalized w timing now st)"
    unfolding acquire_mutator_def Let_def
    using keys old
    by (auto intro!: yields_require yields_return yields_then [OF yields_raise] proposes_grant
        simp: not_le)
qed

lemma honest_validate: "honest (\<lambda>st. then_eff
    (validate_tokens (lh_owner handle) now allow (lh_tokens handle) (ls_records st))
    (return_eff ((), False, st)))"
  by (rule honestI) (auto intro!: guarantee_rules yield_rules lock_unseen.ambient_validate_tokens)

lemma honest_read: "honest (\<lambda>st. return_eff (f (ls_records st), False, st))"
  by (rule honestI) (auto intro!: guarantee_rules yield_rules)

lemma honest_renew: "honest (renew_mutator handle now)"
  by (rule honestI)
    (auto simp: renew_mutator_def Let_def continues_def record_identity_def
      intro!: guarantee_rules yields_lift yields_then yields_return
        proposes_descends descends_update_records)

lemma honest_release: "honest (release_mutator handle pre_dispatch_cleanup)"
  by (rule honestI)
    (auto simp: release_mutator_def Let_def
      intro!: guarantee_rules yields_lift yields_then yields_value yields_return proposes_descends
      intro: descends_remove_records)

lemma honest_promote: "honest (promote_mutator handle retained reason)"
  by (rule honestI)
    (auto simp: promote_mutator_def intro!: guarantee_rules yields_lift yields_then yields_return
      proposes_descends intro: descends_hold_loop split: prod.splits)

lemma honest_release_hold: "honest (release_hold_mutator w tokens)"
  by (rule honestI)
    (auto simp: release_hold_mutator_def
      intro!: guarantee_rules yields_lift yields_then yields_value yields_return proposes_descends
      intro: descends_remove_records)

lemma honest_recover: "honest (recover_mutator decisions tw tt now)"
proof (rule honestI)
  show "guarantees (same lock_view) (recover_mutator decisions tw tt now st)" for st
    by (rule lock_unseen.ambient_recover_mutator)
  show "yields (\<lambda>(x, changed, st'). changed \<longrightarrow> proposes st st')
          (recover_mutator decisions tw tt now st)" for st
    unfolding recover_mutator_def Let_def
    by (rule yields_lift)
      (auto dest!: recover_all_proposes split: list.splits option.splits
        intro!: yields_require yields_return)
qed

lemma honest_transfer:
  assumes "guarantees (same lock_view) clock"
  shows "honest (transfer_mutator expected old w timing clock valid_until)"
  by (rule honestI)
    (auto simp: transfer_mutator_def Let_def intro!: assms guarantee_rules yields_bind yields_then
      yields_return proposes_transfer)

lemma honest_settle:
  assumes "\<And>h. guarantees (same lock_view) (persist h)"
  shows "honest (settle_mutator digest w expected h created updated persist timing now)"
  by (rule honestI)
    (auto simp: settle_mutator_def Let_def
      intro!: assms guarantee_rules yields_then yields_value yields_return proposes_descends
      intro: descends_remove_records)

lemma same_lock_view:
  "guarantees (same lock_disk) m \<Longrightarrow> guarantees (same lock_others) m \<Longrightarrow> guarantees (same lock_view) m"
  by (simp add: guarantees_def same_def lock_view_def)

section \<open>The contract of the store, handed to its clients\<close>

interpretation lock: lock_handover lock_guarantee
proof unfold_locales
  show "guarantees lock_guarantee (transact (transfer_mutator expected old w timing clock valid_until))"
    if "guarantees (same lock_disk) clock" "guarantees (same lock_others) clock"
    for expected old w timing clock valid_until
    using that by (intro transact_honest honest_transfer same_lock_view)
  show "guarantees lock_guarantee
      (transact (settle_mutator digest w expected h created updated persist timing now))"
    if "\<And>h. guarantees (same lock_disk) (persist h)" "\<And>h. guarantees (same lock_others) (persist h)"
    for digest w expected h created updated persist timing now
    by (intro transact_honest honest_settle same_lock_view that)
qed (intro transact_honest honest_acquire honest_validate honest_renew honest_release honest_promote
      honest_release_hold honest_read honest_recover lock.ambient_sleep lock.ambient_lock_metric_by)+

interpretation lock: ignores_executions lock_guarantee
  by unfold_locales (simp_all add: lock_guarantee_unchanged)

interpretation lock: executor_environment lock_guarantee
  by unfold_locales (simp_all add: lock_guarantee_unchanged)

lemma run_steps_lock_guarantee:
  "guarantees lock_guarantee callback \<Longrightarrow>
   guarantees lock_guarantee (run_steps task_id callback steps)"
proof (induction task_id callback steps rule: run_steps.induct)
  case (3 task_id callback steps)
  then show ?case
    by (auto intro!: guarantee_rules lock.update_guar simp: lock_guarantee_unchanged)
qed (auto intro!: guarantee_rules)

interpretation lock: dispatching_environment lock_guarantee "\<lambda>_. True"
  by unfold_locales
    (unfold adapter_dispatch_def, intro guarantee_rules run_steps_lock_guarantee)

end
