(* ===== verification/F3_Examples.thy ===== *)
theory F3_Examples
  imports F3_Executor
begin

text \<open>
  Concrete data on which the properties are evaluated: a task that locks one helper, an adapter that
  dispatches behind the callback and verifies, and a world with empty stores and no faults.
\<close>

definition sample_hash :: string where
  "sample_hash = replicate 64 (CHR ''a'')"

definition sample_identity :: execution_identity where
  "sample_identity = \<lparr>ei_task_id = ''task1'', ei_plan_id = None, ei_attempt_id = ''attempt1'',
     ei_request_id = ''request1'', ei_owner_id = ''owner1''\<rparr>"

definition sample_target :: operation_target where
  "sample_target = \<lparr>target_type = ''helper'', target_id = ''input1''\<rparr>"

definition sample_prepared :: prepared_operation where
  "sample_prepared = \<lparr>po_contract_model = F3_ADAPTER_CONTRACT_MODEL, po_adapter_id = ''helpers'',
     po_operation = ''set_value'', po_target = sample_target,
     po_current_state_fingerprint = sample_hash, po_normalized_proposed_hash = sample_hash,
     po_prepared_operation_hash = sample_hash, po_risk_level = ''low'',
     po_policy_decision_hash = sample_hash, po_approval_bundle_hash = sample_hash,
     po_expected_effects = [''helper_value''], po_verification_contract_model = ''readback1'',
     po_verification_contract_hash = sample_hash, po_rollback_available = False\<rparr>"

definition sample_capabilities :: adapter_capabilities where
  "sample_capabilities = \<lparr>cap_adapter_id = ''helpers'', cap_contract_model = F3_ADAPTER_CONTRACT_MODEL,
     cap_operation_family = ''helpers'', cap_supported_operations = [''set_value''],
     cap_rollback_supported = False, cap_readback_recovery_supported = True,
     cap_exact_provider_contract_required = True\<rparr>"

definition sample_request :: lock_request where
  "sample_request = \<lparr>rq_key = ''helper:input1'', rq_scopes = [RESOURCE], rq_mode = EXCLUSIVE,
     rq_reason_codes = [''target'']\<rparr>"

definition sample_preflight :: preflight_result where
  "sample_preflight = \<lparr>pf_eligible = True, pf_outcome = None, pf_confirmed_target = Some sample_target,
     pf_observed_state_fingerprint = Some sample_hash, pf_provider_contract = Some ''contract1'',
     pf_provider_operation = Some ''call1'', pf_provider_arguments_hash = Some sample_hash,
     pf_evidence_hash = Some sample_hash, pf_diagnostic_codes = [], pf_mismatch_fields = []\<rparr>"

definition sample_dispatch :: dispatch_result where
  "sample_dispatch = \<lparr>dr_outcome = OBSERVING, dr_dispatch_intent_recorded = True,
     dr_mutating_invocation_count = 1, dr_may_have_dispatched = True,
     dr_provider_response_received = True, dr_provider_operation_id = None,
     dr_response_evidence_hash = None, dr_diagnostic_codes = [], dr_adapter_dispatch_count = 1,
     dr_provider_mutation_count = 1\<rparr>"

definition sample_observation :: observation_result where
  "sample_observation = \<lparr>ob_outcome = OBSERVING, ob_attempt_count = 1, ob_observation_complete = True,
     ob_provider_reachable = Some True, ob_target_reachable = Some True,
     ob_readback_state_fingerprint = Some sample_hash, ob_intended_result_observed = Some True,
     ob_mismatch_fields = [], ob_evidence_hash = Some sample_hash, ob_diagnostic_codes = []\<rparr>"

definition sample_verification :: verification_result where
  "sample_verification = \<lparr>vr_outcome = SUCCEEDED_VERIFIED, vr_attempt_count = 1, vr_verified = Some True,
     vr_resulting_state_fingerprint = Some sample_hash, vr_mismatch_fields = [],
     vr_evidence_hash = Some sample_hash, vr_manual_review_reason_code = None\<rparr>"

definition sample_adapter :: adapter where
  "sample_adapter = \<lparr>ad_capabilities = sample_capabilities, ad_lock_requests = Inr [sample_request],
     ad_preflight = (\<lambda>_. Inr sample_preflight),
     ad_dispatch = \<lparr>ds_steps = [INVOKE_CALLBACK, SEND], ds_result = Inr sample_dispatch,
       ds_callback_failed = Inl\<rparr>,
     ad_observe = (\<lambda>_. Inr sample_observation), ad_recover = (\<lambda>_. Inr sample_observation),
     ad_verify = (\<lambda>_. Inr sample_verification)\<rparr>"

definition sample_lock_timing :: lock_timing where
  "sample_lock_timing = \<lparr>lease_seconds = seconds 60, renewal_interval_seconds = seconds 20,
     wait_timeout_seconds = seconds 1, poll_interval_seconds = 500000\<rparr>"

definition sample_executor :: executor where
  "sample_executor = \<lparr>ex_lock_timing = sample_lock_timing,
     ex_executor_timing = \<lparr>post_dispatch_evidence_seconds = seconds 60, claim_lease_seconds = seconds 60,
       max_observation_attempts = 3, max_verification_attempts = 3\<rparr>,
     ex_final_read_at_deadline = False\<rparr>"

definition sample_world :: world where
  "sample_world = \<lparr>lock_disk = NO_LOCK_FILE, execution_disk = (\<lambda>_. None), lock_counters = (\<lambda>_. 0),
     executor_counters = (\<lambda>_. 0), audit_log = [], faults = [], lock_others = [],
     execution_others = [], wall_clock = 1000, ticks = [], monotonic_clock = 0, jitter = [],
     renewals = [], provider_calls = [], approvals_consumed = 0, authority_log = [],
     run_state = fresh_run\<rparr>"

definition sample_run :: "(exn + executor_result) \<times> world" where
  "sample_run = execute sample_executor sample_adapter sample_identity sample_prepared (Inr ()) None
     sample_world"

section \<open>Records at the stages of a run\<close>

definition sample_event :: "int \<Rightarrow> string \<Rightarrow> string list \<Rightarrow> execution_event" where
  "sample_event n event_type codes = \<lparr>ev_sequence = n, ev_event_type = event_type,
     ev_occurred_at = At 1000, ev_diagnostic_codes = codes\<rparr>"

definition sample_tokens :: "recorded_token list" where
  "sample_tokens = [\<lparr>rt_key = ''helper:input1'', rt_generation = 1, rt_mode = ''exclusive'',
     rt_owner_id = ''owner1''\<rparr>]"

definition sample_ready :: execution_record where
  "sample_ready = (initial_record sample_identity (''helpers'', ''set_value'', sample_target, sample_hash)
       (At 1000) (At 60001000))
     \<lparr>xr_state := ''preflight'', xr_task_state := ''preflight'', xr_lock_tokens := sample_tokens,
      xr_preflight_completed := True,
      xr_events := [sample_event 1 ''execution_started'' [], sample_event 2 ''locks_acquired'' [],
                    sample_event 3 ''preflight_completed'' []]\<rparr>"

definition sample_intent :: dispatch_intent where
  "sample_intent = \<lparr>di_committed_at = At 1000, di_evidence_deadline = At 60001000,
     di_request_id = ''request1'', di_provider_operation = ''call1'',
     di_provider_arguments_hash = sample_hash, di_lock_tokens = sample_tokens,
     di_possibly_dispatched = True\<rparr>"

definition sample_committed :: execution_record where
  "sample_committed = sample_ready
     \<lparr>xr_dispatch_intent := Some sample_intent, xr_dispatch_count := 1, xr_state := ''dispatching'',
      xr_task_state := ''dispatching'',
      xr_events := xr_events sample_ready @
        [sample_event 4 ''dispatch_intent_committed'' [''possibly_dispatched'']]\<rparr>"

definition sample_reviewed :: execution_record where
  "sample_reviewed = sample_committed
     \<lparr>xr_normalized_outcome := Some ''manual_review_required'', xr_state := ''terminal'',
      xr_task_state := ''manual_review_required'', xr_terminal := True, xr_verification_attempts := 1,
      xr_evidence := no_evidence\<lparr>ee_manual_review_reason_code := Some ''lock_renewal_failed''\<rparr>,
      xr_events := xr_events sample_committed @
        [sample_event 5 ''verification_recorded'' [''lock_renewal_failed'']]\<rparr>"

definition ready_world :: world where
  "ready_world = sample_world\<lparr>execution_disk := [''task1'' \<mapsto> EXECUTION_FILE sample_ready]\<rparr>"

definition committed_world :: world where
  "committed_world = sample_world\<lparr>execution_disk := [''task1'' \<mapsto> EXECUTION_FILE sample_committed]\<rparr>"

lemma sample_records_valid:
  "valid_execution_record sample_ready" "valid_execution_record sample_committed"
  "valid_execution_record sample_reviewed"
  by code_simp+

lemma sample_records_task:
  "ei_task_id (xr_identity sample_ready) = ''task1''"
  "ei_task_id (xr_identity sample_committed) = ''task1''"
  "ei_task_id (xr_identity sample_reviewed) = ''task1''"
  by code_simp+

end
