(* ===== verification/F3_Lock_Requests.thy ===== *)
theory F3_Lock_Requests
  imports F3_Examples
begin

text \<open>
  What \<open>normalize_lock_requests\<close> computes: the unique canonical list over the requested keys, with the
  union of the scopes and of the reason codes of each key and the stronger of its modes.  The result
  does not depend on the order or the repetition of the requests, and normalising it once more, as
  \<open>DurableLockStore.acquire\<close> does with what the executor passes, returns it unchanged.
\<close>

section \<open>One request\<close>

definition acceptable :: "lock_request \<Rightarrow> bool" where
  "acceptable q \<longleftrightarrow> valid_lock_key (rq_key q) \<and> valid_scopes (map scope_value (rq_scopes q)) \<and>
     bounded_codes (rq_reason_codes q) \<noteq> None \<and> valid_mode (mode_value (rq_mode q))"

definition wanted_scopes :: "lock_request list \<Rightarrow> string \<Rightarrow> string set" where
  "wanted_scopes requests key =
     (\<Union>q \<in> {q \<in> set requests. rq_key q = key}. scope_value ` set (rq_scopes q))"

definition wanted_reasons :: "lock_request list \<Rightarrow> string \<Rightarrow> string set" where
  "wanted_reasons requests key = (\<Union>q \<in> {q \<in> set requests. rq_key q = key}. set (rq_reason_codes q))"

definition wants_exclusive :: "lock_request list \<Rightarrow> string \<Rightarrow> bool" where
  "wants_exclusive requests key \<longleftrightarrow>
     (\<exists>q \<in> set requests. rq_key q = key \<and> mode_value (rq_mode q) = ''exclusive'')"

lemma bounded_codes_set: "bounded_codes values = Some codes \<Longrightarrow> set codes = set values"
  by (auto simp: bounded_codes_def Let_def split: if_splits)

lemma bounded_codes_canonical: "bounded_codes values = Some codes \<Longrightarrow> bounded_codes codes = Some codes"
  by (auto simp: bounded_codes_def Let_def list_all_iff split: if_splits)

lemma bounded_codes_bytewise: "bounded_codes values = Some codes \<Longrightarrow> bytewise codes = codes"
  by (auto simp: bounded_codes_def Let_def split: if_splits)

section \<open>The merged entries\<close>

definition entry_scopes :: "(string \<times> merged_entry) list \<Rightarrow> string \<Rightarrow> string set" where
  "entry_scopes merged key = (case map_of merged key of None \<Rightarrow> {} | Some e \<Rightarrow> set (me_scopes e))"

definition entry_reasons :: "(string \<times> merged_entry) list \<Rightarrow> string \<Rightarrow> string set" where
  "entry_reasons merged key = (case map_of merged key of None \<Rightarrow> {} | Some e \<Rightarrow> set (me_reasons e))"

definition entry_mode :: "(string \<times> merged_entry) list \<Rightarrow> string \<Rightarrow> string" where
  "entry_mode merged key = (case map_of merged key of None \<Rightarrow> ''shared'' | Some e \<Rightarrow> me_mode e)"

lemmas entry_defs = entry_scopes_def entry_reasons_def entry_mode_def

lemma map_of_filter_other [simp]:
  "map_of (filter (\<lambda>(k, e). k \<noteq> key) m) k = (if k = key then None else map_of m k)"
  by (induction m) auto

lemma merge_request_keys:
  assumes "merge_request q m = Some m'" and "distinct (map fst m)"
  shows "distinct (map fst m')" and "fst ` set m' = insert (rq_key q) (fst ` set m)"
proof -
  from assms(1) obtain e where m': "m' = (rq_key q, e) # filter (\<lambda>(k, e). k \<noteq> rq_key q) m"
    by (auto simp: merge_request_def Let_def split: if_splits option.splits)
  have "distinct (map fst (filter P m))" for P using assms(2) by (rule distinct_map_filter)
  then show "distinct (map fst m')" by (auto simp: m')
  show "fst ` set m' = insert (rq_key q) (fst ` set m)" by (force simp: m')
qed

lemma merge_request_entries:
  assumes "merge_request q m = Some m'"
  shows "acceptable q"
    and "entry_scopes m' k = entry_scopes m k \<union>
           (if k = rq_key q then scope_value ` set (rq_scopes q) else {})"
    and "entry_reasons m' k = entry_reasons m k \<union>
           (if k = rq_key q then set (rq_reason_codes q) else {})"
    and "entry_mode m' k = (if k = rq_key q \<and> mode_value (rq_mode q) = ''exclusive'' then ''exclusive''
           else entry_mode m k)"
  using assms
  by (auto simp: merge_request_def acceptable_def entry_defs Let_def bounded_codes_set
      split: if_splits option.splits)

lemma merge_requests_spec:
  assumes "merge_requests requests m = Some m'" and "distinct (map fst m)"
  shows "distinct (map fst m')" and "fst ` set m' = rq_key ` set requests \<union> fst ` set m"
    and "\<forall>q \<in> set requests. acceptable q"
    and "entry_scopes m' k = entry_scopes m k \<union> wanted_scopes requests k"
    and "entry_reasons m' k = entry_reasons m k \<union> wanted_reasons requests k"
    and "entry_mode m' k = (if wants_exclusive requests k then ''exclusive'' else entry_mode m k)"
proof -
  have "distinct (map fst m') \<and> fst ` set m' = rq_key ` set requests \<union> fst ` set m \<and>
    (\<forall>q \<in> set requests. acceptable q) \<and>
    entry_scopes m' k = entry_scopes m k \<union> wanted_scopes requests k \<and>
    entry_reasons m' k = entry_reasons m k \<union> wanted_reasons requests k \<and>
    entry_mode m' k = (if wants_exclusive requests k then ''exclusive'' else entry_mode m k)"
    using assms
  proof (induction requests arbitrary: m)
    case Nil
    then show ?case by (simp add: wanted_scopes_def wanted_reasons_def wants_exclusive_def)
  next
    case (Cons q requests)
    then obtain m1 where step: "merge_request q m = Some m1" and rest: "merge_requests requests m1 = Some m'"
      by (auto split: option.splits)
    have IH: "distinct (map fst m') \<and> fst ` set m' = rq_key ` set requests \<union> fst ` set m1 \<and>
      (\<forall>q \<in> set requests. acceptable q) \<and>
      entry_scopes m' k = entry_scopes m1 k \<union> wanted_scopes requests k \<and>
      entry_reasons m' k = entry_reasons m1 k \<union> wanted_reasons requests k \<and>
      entry_mode m' k = (if wants_exclusive requests k then ''exclusive'' else entry_mode m1 k)"
      using Cons.IH [OF rest merge_request_keys(1) [OF step Cons.prems(2)]] .
    moreover have "wanted_scopes (q # requests) k =
        (if k = rq_key q then scope_value ` set (rq_scopes q) else {}) \<union> wanted_scopes requests k"
      "wanted_reasons (q # requests) k =
        (if k = rq_key q then set (rq_reason_codes q) else {}) \<union> wanted_reasons requests k"
      "wants_exclusive (q # requests) k \<longleftrightarrow>
        k = rq_key q \<and> mode_value (rq_mode q) = ''exclusive'' \<or> wants_exclusive requests k"
      by (auto simp: wanted_scopes_def wanted_reasons_def wants_exclusive_def)
    ultimately show ?case
      using merge_request_keys(2) [OF step Cons.prems(2)] merge_request_entries(1) [OF step]
        merge_request_entries(2-4) [OF step, of k]
      by (simp add: Un_assoc Un_commute Un_left_commute) auto
  qed
  then show "distinct (map fst m')" "fst ` set m' = rq_key ` set requests \<union> fst ` set m"
    "\<forall>q \<in> set requests. acceptable q"
    "entry_scopes m' k = entry_scopes m k \<union> wanted_scopes requests k"
    "entry_reasons m' k = entry_reasons m k \<union> wanted_reasons requests k"
    "entry_mode m' k = (if wants_exclusive requests k then ''exclusive'' else entry_mode m k)"
    by auto
qed

text \<open>The merge fails only on an unacceptable request or on too many keys.\<close>

lemma merge_requests_total:
  assumes "\<forall>q \<in> set requests. acceptable q" and "distinct (map fst m)"
    and "card (rq_key ` set requests \<union> fst ` set m) \<le> MAX_LOCK_TOKENS"
  shows "merge_requests requests m \<noteq> None"
  using assms
proof (induction requests arbitrary: m)
  case (Cons q requests)
  let ?others = "filter (\<lambda>(k, e). k \<noteq> rq_key q) m"
  have "distinct (map fst ?others)" using Cons.prems(2) by (rule distinct_map_filter)
  then have "length ?others = card (fst ` set ?others)"
    by (metis distinct_card length_map set_map)
  also have "\<dots> + 1 = card (insert (rq_key q) (fst ` set ?others))"
    by (subst card_insert_disjoint) auto
  also have "\<dots> \<le> card (rq_key ` set (q # requests) \<union> fst ` set m)"
    by (rule card_mono) auto
  finally have "length ?others + 1 \<le> card (rq_key ` set (q # requests) \<union> fst ` set m)" by simp
  with Cons.prems(3) have "\<not> MAX_LOCK_TOKENS < length ?others + 1" by simp
  then obtain m1 where step: "merge_request q m = Some m1"
    using Cons.prems(1) by (auto simp: merge_request_def acceptable_def Let_def split: option.splits)
  have "card (rq_key ` set requests \<union> fst ` set m1) \<le> MAX_LOCK_TOKENS"
    using Cons.prems(3) merge_request_keys(2) [OF step Cons.prems(2)] by simp
  with Cons.IH [OF _ merge_request_keys(1) [OF step Cons.prems(2)]] Cons.prems(1) step
  show ?case by simp
qed simp

section \<open>The canonical list\<close>

definition describes :: "lock_request list \<Rightarrow> normalized_request list \<Rightarrow> bool" where
  "describes requests normalized \<longleftrightarrow>
     sorted (map nr_key normalized) \<and> distinct (map nr_key normalized) \<and>
     set (map nr_key normalized) = rq_key ` set requests \<and>
     (\<forall>n \<in> set normalized.
        set (nr_scopes n) = wanted_scopes requests (nr_key n) \<and> bytewise (nr_scopes n) = nr_scopes n \<and>
        set (nr_reason_codes n) = wanted_reasons requests (nr_key n) \<and>
        bytewise (nr_reason_codes n) = nr_reason_codes n \<and>
        nr_mode n = (if wants_exclusive requests (nr_key n) then ''exclusive'' else ''shared''))"

lemma normalized_merged:
  assumes "merge_requests requests [] = Some merged"
  shows "describes requests (map normalized_entry (sort_key fst merged))"
proof -
  note spec = merge_requests_spec [OF assms, simplified]
  have entry: "set (me_scopes e) = wanted_scopes requests k" "set (me_reasons e) = wanted_reasons requests k"
    "me_mode e = (if wants_exclusive requests k then ''exclusive'' else ''shared'')"
    if "(k, e) \<in> set merged" for k e
  proof -
    have "map_of merged k = Some e" using spec(1) that by (simp add: map_of_eq_Some_iff)
    with spec(4-6) [of k]
    show "set (me_scopes e) = wanted_scopes requests k" "set (me_reasons e) = wanted_reasons requests k"
      "me_mode e = (if wants_exclusive requests k then ''exclusive'' else ''shared'')"
      by (simp_all add: entry_defs)
  qed
  have keys: "map nr_key (map normalized_entry (sort_key fst merged)) = map fst (sort_key fst merged)"
    by (simp add: normalized_entry_def)
  show ?thesis
    unfolding describes_def keys
    using spec(1,2) entry
    by (auto simp: distinct_map normalized_entry_def intro: inj_on_subset)
qed

lemma describes_unique:
  assumes ns: "describes requests ns" and ns': "describes requests' ns'" and "set requests = set requests'"
  shows "ns = ns'"
proof -
  have keys: "map nr_key ns = map nr_key ns'"
    using assms by (intro sorted_distinct_set_unique) (simp_all add: describes_def)
  have wanted: "wanted_scopes requests = wanted_scopes requests'"
    "wanted_reasons requests = wanted_reasons requests'"
    "wants_exclusive requests = wants_exclusive requests'"
    using assms(3) by (simp_all add: wanted_scopes_def wanted_reasons_def wants_exclusive_def fun_eq_iff)
  have len: "length ns = length ns'" using keys by (metis length_map)
  show ?thesis
  proof (rule nth_equalityI [OF len])
    fix i assume i: "i < length ns"
    let ?a = "ns ! i" and ?b = "ns' ! i"
    have key: "nr_key ?a = nr_key ?b" using keys i len by (metis nth_map)
    have "?a \<in> set ns" "?b \<in> set ns'" using i len by simp_all
    with ns ns' wanted key have "set (nr_scopes ?a) = set (nr_scopes ?b)"
      "bytewise (nr_scopes ?a) = nr_scopes ?a" "bytewise (nr_scopes ?b) = nr_scopes ?b"
      "set (nr_reason_codes ?a) = set (nr_reason_codes ?b)"
      "bytewise (nr_reason_codes ?a) = nr_reason_codes ?a" "bytewise (nr_reason_codes ?b) = nr_reason_codes ?b"
      "nr_mode ?a = nr_mode ?b"
      by (simp_all add: describes_def)
    with key show "?a = ?b" using bytewise_cong_set by (metis normalized_request.equality old.unit.exhaust)
  qed
qed

lemma normalize_describes:
  "normalize_lock_requests requests = Some ns \<Longrightarrow>
   describes requests ns \<and> list_all valid_normalized_request ns \<and> requests \<noteq> [] \<and>
   (\<forall>q \<in> set requests. acceptable q)"
  by (auto simp: normalize_lock_requests_def Let_def normalized_merged
      dest: merge_requests_spec(3) split: option.splits if_splits)

lemma normalize_total:
  assumes "\<forall>q \<in> set requests. acceptable q" and "requests \<noteq> []"
    and "card (rq_key ` set requests) \<le> MAX_LOCK_TOKENS"
    and "\<And>ns. describes requests ns \<Longrightarrow> list_all valid_normalized_request ns"
  shows "normalize_lock_requests requests \<noteq> None"
proof -
  have "merge_requests requests [] \<noteq> None"
    using assms(1,3) by (intro merge_requests_total) simp_all
  then obtain merged where "merge_requests requests [] = Some merged" by auto
  with assms(2,4) normalized_merged show ?thesis
    by (auto simp: normalize_lock_requests_def Let_def)
qed

lemma normalized_keys_bounded:
  assumes "normalize_lock_requests requests = Some ns"
  shows "card (rq_key ` set requests) \<le> MAX_LOCK_TOKENS"
proof -
  have bounded: "length m \<le> MAX_LOCK_TOKENS \<Longrightarrow> merge_requests qs m = Some m' \<Longrightarrow>
      length m' \<le> MAX_LOCK_TOKENS" for qs m m'
  proof (induction qs arbitrary: m)
    case (Cons q qs)
    then obtain m1 where step: "merge_request q m = Some m1" "merge_requests qs m1 = Some m'"
      by (auto split: option.splits)
    then have "length m1 \<le> MAX_LOCK_TOKENS"
      by (auto simp: merge_request_def Let_def split: if_splits option.splits)
    with Cons.IH step show ?case by blast
  qed simp
  obtain merged where merged: "merge_requests requests [] = Some merged"
    using assms by (auto simp: normalize_lock_requests_def split: option.splits)
  have "card (rq_key ` set requests) = card (fst ` set merged)"
    using merge_requests_spec(2) [OF merged] by simp
  also have "\<dots> \<le> length merged" by (metis card_length length_map set_map)
  also have "\<dots> \<le> MAX_LOCK_TOKENS" using bounded [OF _ merged] by simp
  finally show ?thesis .
qed

lemma normalize_cong:
  assumes "set requests = set requests'"
  shows "normalize_lock_requests requests = normalize_lock_requests requests'"
proof -
  have total: "normalize_lock_requests rs' \<noteq> None"
    if some: "normalize_lock_requests rs = Some ns" and same: "set rs = set rs'" for rs rs' ns
  proof (rule normalize_total)
    note facts = normalize_describes [OF some]
    show "\<forall>q \<in> set rs'. acceptable q" "rs' \<noteq> []" using facts same by auto
    show "card (rq_key ` set rs') \<le> MAX_LOCK_TOKENS"
      using normalized_keys_bounded [OF some] same by simp
    show "list_all valid_normalized_request ms" if "describes rs' ms" for ms
      using describes_unique [OF _ that same] facts by blast
  qed
  show ?thesis
  proof (cases "normalize_lock_requests requests")
    case None
    then show ?thesis using total [of requests' _ requests] assms by fastforce
  next
    case (Some ns)
    then obtain ns' where ns': "normalize_lock_requests requests' = Some ns'"
      using total [OF Some assms] by auto
    with Some show ?thesis
      using describes_unique [OF _ _ assms] normalize_describes by metis
  qed
qed

lemma scope_value_other [simp]: "scope_value ` set (map OTHER_SCOPE xs) = set xs"
  by (simp add: image_image)

lemma describes_renormalized:
  assumes ns: "describes requests ns" and valid: "list_all valid_normalized_request ns"
  shows "describes (map as_request ns) ns"
proof -
  have one: "q = as_request n"
    if q: "q \<in> set (map as_request ns)" and key: "rq_key q = nr_key n" and n: "n \<in> set ns" for q n
  proof -
    obtain m where "m \<in> set ns" "q = as_request m" using q by auto
    moreover have "m = n"
      using calculation key n ns by (auto simp: describes_def distinct_map as_request_def dest: inj_onD)
    ultimately show ?thesis by simp
  qed
  have self: "{q \<in> set (map as_request ns). rq_key q = nr_key n} = {as_request n}" if "n \<in> set ns" for n
  proof (rule equalityI; rule subsetI)
    fix q assume "q \<in> {q \<in> set (map as_request ns). rq_key q = nr_key n}"
    then have "q = as_request n" by (intro one [OF _ _ that]) blast+
    then show "q \<in> {as_request n}" by (rule iffD2 [OF singleton_iff])
  next
    fix q assume "q \<in> {as_request n}"
    then show "q \<in> {q \<in> set (map as_request ns). rq_key q = nr_key n}"
      using that by (simp add: as_request_def)
  qed
  have "wants_exclusive (map as_request ns) (nr_key n) \<longleftrightarrow> nr_mode n = ''exclusive''"
    if "n \<in> set ns" for n
  proof -
    have "wants_exclusive (map as_request ns) (nr_key n) \<longleftrightarrow>
        (\<exists>q \<in> {q \<in> set (map as_request ns). rq_key q = nr_key n}. mode_value (rq_mode q) = ''exclusive'')"
      unfolding wants_exclusive_def by blast
    also have "\<dots> \<longleftrightarrow> nr_mode n = ''exclusive''"
      unfolding self [OF that] by (simp add: as_request_def)
    finally show ?thesis .
  qed
  moreover have "nr_mode n = ''exclusive'' \<or> nr_mode n = ''shared''" if "n \<in> set ns" for n
    using valid that by (auto simp: list_all_iff valid_normalized_request_def valid_mode_def)
  moreover have "wanted_scopes (map as_request ns) (nr_key n) = set (nr_scopes n)" if "n \<in> set ns" for n
    unfolding wanted_scopes_def self [OF that] by (simp add: as_request_def image_image)
  moreover have "wanted_reasons (map as_request ns) (nr_key n) = set (nr_reason_codes n)" if "n \<in> set ns" for n
    unfolding wanted_reasons_def self [OF that] by (simp add: as_request_def)
  moreover have "set (map nr_key ns) = rq_key ` set (map as_request ns)"
    by (simp add: as_request_def image_image)
  ultimately show ?thesis
    using ns unfolding describes_def by auto
qed

lemma normalize_idempotent:
  assumes some: "normalize_lock_requests requests = Some ns"
  shows "normalize_lock_requests (map as_request ns) = Some ns"
proof -
  note facts = normalize_describes [OF some]
  then have described: "describes (map as_request ns) ns" by (blast intro: describes_renormalized)
  have "normalize_lock_requests (map as_request ns) \<noteq> None"
  proof (rule normalize_total)
    show "\<forall>q \<in> set (map as_request ns). acceptable q"
      using facts by (auto simp: list_all_iff valid_normalized_request_def acceptable_def as_request_def
          comp_def)
    show "map as_request ns \<noteq> []" using facts by (auto simp: describes_def)
    show "card (rq_key ` set (map as_request ns)) \<le> MAX_LOCK_TOKENS"
      using normalized_keys_bounded [OF some] described facts by (simp add: describes_def)
    show "list_all valid_normalized_request ms" if "describes (map as_request ns) ms" for ms
      using describes_unique [OF described that] facts by auto
  qed
  then obtain ms where "normalize_lock_requests (map as_request ns) = Some ms" by auto
  moreover from this have "ms = ns"
    using describes_unique [OF described] normalize_describes by metis
  ultimately show ?thesis by simp
qed

section \<open>Properties\<close>

definition sample_requests :: "lock_request list" where
  "sample_requests = [sample_request,
     \<lparr>rq_key = ''area:kitchen'', rq_scopes = [RESOURCE], rq_mode = SHARED, rq_reason_codes = [''parent'']\<rparr>,
     \<lparr>rq_key = ''helper:input1'', rq_scopes = [PROVIDER, RESOURCE], rq_mode = SHARED,
       rq_reason_codes = [''provider'']\<rparr>]"

definition sample_normalized :: "normalized_request list" where
  "sample_normalized =
    [\<lparr>nr_key = ''area:kitchen'', nr_scopes = [''resource''], nr_mode = ''shared'',
       nr_reason_codes = [''parent'']\<rparr>,
     \<lparr>nr_key = ''helper:input1'', nr_scopes = [''provider'', ''resource''], nr_mode = ''exclusive'',
       nr_reason_codes = [''provider'', ''target'']\<rparr>]"

lemma sample_requests_normalize: "normalize_lock_requests sample_requests = Some sample_normalized"
  by code_simp

text \<open>C13: normalising lock requests yields one entry per requested key, in strictly increasing order of
  keys, each with exactly the scopes and reason codes asked for that key in byte order without
  repetition, exclusive as soon as one request for the key is; every entry is valid and there are at
  most \<open>MAX_LOCK_TOKENS\<close>.\<close>

theorem normalized_requests_canonical:
  assumes "normalize_lock_requests requests = Some ns"
  shows "sorted (map nr_key ns) \<and> distinct (map nr_key ns) \<and>
    set (map nr_key ns) = rq_key ` set requests \<and> length ns \<le> MAX_LOCK_TOKENS \<and>
    (\<forall>n \<in> set ns. valid_normalized_request n \<and>
       set (nr_scopes n) = wanted_scopes requests (nr_key n) \<and> bytewise (nr_scopes n) = nr_scopes n \<and>
       set (nr_reason_codes n) = wanted_reasons requests (nr_key n) \<and>
       bytewise (nr_reason_codes n) = nr_reason_codes n \<and>
       nr_mode n = (if wants_exclusive requests (nr_key n) then ''exclusive'' else ''shared''))"
proof -
  have described: "describes requests ns" "list_all valid_normalized_request ns"
    using normalize_describes [OF assms] by simp_all
  moreover have "length ns = card (rq_key ` set requests)"
    using described(1) by (metis describes_def distinct_card length_map)
  ultimately show ?thesis
    using normalized_keys_bounded [OF assms] by (simp add: describes_def list_all_iff)
qed

theorem normalized_requests_canonical_witness:
  "sorted (map nr_key sample_normalized) \<and>
   set (map nr_key sample_normalized) = rq_key ` set sample_requests"
  using normalized_requests_canonical [OF sample_requests_normalize] by blast

text \<open>C14: the order and the repetition of the requests do not matter, neither for the entries nor for
  whether the requests are accepted.\<close>

theorem normalization_ignores_order:
  assumes "set requests = set requests'"
  shows "normalize_lock_requests requests = normalize_lock_requests requests'"
  using assms by (rule normalize_cong)

theorem normalization_ignores_order_witness:
  "normalize_lock_requests sample_requests = normalize_lock_requests (rev sample_requests @ sample_requests)"
  by (rule normalization_ignores_order) simp

text \<open>C15: normalising the entries once more, as the lock store does with what the executor passes it,
  returns them unchanged.\<close>

theorem renormalization_is_identity:
  assumes "normalize_lock_requests requests = Some ns"
  shows "normalize_lock_requests (map as_request ns) = Some ns"
  using assms by (rule normalize_idempotent)

theorem renormalization_is_identity_witness:
  "normalize_lock_requests (map as_request sample_normalized) = Some sample_normalized"
  by (rule renormalization_is_identity [OF sample_requests_normalize])

end
