(* ===== verification/F3_Lock_Properties.thy ===== *)
theory F3_Lock_Properties
  imports F3_Lock_Safety F3_Lock_Requests F3_Examples
begin

text \<open>
  The properties of the durable lock store: what its operations establish, one by one, on every
  branch, and what the store's contract means for the holders of locks.
\<close>

section \<open>The anatomy of a transaction that returns\<close>

lemma lock_interference_okD:
  "lock_interference w = (r, w') \<Longrightarrow> lock_others w = [] \<Longrightarrow> w' = w"
  by (simp add: lock_interference_def)

lemma transact_okE:
  assumes run: "transact mutator w = (Inr x, w')"
  obtains st changed st' w1 w2 where "lock_guarantee w w1" and "holds_state st w1"
    and "lock_others w = [] \<Longrightarrow> lock_disk w1 = lock_disk w \<and> lock_others w1 = []"
    and "mutator st w1 = (Inr (x, changed, st'), w2)"
    and "if changed then wrote st' w2 w' else w' = w2"
proof -
  from run obtain w0 wa w1 st changed st' w2 where
    first: "fault_point w = (Inr (), w0)" and others: "lock_interference w0 = (Inr (), wa)" and
    read: "read_state wa = (Inr st, w1)" and
    body: "mutator st w1 = (Inr (x, changed, st'), w2)" and
    last: "(if changed then write_state st' else return_eff ()) w2 = (Inr (), w')"
    unfolding transact_def exclusive_transaction_def
    by (fastforce dest!: convert_os_error_okD elim!: then_eff_okD bind_eff_okD)
  have "lock_guarantee w w1"
    using guaranteesD [OF lock.ambient_fault_point first] guaranteesD [OF lock_interference_guar others]
      guaranteesD [OF lock.ambient_read_state read] by (auto intro: lock.trans)
  moreover have "holds_state st w1" using read by (rule read_state_okD)
  moreover have "lock_disk w1 = lock_disk w \<and> lock_others w1 = []" if "lock_others w = []"
  proof -
    have "same lock_view wa w1" using guaranteesD [OF lock_unseen.ambient_read_state read] .
    moreover have "lock_disk w0 = lock_disk w" "lock_others w0 = lock_others w"
      using fault_point_locks [OF first] by auto
    moreover have "wa = w0" using others that calculation(3) by (intro lock_interference_okD) auto
    ultimately show ?thesis using that by (simp add: same_def lock_view_def)
  qed
  moreover have "if changed then wrote st' w2 w' else w' = w2"
    using last by (auto split: if_splits dest: write_state_okD)
  ultimately show thesis using body by (intro that) auto
qed

lemma matching_singleton:
  "matching token records = [r] \<Longrightarrow>
   r \<in> set records \<and> lr_key r = tk_key token \<and> lr_generation r = tk_generation token"
proof -
  assume "matching token records = [r]"
  then have "r \<in> set (matching token records)" by simp
  then show ?thesis by (simp add: matching_def)
qed

definition token_holds :: "lock_owner \<Rightarrow> int \<Rightarrow> bool \<Rightarrow> lock_record list \<Rightarrow> lock_token \<Rightarrow> bool" where
  "token_holds w now allow records token \<longleftrightarrow>
     (\<exists>r. matching token records = [r] \<and> lr_owner r = w \<and> handle_check now allow token r = None)"

lemma token_holds_record:
  "token_holds w now allow records token \<Longrightarrow>
   \<exists>r. r \<in> set records \<and> record_identity r = (tk_key token, tk_generation token) \<and> lr_owner r = w \<and>
     handle_check now allow token r = None"
  by (auto simp: token_holds_def record_identity_def dest: matching_singleton)

lemma okI: "fst p = Inr x \<Longrightarrow> p = (Inr x, snd p)"
  by (cases p) simp

lemma validate_tokens_ok_iff:
  "(\<exists>t. validate_tokens w now allow tokens records s = (Inr (), t)) \<longleftrightarrow>
   (\<forall>token \<in> set tokens. token_holds w now allow records token)"
proof (induction tokens)
  case (Cons token tokens)
  show ?case
    using Cons by (auto simp: token_holds_def same_owner_def split: list.splits option.splits
        elim!: then_eff_okD)
qed simp

lemma validate_tokens_keeps:
  "validate_tokens w now allow tokens records s = (Inr (), t) \<Longrightarrow> t = s"
  by (induction tokens) (auto split: list.splits option.splits if_splits elim!: then_eff_okD)

lemma validate_handle_okE:
  assumes "validate_handle h now allow w = (Inr (), w')"
  obtains st w1 where "lock_guarantee w w1" and "holds_state st w1" and "w' = w1"
    and "lock_others w = [] \<Longrightarrow> lock_disk w1 = lock_disk w \<and> lock_others w1 = []"
    and "valid_lock_handle h"
    and "\<And>token. token \<in> set (lh_tokens h) \<Longrightarrow> token_holds (lh_owner h) now allow (ls_records st) token"
proof -
  from assms have valid: "valid_lock_handle h" and
    run: "transact (\<lambda>st. then_eff (validate_tokens (lh_owner h) now allow (lh_tokens h) (ls_records st))
        (return_eff ((), False, st))) w = (Inr (), w')"
    by (simp_all add: validate_handle_def)
  from run show thesis
  proof (rule transact_okE)
    fix st changed st' w1 w2
    assume w1: "lock_guarantee w w1" "holds_state st w1"
      "lock_others w = [] \<Longrightarrow> lock_disk w1 = lock_disk w \<and> lock_others w1 = []"
      and body: "then_eff (validate_tokens (lh_owner h) now allow (lh_tokens h) (ls_records st))
        (return_eff ((), False, st)) w1 = (Inr ((), changed, st'), w2)"
      and w': "if changed then wrote st' w2 w' else w' = w2"
    from body obtain t where t: "validate_tokens (lh_owner h) now allow (lh_tokens h) (ls_records st) w1 = (Inr (), t)"
      and "changed = False" "w2 = t" by (auto elim!: then_eff_okD)
    with w' validate_tokens_keeps [OF t] have "w' = w1" by simp
    moreover have "token_holds (lh_owner h) now allow (ls_records st) token"
      if "token \<in> set (lh_tokens h)" for token
      using t that validate_tokens_ok_iff by blast
    ultimately show thesis using w1 valid by (intro that) auto
  qed
qed

section \<open>Histories of the store\<close>

text \<open>
  One step of a history: an operation of this process, whatever its outcome, or new decisions of the
  environment, where the other processes act within the store's contract.
\<close>

inductive lock_step :: "world \<Rightarrow> world \<Rightarrow> bool" where
  acquiring: "guarantees (same lock_view) cancelled \<Longrightarrow>
    lock_step w (snd (acquire requests own timing cancelled w))"
| validating: "lock_step w (snd (validate_handle handle now allow w))"
| renewing: "lock_step w (snd (renew handle now w))"
| releasing: "lock_step w (snd (release handle pre_dispatch_cleanup w))"
| transferring: "guarantees (same lock_view) clock \<Longrightarrow>
    lock_step w (snd (transfer_complete requests predecessor expected own timing clock valid_until w))"
| settling: "(\<And>h. guarantees (same lock_view) (persist h)) \<Longrightarrow>
    lock_step w (snd (settle_unrecorded digest own expected hash created updated persist timing now w))"
| promoting: "lock_step w (snd (promote_selective_conflict_hold handle retained reason w))"
| releasing_hold: "lock_step w (snd (release_conflict_hold own tokens reason w))"
| recovering: "lock_step w (snd (recover_expired decisions tw tt now w))"
| reporting: "lock_step w (snd (lock_snapshot now w))"
| environment: "(\<And>f file. f \<in> set fs \<Longrightarrow> lock_file_evolves file (f file)) \<Longrightarrow>
    lock_step w (w\<lparr>lock_others := fs, faults := xs, wall_clock := t, ticks := ds, jitter := js\<rparr>)"

lemma same_lock_view_parts:
  "guarantees (same lock_view) m \<Longrightarrow> guarantees (same lock_disk) m \<and> guarantees (same lock_others) m"
  by (simp add: guarantees_def same_def lock_view_def)

lemma lock_step_guarantee: "lock_step w w' \<Longrightarrow> lock_guarantee w w'"
proof (induction rule: lock_step.induct)
  case (acquiring cancelled w requests own timing)
  then have "guarantees lock_guarantee (acquire requests own timing cancelled)"
    by (intro lock.acquire_guar unseen_lock_guarantee)
  then show ?case by (simp add: guarantees_def)
next
  case (transferring clock w requests predecessor expected own timing valid_until)
  then have "guarantees lock_guarantee
      (transfer_complete requests predecessor expected own timing clock valid_until)"
    using same_lock_view_parts by (intro lock.transfer_complete_guar unseen_lock_guarantee) auto
  then show ?case by (simp add: guarantees_def)
next
  case (settling persist w digest own expected hash created updated timing now)
  then have "guarantees lock_guarantee
      (settle_unrecorded digest own expected hash created updated persist timing now)"
    using same_lock_view_parts by (intro lock.settle_unrecorded_guar unseen_lock_guarantee) blast+
  then show ?case by (simp add: guarantees_def)
next
  case (environment fs w xs t ds js)
  then show ?case by (simp add: lock_guarantee_def locks_respected_def)
qed (use lock.validate_handle_guar lock.renew_guar lock.release_guar lock.promote_selective_guar
      lock.release_hold_guar lock.recover_expired_guar lock.lock_snapshot_guar in
      \<open>auto simp: guarantees_def\<close>)

lemma lock_history_guarantee: "lock_step\<^sup>*\<^sup>* w w' \<Longrightarrow> lock_guarantee w w'"
  by (induction rule: rtranclp_induct) (auto intro: lock.refl lock.trans lock_step_guarantee)

text \<open>C4: whatever sequence of lock operations this process runs, with whatever faults, and whatever
  the other processes do to the store through the same operations in between, a lock file that is
  valid and free of incompatible holders stays so, and its generations only grow: a record whose
  generation had been issued is the continuation of one that was there.\<close>

theorem lock_history_sound:
  assumes "lock_step\<^sup>*\<^sup>* w w'" and "locks_respected w"
    and "file_state (lock_disk w) = Some st" and "compatible (ls_records st)"
  shows "\<exists>st'. file_state (lock_disk w') = Some st' \<and> valid_lock_state st' \<and>
    compatible (ls_records st') \<and> lock_evolves st st'"
  using lock_history_guarantee [OF assms(1)] assms(2-4)
  by (auto simp: lock_guarantee_def lock_file_evolves_def dest: file_state_valid)

theorem lock_history_sound_witness:
  "\<exists>w st st'. lock_step\<^sup>*\<^sup>* w (snd (acquire [sample_request] (owner_of sample_identity sample_prepared)
      sample_lock_timing (return_eff False) w)) \<and> file_state (lock_disk w) = Some st \<and>
    file_state (lock_disk (snd (acquire [sample_request] (owner_of sample_identity sample_prepared)
      sample_lock_timing (return_eff False) w))) = Some st' \<and> lock_evolves st st'"
proof -
  have step: "lock_step\<^sup>*\<^sup>* sample_world (snd (acquire [sample_request]
      (owner_of sample_identity sample_prepared) sample_lock_timing (return_eff False) sample_world))"
    by (intro r_into_rtranclp lock_step.acquiring untouched.return_guar)
  have start: "locks_respected sample_world" "file_state (lock_disk sample_world) = Some empty_state"
    by (simp_all add: locks_respected_def sample_world_def file_state_def)
  then show ?thesis
    using step lock_history_sound [OF step start] by (force simp: empty_state_def compatible_def)
qed

text \<open>C6: fencing is permanent.  A token whose generation was issued and that no longer names a record
  of its handle's owner never validates again, in any later history of the store.\<close>

theorem stale_token_never_validates:
  assumes "lock_step\<^sup>*\<^sup>* w w'" and "locks_respected w"
    and "file_state (lock_disk w) = Some st" and "compatible (ls_records st)"
    and "token \<in> set (lh_tokens h)" and "tk_generation token < ls_next_generation st"
    and "\<not> (\<exists>r \<in> set (ls_records st). record_identity r = (tk_key token, tk_generation token) \<and>
              lr_owner r = lh_owner h)"
  shows "fst (validate_handle h now allow w') \<noteq> Inr ()"
proof
  assume "fst (validate_handle h now allow w') = Inr ()"
  then obtain w'' where "validate_handle h now allow w' = (Inr (), w'')" by (metis prod.collapse)
  then show False
  proof (rule validate_handle_okE)
    fix st'' w1
    assume w1: "lock_guarantee w' w1" "holds_state st'' w1"
      and holds: "\<And>token. token \<in> set (lh_tokens h) \<Longrightarrow>
        token_holds (lh_owner h) now allow (ls_records st'') token"
    have "lock_guarantee w w1" using lock_history_guarantee [OF assms(1)] w1(1) by (rule lock.trans)
    then have evolves: "lock_evolves st st''"
      using assms(2-4) w1(2) by (auto simp: lock_guarantee_def lock_file_evolves_def holds_state_def)
    obtain r where r: "r \<in> set (ls_records st'')" "lr_key r = tk_key token"
      "lr_generation r = tk_generation token" "lr_owner r = lh_owner h"
      using holds [OF assms(5)] matching_singleton by (auto simp: token_holds_def)
    with evolves assms(6) obtain r0 where "r0 \<in> set (ls_records st)" "continues r0 r"
      by (auto simp: lock_evolves_def)
    with r assms(7) show False by (auto simp: continues_def record_identity_def)
  qed
qed

definition sample_owner :: lock_owner where
  "sample_owner = owner_of sample_identity sample_prepared"

definition sample_handle :: lock_handle where
  "sample_handle = \<lparr>lh_owner = sample_owner,
     lh_tokens = [\<lparr>tk_key = ''helper:input1'', tk_generation = 1, tk_mode = ''exclusive''\<rparr>],
     lh_acquired_at = At 1000, lh_lease_expires_at = At 60001000, lh_timing = sample_lock_timing\<rparr>"

definition sample_record :: lock_record where
  "sample_record = new_record \<lparr>nr_key = ''helper:input1'', nr_scopes = [''resource''],
     nr_mode = ''exclusive'', nr_reason_codes = [''target'']\<rparr> sample_owner (At 1000) (At 60001000) 1"

definition locked_world :: world where
  "locked_world = sample_world\<lparr>lock_disk := LOCK_FILE 1 \<lparr>ls_next_generation = 2, ls_records = [sample_record]\<rparr>\<rparr>"

definition emptied_world :: world where
  "emptied_world = sample_world\<lparr>lock_disk := LOCK_FILE 1 \<lparr>ls_next_generation = 2, ls_records = []\<rparr>\<rparr>"

lemma emptied_world_state [simp]:
  "file_state (lock_disk emptied_world) = Some \<lparr>ls_next_generation = 2, ls_records = []\<rparr>"
  "locks_respected emptied_world"
  by (simp_all add: emptied_world_def file_state_def LOCK_STATE_SCHEMA_VERSION_def
      valid_lock_state_def locks_respected_def sample_world_def)

theorem stale_token_never_validates_witness:
  "fst (validate_handle sample_handle 2000 False emptied_world) \<noteq> Inr ()"
  by (rule stale_token_never_validates [where w = emptied_world and
        token = "\<lparr>tk_key = ''helper:input1'', tk_generation = 1, tk_mode = ''exclusive''\<rparr>"
        and st = "\<lparr>ls_next_generation = 2, ls_records = []\<rparr>"])
    (simp_all add: sample_handle_def compatible_def)

text \<open>C5: mutual exclusion.  When two handles of different owners validate against the store with no
  step of another process in between, every key they have in common is held shared by both: two
  owners never hold one key when either holds it exclusively.\<close>

theorem validated_handles_exclude:
  assumes "fst (validate_handle h1 now1 a1 w) = Inr ()"
    and "fst (validate_handle h2 now2 a2 (snd (validate_handle h1 now1 a1 w))) = Inr ()"
    and "lock_others w = []" and "file_state (lock_disk w) = Some st" and "compatible (ls_records st)"
    and "t1 \<in> set (lh_tokens h1)" and "t2 \<in> set (lh_tokens h2)"
    and "tk_key t1 = tk_key t2" and "lh_owner h1 \<noteq> lh_owner h2"
  shows "\<exists>r1 r2. r1 \<in> set (ls_records st) \<and> r2 \<in> set (ls_records st) \<and>
    record_identity r1 = (tk_key t1, tk_generation t1) \<and> record_identity r2 = (tk_key t1, tk_generation t2) \<and>
    lr_owner r1 = lh_owner h1 \<and> lr_owner r2 = lh_owner h2 \<and>
    lr_mode r1 = ''shared'' \<and> lr_mode r2 = ''shared''"
proof -
  let ?w1 = "snd (validate_handle h1 now1 a1 w)"
  have one: "(\<exists>r. r \<in> set (ls_records st) \<and> record_identity r = (tk_key t, tk_generation t) \<and>
      lr_owner r = lh_owner h) \<and> lock_others w' = [] \<and> lock_disk w' = lock_disk w"
    if run: "validate_handle h now a u = (Inr (), w')" and u: "lock_others u = []" "lock_disk u = lock_disk w"
      and t: "t \<in> set (lh_tokens h)" for h now a u w' t
    using run
  proof (rule validate_handle_okE)
    fix st' u1
    assume st': "holds_state st' u1" and w': "w' = u1"
      and quiet: "lock_others u = [] \<Longrightarrow> lock_disk u1 = lock_disk u \<and> lock_others u1 = []"
      and holds: "\<And>token. token \<in> set (lh_tokens h) \<Longrightarrow>
        token_holds (lh_owner h) now a (ls_records st') token"
    have "st' = st" using st' quiet u assms(4) by (simp add: holds_state_def)
    with token_holds_record [OF holds [OF t]] w' quiet u show ?thesis by auto
  qed
  have first: "validate_handle h1 now1 a1 w = (Inr (), ?w1)" using assms(1) by (rule okI)
  obtain r1 where r1: "r1 \<in> set (ls_records st)" "record_identity r1 = (tk_key t1, tk_generation t1)"
    "lr_owner r1 = lh_owner h1" and w1: "lock_others ?w1 = []" "lock_disk ?w1 = lock_disk w"
    using one [OF first assms(3) HOL.refl assms(6)] by blast
  obtain r2 where r2: "r2 \<in> set (ls_records st)" "record_identity r2 = (tk_key t2, tk_generation t2)"
    "lr_owner r2 = lh_owner h2"
    using one [OF okI [OF assms(2)] w1 assms(7)] by blast
  have "r1 \<noteq> r2" using r1 r2 assms(9) by auto
  then have "lr_mode r1 = ''shared'' \<and> lr_mode r2 = ''shared''"
    using assms(5,8) r1 r2 by (auto simp: compatible_def record_identity_def)
  then show ?thesis using r1 r2 assms(8) by auto
qed

definition other_owner :: lock_owner where
  "other_owner = sample_owner\<lparr>lo_task_id := ''task2'', lo_owner_id := ''owner2''\<rparr>"

definition shared_record :: lock_record where
  "shared_record = sample_record\<lparr>lr_mode := ''shared''\<rparr>"

definition shared_state :: lock_state where
  "shared_state = \<lparr>ls_next_generation = 3,
     ls_records = [shared_record, shared_record\<lparr>lr_owner := other_owner, lr_generation := 2\<rparr>]\<rparr>"

definition shared_world :: world where
  "shared_world = sample_world\<lparr>lock_disk := LOCK_FILE 1 shared_state\<rparr>"

definition shared_handle :: lock_handle where
  "shared_handle = sample_handle\<lparr>lh_tokens := [\<lparr>tk_key = ''helper:input1'', tk_generation = 1, tk_mode = ''shared''\<rparr>]\<rparr>"

definition other_handle :: lock_handle where
  "other_handle = sample_handle\<lparr>lh_owner := other_owner,
     lh_tokens := [\<lparr>tk_key = ''helper:input1'', tk_generation = 2, tk_mode = ''shared''\<rparr>]\<rparr>"

theorem validated_handles_exclude_witness:
  "\<exists>r1 r2. r1 \<in> set (ls_records shared_state) \<and> r2 \<in> set (ls_records shared_state) \<and>
     record_identity r1 = (''helper:input1'', 1) \<and> record_identity r2 = (''helper:input1'', 2) \<and>
     lr_owner r1 = sample_owner \<and> lr_owner r2 = other_owner \<and>
     lr_mode r1 = ''shared'' \<and> lr_mode r2 = ''shared''"
proof -
  have "fst (validate_handle shared_handle 2000 False shared_world) = Inr ()"
    and "fst (validate_handle other_handle 2000 False
           (snd (validate_handle shared_handle 2000 False shared_world))) = Inr ()"
    and "lock_others shared_world = []"
    and "file_state (lock_disk shared_world) = Some shared_state"
    by code_simp+
  moreover have "compatible (ls_records shared_state)"
    by (simp add: compatible_def shared_state_def shared_record_def)
  moreover have "lh_owner shared_handle \<noteq> lh_owner other_handle" by code_simp
  ultimately show ?thesis
    using validated_handles_exclude [of shared_handle 2000 False shared_world other_handle 2000 False
        shared_state "\<lparr>tk_key = ''helper:input1'', tk_generation = 1, tk_mode = ''shared''\<rparr>"
        "\<lparr>tk_key = ''helper:input1'', tk_generation = 2, tk_mode = ''shared''\<rparr>"]
    by (simp add: shared_handle_def other_handle_def sample_handle_def)
qed

section \<open>Exact effects\<close>

lemma count_lock_failure_okD: "count_lock_failure c m w = (Inr x, w') \<Longrightarrow> m w = (Inr x, w')"
  by (auto simp: count_lock_failure_def catch_eff_def raise_eff_def
      split: prod.splits sum.splits if_splits elim!: then_eff_okD)

lemma lock_metric_unseen: "guarantees (same lock_view) (lock_metric name)"
  unfolding lock_metric_def by (rule lock_unseen.ambient_lock_metric_by)

lemma unseen_disk: "guarantees (same lock_view) m \<Longrightarrow> m w = (r, w') \<Longrightarrow> lock_disk w' = lock_disk w"
  by (drule guaranteesD) (auto simp: same_def lock_view_def)

lemma select_records_okD:
  "select_records w check tokens rs = Inr selected \<Longrightarrow>
   list_all2 (\<lambda>token r. matching token rs = [r] \<and> lr_owner r = w \<and> check token r = None) tokens selected"
proof (induction tokens arbitrary: selected)
  case (Cons token tokens)
  then show ?case
    by (auto simp: same_owner_def split: list.splits if_splits option.splits sum.splits)
qed simp

definition token_identities :: "lock_handle \<Rightarrow> (string \<times> int) set" where
  "token_identities h = (\<lambda>t. (tk_key t, tk_generation t)) ` set (lh_tokens h)"

lemma selected_identities:
  assumes "list_all2 (\<lambda>token r. matching token rs = [r] \<and> Q token r) tokens selected"
  shows "record_identity ` set selected = (\<lambda>t. (tk_key t, tk_generation t)) ` set tokens"
    and "set selected \<subseteq> set rs" and "distinct (map tk_key tokens) \<Longrightarrow> distinct selected"
proof -
  have pairs: "map record_identity selected = map (\<lambda>t. (tk_key t, tk_generation t)) tokens \<and>
      set selected \<subseteq> set rs"
    using assms by (induction rule: list_all2_induct)
      (auto simp: record_identity_def dest!: matching_singleton)
  then show "record_identity ` set selected = (\<lambda>t. (tk_key t, tk_generation t)) ` set tokens"
    "set selected \<subseteq> set rs" by (metis set_map, simp)
  assume "distinct (map tk_key tokens)"
  then have "distinct (map (\<lambda>t. (tk_key t, tk_generation t)) tokens)"
    by (auto simp: distinct_map inj_on_def)
  with pairs show "distinct selected" by (metis distinct_map)
qed

lemma remove_records_filter:
  "distinct rs \<Longrightarrow> distinct selected \<Longrightarrow> set selected \<subseteq> set rs \<Longrightarrow>
   remove_records selected rs = Some (filter (\<lambda>r. r \<notin> set selected) rs)"
proof (induction selected arbitrary: rs)
  case (Cons r selected)
  then have "remove_records selected (remove1 r rs) = Some (filter (\<lambda>x. x \<notin> set selected) (remove1 r rs))"
    by (intro Cons.IH) (auto simp: distinct_remove1)
  moreover have "filter (\<lambda>x. x \<notin> set selected) (remove1 r rs) = filter (\<lambda>x. x \<notin> set (r # selected)) rs"
    using Cons.prems(1) by (auto simp: distinct_remove1_removeAll removeAll_filter_not_eq intro!: filter_cong)
  ultimately show ?case using Cons.prems(3) by simp
qed simp

lemma filter_selected:
  assumes "distinct (map record_identity rs)" and "set selected \<subseteq> set rs"
    and "record_identity ` set selected = ids"
  shows "filter (\<lambda>r. r \<notin> set selected) rs = filter (\<lambda>r. record_identity r \<notin> ids) rs"
proof (rule filter_cong [OF HOL.refl])
  fix r assume "r \<in> set rs"
  with assms show "r \<notin> set selected \<longleftrightarrow> record_identity r \<notin> ids"
    by (auto simp: distinct_map dest: inj_onD)
qed

lemma valid_state_distinct: "valid_lock_state st \<Longrightarrow> distinct (map record_identity (ls_records st))"
  by (simp add: valid_lock_state_def)

lemma valid_state_sorted: "valid_lock_state st \<Longrightarrow> sorted (map record_identity (ls_records st))"
  by (metis sorted_sort_key valid_lock_state_def)

lemma sorted_state_filter:
  "valid_lock_state st \<Longrightarrow>
   sorted_state (st\<lparr>ls_records := filter P (ls_records st)\<rparr>) = st\<lparr>ls_records := filter P (ls_records st)\<rparr>"
  by (simp add: sorted_state_def sort_key_id_if_sorted sorted_filter valid_state_sorted)

lemma bind_unseen_tail:
  assumes "bind_eff m f w = (Inr y, w')" and "\<And>x. guarantees (same lock_view) (f x)"
  obtains x t where "m w = (Inr x, t)" and "f x t = (Inr y, w')" and "lock_disk w' = lock_disk t"
  using assms by (metis bind_eff_okD unseen_disk)

lemma release_okE:
  assumes "release h pre_dispatch_cleanup w = (Inr keys, w')"
  obtains wt where "valid_lock_handle h"
    and "transact (release_mutator h pre_dispatch_cleanup) w = (Inr keys, wt)"
    and "lock_disk w' = lock_disk wt"
proof -
  from assms have valid: "valid_lock_handle h" and
    rest: "bind_eff (count_lock_failure ''release_failures'' (transact (release_mutator h pre_dispatch_cleanup)))
      (\<lambda>released. then_eff (lock_metric ''releases'')
        (then_eff (for_each (\<lambda>key. event_sink (lock_event ''lock_released'' (lh_owner h) (Some key) None None))
            (if pre_dispatch_cleanup then [] else released)) (return_eff released))) w = (Inr keys, w')"
    by (simp_all add: release_def)
  from rest show thesis
  proof (rule bind_unseen_tail)
    fix x t
    assume "count_lock_failure ''release_failures'' (transact (release_mutator h pre_dispatch_cleanup)) w = (Inr x, t)"
      and "then_eff (lock_metric ''releases'')
        (then_eff (for_each (\<lambda>key. event_sink (lock_event ''lock_released'' (lh_owner h) (Some key) None None))
            (if pre_dispatch_cleanup then [] else x)) (return_eff x)) t = (Inr keys, w')"
      and "lock_disk w' = lock_disk t"
    then show thesis using valid by (auto intro!: that dest!: count_lock_failure_okD elim!: then_eff_okD)
  qed (intro guarantee_rules lock_metric_unseen)
qed

text \<open>C11: releasing a handle removes exactly the records its tokens name, every one of which was held
  by the handle's owner, and changes nothing else in the store; the keys are returned in reverse order
  of acquisition.\<close>

theorem release_exact:
  assumes "fst (release h pre_dispatch_cleanup w) = Inr keys"
    and "lock_others w = []" and "file_state (lock_disk w) = Some st"
  shows "lock_disk (snd (release h pre_dispatch_cleanup w)) = LOCK_FILE LOCK_STATE_SCHEMA_VERSION
           (st\<lparr>ls_records := filter (\<lambda>r. record_identity r \<notin> token_identities h) (ls_records st)\<rparr>) \<and>
    keys = rev (map tk_key (lh_tokens h)) \<and>
    (\<forall>id \<in> token_identities h. \<exists>r \<in> set (ls_records st). record_identity r = id \<and> lr_owner r = lh_owner h)"
  using okI [OF assms(1)]
proof (rule release_okE)
  fix wt
  let ?rs = "ls_records st"
  assume handle: "valid_lock_handle h" and
    inner: "transact (release_mutator h pre_dispatch_cleanup) w = (Inr keys, wt)" and
    disk: "lock_disk (snd (release h pre_dispatch_cleanup w)) = lock_disk wt"
  from inner show ?thesis
  proof (rule transact_okE)
    fix st0 changed st' w1 w2
    assume "holds_state st0 w1" and "lock_others w = [] \<Longrightarrow> lock_disk w1 = lock_disk w \<and> lock_others w1 = []"
      and body: "release_mutator h pre_dispatch_cleanup st0 w1 = (Inr (keys, changed, st'), w2)"
      and written: "if changed then wrote st' w2 wt else wt = w2"
    with assms(2,3) have [simp]: "st0 = st" by (simp add: holds_state_def)
    from body obtain selected rs' where
      selected: "select_records (lh_owner h) (release_check pre_dispatch_cleanup) (rev (lh_tokens h)) ?rs = Inr selected"
      and removed: "remove_records selected ?rs = Some rs'"
      and result: "keys = map tk_key (rev (lh_tokens h))" "changed" "st' = st\<lparr>ls_records := rs'\<rparr>"
      by (auto simp: release_mutator_def Let_def value_of_def elim!: then_eff_okD split: option.splits)
    note all = select_records_okD [OF selected]
    have "distinct (map tk_key (rev (lh_tokens h)))"
      using handle by (simp add: valid_lock_handle_def Let_def rev_map [symmetric])
    with selected_identities [OF all]
    have sel: "record_identity ` set selected = token_identities h" "set selected \<subseteq> set ?rs" "distinct selected"
      by (simp_all add: token_identities_def)
    have valid: "valid_lock_state st" using assms(3) by (rule file_state_valid)
    then have "distinct ?rs" by (simp add: valid_lock_state_def distinct_map)
    then have "remove_records selected ?rs = Some (filter (\<lambda>r. r \<notin> set selected) ?rs)"
      using sel(2,3) by (intro remove_records_filter)
    with removed have "rs' = filter (\<lambda>r. record_identity r \<notin> token_identities h) ?rs"
      using filter_selected [OF valid_state_distinct [OF valid] sel(2,1)] by simp
    moreover have "\<exists>r \<in> set ?rs. record_identity r = id \<and> lr_owner r = lh_owner h"
      if id: "id \<in> token_identities h" for id
    proof -
      have "id \<in> record_identity ` set selected" using id sel(1) by simp
      then obtain r where r: "r \<in> set selected" "record_identity r = id" by auto
      then have "lr_owner r = lh_owner h"
        using all by (auto simp: list_all2_conv_all_nth in_set_conv_nth)
      with r sel(2) show ?thesis by blast
    qed
    ultimately show ?thesis
      using written disk result sorted_state_filter [OF valid] by (simp add: wrote_def rev_map)
  qed
qed

lemma locked_world_state [simp]:
  "file_state (lock_disk locked_world) = Some \<lparr>ls_next_generation = 2, ls_records = [sample_record]\<rparr>"
  "lock_others locked_world = []"
  by code_simp+

theorem release_exact_witness:
  "lock_disk (snd (release sample_handle False locked_world)) =
     LOCK_FILE 1 \<lparr>ls_next_generation = 2, ls_records = []\<rparr>"
proof -
  have "fst (release sample_handle False locked_world) = Inr [''helper:input1'']" by code_simp
  from release_exact [OF this] show ?thesis
    by (simp add: LOCK_STATE_SCHEMA_VERSION_def token_identities_def sample_handle_def sample_record_def
        new_record_def record_identity_def)
qed



section \<open>Waiting ends\<close>

definition later :: "world \<Rightarrow> world \<Rightarrow> bool" where
  "later w w' \<longleftrightarrow> monotonic_clock w \<le> monotonic_clock w'"

text \<open>One attempt does not move the monotonic clock.\<close>

definition clock_untouched :: "world \<Rightarrow> world \<Rightarrow> bool" where
  "clock_untouched w w' \<longleftrightarrow> monotonic_clock w' = monotonic_clock w"

interpretation clock: shared_effects clock_untouched
  by unfold_locales
    (auto simp: clock_untouched_def guarantees_def fault_point_def now_reading_def event_sink_def
      then_eff_def bind_eff_def update_eff_def split: list.splits option.splits prod.splits sum.splits)

lemma clock_lock_metric [guarantee_rules]: "guarantees clock_untouched (lock_metric name)"
  by (auto simp: guarantees_def clock_untouched_def lock_metric_def lock_metric_by_def split: option.splits)

lemma clock_transact_acquire [guarantee_rules]:
  "guarantees clock_untouched (transact (acquire_mutator normalized own timing now))"
proof -
  have "guarantees clock_untouched lock_interference"
    by (auto simp: guarantees_def clock_untouched_def lock_interference_def split: list.splits)
  moreover have "guarantees clock_untouched read_state"
    unfolding read_state_def
    by (intro guarantee_rules) (auto intro!: guarantee_rules split: lock_file.splits)
  moreover have "guarantees clock_untouched (write_state st)" for st
    unfolding write_state_def Let_def
    by (intro guarantee_rules clock.update_guar) (simp add: clock_untouched_def)
  moreover have "guarantees clock_untouched (acquire_mutator normalized own timing now st)" for st
    unfolding acquire_mutator_def Let_def by (intro guarantee_rules)
  ultimately show ?thesis
    unfolding transact_def exclusive_transaction_def by (intro guarantee_rules) auto
qed

lemma clock_acquire_once: "guarantees clock_untouched (acquire_once requests own timing now)"
  unfolding acquire_once_def by (intro guarantee_rules)

lemma sleep_advances: "0 \<le> d \<Longrightarrow> sleep d w = (r, w') \<Longrightarrow> monotonic_clock w + d \<le> monotonic_clock w'"
  by (auto simp: sleep_def split: list.splits)

text \<open>One more round of the loop that ends without an answer.\<close>

lemma acquire_loop_roundE:
  assumes cancelled: "guarantees later cancelled" and poll: "0 < poll_interval_seconds timing"
    and run: "acquire_loop (Suc fuel) started requests own timing cancelled w = (Inr None, w')"
  obtains w1 mark where "monotonic_clock w \<le> mark" and "0 < wait_timeout_seconds timing - (mark - started)"
    and "mark + min (poll_interval_seconds timing) (wait_timeout_seconds timing - (mark - started))
         \<le> monotonic_clock w1"
    and "acquire_loop fuel started requests own timing cancelled w1 = (Inr None, w')"
proof -
  let ?wait = "wait_timeout_seconds timing"
  from run obtain stop w0 where stop: "cancelled w = (Inr stop, w0)" and
    rest: "(if stop then raise_eff LockWaitCancelled
     else bind_eff now_reading (\<lambda>now.
       try_else_eff (acquire_once requests own timing now)
         (\<lambda>e. case e of
            LockConflict keys \<Rightarrow>
              bind_eff monotonic_reading (\<lambda>reading.
              let elapsed = reading - started in
              if ?wait = 0 then raise_eff e
              else if ?wait \<le> elapsed then
                then_eff (lock_metric ''wait_timeouts'') (raise_eff LockWaitTimeout)
              else
                then_eff (sleep (min (poll_interval_seconds timing) (?wait - elapsed)))
                  (acquire_loop fuel started requests own timing cancelled))
          | _ \<Rightarrow> raise_eff e)
         (\<lambda>handle. return_eff (Some handle)))) w0 = (Inr None, w')"
    unfolding acquire_loop.simps by (rule bind_eff_okD)
  from rest have "\<not> stop" by (auto split: if_splits)
  with rest obtain now w2 where clock: "now_reading w0 = (Inr now, w2)" and
    attempt: "try_else_eff (acquire_once requests own timing now)
         (\<lambda>e. case e of
            LockConflict keys \<Rightarrow>
              bind_eff monotonic_reading (\<lambda>reading.
              let elapsed = reading - started in
              if ?wait = 0 then raise_eff e
              else if ?wait \<le> elapsed then
                then_eff (lock_metric ''wait_timeouts'') (raise_eff LockWaitTimeout)
              else
                then_eff (sleep (min (poll_interval_seconds timing) (?wait - elapsed)))
                  (acquire_loop fuel started requests own timing cancelled))
          | _ \<Rightarrow> raise_eff e)
         (\<lambda>handle. return_eff (Some handle)) w2 = (Inr None, w')"
    by (auto elim: bind_eff_okD)
  obtain res w3 where once: "acquire_once requests own timing now w2 = (res, w3)" by fastforce
  have mono: "monotonic_clock w \<le> monotonic_clock w3"
    using guaranteesD [OF cancelled stop] guaranteesD [OF clock.now_reading_guar clock]
      guaranteesD [OF clock_acquire_once once] by (simp add: later_def clock_untouched_def)
  from attempt once obtain e keys where "res = Inl e" "e = LockConflict keys"
    by (cases res) (auto simp: try_else_eff_def split: exn.splits)
  with attempt once have "(if ?wait = 0 then raise_eff (LockConflict keys)
      else if ?wait \<le> monotonic_clock w3 - started then
        then_eff (lock_metric ''wait_timeouts'') (raise_eff LockWaitTimeout)
      else then_eff (sleep (min (poll_interval_seconds timing) (?wait - (monotonic_clock w3 - started))))
        (acquire_loop fuel started requests own timing cancelled)) w3 = (Inr None, w')"
    by (simp add: try_else_eff_def monotonic_reading_def read_eff_def bind_eff_def Let_def
        split del: if_split)
  then have wait: "0 < ?wait - (monotonic_clock w3 - started)" and
    sleeping: "then_eff (sleep (min (poll_interval_seconds timing) (?wait - (monotonic_clock w3 - started))))
        (acquire_loop fuel started requests own timing cancelled) w3 = (Inr None, w')"
    by (auto split: if_splits elim!: then_eff_okD)
  from sleeping obtain w4 where
    slept: "sleep (min (poll_interval_seconds timing) (?wait - (monotonic_clock w3 - started))) w3 = (Inr (), w4)"
    and again: "acquire_loop fuel started requests own timing cancelled w4 = (Inr None, w')"
    by (auto elim!: then_eff_okD)
  have "monotonic_clock w3 + min (poll_interval_seconds timing) (?wait - (monotonic_clock w3 - started))
      \<le> monotonic_clock w4"
    using poll wait by (intro sleep_advances [OF _ slept]) simp
  with mono wait again show thesis by (intro that)
qed

lemma acquire_loop_none:
  assumes "guarantees later cancelled" and "0 < poll_interval_seconds timing"
    and "acquire_loop (Suc fuel) started requests own timing cancelled w = (Inr None, w')"
  shows "int fuel * poll_interval_seconds timing < wait_timeout_seconds timing - (monotonic_clock w - started)"
  using assms(3)
proof (induction fuel arbitrary: w)
  case 0
  from assms(1,2) 0 show ?case by (rule acquire_loop_roundE) simp
next
  case (Suc fuel)
  from assms(1,2) Suc.prems show ?case
  proof (rule acquire_loop_roundE)
    fix w1 mark
    let ?p = "poll_interval_seconds timing" and ?rem = "wait_timeout_seconds timing - (mark - started)"
    assume mark: "monotonic_clock w \<le> mark" "0 < ?rem" "mark + min ?p ?rem \<le> monotonic_clock w1"
      and again: "acquire_loop (Suc fuel) started requests own timing cancelled w1 = (Inr None, w')"
    have IH: "int fuel * ?p < wait_timeout_seconds timing - (monotonic_clock w1 - started)"
      using Suc.IH [OF again] .
    have "0 \<le> int fuel * ?p" using assms(2) by simp
    with IH mark(3) have "?p \<le> ?rem" by (simp add: min_def split: if_splits)
    with IH mark(1,3) have "int fuel * ?p + ?p < wait_timeout_seconds timing - (monotonic_clock w - started)"
      by (simp add: min_def)
    then show ?thesis by (simp add: algebra_simps)
  qed
qed

text \<open>C12: waiting for locks ends: with a cancellation check that does not set the monotonic clock back,
  \<open>acquire\<close> always answers, with a handle or an exception, within the fuel it gives its polling loop.\<close>

theorem acquire_answers:
  assumes "guarantees later cancelled"
  shows "fst (acquire requests own timing cancelled w) \<noteq> Inr None"
proof
  let ?p = "poll_interval_seconds timing" and ?wait = "wait_timeout_seconds timing"
  assume "fst (acquire requests own timing cancelled w) = Inr None"
  then obtain w' where run: "acquire requests own timing cancelled w = (Inr None, w')" by (metis okI)
  then have timing: "valid_lock_timing timing"
    and loop: "acquire_loop (acquire_fuel timing) (monotonic_clock w) requests own timing cancelled w = (Inr None, w')"
    by (simp_all add: acquire_def monotonic_reading_def read_eff_def bind_eff_def)
  have p: "0 < ?p" and wait: "0 \<le> ?wait" using timing by (simp_all add: valid_lock_timing_def)
  have "acquire_fuel timing = Suc (nat (?wait div ?p) + 2)" by (simp add: acquire_fuel_def)
  with loop have "int (nat (?wait div ?p) + 2) * ?p < ?wait"
    using acquire_loop_none [OF assms p, of "nat (?wait div ?p) + 2" "monotonic_clock w"] by fastforce
  moreover have "0 \<le> ?wait div ?p" using p wait by (simp add: pos_imp_zdiv_nonneg_iff)
  then have "int (nat (?wait div ?p) + 2) * ?p = ?p * (?wait div ?p) + 2 * ?p"
    by (simp add: algebra_simps)
  moreover have "?p * (?wait div ?p) + ?wait mod ?p = ?wait" by (rule mult_div_mod_eq)
  moreover have "?wait mod ?p < ?p" using p by simp
  ultimately show False using p by linarith
qed

theorem acquire_answers_witness:
  "fst (acquire [sample_request] other_owner sample_lock_timing (return_eff False) locked_world) \<noteq> Inr None"
  by (rule acquire_answers) (simp add: guarantees_def later_def return_eff_def)

end
