(* ===== verification/F3_Service.thy ===== *)
theory F3_Service
  imports F3_Dispatch_Once F3_Lock_Properties
begin

text \<open>
  The service as a transition system: runs of the executor, cancellations and maintenance operations
  of this process, the loss of the process with its memory, and new decisions of the environment,
  in any order.  The properties here hold of every reachable state.
\<close>

section \<open>Steps of the service\<close>

inductive service_step :: "world \<Rightarrow> world \<Rightarrow> bool" where
  executing: "disciplined ad \<Longrightarrow>
    service_step w (snd (execute ex ad identity prepared approval authority w))"
| cancelling: "service_step w (snd (cancel_execution ex task_id w))"
| recovering_locks: "service_step w (snd (recover_expired decisions tw tt now w))"
| releasing_hold: "service_step w (snd (release_conflict_hold own tokens reason w))"
| terminalizing: "service_step w (snd (terminalize_expired_claim_pre_dispatch task_id g codes now w))"
| materializing:
    "service_step w (snd (materialize_expired_pre_dispatch identity adapter_id op target h codes now w))"
| reading: "service_step w (snd (get_execution task_id w))"
| process_lost: "service_step w (w\<lparr>lock_counters := (\<lambda>_. 0), executor_counters := (\<lambda>_. 0),
      audit_log := [], run_state := fresh_run\<rparr>)"
| environment: "(\<And>f d. f \<in> set es \<Longrightarrow> store_evolves d (f d)) \<Longrightarrow>
    (\<And>f file. f \<in> set ls \<Longrightarrow> lock_file_evolves file (f file)) \<Longrightarrow>
    service_step w (w\<lparr>execution_others := es, lock_others := ls, faults := xs, wall_clock := t,
      ticks := ds, jitter := js, renewals := ns\<rparr>)"

lemma terminalize_expired_once:
  "guarantees (dispatches_once T) (terminalize_expired_claim_pre_dispatch task_id g codes now)"
  by (rule quiet, rule terminalize_expired_claim_guarantee)
    (unfold terminalize_expired_claim_pre_dispatch_def, intro guarantee_rules)

lemma materialize_once:
  "guarantees (dispatches_once T)
     (materialize_expired_pre_dispatch identity adapter_id op target h codes now)"
  by (rule quiet, rule materialize_guarantee)
    (unfold materialize_expired_pre_dispatch_def Let_def, intro guarantee_rules)

lemma service_step_once: "service_step w w' \<Longrightarrow> dispatches_once T w w'"
proof (induction rule: service_step.induct)
  case (executing ad w ex identity prepared approval authority)
  then show ?case using once.execute_guar by (simp add: guarantees_def)
next
  case (process_lost w)
  show ?case by (rule dispatches_once_unchanged) simp_all
next
  case (environment es ls w xs t ds js ns)
  then show ?case by (simp add: dispatches_once_def executions_respected_def calls_def)
qed (use once.cancel_execution_guar once.recover_expired_guar once.release_hold_guar
      terminalize_expired_once materialize_once once.get_execution_guar in \<open>auto simp: guarantees_def\<close>)

lemma service_history_once: "service_step\<^sup>*\<^sup>* w w' \<Longrightarrow> dispatches_once T w w'"
  by (induction rule: rtranclp_induct) (auto intro: once.refl once.trans service_step_once)

lemma service_history_evolves:
  assumes "service_step\<^sup>*\<^sup>* w w'" and "executions_respected w"
  shows "executions_respected w' \<and> store_evolves (execution_disk w) (execution_disk w')"
  using service_history_once [OF assms(1)] assms(2) by (simp add: dispatches_once_def)

section \<open>A second run over a committed intent\<close>

definition second_run :: "(exn + executor_result) \<times> world" where
  "second_run = execute sample_executor sample_adapter sample_identity sample_prepared (Inr ()) None
     committed_world"

lemma second_step: "service_step\<^sup>*\<^sup>* committed_world (snd second_run)"
  unfolding second_run_def
  by (rule r_into_rtranclp [of service_step], rule service_step.executing)
    (simp add: disciplined_def sample_adapter_def)

lemma committed_world_respected: "executions_respected committed_world"
  by (simp add: executions_respected_def committed_world_def sample_world_def)

lemma committed_world_stored: "stored ''task1'' sample_committed committed_world"
  using sample_records_valid(2) sample_records_task(2)
  by (simp add: stored_def sound_record_def committed_world_def)

lemma committed_world_durable: "intent_durable ''task1'' (execution_disk committed_world)"
  using committed_world_stored
  by (auto simp: intent_durable_def stored_def sample_committed_def)

section \<open>One dispatch\<close>

text \<open>C1: for every task at most one mutating provider call is ever sent, in any history of runs,
  retries, cancellations, maintenance, process losses and concurrent processes, with any faults; and
  once it has been sent, the durable record of the task carries the dispatch intent.\<close>

theorem at_most_one_provider_call:
  assumes "service_step\<^sup>*\<^sup>* w w'" and "executions_respected w" and "calls task_id w = 0"
  shows "calls task_id w' \<le> 1 \<and>
    (calls task_id w' = 1 \<longrightarrow> intent_durable task_id (execution_disk w'))"
  using service_history_once [OF assms(1), of task_id] assms(2,3) by (auto simp: dispatches_once_def)

lemma sample_step: "service_step sample_world (snd sample_run)"
  unfolding sample_run_def
  by (rule service_step.executing) (simp add: disciplined_def sample_adapter_def)

theorem at_most_one_provider_call_witness:
  "calls ''task1'' (snd sample_run) = 0 \<or>
   calls ''task1'' (snd sample_run) = 1 \<and> intent_durable ''task1'' (execution_disk (snd sample_run))"
proof -
  have "calls ''task1'' (snd sample_run) \<le> 1 \<and>
    (calls ''task1'' (snd sample_run) = 1 \<longrightarrow> intent_durable ''task1'' (execution_disk (snd sample_run)))"
    by (rule at_most_one_provider_call [OF r_into_rtranclp [of service_step, OF sample_step]])
      (simp_all add: executions_respected_def sample_world_def calls_def)
  then show ?thesis by (cases "calls ''task1'' (snd sample_run)") auto
qed

text \<open>C2: recovery never dispatches.  Once the intent of a task is durable, no later run, by whichever
  owner, sends a provider call for that task, whatever became of the first one.\<close>

theorem recovery_never_dispatches:
  assumes "service_step\<^sup>*\<^sup>* w w'" and "executions_respected w"
    and "intent_durable task_id (execution_disk w)"
  shows "calls task_id w' = calls task_id w \<and> intent_durable task_id (execution_disk w')"
  using service_history_once [OF assms(1), of task_id] assms(2,3)
  by (auto simp: dispatches_once_def dest: intent_durable_evolves)

theorem recovery_never_dispatches_witness:
  "calls ''task1'' (snd second_run) = calls ''task1'' committed_world \<and>
   intent_durable ''task1'' (execution_disk (snd second_run))"
  by (rule recovery_never_dispatches
      [OF second_step committed_world_respected committed_world_durable])

text \<open>C3: the commit of the dispatch intent succeeds at most once per task: after one success, no later
  commit for the task returns, in any later history of the service.\<close>

theorem commit_succeeds_once:
  assumes "fst (commit_dispatch_intent task_id owner_id g q po h timing now w) = Inr r"
    and "executions_respected w"
    and "service_step\<^sup>*\<^sup>* (snd (commit_dispatch_intent task_id owner_id g q po h timing now w)) w'"
  shows "fst (commit_dispatch_intent task_id owner_id' g' q' po' h' timing' now' w') \<noteq> Inr r'"
proof
  let ?w1 = "snd (commit_dispatch_intent task_id owner_id g q po h timing now w)"
  assume "fst (commit_dispatch_intent task_id owner_id' g' q' po' h' timing' now' w') = Inr r'"
  then have again: "commit_dispatch_intent task_id owner_id' g' q' po' h' timing' now' w' =
      (Inr r', snd (commit_dispatch_intent task_id owner_id' g' q' po' h' timing' now' w'))"
    by (rule okI)
  note first = okI [OF assms(1)]
  have "executions_respected ?w1"
    using guaranteesD [OF commit_guarantee first] assms(2) by (simp add: execution_guarantee_def)
  with service_history_evolves [OF assms(3)]
  have w': "executions_respected w'" "store_evolves (execution_disk ?w1) (execution_disk w')" by auto
  have "intent_durable task_id (execution_disk w')"
    using w'(2) commit_makes_durable(2) [OF first assms(2)] by (rule intent_durable_evolves)
  with commit_makes_durable(1) [OF again w'(1)] show False by contradiction
qed

definition commit_run :: "(exn + execution_record) \<times> world" where
  "commit_run = commit_dispatch_intent ''task1'' ''owner1'' 1 ''request1'' ''call1'' sample_hash
     (ex_executor_timing sample_executor) 2000 ready_world"

lemma commit_run_ok: "\<not> isl (fst commit_run)"
  by code_simp

theorem commit_succeeds_once_witness:
  "\<forall>r. fst (commit_dispatch_intent ''task1'' ''owner1'' 1 ''request1'' ''call1'' sample_hash
     (ex_executor_timing sample_executor) 3000 (snd commit_run)) \<noteq> Inr r"
proof
  fix r
  obtain committed where first: "fst commit_run = Inr committed"
    using commit_run_ok by (cases "fst commit_run") simp_all
  have "executions_respected ready_world"
    by (simp add: executions_respected_def ready_world_def sample_world_def)
  with first show "fst (commit_dispatch_intent ''task1'' ''owner1'' 1 ''request1'' ''call1'' sample_hash
     (ex_executor_timing sample_executor) 3000 (snd commit_run)) \<noteq> Inr r"
    unfolding commit_run_def by (rule commit_succeeds_once) (rule rtranclp.rtrancl_refl)
qed

section \<open>Durable records\<close>

text \<open>C7: every stored record stays valid and only evolves: its operation, attempt and creation time
  never change, its events are only appended to, its claim generation, dispatch count and attempt
  counters never decrease, a durable intent is never dropped or altered beyond its lock tokens, and a
  record settled without intent stays so.\<close>

theorem records_only_evolve:
  assumes "service_step\<^sup>*\<^sup>* w w'" and "executions_respected w" and "stored task_id r w"
  shows "\<exists>r'. stored task_id r' w' \<and> evolves r r'"
proof -
  have "store_evolves (execution_disk w) (execution_disk w')"
    using service_history_evolves [OF assms(1,2)] by simp
  moreover have "execution_disk w task_id = Some (EXECUTION_FILE r)" "sound_record task_id r"
    using assms(3) by (simp_all add: stored_def)
  ultimately obtain r' where "execution_disk w' task_id = Some (EXECUTION_FILE r')"
    "sound_record task_id r'" "evolves r r'"
    by (rule store_evolvesD)
  then show ?thesis by (auto simp: stored_def)
qed

theorem records_only_evolve_witness:
  "\<exists>r'. stored ''task1'' r' (snd second_run) \<and> evolves sample_committed r'"
  by (rule records_only_evolve
      [OF second_step committed_world_respected committed_world_stored])

text \<open>C9: a store that holds only valid records, each under its own task, keeps doing so.\<close>

theorem store_stays_sound:
  assumes "service_step\<^sup>*\<^sup>* w w'" and "executions_respected w" and "store_sound (execution_disk w)"
  shows "store_sound (execution_disk w')"
  using service_history_evolves [OF assms(1,2)] assms(3) by (simp add: store_evolves_def)

theorem store_stays_sound_witness: "store_sound (execution_disk (snd sample_run))"
  by (rule store_stays_sound [OF r_into_rtranclp [of service_step, OF sample_step]])
    (simp_all add: executions_respected_def sample_world_def store_sound_def)



end
