(* ===== verification/F3_Execution_Effects.thy ===== *)
theory F3_Execution_Effects
  imports F3_Service
begin

text \<open>
  What each durable step does to a record, exactly: the commit of the intent, cancellation, the
  atomicity of every fenced mutation, the retention cleanup, and the result the executor reports.
  The statements are about a transaction no other process comes before (\<open>execution_others w = []\<close>);
  what holds under interference is in \<open>F3_Service\<close>.
\<close>

section \<open>A transaction alone\<close>

definition alone :: "world \<Rightarrow> world \<Rightarrow> bool" where
  "alone w w' \<longleftrightarrow> execution_disk w' = execution_disk w \<and>
     (execution_others w = [] \<longrightarrow> execution_others w' = [])"

lemma unseen_alone: "guarantees (same execution_view) m \<Longrightarrow> m w = (r, w') \<Longrightarrow> alone w w'"
  by (drule guaranteesD) (auto simp: same_def execution_view_def alone_def)

lemma stored_alone: "alone w w' \<Longrightarrow> stored task_id r w' \<longleftrightarrow> stored task_id r w"
  by (simp add: alone_def stored_def)

lemma absent_alone: "alone w w' \<Longrightarrow> absent task_id w' \<longleftrightarrow> absent task_id w"
  by (simp add: alone_def absent_def)

lemma stored_unique: "stored task_id r w \<Longrightarrow> stored task_id r' w \<Longrightarrow> r' = r"
  by (simp add: stored_def)

lemma execution_transaction_alone:
  assumes "execution_transaction m w = (res, w')" and "execution_others w = []"
  obtains (refused) e where "res = Inl e" "alone w w'"
  | (ran) w1 res1 where "m w1 = (res1, w')" "alone w w1" "\<And>x. res = Inr x \<longleftrightarrow> res1 = Inr x"
proof (cases fault_point w rule: effect_cases)
  case (raised e t)
  then have "alone w w'" "\<exists>e. res = Inl e"
    using assms fault_point_view [OF raised]
    by (auto simp: execution_transaction_def convert_os_error_def catch_eff_def then_eff_def bind_eff_def
        raise_eff_def alone_def split: if_splits)
  then show thesis by (auto intro: refused)
next
  case (returned x t)
  then have t: "alone w t" "execution_others t = []"
    using fault_point_view [OF returned] assms(2) by (auto simp: alone_def)
  then have "execution_interference t = (Inr (), t)" by (simp add: execution_interference_def)
  with assms(1) returned have run: "convert_os_error ExecutionStorageError m t = (res, w')"
    by (simp add: execution_transaction_def convert_os_error_def catch_eff_def then_eff_def bind_eff_def)
  obtain res1 w1 where m: "m t = (res1, w1)" by fastforce
  with run have "w1 = w'" "\<And>x. res = Inr x \<longleftrightarrow> res1 = Inr x"
    by (auto simp: convert_os_error_def catch_eff_def raise_eff_def split: sum.splits if_splits)
  with m t show thesis by (auto intro: ran)
qed

lemma execution_transaction_alone_okE:
  assumes "execution_transaction m w = (Inr x, w')" and "execution_others w = []"
  obtains w1 where "m w1 = (Inr x, w')" "alone w w1"
  using assms
proof (cases rule: execution_transaction_alone)
  case (ran w1 res1)
  then have "res1 = Inr x" by blast
  with ran that show ?thesis by simp
qed simp

lemma read_then_alone:
  assumes "bind_eff (read_unlocked task_id) f w = (res, w')"
  obtains (refused) e where "res = Inl e" "alone w w'"
  | (missing) w1 where "absent task_id w" "alone w w1" "f None w1 = (res, w')"
  | (found) r w1 where "stored task_id r w" "alone w w1" "f (Some r) w1 = (res, w')"
proof (cases "read_unlocked task_id" w rule: effect_cases)
  case (raised e t)
  with assms unseen_alone [OF read_unlocked_unseen raised] show thesis
    by (auto simp: bind_eff_def intro: refused)
next
  case (returned z t)
  then have "alone w t" and f: "f z t = (res, w')"
    using assms unseen_alone [OF read_unlocked_unseen returned] by (simp_all add: bind_eff_def)
  then show thesis
    using read_unlocked_okD [OF returned]
    by (cases z) (auto simp: stored_alone absent_alone intro: missing found)
qed

lemma write_alone:
  assumes "then_eff (write_unlocked record) k w = (res, w')" and "guarantees (same execution_view) k"
    and "ei_task_id (xr_identity record) = task_id"
  shows "execution_disk w' = execution_disk w \<or>
      execution_disk w' = (execution_disk w)(task_id \<mapsto> EXECUTION_FILE record) \<and> stored task_id record w'"
    and "res = Inr x \<Longrightarrow>
      execution_disk w' = (execution_disk w)(task_id \<mapsto> EXECUTION_FILE record) \<and> stored task_id record w'"
proof -
  obtain res1 w1 where wr: "write_unlocked record w = (res1, w1)" by fastforce
  have installs: "installs record w w1" using write_unlocked_installs wr by (rule guaranteesD)
  have same_disk: "execution_disk w' = execution_disk w1"
  proof (cases res1)
    case Inl
    with assms(1) wr show ?thesis by (simp add: then_eff_def bind_eff_def)
  next
    case Inr
    with assms(1) wr have "k w1 = (res, w')" by (simp add: then_eff_def bind_eff_def)
    with unseen_alone [OF assms(2)] show ?thesis by (simp add: alone_def)
  qed
  have wrote: "execution_disk w' = (execution_disk w)(task_id \<mapsto> EXECUTION_FILE record) \<and>
      stored task_id record w'" if "installed record w w1"
    using that same_disk assms(3) by (simp add: installed_def stored_def sound_record_def)
  show "execution_disk w' = execution_disk w \<or>
      execution_disk w' = (execution_disk w)(task_id \<mapsto> EXECUTION_FILE record) \<and> stored task_id record w'"
    using installs same_disk wrote by (auto simp: installs_def)
  assume "res = Inr x"
  with assms(1) wr obtain u where "res1 = Inr u"
    by (cases res1) (auto simp: then_eff_def bind_eff_def)
  with wr have "installed record w w1" using write_unlocked_okD(1) by blast
  then show "execution_disk w' = (execution_disk w)(task_id \<mapsto> EXECUTION_FILE record) \<and>
      stored task_id record w'" by (rule wrote)
qed

section \<open>Fenced mutations\<close>

text \<open>The part of \<open>mutate_claimed\<close> after the record was read.\<close>

lemma mutation_body_alone:
  assumes "then_eff (require (holds_claim r owner_id g) ExecutionClaimLost)
      (bind_eff (lift_eff (mutator r)) (\<lambda>record'.
       then_eff (require (valid_execution_record record') ValueError)
       (then_eff (write_unlocked record') (return_eff record')))) w = (res, w')"
    and "\<And>r'. mutator r = Inr r' \<Longrightarrow> ei_task_id (xr_identity r') = task_id"
  shows "execution_disk w' = execution_disk w \<and> isl res \<or>
    (\<exists>r'. holds_claim r owner_id g \<and> mutator r = Inr r' \<and> stored task_id r' w' \<and>
       execution_disk w' = (execution_disk w)(task_id \<mapsto> EXECUTION_FILE r') \<and> (isl res \<or> res = Inr r'))"
proof (cases "\<exists>r'. holds_claim r owner_id g \<and> mutator r = Inr r' \<and> valid_execution_record r'")
  case False
  with assms(1) show ?thesis
  proof (cases "mutator r")
    case (Inl e)
    with assms(1) show ?thesis
      by (cases res) (auto simp: require_def raise_eff_def lift_eff_def bind_eff_def then_eff_def
          return_eff_def split: if_splits)
  next
    case (Inr r')
    with assms(1) False show ?thesis
      by (auto simp: require_def raise_eff_def lift_eff_def bind_eff_def then_eff_def return_eff_def
          split: if_splits)
  qed
next
  case True
  then obtain r' where r': "holds_claim r owner_id g" "mutator r = Inr r'" "valid_execution_record r'" by blast
  with assms(1) have last: "then_eff (write_unlocked r') (return_eff r') w = (res, w')"
    by (simp add: lift_eff_def bind_eff_def)
  note wrote = write_alone [OF last untouched.return_guar assms(2) [OF r'(2)]]
  show ?thesis
  proof (cases res)
    case (Inl e)
    with wrote(1) r' show ?thesis by auto
  next
    case (Inr x)
    moreover from this last have "x = r'" by (auto elim!: then_eff_okD)
    ultimately show ?thesis using wrote(2) r' by auto
  qed
qed

text \<open>C18: a fenced mutation is atomic and fenced.  Whatever faults occur, either the store is exactly as
  it was and an exception is raised, or exactly the record of the task changed, from a stored record
  whose claim the caller holds to the valid record the mutator makes of it; and what is returned is
  that record.\<close>

theorem fenced_mutation_atomic:
  assumes "execution_others w = []" and "\<And>r r'. mutator r = Inr r' \<Longrightarrow> evolves r r'"
    and "mutate_claimed task_id owner_id g mutator w = (res, w')"
  shows "execution_disk w' = execution_disk w \<and> isl res \<or>
    (\<exists>r r'. stored task_id r w \<and> holds_claim r owner_id g \<and> mutator r = Inr r' \<and>
       stored task_id r' w' \<and> execution_disk w' = (execution_disk w)(task_id \<mapsto> EXECUTION_FILE r') \<and>
       (isl res \<or> res = Inr r'))"
  using assms(3,1) unfolding mutate_claimed_def
proof (cases rule: execution_transaction_alone)
  case (refused e)
  then show ?thesis by (simp add: alone_def)
next
  case (ran w1 res1)
  then have disk: "execution_disk w1 = execution_disk w" and isl: "isl res \<longleftrightarrow> isl res1"
    by (simp_all add: alone_def) (metis isl_def old.sum.exhaust sum.disc(2))
  from ran(1) show ?thesis
  proof (cases rule: read_then_alone)
    case (refused e)
    with disk isl show ?thesis by (simp add: alone_def)
  next
    case (missing w2)
    with disk isl show ?thesis by (auto simp: alone_def raise_eff_def)
  next
    case (found r w2)
    then have r: "stored task_id r w" "execution_disk w2 = execution_disk w"
      using disk by (simp_all add: stored_def alone_def)
    then have "ei_task_id (xr_identity r') = task_id" if "mutator r = Inr r'" for r'
      using assms(2) [OF that] by (auto simp: stored_def sound_record_def dest: evolves_task)
    from mutation_body_alone [where mutator = mutator, OF found(3) [unfolded option.case] this] r isl ran(3) show ?thesis
      by auto
  qed
qed

theorem fenced_mutation_atomic_witness:
  "execution_disk (snd (yield_claim ''task1'' ''owner1'' 1 2000 committed_world)) =
     execution_disk committed_world \<or>
   (\<exists>r'. execution_disk (snd (yield_claim ''task1'' ''owner1'' 1 2000 committed_world)) =
     (execution_disk committed_world)(''task1'' \<mapsto> EXECUTION_FILE r'))"
  unfolding yield_claim_def
  using fenced_mutation_atomic [where mutator = "yield_mutator (timestamp 2000)" and w = committed_world and
      task_id = "''task1''" and owner_id = "''owner1''" and g = 1, OF _ yield_evolves prod.collapse [symmetric]]
  by (auto simp: committed_world_def sample_world_def)

section \<open>The commit of the intent\<close>

definition committed_record ::
  "execution_record \<Rightarrow> string \<Rightarrow> string \<Rightarrow> string \<Rightarrow> executor_timing \<Rightarrow> int \<Rightarrow> execution_record" where
  "committed_record r q po h timing now =
     r\<lparr>xr_dispatch_intent := Some
          \<lparr>di_committed_at = At now, di_evidence_deadline = At (now + post_dispatch_evidence_seconds timing),
           di_request_id = q, di_provider_operation = po, di_provider_arguments_hash = h,
           di_lock_tokens = xr_lock_tokens r, di_possibly_dispatched = True\<rparr>,
       xr_dispatch_count := 1, xr_state := ''dispatching'', xr_task_state := ''dispatching'',
       xr_events := xr_events r @
         [\<lparr>ev_sequence = int (length (xr_events r)) + 1, ev_event_type = ''dispatch_intent_committed'',
           ev_occurred_at = At now, ev_diagnostic_codes = bounded_diagnostics [''possibly_dispatched'']\<rparr>],
       xr_updated_at := At now\<rparr>"

lemma intent_mutator_okD:
  "intent_mutator q po h (timestamp now) (timestamp (now + post_dispatch_evidence_seconds timing)) r = Inr r' \<Longrightarrow>
   r' = committed_record r q po h timing now"
  by (auto simp: intent_mutator_def append_event_def append_execution_event_def committed_record_def
      timestamp_def split: if_splits option.splits)

text \<open>C19: a commit that returns found the task's record under the caller's claim, not terminal, with a
  completed preflight, recorded lock tokens and no intent; and the only change it made to the store is
  to that record: the intent over exactly those tokens with its evidence deadline, the dispatch count
  one, the dispatching state and one appended event.\<close>

theorem commit_effect_exact:
  assumes "execution_others w = []"
    and "fst (commit_dispatch_intent task_id owner_id g q po h timing now w) = Inr r'"
  shows "\<exists>r. stored task_id r w \<and> holds_claim r owner_id g \<and> \<not> xr_terminal r \<and>
    xr_dispatch_intent r = None \<and> xr_dispatch_count r = 0 \<and> xr_preflight_completed r \<and>
    xr_lock_tokens r \<noteq> [] \<and> r' = committed_record r q po h timing now \<and>
    execution_disk (snd (commit_dispatch_intent task_id owner_id g q po h timing now w)) =
      (execution_disk w)(task_id \<mapsto> EXECUTION_FILE r')"
proof -
  obtain w' where run: "commit_dispatch_intent task_id owner_id g q po h timing now w = (Inr r', w')"
    using assms(2) by (metis prod.collapse)
  then have "execution_transaction (bind_eff (read_unlocked task_id) (\<lambda>found. case found of
        None \<Rightarrow> raise_eff ExecutionRecordCorrupt
      | Some record \<Rightarrow> commit_step owner_id g q po h timing now record)) w = (Inr r', w')"
    by (simp add: commit_dispatch_intent_def)
  from this assms(1) obtain w1 where body: "bind_eff (read_unlocked task_id) (\<lambda>found. case found of
        None \<Rightarrow> raise_eff ExecutionRecordCorrupt
      | Some record \<Rightarrow> commit_step owner_id g q po h timing now record) w1 = (Inr r', w')"
    and w1: "alone w w1"
    by (rule execution_transaction_alone_okE)
  from body obtain r w2 where r: "stored task_id r w1" "alone w1 w2"
    and step: "commit_step owner_id g q po h timing now r w2 = (Inr r', w')"
    by (cases rule: read_then_alone) auto
  have fresh: "\<not> (xr_dispatch_intent r \<noteq> None \<or> xr_dispatch_count r \<noteq> 0)"
  proof
    assume "xr_dispatch_intent r \<noteq> None \<or> xr_dispatch_count r \<noteq> 0"
    with step show False by (auto simp: commit_step_def elim!: then_eff_okD)
  qed
  from step fresh obtain w3 where guards: "holds_claim r owner_id g" "\<not> xr_terminal r"
      "xr_preflight_completed r" "xr_lock_tokens r \<noteq> []"
    and quiet: "fault_point w2 = (Inr (), w3)"
    and mutated: "intent_mutator q po h (timestamp now)
        (timestamp (now + post_dispatch_evidence_seconds timing)) r = Inr r'"
    and last: "then_eff (write_unlocked r') (then_eff fault_point (return_eff r')) w3 = (Inr r', w')"
    by (auto simp: commit_step_def elim!: then_eff_okD)
      (auto simp: then_eff_def bind_eff_def elim!: then_eff_okD)
  have "execution_disk w3 = execution_disk w"
    using fault_point_view [OF quiet] w1 r(2) by (simp add: alone_def)
  moreover have "ei_task_id (xr_identity r') = task_id"
    using r(1) intent_mutator_okD [OF mutated] by (simp add: stored_def sound_record_def committed_record_def)
  moreover have "guarantees (same execution_view) (then_eff fault_point (return_eff r'))"
    by (intro guarantee_rules)
  ultimately have "execution_disk w' = (execution_disk w)(task_id \<mapsto> EXECUTION_FILE r')"
    using write_alone(2) [OF last] by simp
  then show ?thesis
    using r(1) w1 fresh guards intent_mutator_okD [OF mutated] run
    by (auto simp: stored_alone intro!: exI [of _ r])
qed

lemma ready_world_stored: "stored ''task1'' sample_ready ready_world"
  using sample_records_valid(1) sample_records_task(1)
  by (simp add: stored_def sound_record_def ready_world_def)

theorem commit_effect_exact_witness:
  "execution_disk (snd commit_run) = (execution_disk ready_world)(''task1'' \<mapsto> EXECUTION_FILE
     (committed_record sample_ready ''request1'' ''call1'' sample_hash (ex_executor_timing sample_executor) 2000))"
proof -
  obtain r' where "fst commit_run = Inr r'" using commit_run_ok by (cases "fst commit_run") simp_all
  then show ?thesis
    using commit_effect_exact [of ready_world "''task1''" "''owner1''" 1 "''request1''" "''call1''" sample_hash
        "ex_executor_timing sample_executor" 2000 r'] ready_world_stored
    by (auto simp: commit_run_def ready_world_def sample_world_def dest: stored_unique)
qed

section \<open>Cancellation\<close>

definition cancelled_record :: "execution_record \<Rightarrow> execution_record \<Rightarrow> bool" where
  "cancelled_record r r' \<longleftrightarrow> settled_without_intent r' \<and>
     xr_normalized_outcome r' = Some ''cancelled_pre_dispatch'' \<and>
     xr_task_state r' = ''cancelled_pre_dispatch'' \<and> operation_of r' = operation_of r"

lemma cancel_step:
  assumes "append_event et t codes (r\<lparr>xr_normalized_outcome := Some ''cancelled_pre_dispatch'',
      xr_task_state := ''cancelled_pre_dispatch'', xr_state := ''terminal'', xr_terminal := True\<rparr>) = Inr r'"
    and "xr_dispatch_intent r = None"
  shows "cancelled_record r r'"
  using assms by (auto elim!: append_event_okD simp: cancelled_record_def settled_without_intent_def operation_of_def)


definition cancel_run :: "(exn + bool) \<times> world" where
  "cancel_run = cancel ''task1'' 2000 [] None False committed_world"

lemma cancel_run_answer: "fst cancel_run = Inr False"
  by code_simp


section \<open>Settled tasks\<close>

text \<open>C16: a task that ended before dispatch never dispatches: once its record is terminal without an
  intent, it stays so, and no provider call is sent for it in any later history of the service.\<close>

theorem settled_task_never_dispatches:
  assumes "service_step\<^sup>*\<^sup>* w w'" and "executions_respected w" and "stored task_id r w"
    and "settled_without_intent r"
  shows "calls task_id w' = calls task_id w \<and>
    (\<exists>r'. stored task_id r' w' \<and> settled_without_intent r')"
proof -
  have once: "dispatches_once task_id w w'" using assms(1) by (rule service_history_once)
  with assms(2) have "store_evolves (execution_disk w) (execution_disk w')"
    by (simp add: dispatches_once_def)
  with assms(3) obtain r' where r': "stored task_id r' w'" "evolves r r'"
    by (auto simp: stored_def elim: store_evolvesD)
  then have settled: "settled_without_intent r'" using assms(4) by (simp add: evolves_def)
  then have "\<not> intent_durable task_id (execution_disk w')"
    using stored_intent [OF r'(1)] by (simp add: settled_without_intent_def)
  with once assms(2) r'(1) settled show ?thesis by (auto simp: dispatches_once_def)
qed

definition sample_cancelled :: execution_record where
  "sample_cancelled = sample_ready
     \<lparr>xr_normalized_outcome := Some ''cancelled_pre_dispatch'', xr_state := ''terminal'',
      xr_task_state := ''cancelled_pre_dispatch'', xr_terminal := True,
      xr_events := xr_events sample_ready @ [sample_event 4 ''execution_cancelled'' []]\<rparr>"

lemma sample_cancelled_valid:
  "valid_execution_record sample_cancelled" "ei_task_id (xr_identity sample_cancelled) = ''task1''"
  by code_simp+

definition cancelled_world :: world where
  "cancelled_world = sample_world\<lparr>execution_disk := [''task1'' \<mapsto> EXECUTION_FILE sample_cancelled]\<rparr>"

lemma sample_cancelled_stored: "stored ''task1'' sample_cancelled cancelled_world"
  using sample_cancelled_valid by (simp add: stored_def sound_record_def cancelled_world_def)

definition third_run :: "(exn + executor_result) \<times> world" where
  "third_run = execute sample_executor sample_adapter sample_identity sample_prepared (Inr ()) None
     cancelled_world"

theorem settled_task_never_dispatches_witness:
  "calls ''task1'' (snd third_run) = 0"
proof -
  have "service_step\<^sup>*\<^sup>* cancelled_world (snd third_run)"
    unfolding third_run_def
    by (rule r_into_rtranclp [of service_step], rule service_step.executing)
      (simp add: disciplined_def sample_adapter_def)
  then show ?thesis
    using settled_task_never_dispatches [OF _ _ sample_cancelled_stored]
    by (auto simp: executions_respected_def cancelled_world_def sample_world_def calls_def
        settled_without_intent_def sample_cancelled_def sample_ready_def initial_record_def)
qed

section \<open>What a valid record says\<close>

lemma valid_record_counts:
  assumes "valid_execution_record r"
  shows "xr_dispatch_count r = 1 \<longleftrightarrow> xr_dispatch_intent r \<noteq> None"
  using assms
  by (cases "xr_dispatch_intent r")
    (auto simp: valid_execution_record_def execution_class_def no_intent_class_def intent_class_def Let_def
      split: if_splits)

text \<open>C21: a valid record is consistent about its dispatch: the dispatch count is one exactly if there is
  an intent, an intent comes with held locks and a completed preflight, provider responses,
  observations and verifications occur only after an intent, and a terminal record bears a terminal
  outcome, post-intent outcomes only with an intent.\<close>

theorem valid_record_consistent:
  assumes "valid_execution_record r"
  shows "(xr_dispatch_count r = 1 \<longleftrightarrow> xr_dispatch_intent r \<noteq> None) \<and>
    (xr_dispatch_intent r \<noteq> None \<longrightarrow> xr_preflight_completed r \<and> xr_lock_tokens r \<noteq> []) \<and>
    (xr_dispatch_intent r = None \<longrightarrow> \<not> xr_provider_response_received r \<and>
       xr_observation_attempts r = 0 \<and> xr_verification_attempts r = 0) \<and>
    (xr_terminal r \<longrightarrow> xr_state r = ''terminal'' \<and>
       (if xr_dispatch_intent r \<noteq> None
        then xr_normalized_outcome r \<in> Some ` set POST_INTENT_TERMINAL_OUTCOMES
        else xr_normalized_outcome r \<in>
          Some ` insert ''succeeded_verified'' (set PRE_DISPATCH_TERMINAL_OUTCOMES)))"
proof (cases "xr_dispatch_intent r")
  case None
  with assms have "no_intent_class r \<noteq> None"
    by (simp add: valid_execution_record_def execution_class_def)
  with None show ?thesis
    by (auto simp: no_intent_class_def Let_def split: if_splits)
next
  case (Some intent)
  with assms have "intent_class intent r \<noteq> None" "valid_intent (xr_lock_tokens r) intent"
    by (simp_all add: valid_execution_record_def execution_class_def)
  with Some show ?thesis
    by (auto simp: intent_class_def valid_intent_def Let_def split: if_splits)
qed

theorem valid_record_consistent_witness:
  "xr_dispatch_count sample_committed = 1 \<and> xr_preflight_completed sample_committed"
  using valid_record_consistent [OF sample_records_valid(2)] by (auto simp: sample_committed_def)

text \<open>C22: the executor's answer is total and truthful on valid records: every valid record is projected to
  a valid result that says whether it is terminal, whether an intent was recorded and dispatching again
  is prohibited, and that asks for observation exactly while an intent is unresolved.\<close>

theorem result_truthful:
  assumes "valid_execution_record r"
  shows "\<exists>res. result_of r duplicate codes = Inr res \<and> valid_executor_result res \<and>
    er_task_id res = ei_task_id (xr_identity r) \<and> er_terminal res = xr_terminal r \<and>
    er_dispatch_intent_recorded res = (xr_dispatch_intent r \<noteq> None) \<and>
    er_redispatch_prohibited res = (xr_dispatch_intent r \<noteq> None) \<and>
    (er_dispatch_count res = 1) = (xr_dispatch_intent r \<noteq> None) \<and>
    er_observation_required res = (er_redispatch_prohibited res \<and> \<not> er_terminal res) \<and>
    set (er_lock_keys res) = rt_key ` set (xr_lock_tokens r) \<and>
    er_duplicate_execution res = duplicate"
proof -
  note facts = assms [unfolded valid_execution_record_def]
  have keys: "list_all valid_lock_key (bytewise (map rt_key (xr_lock_tokens r)))"
    using facts by (auto simp: list_all_iff valid_recorded_tokens_def valid_recorded_token_def valid_lock_token_def)
  have ids: "valid_identifier (ei_task_id (xr_identity r))" "valid_identifier (ei_attempt_id (xr_identity r))"
    using facts by (simp_all add: valid_execution_identity_def)
  have count: "xr_dispatch_count r = 1 \<longleftrightarrow> xr_dispatch_intent r \<noteq> None"
    using valid_record_counts [OF assms] .
  have outcomes: "NORMALIZED_OUTCOME_TO_TASK_STATE ''dispatch_indeterminate'' = Some ''observing''"
    "NORMALIZED_OUTCOME_TO_TASK_STATE ''observing'' = Some ''observing''"
    by (simp_all add: NORMALIZED_OUTCOME_TO_TASK_STATE_def)
  show ?thesis
    using facts keys ids count outcomes
    by (cases "xr_normalized_outcome r"; cases "xr_terminal r")
      (auto simp: result_of_def Let_def valid_outcome_projection_def valid_executor_result_def)
qed

theorem result_truthful_witness:
  "\<exists>res. result_of sample_committed False [] = Inr res \<and> er_observation_required res"
  using result_truthful [OF sample_records_valid(2), of False "[]"]
  by (auto simp: sample_committed_def sample_ready_def initial_record_def)

end
