(* ===== verification/F3_Executor_Properties.thy ===== *)
theory F3_Executor_Properties
  imports F3_Execution_Effects
begin

text \<open>
  Whole runs of the executor on records that are already settled: the replay of a terminal task, and
  the cases in which a settled record is opened again.
\<close>

section \<open>Replay of a terminal task\<close>

text \<open>What a run has sent, consumed and asked for.\<close>

definition traffic :: "world \<Rightarrow> string list \<times> nat \<times> string list" where
  "traffic w = (provider_calls w, approvals_consumed w, authority_log w)"

interpretation traffic: ignores_locks "same traffic"
  by unfold_locales (simp_all add: same_def traffic_def)

interpretation traffic: ignores_executions "same traffic"
  by unfold_locales (simp_all add: same_def traffic_def)

definition idle_view :: "world \<Rightarrow> (execution_files \<times> (execution_files \<Rightarrow> execution_files) list) \<times>
    string list \<times> nat \<times> string list" where
  "idle_view w = (execution_view w, traffic w)"

interpretation idle: ignores_locks "same idle_view"
  by unfold_locales (simp_all add: same_def idle_view_def execution_view_def traffic_def)

lemma idle_settle: "guarantees (same idle_view) (settle_terminal_locks ex record)"
  unfolding settle_terminal_locks_def release_safely_def Let_def
  by (intro guarantee_rules)

lemma idle_duplicate: "guarantees (same idle_view)
    (case e of
       DuplicateExecutionActive record \<Rightarrow>
         then_eff (executor_metric ''duplicate_execution_preventions'')
         (then_eff (event_sink (duplicate_event identity))
           (lift_eff (result_of record True [''active_execution_exists''])))
     | _ \<Rightarrow> raise_eff e)"
  by (cases e) (simp_all, (intro guarantee_rules idle.ambient_executor_metric)+)

lemma bind_lift: "bind_eff (lift_eff (Inr x)) f = f x"
  by (rule ext) (simp add: bind_eff_def lift_eff_def)

lemma then_return: "then_eff (return_eff x) m = m"
  by (rule ext) (simp add: then_eff_def bind_eff_def return_eff_def)

text \<open>Claiming a settled task changes nothing and hands out the record as it is.\<close>

lemma claim_terminal:
  assumes "execution_others w = []" and "stored (ei_task_id identity) r w" and "xr_terminal r"
    and "claim identity prepared timing now w = (res, w')"
  shows "same idle_view w w' \<and> (isl res \<or>
    res = Inr \<lparr>cl_record = r, cl_claim_generation = xr_claim_generation r, cl_created = False\<rparr>)"
proof -
  have "same traffic w w'" using traffic.claim_guar assms(4) by (rule guaranteesD)
  moreover have "execution_disk w' = execution_disk w \<and> execution_others w' = [] \<and> (isl res \<or>
      res = Inr \<lparr>cl_record = r, cl_claim_generation = xr_claim_generation r, cl_created = False\<rparr>)"
  proof (cases "valid_execution_identity identity \<and> valid_executor_timing timing \<and>
      \<not> isl (prepared_identity prepared)")
    case False
    with assms(1,4) show ?thesis
      by (cases "prepared_identity prepared")
        (auto simp: claim_def Let_def require_def then_eff_def raise_eff_def lift_eff_def bind_eff_def
          return_eff_def split: if_splits)
  next
    case True
    then obtain op where op: "prepared_identity prepared = Inr op"
      by (cases "prepared_identity prepared") simp_all
    obtain body where claimed: "claim identity prepared timing now w =
        execution_transaction (bind_eff (read_unlocked (ei_task_id identity)) body) w"
      and body: "body (Some r) =
        then_eff (require (same_operation r identity op) ExecutionRecordCorrupt)
          (return_eff \<lparr>cl_record = r, cl_claim_generation = xr_claim_generation r,
                       cl_created = False\<rparr>)"
      by (rule that, subst claim_def, simp only: Let_def op require_def if_True then_return bind_lift
          simp_thms conjunct1 [OF True] conjunct1 [OF conjunct2 [OF True]])
        (simp add: assms(3) require_def)
    from claimed assms(4) have run: "execution_transaction
        (bind_eff (read_unlocked (ei_task_id identity)) body) w = (res, w')" by simp
    from run assms(1) show ?thesis
    proof (cases rule: execution_transaction_alone)
      case (refused e)
      with assms(1) show ?thesis by (simp add: alone_def)
    next
      case (ran w1 res1)
      from ran(1) show ?thesis
      proof (cases rule: read_then_alone)
        case (refused e)
        with ran(2,3) assms(1) show ?thesis by (cases res) (auto simp: alone_def)
      next
        case (missing w2)
        with ran(2) assms(2) show ?thesis by (simp add: absent_def stored_def alone_def)
      next
        case (found r0 w2)
        have "r0 = r" using assms(2) found(1) unfolding stored_alone [OF ran(2)] by (rule stored_unique)
        with found(3) body have "then_eff (require (same_operation r identity op) ExecutionRecordCorrupt)
            (return_eff \<lparr>cl_record = r, cl_claim_generation = xr_claim_generation r,
                         cl_created = False\<rparr>) w2 = (res1, w')" by simp
        then have "w' = w2" and res1: "isl res1 \<or> res1 = Inr \<lparr>cl_record = r,
            cl_claim_generation = xr_claim_generation r, cl_created = False\<rparr>"
          by (cases "same_operation r identity op";
            auto simp: raise_eff_def return_eff_def require_def then_eff_def bind_eff_def)+
        moreover have "isl res" if "isl res1"
          using that ran(3) [of "projr res"] by (cases res) auto
        moreover have "execution_disk w' = execution_disk w" "execution_others w' = []"
          using ran(2) found(2) \<open>w' = w2\<close> assms(1) by (simp_all add: alone_def)
        ultimately show ?thesis using ran(3) by blast
      qed
    qed
  qed
  ultimately show ?thesis using assms(1) by (simp add: same_def idle_view_def execution_view_def)
qed

text \<open>After the claim, a settled task only settles its locks and projects its record.\<close>

lemma idle_claimed:
  assumes "xr_terminal r" and "cl = \<lparr>cl_record = r, cl_claim_generation = g, cl_created = False\<rparr>"
    and "execute_claimed ex ad cl identity prepared approval authority w = (res, w')"
  shows "same idle_view w w' \<and> (isl res \<or> result_of r True [] = res)"
proof -
  from assms have run: "then_eff (settle_terminal_locks ex r) (lift_eff (result_of r True [])) w = (res, w')"
    by (simp add: execute_claimed_def)
  have "guarantees (same idle_view)
      (then_eff (settle_terminal_locks ex r) (lift_eff (result_of r True [])))"
    by (intro guarantee_rules idle_settle)
  from guaranteesD [OF this run] have "same idle_view w w'" .
  moreover have "isl res \<or> result_of r True [] = res"
    using run by (auto simp: then_eff_def bind_eff_def lift_eff_def split: prod.splits sum.splits)
  ultimately show ?thesis by simp
qed

text \<open>A run that changes nothing of the view and answers as \<open>Q\<close> says, from \<open>w\<close>.\<close>

definition idle_answer :: "((exn + executor_result) \<Rightarrow> bool) \<Rightarrow> world \<Rightarrow> (exn + executor_result) \<times> world \<Rightarrow> bool"
  where "idle_answer Q w out \<longleftrightarrow> same idle_view w (snd out) \<and> (isl (fst out) \<or> Q (fst out))"

lemma idle_answer_from: "same idle_view w w1 \<Longrightarrow> idle_answer Q w1 out \<Longrightarrow> idle_answer Q w out"
  by (simp add: idle_answer_def same_def)

lemma then_idle:
  assumes "guarantees (same idle_view) m" and "\<And>w1. same idle_view w w1 \<Longrightarrow> idle_answer Q w1 (k w1)"
  shows "idle_answer Q w (then_eff m k w)"
proof (cases m w rule: effect_cases)
  case (raised e t)
  with guaranteesD [OF assms(1)] show ?thesis by (simp add: then_eff_def bind_eff_def idle_answer_def)
next
  case (returned x t)
  with guaranteesD [OF assms(1)] have "same idle_view w t" .
  with idle_answer_from [OF this assms(2)] returned show ?thesis by (simp add: then_eff_def bind_eff_def)
qed

lemma guarantees_answer:
  assumes "guarantees (same idle_view) m" and "\<And>t w'. m w = (t, w') \<Longrightarrow> isl t \<or> Q t"
  shows "idle_answer Q w (m w)"
  using guaranteesD [OF assms(1)] assms(2) by (cases "m w") (auto simp: idle_answer_def)

lemma duplicate_codes:
  "result_of r True [''active_execution_exists''] = Inr answer \<Longrightarrow>
   er_diagnostic_codes answer = [''active_execution_exists'']"
proof -
  have "bounded_diagnostics [''active_execution_exists''] = [''active_execution_exists'']" by code_simp
  then show "result_of r True [''active_execution_exists''] = Inr answer \<Longrightarrow> ?thesis"
    by (auto simp: result_of_def Let_def split: option.splits if_splits)
qed

definition replay_answer :: "execution_record \<Rightarrow> (exn + executor_result) \<Rightarrow> bool" where
  "replay_answer r res \<longleftrightarrow> res = result_of r True [] \<or>
     er_diagnostic_codes (projr res) = [''active_execution_exists'']"

lemma idle_duplicate_answer:
  "idle_answer (replay_answer r) w
    ((case e of
       DuplicateExecutionActive record \<Rightarrow>
         then_eff (executor_metric ''duplicate_execution_preventions'')
         (then_eff (event_sink (duplicate_event identity))
           (lift_eff (result_of record True [''active_execution_exists''])))
     | _ \<Rightarrow> raise_eff e) w)"
proof (rule guarantees_answer [OF idle_duplicate])
  fix t w'
  assume "(case e of
       DuplicateExecutionActive record \<Rightarrow>
         then_eff (executor_metric ''duplicate_execution_preventions'')
         (then_eff (event_sink (duplicate_event identity))
           (lift_eff (result_of record True [''active_execution_exists''])))
     | _ \<Rightarrow> raise_eff e) w = (t, w')"
  then show "isl t \<or> replay_answer r t"
    by (cases t; cases e)
      (auto simp: raise_eff_def lift_eff_def replay_answer_def dest!: duplicate_codes elim!: then_eff_okD)
qed

lemma idle_set_run: "guarantees (same idle_view) (set_run f)"
  unfolding set_run_def
  by (intro untouched.update_guar) (simp add: same_def idle_view_def execution_view_def traffic_def)

lemma idle_premises:
  assumes "same idle_view w w1" and "execution_others w = []" and "stored task_id r w"
  shows "execution_others w1 = []" "stored task_id r w1"
  using assms by (simp_all add: same_def idle_view_def execution_view_def stored_def)

lemma replay_locked:
  assumes "execution_others w = []" and "stored (ei_task_id identity) r w" and "xr_terminal r"
  shows "idle_answer (replay_answer r) w (execute_locked ex ad identity prepared approval authority w)"
  unfolding execute_locked_def
proof (rule then_idle [OF idle.ambient_executor_metric])
  fix w1 assume "same idle_view w w1"
  obtain now w2 where read: "now_reading w1 = (Inr now, w2)"
    by (cases "ticks w1") (simp_all add: now_reading_def)
  with idle.ambient_now_reading have w2: "same idle_view w1 w2" by (rule guaranteesD)
  note here = idle_premises [OF w2 idle_premises [OF \<open>same idle_view w w1\<close> assms(1,2)]]
  obtain res w3 where claim: "claim identity prepared (ex_executor_timing ex) now w2 = (res, w3)"
    by (cases "claim identity prepared (ex_executor_timing ex) now w2")
  from claim_terminal [OF here assms(3) claim] have w3: "same idle_view w2 w3" by simp
  have "idle_answer (replay_answer r) w3
    (case res of
       Inl e \<Rightarrow> (case e of
         DuplicateExecutionActive record \<Rightarrow>
           then_eff (executor_metric ''duplicate_execution_preventions'')
           (then_eff (event_sink (duplicate_event identity))
             (lift_eff (result_of record True [''active_execution_exists''])))
       | _ \<Rightarrow> raise_eff e) w3
     | Inr cl \<Rightarrow> execute_claimed ex ad cl identity prepared approval authority w3)"
  proof (cases res)
    case (Inl e)
    then show ?thesis using idle_duplicate_answer by simp
  next
    case (Inr cl)
    with claim_terminal [OF here assms(3) claim] idle_claimed [OF assms(3)] show ?thesis
      by (cases "execute_claimed ex ad cl identity prepared approval authority w3")
        (fastforce simp: idle_answer_def replay_answer_def)
  qed
  then show "idle_answer (replay_answer r) w1 (try_else_eff
      (timed (claim identity prepared (ex_executor_timing ex)))
      (\<lambda>e. case e of
         DuplicateExecutionActive record \<Rightarrow>
           then_eff (executor_metric ''duplicate_execution_preventions'')
           (then_eff (event_sink (duplicate_event identity))
             (lift_eff (result_of record True [''active_execution_exists''])))
       | _ \<Rightarrow> raise_eff e)
      (\<lambda>cl. execute_claimed ex ad cl identity prepared approval authority) w1)"
    using claim idle_answer_from [OF w2 idle_answer_from [OF w3]]
    by (cases res) (simp_all add: try_else_eff_def timed_def bind_eff_def read)
qed



definition reviewed_world :: world where
  "reviewed_world = sample_world\<lparr>execution_disk := [''task1'' \<mapsto> EXECUTION_FILE sample_reviewed]\<rparr>"


end
