(* ===== verification/Json_Values.thy ===== *)
theory Json_Values
  imports Complex_Main Hass_Prelude "HOL-Library.AList"
begin

text \<open>
  JSON values as the server handles them, and \<open>f3_dashboard/json_codec.py\<close>: validation, the strict
  comparison, the canonical serialisation and its hashes.

  A Python \<open>dict\<close> is its list of items in insertion order with distinct keys (\<open>proper\<close>);
  \<open>AList.update\<close> replaces a value in place or appends the item, as assignment does, and \<open>AList.delete\<close>
  removes it.  An \<open>int\<close> is unbounded.  A \<open>float\<close> is a signed zero, another finite number (a rational), an
  infinity or a NaN.  Deep copies are the value itself.  What Python computes outside the sources is
  passed in as \<open>python\<close>: the text of a finite float, the SHA-256 digest in hexadecimal, and the Unicode
  digit class of a code point that is not ASCII.
\<close>

section \<open>Results\<close>

datatype patch_error =
    PatchValidationError
  | PatchCompilationError
  | BuiltinValueError
  | BuiltinTypeError
  | BuiltinKeyError

text \<open>Exceptions of a pure computation.\<close>

definition and_then :: "'e + 'a \<Rightarrow> ('a \<Rightarrow> 'e + 'b) \<Rightarrow> 'e + 'b" where
  "and_then r f = (case r of Inl e \<Rightarrow> Inl e | Inr x \<Rightarrow> f x)"

definition demand :: "bool \<Rightarrow> 'e \<Rightarrow> 'e + unit" where
  "demand b e = (if b then Inr () else Inl e)"

lemma and_then_simps [simp]: "and_then (Inl e) f = Inl e" "and_then (Inr x) f = f x"
  by (simp_all add: and_then_def)

lemma and_then_ok_iff: "and_then r f = Inr y \<longleftrightarrow> (\<exists>x. r = Inr x \<and> f x = Inr y)"
  by (cases r) simp_all

lemma demand_ok_iff [simp]: "demand b e = Inr u \<longleftrightarrow> b"
  by (simp add: demand_def)

lemma and_then_demand_ok_iff [simp]: "and_then (demand b e) f = Inr y \<longleftrightarrow> b \<and> f () = Inr y"
  by (simp add: demand_def)

lemma and_then_demand: "and_then (demand b e) f = (if b then f () else Inl e)"
  by (simp add: demand_def)

lemma and_then_okE:
  assumes "and_then r f = Inr y"
  obtains x where "r = Inr x" "f x = Inr y"
  using assms by (auto simp: and_then_ok_iff)

lemma and_then_cong [fundef_cong]:
  "r = r' \<Longrightarrow> (\<And>x. r' = Inr x \<Longrightarrow> f x = f' x) \<Longrightarrow> and_then r f = and_then r' f'"
  by (cases r') simp_all

text \<open>A loop that collects or stops at the first exception.\<close>

fun collect :: "('a \<Rightarrow> 'e + 'b) \<Rightarrow> 'a list \<Rightarrow> 'e + 'b list" where
  "collect f [] = Inr []"
| "collect f (x # xs) = and_then (f x) (\<lambda>y. and_then (collect f xs) (\<lambda>ys. Inr (y # ys)))"

lemma collect_ok_iff: "collect f xs = Inr ys \<longleftrightarrow> list_all2 (\<lambda>x y. f x = Inr y) xs ys"
  by (induction xs arbitrary: ys) (auto simp: and_then_ok_iff list_all2_Cons1)

section \<open>Values\<close>

datatype py_float =
    ZERO (negative_zero: bool)
  | FINITE rat
  | INFINITY bool
  | NAN

definition finite_float :: "py_float \<Rightarrow> bool" where
  "finite_float x \<longleftrightarrow> (case x of INFINITY s \<Rightarrow> False | NAN \<Rightarrow> False | _ \<Rightarrow> True)"

text \<open>\<open>==\<close> on floats.\<close>

definition float_equal :: "py_float \<Rightarrow> py_float \<Rightarrow> bool" where
  "float_equal x y \<longleftrightarrow>
     (case (x, y) of (NAN, _) \<Rightarrow> False | (_, NAN) \<Rightarrow> False | (ZERO s, ZERO t) \<Rightarrow> True | _ \<Rightarrow> x = y)"

datatype json =
    JNull
  | JBool bool
  | JInt int
  | JFloat py_float
  | JStr string
  | JList "json list"
  | JDict "(string \<times> json) list"
  | JOther

record python =
  float_text :: "py_float \<Rightarrow> string"
  sha256_hex :: "string \<Rightarrow> string"
  digit_class :: "nat \<Rightarrow> nat option option"

text \<open>
  \<open>digit_class n\<close> is \<open>None\<close> when the character is no digit, \<open>Some None\<close> when \<open>isdigit\<close> accepts it but
  \<open>int\<close> does not (a superscript), and \<open>Some (Some d)\<close> when it is the decimal digit \<open>d\<close>.
\<close>

fun proper :: "json \<Rightarrow> bool" where
  "proper (JList xs) \<longleftrightarrow> list_all proper xs"
| "proper (JDict kvs) \<longleftrightarrow> distinct (map fst kvs) \<and> list_all (\<lambda>(k, v). proper v) kvs"
| "proper _ \<longleftrightarrow> True"

fun is_dict :: "json \<Rightarrow> bool" where
  "is_dict (JDict kvs) = True" | "is_dict _ = False"

section \<open>Validation\<close>

definition MAX_JSON_DEPTH :: int where "MAX_JSON_DEPTH = 48"
definition MAX_JSON_NODES :: int where "MAX_JSON_NODES = 10000"

text \<open>The stack of the loop, its top first.\<close>

function validate_loop :: "int \<Rightarrow> int \<Rightarrow> (json \<times> int) list \<Rightarrow> patch_error + unit" where
  "validate_loop max_depth remaining [] = Inr ()"
| "validate_loop max_depth remaining ((current, depth) # stack) =
     (if remaining - 1 < 0 then Inl PatchValidationError
      else if max_depth < depth then Inl PatchValidationError
      else case current of
          JFloat x \<Rightarrow> if finite_float x then validate_loop max_depth (remaining - 1) stack
                     else Inl PatchValidationError
        | JList xs \<Rightarrow> validate_loop max_depth (remaining - 1) (map (\<lambda>x. (x, depth + 1)) xs @ stack)
        | JDict kvs \<Rightarrow>
            validate_loop max_depth (remaining - 1) (map (\<lambda>(k, x). (x, depth + 1)) kvs @ stack)
        | JOther \<Rightarrow> Inl PatchValidationError
        | _ \<Rightarrow> validate_loop max_depth (remaining - 1) stack)"
  by pat_completeness auto
termination
  by (relation "measure (\<lambda>(_, remaining, _). nat remaining)") auto

definition validate_json_value :: "json \<Rightarrow> patch_error + unit" where
  "validate_json_value v = validate_loop MAX_JSON_DEPTH MAX_JSON_NODES [(v, 0)]"

definition clone_json :: "json \<Rightarrow> patch_error + json" where
  "clone_json v = and_then (validate_json_value v) (\<lambda>_. Inr v)"

section \<open>Strict comparison\<close>

fun same_type :: "json \<Rightarrow> json \<Rightarrow> bool" where
  "same_type JNull JNull = True"
| "same_type (JBool a) (JBool b) = True"
| "same_type (JInt a) (JInt b) = True"
| "same_type (JFloat a) (JFloat b) = True"
| "same_type (JStr a) (JStr b) = True"
| "same_type (JList a) (JList b) = True"
| "same_type (JDict a) (JDict b) = True"
| "same_type JOther JOther = True"
| "same_type _ _ = False"

fun scalar_equal :: "json \<Rightarrow> json \<Rightarrow> bool" where
  "scalar_equal (JFloat a) (JFloat b) = float_equal a b"
| "scalar_equal a b = (a = b)"

function equal_loop :: "int \<Rightarrow> int \<Rightarrow> (json \<times> json \<times> int) list \<Rightarrow> patch_error + bool" where
  "equal_loop max_depth remaining [] = Inr True"
| "equal_loop max_depth remaining ((left, right, depth) # stack) =
     (if remaining - 1 < 0 then Inl PatchValidationError
      else if max_depth < depth then Inl PatchValidationError
      else if \<not> same_type left right then Inr False
      else case (left, right) of
          (JDict ls, JDict rs) \<Rightarrow>
            if fst ` set ls \<noteq> fst ` set rs then Inr False
            else equal_loop max_depth (remaining - 1)
              (map (\<lambda>(k, l). (l, the (map_of rs k), depth + 1)) ls @ stack)
        | (JList ls, JList rs) \<Rightarrow>
            if length ls \<noteq> length rs then Inr False
            else equal_loop max_depth (remaining - 1)
              (map (\<lambda>(l, r). (l, r, depth + 1)) (zip ls rs) @ stack)
        | (_, _) \<Rightarrow>
            if \<not> scalar_equal left right then Inr False
            else equal_loop max_depth (remaining - 1) stack)"
  by pat_completeness auto
termination
  by (relation "measure (\<lambda>(_, remaining, _). nat remaining)") auto

definition strict_json_equal :: "json \<Rightarrow> json \<Rightarrow> patch_error + bool" where
  "strict_json_equal left right =
     and_then (validate_json_value left) (\<lambda>_.
     and_then (validate_json_value right) (\<lambda>_.
       equal_loop MAX_JSON_DEPTH MAX_JSON_NODES [(left, right, 0)]))"

section \<open>Canonical serialisation\<close>

text \<open>\<open>json.dumps\<close> with sorted keys and compact separators.\<close>

fun decimal :: "nat \<Rightarrow> string" where
  "decimal n = (if n < 10 then [char_of (48 + n)] else decimal (n div 10) @ [char_of (48 + n mod 10)])"

declare decimal.simps [simp del]

definition int_text :: "int \<Rightarrow> string" where
  "int_text i = (if i < 0 then CHR ''-'' # decimal (nat (- i)) else decimal (nat i))"

definition hex_digit :: "nat \<Rightarrow> char" where
  "hex_digit n = char_of (if n < 10 then 48 + n else 87 + n)"

definition hex4 :: "nat \<Rightarrow> string" where
  "hex4 n = map (\<lambda>k. hex_digit (n div k mod 16)) [4096, 256, 16, 1]"

text \<open>The code points of a string, which is given by its UTF-8 bytes.\<close>

fun code_points :: "string \<Rightarrow> nat list" where
  "code_points [] = []"
| "code_points (a # b # c # d # cs) =
     (if of_char a < (192 :: nat) then of_char a # code_points (b # c # d # cs)
      else if of_char a < (224 :: nat) then ((of_char a mod 32) * 64 + of_char b mod 64) # code_points (c # d # cs)
      else if of_char a < (240 :: nat) then
        ((of_char a mod 16) * 4096 + (of_char b mod 64) * 64 + of_char c mod 64) # code_points (d # cs)
      else ((of_char a mod 8) * 262144 + (of_char b mod 64) * 4096 + (of_char c mod 64) * 64 +
            of_char d mod 64) # code_points cs)"
| "code_points (a # b # c # []) =
     (if of_char a < (192 :: nat) then of_char a # code_points [b, c]
      else if of_char a < (224 :: nat) then ((of_char a mod 32) * 64 + of_char b mod 64) # code_points [c]
      else [(of_char a mod 16) * 4096 + (of_char b mod 64) * 64 + of_char c mod 64])"
| "code_points (a # b # []) =
     (if of_char a < (192 :: nat) then [of_char a, of_char b]
      else [(of_char a mod 32) * 64 + of_char b mod 64])"
| "code_points [a] = [of_char a]"

definition unicode_escape :: "nat \<Rightarrow> string" where
  "unicode_escape n =
     (if n < 65536 then CHR 0x5C # CHR ''u'' # hex4 n
      else CHR 0x5C # CHR ''u'' # hex4 (55296 + (n - 65536) div 1024) @
           CHR 0x5C # CHR ''u'' # hex4 (56320 + (n - 65536) mod 1024))"

text \<open>The escape both encoders give a code point; \<open>None\<close> when it stands for itself.\<close>

definition short_escape :: "nat \<Rightarrow> string option" where
  "short_escape n =
     (if n = 34 then Some [CHR 0x5C, CHR 0x22] else if n = 92 then Some [CHR 0x5C, CHR 0x5C]
      else if n = 10 then Some [CHR 0x5C, CHR ''n''] else if n = 13 then Some [CHR 0x5C, CHR ''r'']
      else if n = 9 then Some [CHR 0x5C, CHR ''t''] else if n = 12 then Some [CHR 0x5C, CHR ''f'']
      else if n = 8 then Some [CHR 0x5C, CHR ''b''] else if n < 32 then Some (unicode_escape n)
      else None)"

definition string_text :: "bool \<Rightarrow> string \<Rightarrow> string" where
  "string_text ensure_ascii s =
     CHR 0x22 #
     (if ensure_ascii then
        concat (map (\<lambda>n. case short_escape n of Some t \<Rightarrow> t
                      | None \<Rightarrow> if 126 < n then unicode_escape n else [char_of n]) (code_points s))
      else
        concat (map (\<lambda>c. case short_escape (of_char c) of Some t \<Rightarrow> t | None \<Rightarrow> [c]) s)) @
     [CHR 0x22]"

fun separated :: "string list \<Rightarrow> string" where
  "separated [] = []"
| "separated [t] = t"
| "separated (t # ts) = t @ CHR '','' # separated ts"

definition bool_text :: "bool \<Rightarrow> string" where
  "bool_text b = (if b then ''true'' else ''false'')"

fun json_text :: "python \<Rightarrow> bool \<Rightarrow> json \<Rightarrow> string" where
  "json_text py ascii JNull = ''null''"
| "json_text py ascii (JBool b) = bool_text b"
| "json_text py ascii (JInt i) = int_text i"
| "json_text py ascii (JFloat x) = float_text py x"
| "json_text py ascii (JStr s) = string_text ascii s"
| "json_text py ascii (JList xs) = CHR ''['' # separated (map (json_text py ascii) xs) @ '']''"
| "json_text py ascii (JDict kvs) =
     CHR ''{'' #
     separated (map snd (sort_key fst
       (map (\<lambda>(k, v). (k, string_text ascii k @ CHR '':'' # json_text py ascii v)) kvs))) @ ''}''"
| "json_text py ascii JOther = []"

definition canonical_json_bytes :: "python \<Rightarrow> bool \<Rightarrow> json \<Rightarrow> patch_error + string" where
  "canonical_json_bytes py ascii v = and_then (validate_json_value v) (\<lambda>_. Inr (json_text py ascii v))"

definition serialized_size :: "python \<Rightarrow> bool \<Rightarrow> json \<Rightarrow> patch_error + int" where
  "serialized_size py ascii v =
     and_then (canonical_json_bytes py ascii v) (\<lambda>bytes. Inr (int (length bytes)))"

definition engineering_sha256 :: "python \<Rightarrow> json \<Rightarrow> patch_error + string" where
  "engineering_sha256 py v =
     and_then (canonical_json_bytes py False v) (\<lambda>bytes. Inr (sha256_hex py bytes))"

definition upstream_config_hash :: "python \<Rightarrow> json \<Rightarrow> patch_error + string" where
  "upstream_config_hash py v =
     and_then (canonical_json_bytes py True v) (\<lambda>bytes. Inr (take 16 (sha256_hex py bytes)))"

end
