(* ===== verification/Dashboard_Patch.thy ===== *)
theory Dashboard_Patch
  imports Json_Values
begin

text \<open>
  \<open>f3_dashboard/patch.py\<close>: the compiler of one bounded JSON-pointer patch against one exact dashboard
  configuration.  The parent container a pointer names is mutated in place by the code; here it is
  rebuilt along the path (\<open>edit_at\<close>), which is the same since a configuration is a tree of its own.
\<close>

section \<open>Bounds\<close>

definition MAX_RESULT_CONFIG_BYTES :: int where "MAX_RESULT_CONFIG_BYTES = 40000"
definition MAX_CONFIG_GROWTH_BYTES :: int where "MAX_CONFIG_GROWTH_BYTES = 16384"
definition MAX_PATCH_BYTES :: int where "MAX_PATCH_BYTES = 16384"
definition MAX_INDIVIDUAL_VALUE_BYTES :: int where "MAX_INDIVIDUAL_VALUE_BYTES = 8192"
definition MIN_PATCH_OPERATIONS :: nat where "MIN_PATCH_OPERATIONS = 1"
definition MAX_PATCH_OPERATIONS :: nat where "MAX_PATCH_OPERATIONS = 16"
definition MAX_SEMANTIC_LEAF_CHANGES :: int where "MAX_SEMANTIC_LEAF_CHANGES = 256"
definition MAX_POINTER_CHARS :: nat where "MAX_POINTER_CHARS = 1024"
definition MAX_POINTER_DEPTH :: nat where "MAX_POINTER_DEPTH = 32"
definition PATCH_MODEL :: string where "PATCH_MODEL = ''f3-dashboard-json-pointer-patch-v1''"

section \<open>Operations and effects\<close>

datatype patch_kind = ADD | REPLACE | REMOVE

definition kind_value :: "patch_kind \<Rightarrow> string" where
  "kind_value k = (case k of ADD \<Rightarrow> ''add'' | REPLACE \<Rightarrow> ''replace'' | REMOVE \<Rightarrow> ''remove'')"

record patch_operation =
  pa_operation_id :: string
  pa_operation :: patch_kind
  pa_path :: string
  pa_tokens :: "string list"
  pa_value_present :: bool
  pa_value :: json

record patch_effect =
  pe_operation_id :: string
  pe_operation :: patch_kind
  pe_path :: string
  pe_previous_present :: bool
  pe_previous_value :: json
  pe_proposed_present :: bool
  pe_proposed_value :: json
  pe_leaf_change_count :: int

record patch_compilation =
  pc_model :: string
  pc_operations :: "patch_operation list"
  pc_effects :: "patch_effect list"
  pc_resulting_configuration :: json
  pc_preread_sha256 :: string
  pc_canonical_patch_sha256 :: string
  pc_resulting_sha256 :: string
  pc_resulting_upstream_config_hash :: string
  pc_serialized_patch_bytes :: int
  pc_resulting_size_bytes :: int
  pc_configuration_growth_bytes :: int
  pc_semantic_leaf_change_count :: int

section \<open>Pointers\<close>

fun decode_token :: "string \<Rightarrow> patch_error + string" where
  "decode_token [] = Inr []"
| "decode_token (c # cs) =
     (if c \<noteq> CHR ''~'' then and_then (decode_token cs) (\<lambda>ds. Inr (c # ds))
      else case cs of
          [] \<Rightarrow> Inl PatchValidationError
        | d # cs' \<Rightarrow>
            if d \<noteq> CHR ''0'' \<and> d \<noteq> CHR ''1'' then Inl PatchValidationError
            else and_then (decode_token cs') (\<lambda>ds.
              Inr ((if d = CHR ''0'' then CHR ''~'' else CHR ''/'') # ds)))"

text \<open>\<open>s.replace(c, by)\<close> for a single character.\<close>

definition replace_char :: "char \<Rightarrow> string \<Rightarrow> string \<Rightarrow> string" where
  "replace_char c by s = concat (map (\<lambda>x. if x = c then by else [x]) s)"

definition encode_token :: "string \<Rightarrow> string" where
  "encode_token token = replace_char (CHR ''/'') ''~1'' (replace_char (CHR ''~'') ''~0'' token)"

text \<open>\<open>s.split(c)\<close> and \<open>c.join(parts)\<close>.\<close>

fun split_on :: "char \<Rightarrow> string \<Rightarrow> string list" where
  "split_on c [] = [[]]"
| "split_on c (x # xs) =
     (if x = c then [] # split_on c xs
      else case split_on c xs of [] \<Rightarrow> [[x]] | part # parts \<Rightarrow> (x # part) # parts)"

fun join_with :: "char \<Rightarrow> string list \<Rightarrow> string" where
  "join_with c [] = []"
| "join_with c [part] = part"
| "join_with c (part # parts) = part @ c # join_with c parts"

definition pointer_text :: "string list \<Rightarrow> string" where
  "pointer_text tokens = CHR ''/'' # join_with (CHR ''/'') (map encode_token tokens)"

definition fuzzy_token :: "string \<Rightarrow> bool" where
  "fuzzy_token token \<longleftrightarrow>
     token \<in> {''*'', ''**'', ''.'', ''..''} \<or> CHR ''*'' \<in> set token \<or> CHR ''?'' \<in> set token \<or>
     CHR ''['' \<in> set token \<or> CHR '']'' \<in> set token \<or> CHR ''{'' \<in> set token \<or> CHR ''}'' \<in> set token \<or>
     take 1 token = ''$''"

fun check_tokens :: "bool \<Rightarrow> string list \<Rightarrow> patch_error + unit" where
  "check_tokens append_allowed [] = Inr ()"
| "check_tokens append_allowed (token # tokens) =
     (if token = ''-'' then
        if append_allowed \<and> tokens = [] then check_tokens append_allowed tokens
        else Inl PatchValidationError
      else if fuzzy_token token then Inl PatchValidationError
      else check_tokens append_allowed tokens)"

definition parse_pointer :: "string \<Rightarrow> patch_kind option \<Rightarrow> patch_error + string list" where
  "parse_pointer path operation =
     (if path = [] \<or> hd path \<noteq> CHR ''/'' then Inl PatchValidationError
      else if MAX_POINTER_CHARS < length (code_points path) then Inl PatchValidationError
      else
        (let encoded_tokens = split_on (CHR ''/'') (tl path) in
         if MAX_POINTER_DEPTH < length encoded_tokens then Inl PatchValidationError
         else and_then (collect decode_token encoded_tokens) (\<lambda>tokens.
           if list_ex (\<lambda>token. token = []) tokens then Inl PatchValidationError
           else and_then (check_tokens (operation = Some ADD) tokens) (\<lambda>_.
             if pointer_text tokens \<noteq> path then Inl PatchValidationError else Inr tokens))))"

section \<open>Canonical operations\<close>

definition CANONICAL_OPERATION_ID :: "string \<Rightarrow> bool" where
  "CANONICAL_OPERATION_ID s \<longleftrightarrow>
     s \<noteq> [] \<and> length s \<le> 64 \<and> lower_char (hd s) \<and>
     list_all (\<lambda>c. lower_char c \<or> digit_char c \<or> c = CHR ''_'' \<or> c = CHR ''-'') (tl s)"

definition operation_keys :: "string set" where
  "operation_keys = {''operation_id'', ''operation'', ''path'', ''value''}"

definition parse_kind :: "json \<Rightarrow> patch_error + patch_kind" where
  "parse_kind v =
     (if v = JStr ''add'' then Inr ADD else if v = JStr ''replace'' then Inr REPLACE
      else if v = JStr ''remove'' then Inr REMOVE else Inl PatchValidationError)"

text \<open>\<open>raw[key]\<close>.\<close>

definition item :: "(string \<times> json) list \<Rightarrow> string \<Rightarrow> patch_error + json" where
  "item kvs key = (case map_of kvs key of None \<Rightarrow> Inl BuiltinKeyError | Some v \<Rightarrow> Inr v)"

definition canonical_value :: "python \<Rightarrow> json option \<Rightarrow> patch_error + json" where
  "canonical_value py raw =
     (case raw of None \<Rightarrow> Inr JNull
      | Some v \<Rightarrow>
          and_then (validate_json_value v) (\<lambda>_.
          and_then (serialized_size py False v) (\<lambda>size.
          if MAX_INDIVIDUAL_VALUE_BYTES < size then Inl PatchValidationError else clone_json v)))"

definition canonical_operation :: "python \<Rightarrow> json \<Rightarrow> patch_error + patch_operation" where
  "canonical_operation py raw =
     (case raw of
        JDict kvs \<Rightarrow>
          and_then (demand (fst ` set kvs \<subseteq> operation_keys) PatchValidationError) (\<lambda>_.
          and_then (demand (\<not> fst ` set kvs \<subset> {''operation_id'', ''operation'', ''path''}) PatchValidationError) (\<lambda>_.
          and_then (item kvs ''operation_id'') (\<lambda>operation_id.
          and_then (case operation_id of
              JStr s \<Rightarrow> if CANONICAL_OPERATION_ID s then Inr s else Inl PatchValidationError
            | _ \<Rightarrow> Inl PatchValidationError) (\<lambda>operation_id.
          and_then (and_then (item kvs ''operation'') parse_kind) (\<lambda>operation.
          and_then (item kvs ''path'') (\<lambda>path.
          and_then (case path of JStr s \<Rightarrow> Inr s | _ \<Rightarrow> Inl PatchValidationError) (\<lambda>path.
          and_then (parse_pointer path (Some operation)) (\<lambda>tokens.
          let value_present = map_of kvs ''value'' \<noteq> None in
          and_then (demand (\<not> (operation = REMOVE \<and> value_present)) PatchValidationError) (\<lambda>_.
          and_then (demand (\<not> (operation \<noteq> REMOVE \<and> \<not> value_present)) PatchValidationError) (\<lambda>_.
          and_then (canonical_value py (map_of kvs ''value'')) (\<lambda>v.
            Inr \<lparr>pa_operation_id = operation_id, pa_operation = operation, pa_path = path,
                 pa_tokens = tokens, pa_value_present = value_present, pa_value = v\<rparr>)))))))))))
      | _ \<Rightarrow> Inl PatchValidationError)"

definition patch_projection :: "patch_operation list \<Rightarrow> json" where
  "patch_projection operations =
     JList (map (\<lambda>op. JDict
       ([(''operation_id'', JStr (pa_operation_id op)), (''operation'', JStr (kind_value (pa_operation op))),
         (''path'', JStr (pa_path op))] @
        (if pa_value_present op then [(''value'', pa_value op)] else []))) operations)"

text \<open>One of two token lists is a prefix of the other.\<close>

definition overlapping :: "string list \<Rightarrow> string list \<Rightarrow> bool" where
  "overlapping left right \<longleftrightarrow>
     (let shortest = min (length left) (length right) in take shortest left = take shortest right)"

fun disjoint_paths :: "string list list \<Rightarrow> bool" where
  "disjoint_paths [] \<longleftrightarrow> True"
| "disjoint_paths (left # rights) \<longleftrightarrow>
     \<not> list_ex (overlapping left) rights \<and> disjoint_paths rights"

definition canonicalize_patch :: "python \<Rightarrow> json \<Rightarrow> patch_error + patch_operation list" where
  "canonicalize_patch py operations =
     (case operations of
        JStr s \<Rightarrow> Inl PatchValidationError
      | JDict kvs \<Rightarrow> Inl PatchValidationError
      | JList raw_operations \<Rightarrow>
          and_then (demand (MIN_PATCH_OPERATIONS \<le> length raw_operations \<and>
                            length raw_operations \<le> MAX_PATCH_OPERATIONS) PatchValidationError) (\<lambda>_.
          and_then (collect (canonical_operation py) raw_operations) (\<lambda>normalized.
          and_then (demand (distinct (map pa_operation_id normalized)) PatchValidationError) (\<lambda>_.
          and_then (demand (distinct (map pa_tokens normalized)) PatchValidationError) (\<lambda>_.
          and_then (demand (disjoint_paths (map pa_tokens normalized)) PatchValidationError) (\<lambda>_.
          and_then (serialized_size py False (patch_projection normalized)) (\<lambda>size.
          if MAX_PATCH_BYTES < size then Inl PatchValidationError else Inr normalized))))))
      | _ \<Rightarrow> Inl BuiltinTypeError)"

section \<open>Positions\<close>

definition code_digit :: "python \<Rightarrow> nat \<Rightarrow> nat option option" where
  "code_digit py n = (if n < 128 then if 48 \<le> n \<and> n \<le> 57 then Some (Some (n - 48)) else None
                      else digit_class py n)"

text \<open>\<open>token.isdigit()\<close> and \<open>int(token)\<close>.\<close>

definition is_digits :: "python \<Rightarrow> string \<Rightarrow> bool" where
  "is_digits py token \<longleftrightarrow> token \<noteq> [] \<and> list_all (\<lambda>n. code_digit py n \<noteq> None) (code_points token)"

definition digits_value :: "python \<Rightarrow> string \<Rightarrow> patch_error + nat" where
  "digits_value py token =
     and_then (collect (\<lambda>n. case code_digit py n of Some (Some d) \<Rightarrow> Inr d | _ \<Rightarrow> Inl BuiltinValueError)
        (code_points token)) (\<lambda>ds. Inr (foldl (\<lambda>n d. 10 * n + d) 0 ds))"

definition list_index :: "python \<Rightarrow> string \<Rightarrow> nat \<Rightarrow> bool \<Rightarrow> patch_error + nat" where
  "list_index py token len allow_end =
     (if take 1 token = ''-'' then Inl PatchCompilationError
      else if \<not> is_digits py token then Inl PatchCompilationError
      else if 1 < length (code_points token) \<and> take 1 token = ''0'' then Inl PatchCompilationError
      else and_then (digits_value py token) (\<lambda>index.
        if len < index \<or> (index = len \<and> \<not> allow_end) then Inl PatchCompilationError else Inr index))"

datatype position = MEMBER string | ELEMENT nat

text \<open>The end of \<open>_resolve_parent\<close>: what the final token names in the parent.\<close>

definition final_position :: "python \<Rightarrow> patch_kind \<Rightarrow> string \<Rightarrow> json \<Rightarrow> patch_error + position" where
  "final_position py operation final_token parent =
     (case parent of
        JDict kvs \<Rightarrow> if final_token = ''-'' then Inl PatchCompilationError else Inr (MEMBER final_token)
      | JList xs \<Rightarrow>
          if final_token = ''-'' then
            if operation \<noteq> ADD then Inl PatchCompilationError else Inr (ELEMENT (length xs))
          else and_then (list_index py final_token (length xs) (operation = ADD)) (\<lambda>i. Inr (ELEMENT i))
      | _ \<Rightarrow> Inl PatchCompilationError)"

text \<open>The walk of \<open>_resolve_parent\<close> to the parent, the change of the parent and the rebuilt document.\<close>

fun edit_at :: "python \<Rightarrow> (json \<Rightarrow> patch_error + json \<times> 'r) \<Rightarrow> string list \<Rightarrow> json \<Rightarrow>
    patch_error + json \<times> 'r" where
  "edit_at py change [] current = change current"
| "edit_at py change (token # tokens) current =
     (case current of
        JDict kvs \<Rightarrow>
          (case map_of kvs token of None \<Rightarrow> Inl PatchCompilationError
           | Some v \<Rightarrow> and_then (edit_at py change tokens v) (\<lambda>(v', r).
               Inr (JDict (AList.update token v' kvs), r)))
      | JList xs \<Rightarrow>
          and_then (list_index py token (length xs) False) (\<lambda>i.
          and_then (edit_at py change tokens (xs ! i)) (\<lambda>(v', r). Inr (JList (xs[i := v']), r)))
      | _ \<Rightarrow> Inl PatchCompilationError)"

section \<open>Counting semantic changes\<close>

lemma size_list_snds: "size_list (size \<circ> snd) kvs \<le> size_list (size_prod (\<lambda>_. 0) size) kvs"
  by (induction kvs) auto

function leaf_weight :: "int \<Rightarrow> int \<Rightarrow> json \<Rightarrow> patch_error + (int \<times> int)"
  and leaf_weights :: "int \<Rightarrow> int \<Rightarrow> json list \<Rightarrow> patch_error + (int \<times> int)" where
  "leaf_weight depth budget v =
     (if budget - 1 < 0 \<or> MAX_JSON_DEPTH < depth then Inl PatchCompilationError
      else case v of
          JDict kvs \<Rightarrow> if kvs = [] then Inr (1, budget - 1)
                     else leaf_weights (depth + 1) (budget - 1) (map snd kvs)
        | JList xs \<Rightarrow> if xs = [] then Inr (1, budget - 1)
                    else leaf_weights (depth + 1) (budget - 1) xs
        | _ \<Rightarrow> Inr (1, budget - 1))"
| "leaf_weights depth budget [] = Inr (0, budget)"
| "leaf_weights depth budget (v # vs) =
     and_then (leaf_weight depth budget v) (\<lambda>(n, budget').
     and_then (leaf_weights depth budget' vs) (\<lambda>(m, budget''). Inr (n + m, budget'')))"
  by pat_completeness auto
termination
  by (relation "measure (\<lambda>x. case x of Inl (d, b, v) \<Rightarrow> size v | Inr (d, b, vs) \<Rightarrow> size_list size vs)")
    (auto simp: less_Suc_eq_le size_list_snds)

text \<open>What a comparison of two containers goes through, in order.\<close>

datatype row = SOLE json | PAIR json json

definition dict_rows :: "(string \<times> json) list \<Rightarrow> (string \<times> json) list \<Rightarrow> row list" where
  "dict_rows former latter =
     map (\<lambda>key. case map_of former key of
            None \<Rightarrow> SOLE (the (map_of latter key))
          | Some l \<Rightarrow> (case map_of latter key of None \<Rightarrow> SOLE l | Some r \<Rightarrow> PAIR l r))
       (bytewise (map fst former @ map fst latter))"

definition list_rows :: "json list \<Rightarrow> json list \<Rightarrow> row list" where
  "list_rows former latter =
     map (\<lambda>(l, r). PAIR l r) (zip former latter) @
     map SOLE (drop (length latter) former) @ map SOLE (drop (length former) latter)"

primrec row_size :: "row \<Rightarrow> nat" where
  "row_size (SOLE v) = 0"
| "row_size (PAIR l r) = size l"

lemma size_list_eq: "size_list f xs = sum_list (map f xs) + length xs"
  by (induction xs) auto

lemma dict_rows_size: "sum_list (map row_size (dict_rows former latter)) \<le>
    size_list (size_prod (\<lambda>_. 0) size) former"
proof -
  let ?keys = "bytewise (map fst former @ map fst latter)"
  let ?f = "\<lambda>key. case map_of former key of None \<Rightarrow> 0 | Some l \<Rightarrow> size l"
  have "sum_list (map row_size (dict_rows former latter)) \<le> sum_list (map ?f ?keys)"
    unfolding dict_rows_def map_map
    by (intro sum_list_mono) (auto split: option.splits)
  also have "\<dots> = sum ?f (set ?keys)"
    by (rule sum_list_distinct_conv_sum_set) simp
  also have "\<dots> = sum ?f (fst ` set former)"
    by (rule sum.mono_neutral_right) (auto simp: map_of_eq_None_iff [symmetric] split: option.splits)
  also have "\<dots> \<le> size_list (size_prod (\<lambda>_. 0) size) former"
  proof (induction former)
    case (Cons p former)
    obtain k l where p: "p = (k, l)" by fastforce
    let ?g = "\<lambda>key. case map_of former key of None \<Rightarrow> 0 | Some l \<Rightarrow> size l"
    have "(\<Sum>key\<in>fst ` set (p # former). case map_of (p # former) key of None \<Rightarrow> 0 | Some l \<Rightarrow> size l) =
        size l + (\<Sum>key\<in>fst ` set former - {k}. ?g key)"
      unfolding p by (auto simp: sum.insert_remove intro!: sum.cong)
    also have "\<dots> \<le> size l + sum ?g (fst ` set former)"
      by (simp add: sum_mono2)
    finally show ?case using Cons.IH p by simp
  qed simp
  finally show ?thesis .
qed

lemma list_rows_size: "sum_list (map row_size (list_rows former latter)) \<le> size_list size former"
proof -
  have "sum_list (map (row_size \<circ> (\<lambda>(l, r). PAIR l r)) (zip former latter)) \<le> size_list size former"
    by (induction former latter rule: list_induct2') auto
  moreover have "map (row_size \<circ> SOLE) vs = replicate (length vs) 0" for vs
    by (induction vs) auto
  ultimately show ?thesis by (simp add: list_rows_def sum_list_replicate)
qed

function semantic_leaf_difference :: "int \<Rightarrow> int \<Rightarrow> json \<Rightarrow> json \<Rightarrow> patch_error + (int \<times> int)"
  and row_differences :: "int \<Rightarrow> int \<Rightarrow> row list \<Rightarrow> patch_error + (int \<times> int)" where
  "semantic_leaf_difference depth budget former latter =
     (if budget - 1 < 0 \<or> MAX_JSON_DEPTH < depth then Inl PatchCompilationError
      else case strict_json_equal former latter of
          Inl e \<Rightarrow> Inl e
        | Inr True \<Rightarrow> Inr (0, budget - 1)
        | Inr False \<Rightarrow>
           (case (former, latter) of
              (JDict bs, JDict as) \<Rightarrow> row_differences (depth + 1) (budget - 1) (dict_rows bs as)
            | (JList bs, JList as) \<Rightarrow>
                (case row_differences (depth + 1) (budget - 1) (list_rows bs as) of
                   Inl e \<Rightarrow> Inl e
                 | Inr (n, budget') \<Rightarrow>
                     Inr ((if length bs \<noteq> length as then 1 else 0) + n, budget'))
            | _ \<Rightarrow>
                (case leaf_weight 0 (budget - 1) former of Inl e \<Rightarrow> Inl e
                 | Inr (n, budget') \<Rightarrow>
                     (case leaf_weight 0 budget' latter of Inl e \<Rightarrow> Inl e
                      | Inr (m, budget'') \<Rightarrow> Inr (max n m, budget'')))))"
| "row_differences depth budget [] = Inr (0, budget)"
| "row_differences depth budget (SOLE v # rs) =
     (case leaf_weight depth budget v of Inl e \<Rightarrow> Inl e
      | Inr (n, budget') \<Rightarrow>
          (case row_differences depth budget' rs of Inl e \<Rightarrow> Inl e
           | Inr (m, budget'') \<Rightarrow> Inr (n + m, budget'')))"
| "row_differences depth budget (PAIR v w # rs) =
     (case semantic_leaf_difference depth budget v w of Inl e \<Rightarrow> Inl e
      | Inr (n, budget') \<Rightarrow>
          (case row_differences depth budget' rs of Inl e \<Rightarrow> Inl e
           | Inr (m, budget'') \<Rightarrow> Inr (n + m, budget'')))"
  by pat_completeness auto
termination
  by (relation "measures
      [\<lambda>x. case x of Inl (d, b, v, w) \<Rightarrow> size v | Inr (d, b, rs) \<Rightarrow> sum_list (map row_size rs),
       \<lambda>x. case x of Inl (d, b, v, w) \<Rightarrow> 0 | Inr (d, b, rs) \<Rightarrow> length rs]")
    (auto simp: less_Suc_eq_le dict_rows_size list_rows_size)

section \<open>Applying one operation\<close>

definition no_value :: "json" where "no_value = JNull"

definition effect_of :: "patch_operation \<Rightarrow> bool \<Rightarrow> json \<Rightarrow> bool \<Rightarrow> json \<Rightarrow> int \<Rightarrow> patch_effect" where
  "effect_of operation previous_present previous_value proposed_present proposed_value count =
     \<lparr>pe_operation_id = pa_operation_id operation, pe_operation = pa_operation operation,
      pe_path = pa_path operation, pe_previous_present = previous_present,
      pe_previous_value = previous_value, pe_proposed_present = proposed_present,
      pe_proposed_value = proposed_value, pe_leaf_change_count = count\<rparr>"

definition weight_of :: "json \<Rightarrow> patch_error + int" where
  "weight_of v = and_then (leaf_weight 0 MAX_JSON_NODES v) (\<lambda>r. Inr (fst r))"

definition difference_of :: "json \<Rightarrow> json \<Rightarrow> patch_error + int" where
  "difference_of former latter =
     and_then (semantic_leaf_difference 0 MAX_JSON_NODES former latter) (\<lambda>r. Inr (fst r))"

text \<open>\<open>list.insert\<close> and \<open>del\<close> at a valid index.\<close>

definition insert_at :: "nat \<Rightarrow> 'a \<Rightarrow> 'a list \<Rightarrow> 'a list" where
  "insert_at i x xs = take i xs @ x # drop i xs"

definition delete_at :: "nat \<Rightarrow> 'a list \<Rightarrow> 'a list" where
  "delete_at i xs = take i xs @ drop (Suc i) xs"

definition apply_add :: "patch_operation \<Rightarrow> json \<Rightarrow> position \<Rightarrow> patch_error + json \<times> patch_effect" where
  "apply_add operation parent target =
     and_then (clone_json (pa_value operation)) (\<lambda>proposed.
     case (parent, target) of
       (JDict kvs, MEMBER key) \<Rightarrow>
         if map_of kvs key \<noteq> None then Inl PatchCompilationError
         else and_then (weight_of proposed) (\<lambda>count.
           Inr (JDict (AList.update key proposed kvs), effect_of operation False no_value True proposed count))
     | (JList xs, ELEMENT i) \<Rightarrow>
         (let displaced = drop i xs; ys = insert_at i proposed xs in
          if displaced \<noteq> [] then
            and_then (difference_of (JList displaced) (JList (drop i ys))) (\<lambda>count.
              Inr (JList ys, effect_of operation True (JList displaced) True (JList (drop i ys)) count))
          else
            and_then (difference_of (JList []) (JList [proposed])) (\<lambda>count.
              Inr (JList ys, effect_of operation False no_value True proposed count)))
     | _ \<Rightarrow> Inl PatchCompilationError)"

text \<open>\<open>parent[target]\<close>, when present.\<close>

definition member_at :: "json \<Rightarrow> position \<Rightarrow> json option" where
  "member_at parent target =
     (case (parent, target) of
        (JDict kvs, MEMBER key) \<Rightarrow> map_of kvs key
      | (JList xs, ELEMENT i) \<Rightarrow> if i < length xs then Some (xs ! i) else None
      | _ \<Rightarrow> None)"

definition put_at :: "json \<Rightarrow> position \<Rightarrow> json \<Rightarrow> json" where
  "put_at parent target v =
     (case (parent, target) of
        (JDict kvs, MEMBER key) \<Rightarrow> JDict (AList.update key v kvs)
      | (JList xs, ELEMENT i) \<Rightarrow> JList (xs[i := v])
      | _ \<Rightarrow> parent)"

definition apply_replace :: "patch_operation \<Rightarrow> json \<Rightarrow> position \<Rightarrow> patch_error + json \<times> patch_effect" where
  "apply_replace operation parent target =
     (case member_at parent target of
        None \<Rightarrow> Inl PatchCompilationError
      | Some previous \<Rightarrow>
          and_then (clone_json (pa_value operation)) (\<lambda>proposed.
          and_then (difference_of previous proposed) (\<lambda>count.
            Inr (put_at parent target proposed, effect_of operation True previous True proposed count))))"

definition apply_remove :: "patch_operation \<Rightarrow> json \<Rightarrow> position \<Rightarrow> patch_error + json \<times> patch_effect" where
  "apply_remove operation parent target =
     (case member_at parent target of
        None \<Rightarrow> Inl PatchCompilationError
      | Some previous \<Rightarrow>
          (case (parent, target) of
             (JList xs, ELEMENT i) \<Rightarrow>
               (let suffix = drop (Suc i) xs in
                and_then (difference_of (JList (drop i xs)) (JList suffix)) (\<lambda>count.
                  Inr (JList (delete_at i xs),
                    effect_of operation True (JList (drop i xs)) (suffix \<noteq> [])
                      (if suffix \<noteq> [] then JList suffix else no_value) count)))
           | (JDict kvs, MEMBER key) \<Rightarrow>
               and_then (weight_of previous) (\<lambda>count.
                 Inr (JDict (AList.delete key kvs), effect_of operation True previous False no_value count))
           | _ \<Rightarrow> Inl PatchCompilationError))"

definition apply_in_parent :: "python \<Rightarrow> patch_operation \<Rightarrow> json \<Rightarrow> patch_error + json \<times> patch_effect" where
  "apply_in_parent py operation parent =
     and_then (final_position py (pa_operation operation) (last (pa_tokens operation)) parent) (\<lambda>target.
       case pa_operation operation of
         ADD \<Rightarrow> apply_add operation parent target
       | REPLACE \<Rightarrow> apply_replace operation parent target
       | REMOVE \<Rightarrow> apply_remove operation parent target)"

definition apply_one :: "python \<Rightarrow> json \<Rightarrow> patch_operation \<Rightarrow> patch_error + json \<times> patch_effect" where
  "apply_one py document operation =
     edit_at py (apply_in_parent py operation) (butlast (pa_tokens operation)) document"

section \<open>Compilation\<close>

fun apply_all :: "python \<Rightarrow> patch_operation list \<Rightarrow> json \<Rightarrow> patch_error + json \<times> patch_effect list" where
  "apply_all py [] document = Inr (document, [])"
| "apply_all py (operation # operations) document =
     and_then (apply_one py document operation) (\<lambda>(document', effect).
     and_then (apply_all py operations document') (\<lambda>(result, effects). Inr (result, effect # effects)))"

definition compile_dashboard_patch :: "python \<Rightarrow> json \<Rightarrow> json \<Rightarrow> patch_error + patch_compilation" where
  "compile_dashboard_patch py configuration operations =
     and_then (demand (is_dict configuration) PatchCompilationError) (\<lambda>_.
     and_then (validate_json_value configuration) (\<lambda>_.
     and_then (canonicalize_patch py operations) (\<lambda>normalized.
     and_then (clone_json configuration) (\<lambda>original.
     and_then (clone_json configuration) (\<lambda>document.
     and_then (apply_all py normalized document) (\<lambda>(result, effects).
     and_then (and_then (strict_json_equal configuration original)
                 (\<lambda>b. demand b PatchCompilationError)) (\<lambda>_.
     let leaf_count = sum_list (map pe_leaf_change_count effects) in
     and_then (demand (\<not> MAX_SEMANTIC_LEAF_CHANGES < leaf_count) PatchCompilationError) (\<lambda>_.
     and_then (serialized_size py True original) (\<lambda>original_size.
     and_then (serialized_size py True result) (\<lambda>result_size.
     let growth = result_size - original_size in
     and_then (demand (\<not> MAX_RESULT_CONFIG_BYTES < result_size) PatchCompilationError) (\<lambda>_.
     and_then (demand (\<not> MAX_CONFIG_GROWTH_BYTES < growth) PatchCompilationError) (\<lambda>_.
     and_then (canonical_json_bytes py False (patch_projection normalized)) (\<lambda>patch_bytes.
     and_then (engineering_sha256 py original) (\<lambda>preread_sha256.
     and_then (engineering_sha256 py result) (\<lambda>resulting_sha256.
     and_then (upstream_config_hash py result) (\<lambda>config_hash.
       Inr \<lparr>pc_model = PATCH_MODEL, pc_operations = normalized, pc_effects = effects,
            pc_resulting_configuration = result, pc_preread_sha256 = preread_sha256,
            pc_canonical_patch_sha256 = sha256_hex py patch_bytes,
            pc_resulting_sha256 = resulting_sha256, pc_resulting_upstream_config_hash = config_hash,
            pc_serialized_patch_bytes = int (length patch_bytes), pc_resulting_size_bytes = result_size,
            pc_configuration_growth_bytes = growth,
            pc_semantic_leaf_change_count = leaf_count\<rparr>))))))))))))))))"

section \<open>Mismatching paths\<close>

text \<open>
  The keys of two dictionaries in descending order: a key of one side only is reported, until \<open>limit\<close>
  is reached; the others are pushed.  Pushing in descending order leaves the least key on top.
\<close>

fun mismatch_keys ::
  "int \<Rightarrow> (string \<times> json) list \<Rightarrow> (string \<times> json) list \<Rightarrow> string list \<Rightarrow> string list \<Rightarrow>
   string list \<Rightarrow> (json \<times> json \<times> string list) list \<Rightarrow> string list \<times> (json \<times> json \<times> string list) list"
  where
  "mismatch_keys limit ls rs tokens [] paths stack = (paths, stack)"
| "mismatch_keys limit ls rs tokens (key # keys) paths stack =
     (case (map_of ls key, map_of rs key) of
        (Some l, Some r) \<Rightarrow> mismatch_keys limit ls rs tokens keys paths ((l, r, tokens @ [key]) # stack)
      | _ \<Rightarrow>
          (let paths' = paths @ [pointer_text (tokens @ [key])] in
           if limit \<le> int (length paths') then (paths', stack)
           else mismatch_keys limit ls rs tokens keys paths' stack))"

function mismatch_loop ::
  "int \<Rightarrow> int \<Rightarrow> string list \<Rightarrow> (json \<times> json \<times> string list) list \<Rightarrow> patch_error + string list" where
  "mismatch_loop limit visited paths [] = Inr paths"
| "mismatch_loop limit visited paths ((left, right, tokens) # stack) =
     (if \<not> int (length paths) < limit then Inr paths
      else if MAX_JSON_NODES < visited + 1 then Inr (paths @ [''/<traversal-bound>''])
      else case strict_json_equal left right of
          Inl e \<Rightarrow> Inl e
        | Inr True \<Rightarrow> mismatch_loop limit (visited + 1) paths stack
        | Inr False \<Rightarrow>
            (case (left, right) of
               (JDict ls, JDict rs) \<Rightarrow>
                 (case mismatch_keys limit ls rs tokens
                         (rev (bytewise (map fst ls @ map fst rs))) paths stack of
                    (paths', stack') \<Rightarrow> mismatch_loop limit (visited + 1) paths' stack')
             | (JList ls, JList rs) \<Rightarrow>
                 (let paths' = (if length ls \<noteq> length rs then paths @ [pointer_text tokens] else paths) in
                  if length ls \<noteq> length rs \<and> limit \<le> int (length paths') then Inr paths'
                  else mismatch_loop limit (visited + 1) paths'
                    (map (\<lambda>i. (ls ! i, rs ! i, tokens @ [decimal i])) [0..<min (length ls) (length rs)] @
                     stack))
             | _ \<Rightarrow> mismatch_loop limit (visited + 1) (paths @ [pointer_text tokens]) stack))"
  by pat_completeness auto
termination
  by (relation "measure (\<lambda>(_, visited, _). nat (MAX_JSON_NODES - visited))") (auto split: prod.splits)

definition mismatch_paths :: "json \<Rightarrow> json \<Rightarrow> int \<Rightarrow> patch_error + string list" where
  "mismatch_paths expected observed limit = mismatch_loop limit 0 [] [(expected, observed, [])]"

end
