(* ===== verification/Json_Properties.thy ===== *)
theory Json_Properties
  imports Json_Values
begin

text \<open>
  What the two loops of \<open>json_codec.py\<close> compute: validation is a bound on the nodes and the depth of a
  value free of anything that is not JSON, and the strict comparison is the equality of canonical forms.
\<close>

section \<open>Validity, stated on the value\<close>

fun node_count :: "json \<Rightarrow> int" where
  "node_count (JList xs) = 1 + sum_list (map node_count xs)"
| "node_count (JDict kvs) = 1 + sum_list (map (\<lambda>(k, v). node_count v) kvs)"
| "node_count _ = 1"

fun within_depth :: "int \<Rightarrow> json \<Rightarrow> bool" where
  "within_depth d (JList xs) \<longleftrightarrow> 0 \<le> d \<and> list_all (within_depth (d - 1)) xs"
| "within_depth d (JDict kvs) \<longleftrightarrow> 0 \<le> d \<and> list_all (\<lambda>(k, v). within_depth (d - 1) v) kvs"
| "within_depth d _ \<longleftrightarrow> 0 \<le> d"

fun clean :: "json \<Rightarrow> bool" where
  "clean (JFloat x) \<longleftrightarrow> finite_float x"
| "clean (JList xs) \<longleftrightarrow> list_all clean xs"
| "clean (JDict kvs) \<longleftrightarrow> list_all (\<lambda>(k, v). clean v) kvs"
| "clean JOther \<longleftrightarrow> False"
| "clean _ \<longleftrightarrow> True"

definition valid_json :: "json \<Rightarrow> bool" where
  "valid_json v \<longleftrightarrow> clean v \<and> within_depth MAX_JSON_DEPTH v \<and> node_count v \<le> MAX_JSON_NODES"

lemma node_count_pos: "1 \<le> node_count v"
  by (induction v) (force intro: sum_list_nonneg)+

lemma node_count_sum_nonneg: "0 \<le> sum_list (map (\<lambda>x. node_count (f x)) xs)"
  by (rule sum_list_nonneg) (auto intro: order_trans [OF _ node_count_pos])

definition stack_nodes :: "(json \<times> int) list \<Rightarrow> int" where
  "stack_nodes stack = sum_list (map (node_count \<circ> fst) stack)"

lemma stack_nodes_simps [simp]:
  "stack_nodes [] = 0" "stack_nodes ((v, d) # stack) = node_count v + stack_nodes stack"
  "stack_nodes (xs @ stack) = stack_nodes xs + stack_nodes stack"
  "stack_nodes (map (\<lambda>x. (f x, d')) vs) = sum_list (map (\<lambda>x. node_count (f x)) vs)"
  by (simp_all add: stack_nodes_def comp_def)

lemma stack_nodes_nonneg: "0 \<le> stack_nodes stack"
  unfolding stack_nodes_def comp_def by (rule node_count_sum_nonneg)

lemma list_all_conj: "list_all (\<lambda>x. P x \<and> Q x) xs \<longleftrightarrow> list_all P xs \<and> list_all Q xs"
  by (auto simp: list_all_iff)

lemma validate_loop_iff:
  "0 \<le> remaining \<Longrightarrow> validate_loop max_depth remaining stack = Inr () \<longleftrightarrow>
     stack_nodes stack \<le> remaining \<and>
     list_all (\<lambda>(v, d). clean v \<and> within_depth (max_depth - d) v) stack"
proof (induction max_depth remaining stack rule: validate_loop.induct)
  case (2 max_depth remaining current depth stack)
  show ?case
  proof (cases "1 \<le> remaining \<and> depth \<le> max_depth")
    case False
    then show ?thesis
      using node_count_pos [of current] stack_nodes_nonneg [of stack] "2.prems"
      by (cases current) auto
  next
    case True
    then show ?thesis
      using 2 by (cases current) (auto simp: list.pred_map comp_def case_prod_unfold algebra_simps list_all_conj)
  qed
qed simp

lemma validate_json_value_iff: "validate_json_value v = Inr () \<longleftrightarrow> valid_json v"
  unfolding validate_json_value_def valid_json_def
  by (subst validate_loop_iff) (auto simp: MAX_JSON_NODES_def)

lemma validate_loop_error:
  "validate_loop max_depth remaining stack = Inl e \<Longrightarrow> e = PatchValidationError"
  by (induction max_depth remaining stack rule: validate_loop.induct)
    (auto split: if_splits json.splits)

lemma validate_json_value_cases:
  "validate_json_value v = (if valid_json v then Inr () else Inl PatchValidationError)"
proof (cases "validate_json_value v")
  case (Inl e)
  then show ?thesis
    using validate_json_value_iff [of v] validate_loop_error [OF Inl [unfolded validate_json_value_def]] by simp
next
  case (Inr u)
  then show ?thesis using validate_json_value_iff [of v] by simp
qed

section \<open>Canonical forms\<close>

text \<open>Keys in order, and one zero.  Two values are equal when their canonical forms are.\<close>

fun canon :: "json \<Rightarrow> json" where
  "canon (JFloat (ZERO s)) = JFloat (ZERO False)"
| "canon (JList xs) = JList (map canon xs)"
| "canon (JDict kvs) = JDict (sort_key fst (map (\<lambda>(k, v). (k, canon v)) kvs))"
| "canon v = v"

lemma sorted_items_unique:
  assumes "distinct (map fst xs)" and "distinct (map fst ys)"
  shows "sort_key fst xs = sort_key fst ys \<longleftrightarrow> set xs = set ys"
proof
  assume "set xs = set ys"
  moreover have "inj_on fst (set xs)" using assms(1) by (simp add: distinct_map)
  ultimately show "sort_key fst xs = sort_key fst ys"
    using assms
    by (intro map_sorted_distinct_set_unique [where f = fst]) (auto simp: distinct_map)
qed (metis set_sort)

lemma set_eq_map_of:
  assumes "distinct (map fst xs)" and "distinct (map fst ys)"
  shows "set xs = set ys \<longleftrightarrow> fst ` set xs = fst ` set ys \<and> (\<forall>(k, x) \<in> set xs. map_of ys k = Some x)"
  (is "_ \<longleftrightarrow> ?r")
proof
  show "set xs = set ys \<Longrightarrow> ?r" using assms(2) by auto
next
  assume r: ?r
  then have "set xs \<subseteq> set ys" by (auto dest: map_of_SomeD)
  moreover have "(k, y) \<in> set xs" if y: "(k, y) \<in> set ys" for k y
  proof -
    from y r obtain x where x: "(k, x) \<in> set xs" by force
    with r have "map_of ys k = Some x" by auto
    with y assms(2) x show ?thesis by simp
  qed
  ultimately show "set xs = set ys" by auto
qed

lemma map_of_canon_items:
  "map_of (map (\<lambda>(k, v). (k, f v)) kvs) k = map_option f (map_of kvs k)"
  by (induction kvs) auto

lemma canon_dict_eq_iff:
  assumes "distinct (map fst ls)" and "distinct (map fst rs)"
  shows "canon (JDict ls) = canon (JDict rs) \<longleftrightarrow>
    fst ` set ls = fst ` set rs \<and> (\<forall>(k, l) \<in> set ls. canon l = canon (the (map_of rs k)))"
proof -
  let ?f = "\<lambda>(k, v). (k, canon v)"
  have d: "distinct (map fst (map ?f ls))" "distinct (map fst (map ?f rs))"
    using assms by (simp_all add: comp_def case_prod_unfold)
  have keys: "fst ` set (map ?f ls) = fst ` set ls" "fst ` set (map ?f rs) = fst ` set rs"
    by force+
  have items: "(\<forall>(k, x) \<in> set (map ?f ls). map_of (map ?f rs) k = Some x) \<longleftrightarrow>
      (\<forall>(k, l) \<in> set ls. canon l = canon (the (map_of rs k)))" if "fst ` set ls = fst ` set rs"
  proof -
    have some: "\<exists>r. map_of rs (fst p) = Some r" if "p \<in> set ls" for p
      using that \<open>fst ` set ls = fst ` set rs\<close> by (metis image_eqI map_of_eq_None_iff not_None_eq)
    have "(\<forall>(k, x) \<in> set (map ?f ls). map_of (map ?f rs) k = Some x) \<longleftrightarrow>
        (\<forall>p \<in> set ls. map_option canon (map_of rs (fst p)) = Some (canon (snd p)))"
      by (simp add: map_of_canon_items [unfolded case_prod_unfold] case_prod_unfold)
    also have "\<dots> \<longleftrightarrow> (\<forall>p \<in> set ls. canon (snd p) = canon (the (map_of rs (fst p))))"
      by (intro ball_cong refl) (auto dest!: some)
    finally show ?thesis by (simp add: case_prod_unfold)
  qed
  show ?thesis
    using items by (auto simp only: canon.simps json.inject sorted_items_unique [OF d] set_eq_map_of [OF d] keys)
qed

lemma canon_list_eq_iff:
  "canon (JList ls) = canon (JList rs) \<longleftrightarrow>
    length ls = length rs \<and> list_all (\<lambda>(l, r). canon l = canon r) (zip ls rs)"
  by (auto simp: list_eq_iff_nth_eq list_all_length)

lemma canon_same_type: "canon l = canon r \<Longrightarrow> same_type l r"
  by (cases l rule: canon.cases; cases r rule: canon.cases) auto

lemma canon_float:
  "finite_float x \<Longrightarrow> finite_float y \<Longrightarrow>
   float_equal x y \<longleftrightarrow> canon (JFloat x) = canon (JFloat y)"
  by (cases x; cases y) (simp_all add: float_equal_def finite_float_def)

text \<open>Two values of one type: both dictionaries, both lists, or scalars.\<close>

lemma same_type_cases:
  assumes "same_type l r"
  obtains (dicts) ls rs where "l = JDict ls" "r = JDict rs"
  | (lists) ls rs where "l = JList ls" "r = JList rs"
  | (scalars) "\<And>ls. l \<noteq> JDict ls" "\<And>ls. l \<noteq> JList ls"
      "clean l \<Longrightarrow> clean r \<Longrightarrow> scalar_equal l r \<longleftrightarrow> canon l = canon r"
  using assms by (cases "(l, r)" rule: same_type.cases) (simp_all add: canon_float)

section \<open>The strict comparison\<close>

abbreviation pair_ok :: "int \<Rightarrow> json \<times> json \<times> int \<Rightarrow> bool" where
  "pair_ok max_depth \<equiv> \<lambda>(l, r, d). proper l \<and> proper r \<and> clean l \<and> clean r \<and> within_depth (max_depth - d) l"

definition pair_nodes :: "(json \<times> json \<times> int) list \<Rightarrow> int" where
  "pair_nodes stack = sum_list (map (node_count \<circ> fst) stack)"

lemma pair_nodes_simps [simp]:
  "pair_nodes [] = 0" "pair_nodes ((v, w) # stack) = node_count v + pair_nodes stack"
  "pair_nodes (xs @ stack) = pair_nodes xs + pair_nodes stack"
  "pair_nodes (map (\<lambda>x. (f x, g x)) vs) = sum_list (map (\<lambda>x. node_count (f x)) vs)"
  by (simp_all add: pair_nodes_def comp_def)

lemma pair_nodes_nonneg: "0 \<le> pair_nodes stack"
  unfolding pair_nodes_def comp_def by (rule node_count_sum_nonneg)

lemma proper_member: "proper (JDict kvs) \<Longrightarrow> map_of kvs k = Some v \<Longrightarrow> proper v"
  by (auto simp: list_all_iff dest: map_of_SomeD)

lemma clean_member: "clean (JDict kvs) \<Longrightarrow> map_of kvs k = Some v \<Longrightarrow> clean v"
  by (auto simp: list_all_iff dest: map_of_SomeD)

lemma equal_loop_exact:
  assumes "pair_nodes stack \<le> remaining" and "list_all (pair_ok max_depth) stack"
  shows "equal_loop max_depth remaining stack = Inr (list_all (\<lambda>(l, r, d). canon l = canon r) stack)"
  using assms
proof (induction "nat remaining" arbitrary: remaining stack rule: less_induct)
  case less
  show ?case
  proof (cases stack)
    case (Cons item rest)
    obtain left right depth where item: "item = (left, right, depth)" by (cases item)
    note prems = less.prems [unfolded Cons item]
    from prems have fuel: "1 \<le> remaining" and deep: "depth \<le> max_depth"
      using node_count_pos [of left] pair_nodes_nonneg [of rest] by (cases left; simp)+
    then have IH: "equal_loop max_depth (remaining - 1) s = Inr (list_all (\<lambda>(l, r, d). canon l = canon r) s)"
      if "pair_nodes s \<le> remaining - 1" "list_all (pair_ok max_depth) s" for s
      using that less.hyps by simp
    show ?thesis
    proof (cases "same_type left right")
      case False
      with fuel deep show ?thesis using canon_same_type [of left right] by (auto simp: Cons item)
    next
      case True
      then show ?thesis
      proof (cases rule: same_type_cases)
        case (dicts ls rs)
        show ?thesis
        proof (cases "fst ` set ls = fst ` set rs")
          case False
          have "canon left \<noteq> canon right"
            using False prems(2) canon_dict_eq_iff [of ls rs] by (simp add: dicts)
          with False fuel deep True show ?thesis by (simp add: dicts Cons item)
        next
          case keys: True
          let ?items = "map (\<lambda>(k, l). (l, the (map_of rs k), depth + 1)) ls"
          have d: "distinct (map fst ls)" "distinct (map fst rs)" and
            ok: "proper left" "clean left" "proper right" "clean right" "within_depth (max_depth - depth) left"
            using prems(2) by (simp_all add: dicts)
          have some: "\<exists>r. map_of rs k = Some r" if "(k, l) \<in> set ls" for k l
            using that keys by (metis fst_conv image_eqI map_of_eq_None_iff not_None_eq)
          have "list_all (pair_ok max_depth) (?items @ rest)"
            using ok some prems(2) proper_member [OF ok(3) [unfolded dicts]] clean_member [OF ok(4) [unfolded dicts]]
            by (fastforce simp: dicts list_all_iff algebra_simps)
          moreover have "pair_nodes (?items @ rest) \<le> remaining - 1"
            using prems(1) by (simp add: dicts case_prod_unfold)
          ultimately have "equal_loop max_depth (remaining - 1) (?items @ rest) =
              Inr (list_all (\<lambda>(l, r, d). canon l = canon r) (?items @ rest))"
            using IH by blast
          moreover have "list_all (\<lambda>(l, r, d). canon l = canon r) ?items \<longleftrightarrow> canon left = canon right"
            using keys canon_dict_eq_iff [OF d] unfolding list.pred_map comp_def
            by (simp add: dicts list_all_iff case_prod_unfold del: canon.simps)
          ultimately show ?thesis
            using fuel deep True keys by (simp add: dicts Cons item del: canon.simps)
        qed
      next
        case (lists ls rs)
        show ?thesis
        proof (cases "length ls = length rs")
          case False
          then have "canon left \<noteq> canon right"
            using canon_list_eq_iff [of ls rs] by (simp add: lists del: canon.simps)
          with False fuel deep True show ?thesis by (simp add: lists Cons item del: canon.simps)
        next
          case lengths: True
          let ?items = "map (\<lambda>(l, r). (l, r, depth + 1)) (zip ls rs)"
          have "list_all (pair_ok max_depth) (?items @ rest)"
            using prems(2) by (auto simp: lists list_all_iff algebra_simps dest: set_zip_leftD set_zip_rightD)
          moreover have "map (\<lambda>p. node_count (fst p)) (zip ls rs) = map node_count ls"
            using lengths by (simp add: comp_def flip: map_map [of node_count fst, unfolded comp_def])
          then have "pair_nodes (?items @ rest) \<le> remaining - 1"
            using prems(1) by (simp add: lists case_prod_unfold)
          ultimately have "equal_loop max_depth (remaining - 1) (?items @ rest) =
              Inr (list_all (\<lambda>(l, r, d). canon l = canon r) (?items @ rest))"
            using IH by blast
          moreover have "list_all (\<lambda>(l, r, d). canon l = canon r) ?items \<longleftrightarrow> canon left = canon right"
            using lengths canon_list_eq_iff [of ls rs] unfolding list.pred_map comp_def
            by (simp add: lists case_prod_unfold del: canon.simps)
          ultimately show ?thesis
            using fuel deep True lengths by (simp add: lists Cons item del: canon.simps)
        qed
      next
        case scalars
        have "equal_loop max_depth remaining stack =
            (if \<not> scalar_equal left right then Inr False else equal_loop max_depth (remaining - 1) rest)"
          using fuel deep True scalars(1,2) by (cases left) (auto simp: Cons item)
        moreover have "equal_loop max_depth (remaining - 1) rest =
            Inr (list_all (\<lambda>(l, r, d). canon l = canon r) rest)"
          using prems node_count_pos [of left] by (intro IH) auto
        ultimately show ?thesis using scalars(3) prems(2) by (simp add: Cons item)
      qed
    qed
  qed simp
qed

text \<open>Canonical forms of valid values compare as the code does.\<close>

lemma strict_json_equal_cases:
  assumes "proper l" and "proper r"
  shows "strict_json_equal l r =
    (if valid_json l \<and> valid_json r then Inr (canon l = canon r) else Inl PatchValidationError)"
proof (cases "valid_json l \<and> valid_json r")
  case True
  then have "equal_loop MAX_JSON_DEPTH MAX_JSON_NODES [(l, r, 0)] = Inr (canon l = canon r)"
    using assms equal_loop_exact [of "[(l, r, 0)]" MAX_JSON_NODES MAX_JSON_DEPTH]
    by (simp add: valid_json_def)
  with True show ?thesis by (simp add: strict_json_equal_def validate_json_value_cases)
next
  case False
  then show ?thesis by (auto simp: strict_json_equal_def validate_json_value_cases)
qed

text \<open>C31: validation accepts exactly the values of JSON (finite floats, no foreign objects) with at most
  \<open>MAX_JSON_NODES\<close> nodes and nesting at most \<open>MAX_JSON_DEPTH\<close>, and rejects every other value with
  \<open>PatchValidationError\<close>: the explicit stack and its countdown compute this bound.\<close>

theorem validation_exact:
  "validate_json_value v = (if valid_json v then Inr () else Inl PatchValidationError)"
  by (rule validate_json_value_cases)

text \<open>C30: the strict comparison of two configurations answers whenever both are valid, never running out
  of its node budget, and answers whether they are the same value: same types, same elements in order,
  same members whatever the order of the keys.\<close>

theorem strict_equality_exact:
  assumes "proper l" and "proper r"
  shows "strict_json_equal l r =
    (if valid_json l \<and> valid_json r then Inr (canon l = canon r) else Inl PatchValidationError)"
  using assms by (rule strict_json_equal_cases)

definition sample_configuration :: json where
  "sample_configuration = JDict
     [(''title'', JStr ''Home''), (''views'', JList [JDict [(''path'', JStr ''a'')], JInt 7])]"

definition reordered_configuration :: json where
  "reordered_configuration = JDict
     [(''views'', JList [JDict [(''path'', JStr ''a'')], JInt 7]), (''title'', JStr ''Home'')]"

theorem strict_equality_exact_witness:
  "strict_json_equal sample_configuration reordered_configuration = Inr True"
proof -
  have p: "proper sample_configuration" "proper reordered_configuration" by code_simp+
  have "valid_json sample_configuration" "valid_json reordered_configuration"
    "canon sample_configuration = canon reordered_configuration" by code_simp+
  then show ?thesis by (simp add: strict_equality_exact [OF p])
qed

end
