(* ===== verification/Dashboard_Pointers.thy ===== *)
theory Dashboard_Pointers
  imports Dashboard_Patch Json_Properties
begin

text \<open>
  Pointers of a dashboard patch: parsing is the inverse of rendering on the admissible token lists, and
  what a pointer resolves to in a configuration.
\<close>

section \<open>Escaping\<close>

lemma replace_char_simps [simp]:
  "replace_char c by [] = []"
  "replace_char c by (x # xs) = (if x = c then by else [x]) @ replace_char c by xs"
  by (simp_all add: replace_char_def)

lemma replace_char_append [simp]: "replace_char c by (xs @ ys) = replace_char c by xs @ replace_char c by ys"
  by (simp add: replace_char_def)

lemma encode_token_simps [simp]:
  "encode_token [] = []"
  "encode_token (x # xs) =
     (if x = CHR ''~'' then ''~0'' else if x = CHR ''/'' then ''~1'' else [x]) @ encode_token xs"
  by (simp_all add: encode_token_def)

lemma decode_encode: "decode_token (encode_token token) = Inr token"
  by (induction token) auto

lemma encoded_no_slash: "CHR ''/'' \<notin> set (encode_token token)"
  by (induction token) auto

lemma split_on_part: "c \<notin> set part \<Longrightarrow> split_on c part = [part]"
  by (induction part) auto

lemma split_on_parts: "c \<notin> set part \<Longrightarrow> split_on c (part @ c # rest) = part # split_on c rest"
  by (induction part) auto

lemma split_join:
  "parts \<noteq> [] \<Longrightarrow> list_all (\<lambda>part. c \<notin> set part) parts \<Longrightarrow> split_on c (join_with c parts) = parts"
  by (induction c parts rule: join_with.induct) (auto simp: split_on_part split_on_parts)

section \<open>Parsing\<close>

text \<open>The token lists a patch may use.\<close>

definition admissible :: "patch_kind option \<Rightarrow> string list \<Rightarrow> bool" where
  "admissible operation tokens \<longleftrightarrow>
     tokens \<noteq> [] \<and> length tokens \<le> MAX_POINTER_DEPTH \<and> [] \<notin> set tokens \<and>
     list_all (\<lambda>token. token = ''-'' \<or> \<not> fuzzy_token token) tokens \<and>
     ''-'' \<notin> set (if operation = Some ADD then butlast tokens else tokens)"

lemma check_tokens_iff:
  "check_tokens append_allowed tokens = Inr () \<longleftrightarrow>
     list_all (\<lambda>token. token = ''-'' \<or> \<not> fuzzy_token token) tokens \<and>
     ''-'' \<notin> set (if append_allowed then butlast tokens else tokens)"
  by (induction append_allowed tokens rule: check_tokens.induct) (auto split: if_splits)

lemma collect_decode:
  "collect decode_token (map encode_token tokens) = Inr tokens"
  by (simp add: collect_ok_iff list.rel_map decode_encode list.rel_refl)

lemma split_nonempty: "split_on c xs \<noteq> []"
  by (induction xs) (auto split: list.splits)

text \<open>C27: parsing inverts rendering.  A pointer parses to a token list exactly if it is its rendering, the
  tokens are admissible for the operation (no empty token, no wildcard or predicate, at most 32, the
  append token only at the end of an add) and the text respects the length bound.  So a pointer has one
  meaning and a token list one spelling.\<close>

theorem pointer_roundtrip:
  "parse_pointer path operation = Inr tokens \<longleftrightarrow>
     path = pointer_text tokens \<and> admissible operation tokens \<and>
     length (code_points path) \<le> MAX_POINTER_CHARS"
proof
  assume parse: "parse_pointer path operation = Inr tokens"
  then have ne: "path \<noteq> []" "hd path = CHR ''/''" "length (code_points path) \<le> MAX_POINTER_CHARS"
    by (auto simp: parse_pointer_def split: if_splits)
  with parse have bound: "length (split_on (CHR ''/'') (tl path)) \<le> MAX_POINTER_DEPTH"
    and rest: "collect decode_token (split_on (CHR ''/'') (tl path)) = Inr tokens" "[] \<notin> set tokens"
      "check_tokens (operation = Some ADD) tokens = Inr ()" "pointer_text tokens = path"
    by (auto simp: parse_pointer_def Let_def and_then_ok_iff list_ex_iff split: if_splits)
  have "length tokens = length (split_on (CHR ''/'') (tl path))"
    using rest(1) by (auto simp: collect_ok_iff dest: list_all2_lengthD)
  with bound rest ne split_nonempty [of "CHR ''/''" "tl path"]
  show "path = pointer_text tokens \<and> admissible operation tokens \<and>
      length (code_points path) \<le> MAX_POINTER_CHARS"
    by (auto simp: admissible_def check_tokens_iff split: if_splits)
next
  assume r: "path = pointer_text tokens \<and> admissible operation tokens \<and>
      length (code_points path) \<le> MAX_POINTER_CHARS"
  have "split_on (CHR ''/'') (join_with (CHR ''/'') (map encode_token tokens)) = map encode_token tokens"
    using r by (intro split_join) (auto simp: admissible_def list_all_iff encoded_no_slash)
  moreover have "check_tokens (operation = Some ADD) tokens = Inr ()"
    using r by (auto simp: check_tokens_iff admissible_def)
  ultimately show "parse_pointer path operation = Inr tokens"
    using r by (auto simp: parse_pointer_def pointer_text_def Let_def collect_decode admissible_def list_ex_iff)
qed

section \<open>List positions\<close>

definition plain :: "string \<Rightarrow> bool" where
  "plain token \<longleftrightarrow> list_all (\<lambda>c. of_char c < (128 :: nat)) token"

lemma code_points_plain: "plain token \<Longrightarrow> code_points token = map of_char token"
  by (induction token rule: code_points.induct) (auto simp: plain_def)

lemma decimal_digits:
  "ds \<noteq> [] \<Longrightarrow> list_all (\<lambda>d. d \<le> 9) ds \<Longrightarrow> length ds = 1 \<or> hd ds \<noteq> 0 \<Longrightarrow>
   decimal (foldl (\<lambda>n d. 10 * n + d) 0 ds) = map (\<lambda>d. char_of (48 + d)) ds \<and>
   (hd ds \<noteq> 0 \<longrightarrow> 0 < foldl (\<lambda>n d. 10 * n + d) 0 ds)"
proof (induction ds rule: rev_induct)
  case (snoc d ds)
  show ?case
  proof (cases "ds = []")
    case True
    with snoc.prems show ?thesis by (simp add: decimal.simps)
  next
    case False
    with snoc show ?thesis
      by (subst decimal.simps) auto
  qed
qed simp

text \<open>A list position written in ASCII has one spelling.\<close>

lemma list_index_decimal:
  assumes "list_index py token len allow_end = Inr i" and "plain token"
  shows "token = decimal i"
proof -
  let ?ds = "map (\<lambda>c. of_char c - 48 :: nat) token"
  have digits: "list_all (\<lambda>c. (48 :: nat) \<le> of_char c \<and> of_char c \<le> (57 :: nat)) token" "token \<noteq> []"
    and lead: "length token = 1 \<or> take 1 token \<noteq> ''0''"
    and val: "digits_value py token = Inr i"
    using assms
    by (auto simp: list_index_def is_digits_def code_points_plain code_digit_def plain_def list_all_iff
        and_then_ok_iff split: if_splits)
  have "collect (\<lambda>n. case code_digit py n of Some (Some d) \<Rightarrow> Inr d | _ \<Rightarrow> Inl BuiltinValueError)
      (code_points token) = Inr ?ds"
    using digits(1) assms(2)
    by (auto simp: collect_ok_iff code_points_plain list.rel_map code_digit_def list_all_iff plain_def
        intro!: list.rel_refl_strong)
  with val have i: "i = foldl (\<lambda>n d. 10 * n + d) 0 ?ds" by (simp add: digits_value_def)
  have "hd ?ds \<noteq> 0 \<or> length ?ds = 1"
  proof (cases token)
    case (Cons c cs)
    have "c = CHR ''0''" if "of_char c = (48 :: nat)"
      using that by (simp add: of_char_eq_iff [of c "CHR ''0''", where 'a = nat, symmetric])
    then show ?thesis using lead digits Cons by auto
  qed (use digits in simp)
  moreover have "list_all (\<lambda>d. d \<le> 9) ?ds" "?ds \<noteq> []"
    using digits by (auto simp: list_all_iff)
  ultimately have "decimal i = map (\<lambda>d. char_of (48 + d)) ?ds"
    using decimal_digits [of ?ds] unfolding i by blast
  also have "\<dots> = token"
    using digits(1) by (auto simp: list_all_iff intro!: map_idI)
  finally show ?thesis ..
qed

lemma list_index_bound: "list_index py token len allow_end = Inr i \<Longrightarrow> i \<le> len \<and> (allow_end \<or> i < len)"
  by (auto simp: list_index_def and_then_ok_iff split: if_splits)

lemma nth_update_index:
  "list_index py token (length xs) False = Inr i \<Longrightarrow> xs[i := v] ! i = v"
  by (drule list_index_bound) simp

section \<open>Resolution\<close>

fun resolve :: "python \<Rightarrow> string list \<Rightarrow> json \<Rightarrow> json option" where
  "resolve py [] v = Some v"
| "resolve py (token # tokens) v =
     (case v of
        JDict kvs \<Rightarrow> (case map_of kvs token of None \<Rightarrow> None | Some w \<Rightarrow> resolve py tokens w)
      | JList xs \<Rightarrow>
          (case list_index py token (length xs) False of Inl e \<Rightarrow> None | Inr i \<Rightarrow> resolve py tokens (xs ! i))
      | _ \<Rightarrow> None)"

lemma resolve_append:
  "resolve py (p @ q) v = (case resolve py p v of None \<Rightarrow> None | Some w \<Rightarrow> resolve py q w)"
  by (induction p arbitrary: v) (auto split: json.splits option.splits sum.splits)

definition plain_path :: "string list \<Rightarrow> bool" where
  "plain_path tokens \<longleftrightarrow> list_all plain tokens"

lemma overlapping_Cons [simp]:
  "overlapping (a # p) (b # q) \<longleftrightarrow> a = b \<and> overlapping p q"
  "overlapping [] q" "overlapping p []"
  by (auto simp: overlapping_def Let_def)

text \<open>An edit changes what its path resolves to, and nothing that does not meet the path.\<close>

lemma edit_at_okD:
  assumes "edit_at py change tokens doc = Inr (doc', r)"
  shows "\<exists>p p'. resolve py tokens doc = Some p \<and> change p = Inr (p', r) \<and>
    resolve py tokens doc' = Some p'"
  using assms
proof (induction tokens arbitrary: doc doc')
  case (Cons token tokens)
  then show ?case
    by (cases doc) (auto simp: and_then_ok_iff update_conv' nth_update_index split: option.splits dest!: Cons.IH)
qed simp

lemma edit_at_frame:
  assumes "edit_at py change tokens doc = Inr (doc', r)" and "\<not> overlapping tokens q"
    and "plain_path tokens" and "plain_path q"
  shows "resolve py q doc' = resolve py q doc"
  using assms
proof (induction tokens arbitrary: doc doc' q)
  case (Cons token tokens)
  obtain a q' where q: "q = a # q'" using Cons.prems(2) by (cases q) auto
  show ?case
  proof (cases "a = token")
    case True
    then have "\<not> overlapping tokens q'" using Cons.prems(2) q by simp
    with True Cons.prems q show ?thesis
      by (cases doc) (auto simp: and_then_ok_iff update_conv' plain_path_def nth_update_index
          split: option.splits sum.splits dest: Cons.IH)
  next
    case False
    have "i \<noteq> j" if "list_index py token len b = Inr i" "list_index py a len b = Inr j" for len b i j
      using that False Cons.prems(3,4) q list_index_decimal [of py token len b i]
        list_index_decimal [of py a len b j] by (auto simp: plain_path_def)
    with False Cons.prems(1) q show ?thesis
      by (cases doc) (auto simp: and_then_ok_iff update_conv' split: option.splits sum.splits)
  qed
qed simp

end
