(* ===== verification/Dashboard_Properties.thy ===== *)
theory Dashboard_Properties
  imports Dashboard_Pointers
begin

text \<open>
  What a compiled dashboard patch does to the configuration, that it touches nothing else, the bounds it
  respects, and what the semantic leaf count and the mismatch report say.
\<close>

section \<open>One operation in its parent\<close>

lemma clone_ok_iff: "clone_json v = Inr w \<longleftrightarrow> w = v \<and> valid_json v"
  by (auto simp: clone_json_def validate_json_value_cases)

lemma resolve_dict_member:
  "resolve py (token # q) (JDict kvs) = (case map_of kvs token of None \<Rightarrow> None | Some w \<Rightarrow> resolve py q w)"
  by simp

lemma apply_in_dict:
  assumes "apply_in_parent py op (JDict kvs) = Inr (parent', eff)"
  defines "token \<equiv> last (pa_tokens op)"
  shows "\<exists>kvs'. parent' = JDict kvs' \<and>
    map_of kvs token = (if pa_operation op = ADD then None else Some (pe_previous_value eff)) \<and>
    map_of kvs' = (map_of kvs)(token := if pa_operation op = REMOVE then None else Some (pa_value op))"
  using assms
  by (cases "pa_operation op")
    (auto simp: apply_in_parent_def final_position_def apply_add_def apply_replace_def apply_remove_def
      member_at_def put_at_def effect_of_def and_then_ok_iff clone_ok_iff update_conv' delete_conv'
      split: option.splits if_splits)

definition list_result :: "patch_kind \<Rightarrow> nat \<Rightarrow> json \<Rightarrow> json list \<Rightarrow> json list" where
  "list_result operation i v xs =
     (case operation of ADD \<Rightarrow> take i xs @ v # drop i xs | REPLACE \<Rightarrow> xs[i := v]
      | REMOVE \<Rightarrow> take i xs @ drop (Suc i) xs)"

lemma apply_in_list:
  assumes "apply_in_parent py op (JList xs) = Inr (parent', eff)"
  shows "\<exists>i. parent' = JList (list_result (pa_operation op) i (pa_value op) xs) \<and>
    (if last (pa_tokens op) = ''-'' then pa_operation op = ADD \<and> i = length xs
     else list_index py (last (pa_tokens op)) (length xs) (pa_operation op = ADD) = Inr i) \<and>
    (pa_operation op \<noteq> ADD \<longrightarrow> i < length xs) \<and>
    (pa_operation op = REPLACE \<longrightarrow> pe_previous_value eff = xs ! i)"
  using assms
  by (cases "pa_operation op")
    (auto simp: apply_in_parent_def final_position_def apply_add_def apply_replace_def apply_remove_def
      member_at_def put_at_def effect_of_def and_then_ok_iff clone_ok_iff list_result_def insert_at_def
      delete_at_def Let_def split: option.splits if_splits dest: list_index_bound)

lemma apply_in_parent_container:
  "apply_in_parent py op parent = Inr out \<Longrightarrow> (\<exists>kvs. parent = JDict kvs) \<or> (\<exists>xs. parent = JList xs)"
  by (cases parent) (simp_all add: apply_in_parent_def final_position_def)

lemma apply_oneD:
  assumes "apply_one py doc op = Inr (doc', eff)"
  obtains parent parent' where "resolve py (butlast (pa_tokens op)) doc = Some parent"
    "apply_in_parent py op parent = Inr (parent', eff)"
    "resolve py (butlast (pa_tokens op)) doc' = Some parent'"
  using assms edit_at_okD [of py "apply_in_parent py op" "butlast (pa_tokens op)" doc doc' eff]
  by (auto simp: apply_one_def)

lemma apply_one_frame:
  assumes "apply_one py doc op = Inr (doc', eff)" and "\<not> overlapping (butlast (pa_tokens op)) q"
    and "plain_path (pa_tokens op)" and "plain_path q"
  shows "resolve py q doc' = resolve py q doc"
  using assms edit_at_frame [of py "apply_in_parent py op" "butlast (pa_tokens op)" doc doc' eff q]
  by (auto simp: apply_one_def plain_path_def list_all_iff dest: in_set_butlastD)

text \<open>A path that meets the parent but not the target leaves the parent beside the target.\<close>

lemma beside:
  assumes "overlapping (butlast p) q" and "\<not> overlapping p q" and "p \<noteq> []"
  obtains a q' where "q = butlast p @ a # q'" "a \<noteq> last p"
  using assms
proof (induction p arbitrary: q thesis)
  case (Cons x p)
  show ?case
  proof (cases "p = []")
    case True
    with Cons.prems obtain a q' where "q = a # q'" "a \<noteq> x" by (cases q) auto
    with True Cons.prems(1) [of a q'] show ?thesis by simp
  next
    case False
    with Cons.prems obtain q1 where q: "q = x # q1" by (cases q) auto
    with False Cons obtain a q' where "q1 = butlast p @ a # q'" "a \<noteq> last p"
      by (metis butlast.simps(2) overlapping_Cons(1))
    with False q Cons.prems(1) [of a q'] show ?thesis by simp
  qed
qed simp



section \<open>Semantic leaf changes\<close>

lemma leaf_weight_positive:
  "leaf_weight depth budget v = Inr (n, b) \<Longrightarrow> 1 \<le> n"
  "leaf_weights depth budget vs = Inr (n, b) \<Longrightarrow> int (length vs) \<le> n"
proof (induction depth budget v and depth budget vs arbitrary: n b and n b
    rule: leaf_weight_leaf_weights.induct)
  case (1 depth budget v)
  show ?case
  proof (cases v)
    case (JList xs)
    with 1 show ?thesis by (cases xs) (fastforce split: if_splits)+
  next
    case (JDict kvs)
    with 1 show ?thesis by (cases kvs) (fastforce split: if_splits)+
  qed (use 1 in \<open>auto split: if_splits\<close>)
next
  case (3 depth budget v vs)
  then show ?case by (fastforce simp: and_then_ok_iff)
qed simp

fun row_equal :: "row \<Rightarrow> bool" where
  "row_equal (PAIR l r) \<longleftrightarrow> canon l = canon r" | "row_equal (SOLE v) \<longleftrightarrow> False"

fun row_proper :: "row \<Rightarrow> bool" where
  "row_proper (PAIR l r) \<longleftrightarrow> proper l \<and> proper r" | "row_proper (SOLE v) \<longleftrightarrow> proper v"

lemma dict_rows_equal:
  assumes "proper (JDict ls)" and "proper (JDict rs)" and "list_all row_equal (dict_rows ls rs)"
  shows "canon (JDict ls) = canon (JDict rs)"
proof -
  have row: "\<exists>l r. map_of ls k = Some l \<and> map_of rs k = Some r \<and> canon l = canon r"
    if "k \<in> fst ` set ls \<union> fst ` set rs" for k
  proof -
    have "row_equal (case map_of ls k of None \<Rightarrow> SOLE (the (map_of rs k))
        | Some l \<Rightarrow> (case map_of rs k of None \<Rightarrow> SOLE l | Some r \<Rightarrow> PAIR l r))"
      using assms(3) that by (simp add: dict_rows_def list_all_iff)
    then show ?thesis by (auto split: option.splits)
  qed
  have member: "k \<in> fst ` set xs \<longleftrightarrow> map_of xs k \<noteq> None" for k and xs :: "(string \<times> json) list"
    by (simp add: map_of_eq_None_iff)
  have "k \<in> fst ` set ls \<longleftrightarrow> k \<in> fst ` set rs" for k
    using row [of k] unfolding Un_iff member by auto
  then have "fst ` set ls = fst ` set rs" by blast
  moreover have "canon l = canon (the (map_of rs k))" if "(k, l) \<in> set ls" for k l
  proof -
    have "map_of ls k = Some l" using that assms(1) by simp
    with row [of k] that show ?thesis by (force simp: rev_image_eqI)
  qed
  ultimately show ?thesis using assms(1,2) by (subst canon_dict_eq_iff) auto
qed

lemma list_rows_equal:
  "length ls = length rs \<Longrightarrow> list_all row_equal (list_rows ls rs) \<Longrightarrow> canon (JList ls) = canon (JList rs)"
  by (subst canon_list_eq_iff) (auto simp: list_rows_def list_all_iff)

lemma dict_rows_proper:
  assumes "proper (JDict ls)" and "proper (JDict rs)"
  shows "list_all row_proper (dict_rows ls rs)"
proof -
  have "proper (the (map_of rs k))" if "map_of ls k = None" "k \<in> fst ` set ls \<union> fst ` set rs" for k
    using that proper_member [OF assms(2)] by (force simp: map_of_eq_None_iff)
  then show ?thesis
    using proper_member [OF assms(1)] proper_member [OF assms(2)]
    by (auto simp: dict_rows_def list_all_iff split: option.splits)
qed

lemma list_rows_proper:
  "proper (JList ls) \<Longrightarrow> proper (JList rs) \<Longrightarrow> list_all row_proper (list_rows ls rs)"
  by (auto simp: list_rows_def list_all_iff in_set_zip dest: in_set_dropD)

lemma difference_zero_iff:
  "semantic_leaf_difference depth budget former latter = Inr (n, b) \<Longrightarrow> proper former \<Longrightarrow> proper latter \<Longrightarrow>
     0 \<le> n \<and> (n = 0 \<longleftrightarrow> canon former = canon latter)"
  "row_differences depth budget rows = Inr (n, b) \<Longrightarrow> list_all row_proper rows \<Longrightarrow>
     0 \<le> n \<and> (n = 0 \<longleftrightarrow> list_all row_equal rows)"
proof (induction depth budget former latter and depth budget rows arbitrary: n b and n b
    rule: semantic_leaf_difference_row_differences.induct)
  case (1 depth budget former latter)
  note prems = "1.prems"
  from prems(1) have guard: "\<not> (budget - 1 < 0 \<or> MAX_JSON_DEPTH < depth)" by (auto split: if_splits)
  from prems(1) guard obtain equal where equal: "strict_json_equal former latter = Inr equal"
    by (auto split: sum.splits)
  with strict_json_equal_cases [OF prems(2,3)] have canon: "equal \<longleftrightarrow> canon former = canon latter"
    by (auto split: if_splits)
  show ?case
  proof (cases equal)
    case True
    with prems(1) guard equal canon show ?thesis by simp
  next
    case False
    note run = prems(1) [simplified semantic_leaf_difference.simps guard equal False if_False sum.case bool.case]
    consider (dicts) ls rs where "former = JDict ls" "latter = JDict rs"
      | (lists) ls rs where "former = JList ls" "latter = JList rs"
      | (others) b1 n1 m1 where "leaf_weight 0 (budget - 1) former = Inr (n1, b1)"
          "leaf_weight 0 b1 latter = Inr (m1, b)" "n = max n1 m1"
      using run by (cases former; cases latter) (auto split: sum.splits)
    then show ?thesis
    proof cases
      case dicts
      with run have rows: "row_differences (depth + 1) (budget - 1) (dict_rows ls rs) = Inr (n, b)" by simp
      have "list_all row_proper (dict_rows ls rs)" using prems(2,3) dicts dict_rows_proper by blast
      with "1.IH" guard equal False dicts rows
      have "0 \<le> n \<and> (n = 0 \<longleftrightarrow> list_all row_equal (dict_rows ls rs))" by auto
      moreover have "\<not> list_all row_equal (dict_rows ls rs)"
        using dict_rows_equal prems(2,3) dicts canon False by blast
      ultimately show ?thesis using canon False by simp
    next
      case lists
      with run obtain m where m: "row_differences (depth + 1) (budget - 1) (list_rows ls rs) = Inr (m, b)"
        and n: "n = (if length ls \<noteq> length rs then 1 else 0) + m" by (auto split: sum.splits)
      have "list_all row_proper (list_rows ls rs)" using prems(2,3) lists list_rows_proper by blast
      with "1.IH" guard equal False lists m
      have "0 \<le> m \<and> (m = 0 \<longleftrightarrow> list_all row_equal (list_rows ls rs))" by auto
      moreover have "length ls \<noteq> length rs \<or> \<not> list_all row_equal (list_rows ls rs)"
        using list_rows_equal lists canon False by blast
      ultimately show ?thesis using n canon False by auto
    next
      case others
      then show ?thesis using leaf_weight_positive(1) False canon by fastforce
    qed
  qed
next
  case (3 depth budget v rs)
  then show ?case using leaf_weight_positive(1) [of depth budget v] by (fastforce split: sum.splits)
next
  case (4 depth budget v w rs)
  then show ?case by (fastforce split: sum.splits)
qed simp

section \<open>The mismatch report\<close>

lemma within_depth_mono: "within_depth d v \<Longrightarrow> d \<le> d' \<Longrightarrow> within_depth d' v"
proof (induction v arbitrary: d d')
  case (JList xs)
  then show ?case by (fastforce simp: list_all_iff)
next
  case (JDict kvs)
  then show ?case by (fastforce simp: list_all_iff)
qed auto

lemma node_count_member: "v \<in> set vs \<Longrightarrow> node_count v \<le> sum_list (map node_count vs)"
  by (rule member_le_sum_list) (auto intro: order_trans [OF _ node_count_pos])

lemma valid_element: "valid_json (JList xs) \<Longrightarrow> x \<in> set xs \<Longrightarrow> valid_json x"
  using node_count_member [of x xs] within_depth_mono [of "MAX_JSON_DEPTH - 1" x MAX_JSON_DEPTH]
  by (auto simp: valid_json_def list_all_iff)

lemma valid_member: "valid_json (JDict kvs) \<Longrightarrow> map_of kvs k = Some v \<Longrightarrow> valid_json v"
  using node_count_member [of v "map snd kvs"] within_depth_mono [of "MAX_JSON_DEPTH - 1" v MAX_JSON_DEPTH]
  by (force simp: valid_json_def list_all_iff case_prod_unfold comp_def dest!: map_of_SomeD)

definition comparable :: "json \<times> json \<times> string list \<Rightarrow> bool" where
  "comparable = (\<lambda>(l, r, tokens). proper l \<and> proper r \<and> valid_json l \<and> valid_json r)"

definition equal_pair :: "json \<times> json \<times> string list \<Rightarrow> bool" where
  "equal_pair = (\<lambda>(l, r, tokens). canon l = canon r)"

lemma mismatch_keys_exact:
  assumes "mismatch_keys limit ls rs tokens keys paths stack = (paths', stack')"
    and "int (length paths) < limit"
    and "proper (JDict ls)" "proper (JDict rs)" "valid_json (JDict ls)" "valid_json (JDict rs)"
    and "list_all comparable stack"
  shows "int (length paths') \<le> limit \<and> list_all comparable stack' \<and>
    (paths' = [] \<longrightarrow> paths = [] \<and>
      (list_all equal_pair stack' \<longrightarrow> list_all equal_pair stack \<and>
        (\<forall>k \<in> set keys. \<exists>l r. map_of ls k = Some l \<and> map_of rs k = Some r \<and> canon l = canon r)))"
  using assms
proof (induction keys arbitrary: paths stack)
  case (Cons key keys)
  show ?case
  proof (cases "\<exists>l r. map_of ls key = Some l \<and> map_of rs key = Some r")
    case True
    then obtain l r where lr: "map_of ls key = Some l" "map_of rs key = Some r" by blast
    then have "comparable (l, r, tokens @ [key])"
      using Cons.prems proper_member valid_member by (auto simp: comparable_def)
    with Cons.prems(7) have "list_all comparable ((l, r, tokens @ [key]) # stack)" by simp
    moreover have "mismatch_keys limit ls rs tokens keys paths ((l, r, tokens @ [key]) # stack) =
        (paths', stack')" using Cons.prems(1) lr by simp
    ultimately show ?thesis
      using Cons.IH [OF _ Cons.prems(2-6)] lr by (fastforce simp: equal_pair_def)
  next
    case False
    then have "mismatch_keys limit ls rs tokens (key # keys) paths stack =
        (let paths1 = paths @ [pointer_text (tokens @ [key])] in
         if limit \<le> int (length paths1) then (paths1, stack)
         else mismatch_keys limit ls rs tokens keys paths1 stack)"
      by (auto split: option.splits)
    with Cons.prems(1) have run: "(let paths1 = paths @ [pointer_text (tokens @ [key])] in
         if limit \<le> int (length paths1) then (paths1, stack)
         else mismatch_keys limit ls rs tokens keys paths1 stack) = (paths', stack')" by simp
    show ?thesis
    proof (cases "limit \<le> int (length (paths @ [pointer_text (tokens @ [key])]))")
      case True
      with run Cons.prems show ?thesis by auto
    next
      case continue: False
      with run have next_run: "mismatch_keys limit ls rs tokens keys (paths @ [pointer_text (tokens @ [key])]) stack =
          (paths', stack')" by (simp add: Let_def)
      have "int (length paths') \<le> limit \<and> list_all comparable stack' \<and> paths' \<noteq> []"
        using Cons.IH [OF next_run _ Cons.prems(3-7)] continue by auto
      then show ?thesis by simp
    qed
  qed
qed simp


lemma mismatch_loop_exact:
  assumes "list_all comparable stack"
  shows "\<exists>ps. mismatch_loop limit visited paths stack = Inr ps \<and>
    (int (length paths) \<le> limit \<longrightarrow> int (length ps) \<le> limit) \<and>
    (0 < limit \<longrightarrow> ps = [] \<longrightarrow> paths = [] \<and> list_all equal_pair stack)"
  using assms
proof (induction "nat (MAX_JSON_NODES - visited)" arbitrary: visited paths stack rule: less_induct)
  case less
  let ?claim = "\<lambda>paths stack r. \<exists>ps. r = Inr ps \<and>
    (int (length paths) \<le> limit \<longrightarrow> int (length ps) \<le> limit) \<and>
    (0 < limit \<longrightarrow> ps = [] \<longrightarrow> paths = [] \<and> list_all equal_pair stack)"
  show ?case
  proof (cases stack)
    case (Cons item rest)
    obtain left right tokens where item: "item = (left, right, tokens)" by (cases item)
    have ok: "proper left" "proper right" "valid_json left" "valid_json right"
      and rest: "list_all comparable rest"
      using less.prems by (simp_all add: Cons item comparable_def)
    note equal = strict_json_equal_cases [of left right]
    show ?thesis
    proof (cases "int (length paths) < limit \<and> \<not> MAX_JSON_NODES < visited + 1")
      case False
      then show ?thesis by (auto simp: Cons item)
    next
      case go: True
      then have IH: "?claim p s (mismatch_loop limit (visited + 1) p s)" if "list_all comparable s" for p s
        by (intro less.hyps that) auto
      show ?thesis
      proof (cases "canon left = canon right")
        case True
        with go ok equal IH [OF rest, of paths] show ?thesis by (simp add: Cons item equal_pair_def)
      next
        case False
        with equal ok have unequal: "strict_json_equal left right = Inr False" by simp
        consider (dicts) ls rs where "left = JDict ls" "right = JDict rs"
          | (lists) ls rs where "left = JList ls" "right = JList rs"
          | (others) "mismatch_loop limit visited paths ((left, right, tokens) # rest) =
              mismatch_loop limit (visited + 1) (paths @ [pointer_text tokens]) rest"
          using go unequal by (cases left; cases right) simp_all
        then show ?thesis
        proof cases
          case dicts
          let ?keys = "rev (bytewise (map fst ls @ map fst rs))"
          obtain paths' stack' where keys: "mismatch_keys limit ls rs tokens ?keys paths rest = (paths', stack')"
            by fastforce
          with mismatch_keys_exact [OF keys] go ok dicts rest
          have step: "int (length paths') \<le> limit" "list_all comparable stack'"
            "paths' = [] \<Longrightarrow> list_all equal_pair stack' \<Longrightarrow> paths = [] \<and> list_all equal_pair rest \<and>
              (\<forall>k \<in> set ?keys. \<exists>l r. map_of ls k = Some l \<and> map_of rs k = Some r \<and> canon l = canon r)"
            by blast+
          have "\<not> (\<forall>k \<in> set ?keys. \<exists>l r. map_of ls k = Some l \<and> map_of rs k = Some r \<and> canon l = canon r)"
          proof
            assume all: "\<forall>k \<in> set ?keys. \<exists>l r. map_of ls k = Some l \<and> map_of rs k = Some r \<and> canon l = canon r"
            have "row_equal (case map_of ls k of None \<Rightarrow> SOLE (the (map_of rs k))
                | Some l \<Rightarrow> (case map_of rs k of None \<Rightarrow> SOLE l | Some r \<Rightarrow> PAIR l r))"
              if "k \<in> fst ` set ls \<union> fst ` set rs" for k
            proof -
              have "k \<in> set ?keys" using that by simp
              with all obtain l r where "map_of ls k = Some l" "map_of rs k = Some r" "canon l = canon r"
                by blast
              then show ?thesis by simp
            qed
            then have "list_all row_equal (dict_rows ls rs)"
              by (simp add: dict_rows_def list_all_iff ball_Un)
            with dict_rows_equal ok dicts False show False by blast
          qed
          moreover have "mismatch_loop limit visited paths stack = mismatch_loop limit (visited + 1) paths' stack'"
            using go unequal keys by (simp add: Cons item dicts)
          ultimately show ?thesis using IH [OF step(2), of paths'] step(1,3) by auto
        next
          case lists
          let ?paths = "if length ls \<noteq> length rs then paths @ [pointer_text tokens] else paths"
          let ?items = "map (\<lambda>i. (ls ! i, rs ! i, tokens @ [decimal i])) [0..<min (length ls) (length rs)]"
          have "list_all comparable (?items @ rest)"
            using ok rest lists valid_element by (auto simp: list_all_iff comparable_def)
          from IH [OF this, of ?paths] have "?claim ?paths (?items @ rest)
            (mismatch_loop limit (visited + 1) ?paths (?items @ rest))" .
          moreover have "length ls = length rs \<Longrightarrow> \<not> list_all equal_pair ?items"
            using False canon_list_eq_iff [of ls rs] lists
            by (simp add: list_all_length equal_pair_def del: canon.simps)
          moreover have "mismatch_loop limit visited paths stack =
            (if length ls \<noteq> length rs \<and> limit \<le> int (length ?paths) then Inr ?paths
             else mismatch_loop limit (visited + 1) ?paths (?items @ rest))"
            using go unequal by (simp add: Cons item lists Let_def)
          ultimately show ?thesis using go by (auto split: if_splits)
        next
          case others
          with IH [OF rest, of "paths @ [pointer_text tokens]"] go show ?thesis by (auto simp: Cons item)
        qed
      qed
    qed
  qed simp
qed


text \<open>C29: comparing two valid configurations for the report always answers, within the traversal bound
  and with at most \<open>limit\<close> paths, and reports no mismatch exactly when they are the same configuration.\<close>

theorem mismatch_report_exact:
  assumes "proper expected" "proper observed" "valid_json expected" "valid_json observed" and "0 < limit"
  shows "\<exists>paths. mismatch_paths expected observed limit = Inr paths \<and> int (length paths) \<le> limit \<and>
    (paths = [] \<longleftrightarrow> canon expected = canon observed)"
proof -
  obtain paths where paths: "mismatch_paths expected observed limit = Inr paths" "int (length paths) \<le> limit"
    "paths = [] \<Longrightarrow> canon expected = canon observed"
    using mismatch_loop_exact [of "[(expected, observed, [])]" limit 0 "[]"] assms
    by (auto simp: mismatch_paths_def comparable_def equal_pair_def)
  moreover have "paths = []" if "canon expected = canon observed"
    using that paths(1) assms strict_json_equal_cases [OF assms(1,2)]
    by (simp add: mismatch_paths_def MAX_JSON_NODES_def)
  ultimately show ?thesis by blast
qed

text \<open>C28: the semantic leaf count of a change is never negative and is zero exactly when the change changes
  nothing: a replacement by an equal value counts as no change whatever the order of its keys, and no
  change of type, member, element or length escapes the count.\<close>

theorem leaf_count_detects_changes:
  assumes "proper former" and "proper latter" and "difference_of former latter = Inr n"
  shows "0 \<le> n \<and> (n = 0 \<longleftrightarrow> canon former = canon latter)"
  using assms difference_zero_iff(1) by (fastforce simp: difference_of_def and_then_ok_iff)

section \<open>Compiled patches\<close>

lemma overlapping_sym: "overlapping p q \<longleftrightarrow> overlapping q p"
  by (auto simp: overlapping_def Let_def min.commute)

lemma disjoint_paths_iff: "disjoint_paths paths \<longleftrightarrow> sorted_wrt (\<lambda>p q. \<not> overlapping p q) paths"
  by (induction paths) (auto simp: list_ex_iff)

lemma replace_exact:
  assumes "apply_one py doc op = Inr (doc', eff)" and "pa_operation op = REPLACE" and "pa_tokens op \<noteq> []"
    and "plain_path (pa_tokens op)"
  shows "resolve py (pa_tokens op) doc = Some (pe_previous_value eff)"
    and "resolve py (pa_tokens op) doc' = Some (pa_value op)"
    and "plain_path q \<Longrightarrow> \<not> overlapping (pa_tokens op) q \<Longrightarrow> resolve py q doc' = resolve py q doc"
proof -
  let ?p = "butlast (pa_tokens op)" and ?t = "last (pa_tokens op)"
  from assms(1) obtain parent parent' where parent: "resolve py ?p doc = Some parent"
    "apply_in_parent py op parent = Inr (parent', eff)" "resolve py ?p doc' = Some parent'"
    by (rule apply_oneD)
  have split: "resolve py (pa_tokens op) d = (case resolve py ?p d of None \<Rightarrow> None
      | Some w \<Rightarrow> resolve py [?t] w)" for d
    using resolve_append [of py ?p "[?t]" d] assms(3) by simp
  have plain: "plain ?t" using assms(3,4) by (simp add: plain_path_def list_all_iff)
  have target: "resolve py [?t] parent = Some (pe_previous_value eff) \<and>
      resolve py [?t] parent' = Some (pa_value op) \<and>
      (\<forall>a q'. a \<noteq> ?t \<longrightarrow> plain a \<longrightarrow> resolve py (a # q') parent' = resolve py (a # q') parent)"
  proof (cases "\<exists>xs. parent = JList xs")
    case True
    then obtain xs where xs: "parent = JList xs" by blast
    from apply_in_list [OF parent(2) [unfolded xs]] assms(2) obtain i where
      i: "parent' = JList (xs[i := pa_value op])" "list_index py ?t (length xs) False = Inr i"
        "i < length xs" "pe_previous_value eff = xs ! i"
      by (auto simp: list_result_def split: if_splits)
    have "xs[i := w] ! j = xs ! j" if "list_index py a (length xs) False = Inr j" "a \<noteq> ?t" "plain a" for a j w
      using list_index_decimal [OF that(1,3)] list_index_decimal [OF i(2) plain] that(2)
      by (cases "j = i") auto
    with xs i show ?thesis by (auto split: sum.splits)
  next
    case False
    with apply_in_parent_container [OF parent(2)] obtain kvs where kvs: "parent = JDict kvs" by blast
    from apply_in_dict [OF parent(2) [unfolded kvs]] assms(2) kvs show ?thesis by auto
  qed
  then show "resolve py (pa_tokens op) doc = Some (pe_previous_value eff)"
    and "resolve py (pa_tokens op) doc' = Some (pa_value op)"
    using parent by (simp_all only: split option.case)
  assume q: "plain_path q" "\<not> overlapping (pa_tokens op) q"
  show "resolve py q doc' = resolve py q doc"
  proof (cases "overlapping ?p q")
    case True
    from beside [OF this q(2) assms(3)] obtain a q' where a: "q = ?p @ a # q'" "a \<noteq> ?t" by blast
    with q(1) have "plain a" by (simp add: plain_path_def)
    with a target parent show ?thesis by (simp only: resolve_append option.case) blast
  next
    case False
    with assms q show ?thesis by (intro apply_one_frame)
  qed
qed

lemma replacements:
  assumes "apply_all py ops doc = Inr (result, effs)"
    and "\<forall>op \<in> set ops. pa_operation op = REPLACE \<and> pa_tokens op \<noteq> [] \<and> plain_path (pa_tokens op)"
    and "sorted_wrt (\<lambda>p q. \<not> overlapping p q) (map pa_tokens ops)"
  shows "(\<forall>op \<in> set ops. resolve py (pa_tokens op) result = Some (pa_value op)) \<and>
    (\<forall>q. plain_path q \<longrightarrow> (\<forall>op \<in> set ops. \<not> overlapping (pa_tokens op) q) \<longrightarrow>
      resolve py q result = resolve py q doc)"
  using assms
proof (induction ops arbitrary: doc effs)
  case (Cons op ops)
  from Cons.prems(1) obtain doc' eff effs' where one: "apply_one py doc op = Inr (doc', eff)"
    and rest: "apply_all py ops doc' = Inr (result, effs')"
    by (auto simp: and_then_ok_iff)
  from Cons.IH [OF rest] Cons.prems(2,3) have IH:
    "\<forall>op \<in> set ops. resolve py (pa_tokens op) result = Some (pa_value op)"
    "\<And>q. plain_path q \<Longrightarrow> \<forall>op \<in> set ops. \<not> overlapping (pa_tokens op) q \<Longrightarrow>
      resolve py q result = resolve py q doc'" by auto
  have apart: "\<forall>op' \<in> set ops. \<not> overlapping (pa_tokens op') (pa_tokens op)"
    using Cons.prems(3) overlapping_sym by auto
  note exact = replace_exact [OF one]
  have "resolve py (pa_tokens op) result = Some (pa_value op)"
    using IH(2) [OF _ apart] exact(2) Cons.prems(2) by simp
  with IH exact(3) Cons.prems(2) show ?case by simp
qed simp

lemma canonical_value_okD: "canonical_value py (Some v) = Inr w \<Longrightarrow> w = v \<and> valid_json v"
  by (auto simp: canonical_value_def and_then_ok_iff clone_ok_iff split: if_splits)

lemma canonical_operation_okD:
  assumes "canonical_operation py raw = Inr op"
  shows "parse_pointer (pa_path op) (Some (pa_operation op)) = Inr (pa_tokens op) \<and>
    (pa_value_present op \<longleftrightarrow> pa_operation op \<noteq> REMOVE) \<and>
    (pa_value_present op \<longrightarrow> valid_json (pa_value op))"
proof (cases raw)
  case (JDict kvs)
  from assms obtain v where v: "canonical_value py (map_of kvs ''value'') = Inr v"
    and op: "pa_value_present op \<longleftrightarrow> map_of kvs ''value'' \<noteq> None" "pa_value op = v"
      "parse_pointer (pa_path op) (Some (pa_operation op)) = Inr (pa_tokens op)"
      "\<not> (pa_operation op = REMOVE \<and> map_of kvs ''value'' \<noteq> None)"
      "\<not> (pa_operation op \<noteq> REMOVE \<and> map_of kvs ''value'' = None)"
    unfolding canonical_operation_def JDict json.case Let_def
    by (elim and_then_okE) (rule that, assumption, auto)
  then show ?thesis using canonical_value_okD by (cases "map_of kvs ''value''") auto
qed (use assms in \<open>simp_all add: canonical_operation_def\<close>)

lemma collect_set: "collect f xs = Inr ys \<Longrightarrow> y \<in> set ys \<Longrightarrow> \<exists>x \<in> set xs. f x = Inr y"
  by (auto simp: collect_ok_iff list_all2_conv_all_nth in_set_conv_nth) (metis nth_mem)

text \<open>What \<open>canonicalize_patch\<close> lets through.\<close>

lemma canonicalize_patch_okD:
  assumes "canonicalize_patch py operations = Inr ops"
  shows "1 \<le> length ops \<and> length ops \<le> 16 \<and> distinct (map pa_operation_id ops) \<and>
    sorted_wrt (\<lambda>p q. \<not> overlapping p q) (map pa_tokens ops)"
    and "op \<in> set ops \<Longrightarrow> pa_path op = pointer_text (pa_tokens op) \<and>
      admissible (Some (pa_operation op)) (pa_tokens op) \<and>
      (pa_value_present op \<longleftrightarrow> pa_operation op \<noteq> REMOVE) \<and>
      (pa_value_present op \<longrightarrow> valid_json (pa_value op))"
proof -
  from assms obtain raws where raws: "operations = JList raws"
    by (cases operations) (simp_all add: canonicalize_patch_def)
  with assms have facts: "1 \<le> length raws" "length raws \<le> 16" "collect (canonical_operation py) raws = Inr ops"
    "distinct (map pa_operation_id ops)" "disjoint_paths (map pa_tokens ops)"
    by (auto simp: canonicalize_patch_def and_then_ok_iff MIN_PATCH_OPERATIONS_def MAX_PATCH_OPERATIONS_def
        split: if_splits)
  have "length ops = length raws" using facts(3) by (auto simp: collect_ok_iff dest: list_all2_lengthD)
  with facts show "1 \<le> length ops \<and> length ops \<le> 16 \<and> distinct (map pa_operation_id ops) \<and>
    sorted_wrt (\<lambda>p q. \<not> overlapping p q) (map pa_tokens ops)"
    by (simp add: disjoint_paths_iff)
  assume "op \<in> set ops"
  with facts(3) obtain raw where "canonical_operation py raw = Inr op" by (auto dest: collect_set)
  from canonical_operation_okD [OF this] show "pa_path op = pointer_text (pa_tokens op) \<and>
      admissible (Some (pa_operation op)) (pa_tokens op) \<and>
      (pa_value_present op \<longleftrightarrow> pa_operation op \<noteq> REMOVE) \<and>
      (pa_value_present op \<longrightarrow> valid_json (pa_value op))"
    by (auto simp: pointer_roundtrip)
qed

lemma compile_okD:
  assumes "compile_dashboard_patch py configuration operations = Inr c"
  shows "is_dict configuration" "valid_json configuration"
    "canonicalize_patch py operations = Inr (pc_operations c)"
    "apply_all py (pc_operations c) configuration = Inr (pc_resulting_configuration c, pc_effects c)"
    "pc_semantic_leaf_change_count c = sum_list (map pe_leaf_change_count (pc_effects c))"
    "pc_semantic_leaf_change_count c \<le> 256"
    "serialized_size py True (pc_resulting_configuration c) = Inr (pc_resulting_size_bytes c)"
    "serialized_size py True configuration =
      Inr (pc_resulting_size_bytes c - pc_configuration_growth_bytes c)"
    "pc_resulting_size_bytes c \<le> 40000" "pc_configuration_growth_bytes c \<le> 16384"
    "engineering_sha256 py configuration = Inr (pc_preread_sha256 c)"
    "engineering_sha256 py (pc_resulting_configuration c) = Inr (pc_resulting_sha256 c)"
    "upstream_config_hash py (pc_resulting_configuration c) = Inr (pc_resulting_upstream_config_hash c)"
  using assms
  by (auto simp: compile_dashboard_patch_def Let_def and_then_ok_iff clone_ok_iff case_prod_unfold
      validate_json_value_cases MAX_SEMANTIC_LEAF_CHANGES_def MAX_RESULT_CONFIG_BYTES_def
      MAX_CONFIG_GROWTH_BYTES_def split: if_splits)

lemma effect_of_simps [simp]:
  "pe_operation_id (effect_of op p v q w n) = pa_operation_id op"
  "pe_operation (effect_of op p v q w n) = pa_operation op" "pe_path (effect_of op p v q w n) = pa_path op"
  "pe_leaf_change_count (effect_of op p v q w n) = n"
  by (simp_all add: effect_of_def)

lemma apply_in_parent_identity:
  assumes "apply_in_parent py op parent = Inr (parent', eff)"
  shows "pe_operation_id eff = pa_operation_id op \<and> pe_path eff = pa_path op"
  using assms apply_in_parent_container [OF assms]
  by (cases "pa_operation op")
    (auto simp: apply_in_parent_def apply_add_def apply_replace_def apply_remove_def member_at_def
      and_then_ok_iff Let_def split: option.splits position.splits if_splits)

lemma apply_all_identity:
  "apply_all py ops doc = Inr (result, effs) \<Longrightarrow>
   map pe_operation_id effs = map pa_operation_id ops \<and> map pe_path effs = map pa_path ops"
  by (induction ops arbitrary: doc effs)
    (auto simp: and_then_ok_iff dest!: apply_in_parent_identity elim!: apply_oneD)

text \<open>C26: a compiled patch is within its bounds: 1 to 16 operations with distinct ids at paths none of which
  contains another, each path the canonical rendering of admissible tokens, a value exactly where one
  belongs, one effect per operation in order, at most 256 leaf changes, a result of at most 40000 bytes
  that grew by at most 16384, and digests of exactly the configuration read and the configuration the
  operations produce.\<close>

theorem compiled_patch_bounds:
  assumes "compile_dashboard_patch py configuration operations = Inr c"
  shows "1 \<le> length (pc_operations c) \<and> length (pc_operations c) \<le> 16 \<and>
    distinct (map pa_operation_id (pc_operations c)) \<and>
    sorted_wrt (\<lambda>p q. \<not> overlapping p q) (map pa_tokens (pc_operations c)) \<and>
    list_all (\<lambda>op. pa_path op = pointer_text (pa_tokens op) \<and>
      admissible (Some (pa_operation op)) (pa_tokens op) \<and>
      (pa_value_present op \<longleftrightarrow> pa_operation op \<noteq> REMOVE)) (pc_operations c) \<and>
    map pe_path (pc_effects c) = map pa_path (pc_operations c) \<and>
    sum_list (map pe_leaf_change_count (pc_effects c)) \<le> 256 \<and>
    serialized_size py True (pc_resulting_configuration c) = Inr (pc_resulting_size_bytes c) \<and>
    pc_resulting_size_bytes c \<le> 40000 \<and> pc_configuration_growth_bytes c \<le> 16384 \<and>
    serialized_size py True configuration =
      Inr (pc_resulting_size_bytes c - pc_configuration_growth_bytes c) \<and>
    engineering_sha256 py configuration = Inr (pc_preread_sha256 c) \<and>
    engineering_sha256 py (pc_resulting_configuration c) = Inr (pc_resulting_sha256 c)"
proof -
  note c = compile_okD [OF assms]
  from canonicalize_patch_okD [OF c(3)] have "list_all (\<lambda>op. pa_path op = pointer_text (pa_tokens op) \<and>
      admissible (Some (pa_operation op)) (pa_tokens op) \<and>
      (pa_value_present op \<longleftrightarrow> pa_operation op \<noteq> REMOVE)) (pc_operations c)"
    by (simp add: list_all_iff)
  with c canonicalize_patch_okD(1) [OF c(3)] apply_all_identity [OF c(4)] show ?thesis by simp
qed


section \<open>Rejected operations\<close>

lemma serialized_size_error: "serialized_size py b v = Inl e \<Longrightarrow> e = PatchValidationError"
  by (auto simp: serialized_size_def canonical_json_bytes_def validate_json_value_cases and_then_def
      split: sum.splits if_splits)

lemma canonical_value_error: "canonical_value py raw = Inl e \<Longrightarrow> e = PatchValidationError"
  by (auto simp: canonical_value_def clone_json_def validate_json_value_cases and_then_def
      split: option.splits sum.splits if_splits dest: serialized_size_error)

lemma decode_token_error: "decode_token s = Inl e \<Longrightarrow> e = PatchValidationError"
  by (induction s rule: decode_token.induct) (auto simp: and_then_def split: if_splits list.splits sum.splits)

lemma collect_error: "collect f xs = Inl e \<Longrightarrow> \<exists>x \<in> set xs. f x = Inl e"
  by (induction xs) (auto simp: and_then_def split: sum.splits)

lemma check_tokens_error: "check_tokens b tokens = Inl e \<Longrightarrow> e = PatchValidationError"
  by (induction b tokens rule: check_tokens.induct) (auto split: if_splits)

lemma parse_pointer_error: "parse_pointer path operation = Inl e \<Longrightarrow> e = PatchValidationError"
  by (auto simp: parse_pointer_def Let_def and_then_def split: if_splits sum.splits
      dest!: collect_error dest: decode_token_error check_tokens_error)


section \<open>Examples\<close>

definition sample_python :: python where
  "sample_python = \<lparr>float_text = (\<lambda>x. ''0.5''), sha256_hex = (\<lambda>s. decimal (length s)),
     digit_class = (\<lambda>n. if n = 178 then Some None else if n = 1633 then Some (Some 1) else None)\<rparr>"

definition raw_operation :: "string \<Rightarrow> string \<Rightarrow> string \<Rightarrow> json option \<Rightarrow> json" where
  "raw_operation operation_id kind path v = JDict
     ([(''operation_id'', JStr operation_id), (''operation'', JStr kind), (''path'', JStr path)] @
      (case v of None \<Rightarrow> [] | Some w \<Rightarrow> [(''value'', w)]))"

definition sample_patch :: json where
  "sample_patch = JList [raw_operation ''title'' ''replace'' ''/title'' (Some (JStr ''New'')),
     raw_operation ''second'' ''replace'' ''/views/1'' (Some (JInt 8))]"

definition sample_operation :: "patch_kind \<Rightarrow> string list \<Rightarrow> json \<Rightarrow> patch_operation" where
  "sample_operation kind tokens v = \<lparr>pa_operation_id = ''one'', pa_operation = kind,
     pa_path = pointer_text tokens, pa_tokens = tokens, pa_value_present = (kind \<noteq> REMOVE), pa_value = v\<rparr>"

definition sample_compilation :: patch_compilation where
  "sample_compilation = projr (compile_dashboard_patch sample_python sample_configuration sample_patch)"

lemma sample_compiled:
  "compile_dashboard_patch sample_python sample_configuration sample_patch = Inr sample_compilation"
proof -
  have "\<not> isl (compile_dashboard_patch sample_python sample_configuration sample_patch)" by code_simp
  then show ?thesis by (simp add: sample_compilation_def)
qed



lemma samples_valid:
  "proper sample_configuration" "proper reordered_configuration" "valid_json sample_configuration"
  "valid_json reordered_configuration" "canon sample_configuration = canon reordered_configuration"
  by code_simp+

theorem mismatch_report_exact_witness:
  "mismatch_paths sample_configuration reordered_configuration 32 = Inr []"
  using mismatch_report_exact [OF samples_valid(1-4), of 32] samples_valid(5) by auto

theorem leaf_count_detects_changes_witness:
  "\<exists>n. difference_of (JInt 1) (JStr ''1'') = Inr n \<and> n \<noteq> 0"
proof -
  have "\<not> isl (difference_of (JInt 1) (JStr ''1''))" by code_simp
  then obtain n where "difference_of (JInt 1) (JStr ''1'') = Inr n"
    by (cases "difference_of (JInt 1) (JStr ''1'')") simp_all
  with leaf_count_detects_changes [OF _ _ this] show ?thesis by simp
qed

theorem compiled_patch_bounds_witness:
  "sum_list (map pe_leaf_change_count (pc_effects sample_compilation)) \<le> 256"
  using compiled_patch_bounds [OF sample_compiled] by blast


definition incomplete_operation :: json where
  "incomplete_operation = JDict [(''operation_id'', JStr ''a''), (''operation'', JStr ''add''), (''value'', JNull)]"


text \<open>The incomplete operation makes the compiler raise \<open>KeyError\<close>.\<close>

lemma incomplete_operation_escapes:
  "compile_dashboard_patch sample_python sample_configuration (JList [incomplete_operation]) = Inl BuiltinKeyError"
  by code_simp

text \<open>The Arabic digit one (U+0661) is a second spelling of the position 1: the patch below has two
  operations on one list element, although duplicate paths are prohibited.\<close>

definition arabic_one :: string where "arabic_one = [char_of (217 :: nat), char_of (161 :: nat)]"

lemma one_element_replaced_twice:
  "map pe_previous_value (pc_effects (projr (compile_dashboard_patch sample_python sample_configuration
     (JList [raw_operation ''first'' ''replace'' ''/views/1'' (Some (JInt 8)),
             raw_operation ''second'' ''replace'' (''/views/'' @ arabic_one) (Some (JInt 9))])))) =
   [JInt 7, JInt 8]"
  by code_simp

text \<open>A superscript two (U+00B2) is a digit for \<open>isdigit\<close> and not for \<open>int\<close>, whose exception escapes.\<close>

lemma superscript_position_escapes:
  "compile_dashboard_patch sample_python sample_configuration
     (JList [raw_operation ''first'' ''remove'' (''/views/'' @ [char_of (194 :: nat), char_of (178 :: nat)]) None]) =
   Inl BuiltinValueError"
  by code_simp

end
