(* ===== verification/Task_Models.thy ===== *)
theory Task_Models
  imports Json_Values "HOL-Library.List_Lexorder" "HOL-Library.Char_ord"
begin

text \<open>
  \<open>governance/task_models.py\<close>: the durable execution task of the governance service, its event history,
  the transition table, validation, \<open>append_event\<close> and the materialisation of a history.

  Field values are JSON values; \<open>JNull\<close> is \<open>None\<close>.  What Python computes on values outside the JSON
  domain is passed in as \<open>coercions\<close>: \<open>str\<close>, \<open>int\<close>, \<open>dict\<close> and \<open>list\<close> of values that are not already of
  that type, \<open>datetime.fromisoformat\<close> (\<open>None\<close> when it raises, \<open>Some None\<close> for a naive time, otherwise the
  instant in microseconds) and the class name of a foreign object.  A change whose key is the name of a
  method of the class is outside the model: no caller makes one.
\<close>

section \<open>Python values\<close>

datatype task_error = TaskValueError | TaskTypeError | TaskKeyError

type_synonym dict = "(string \<times> json) list"

record coercions =
  str_of :: "json \<Rightarrow> string"
  int_of :: "json \<Rightarrow> task_error + int"
  dict_of :: "json \<Rightarrow> task_error + dict"
  list_of :: "json \<Rightarrow> task_error + json list"
  iso_time :: "string \<Rightarrow> int option option"
  class_name :: string

fun truthy :: "json \<Rightarrow> bool" where
  "truthy JNull = False"
| "truthy (JBool b) = b"
| "truthy (JInt i) = (i \<noteq> 0)"
| "truthy (JFloat x) = (case x of ZERO s \<Rightarrow> False | _ \<Rightarrow> True)"
| "truthy (JStr s) = (s \<noteq> [])"
| "truthy (JList xs) = (xs \<noteq> [])"
| "truthy (JDict kvs) = (kvs \<noteq> [])"
| "truthy JOther = True"

fun to_str :: "coercions \<Rightarrow> json \<Rightarrow> string" where
  "to_str py (JStr s) = s" | "to_str py v = str_of py v"

fun to_int :: "coercions \<Rightarrow> json \<Rightarrow> task_error + int" where
  "to_int py (JInt i) = Inr i" | "to_int py v = int_of py v"

fun to_dict :: "coercions \<Rightarrow> json \<Rightarrow> task_error + dict" where
  "to_dict py (JDict kvs) = Inr kvs" | "to_dict py v = dict_of py v"

fun to_list :: "coercions \<Rightarrow> json \<Rightarrow> task_error + json list" where
  "to_list py (JList xs) = Inr xs" | "to_list py v = list_of py v"

text \<open>\<open>dict(value or {})\<close>, and \<open>[dict(item) for item in list(value or [])]\<close>.\<close>

definition dict_or_empty :: "coercions \<Rightarrow> json \<Rightarrow> task_error + dict" where
  "dict_or_empty py v = (if truthy v then to_dict py v else Inr [])"

definition dict_list :: "coercions \<Rightarrow> json \<Rightarrow> task_error + dict list" where
  "dict_list py v = and_then (if truthy v then to_list py v else Inr []) (collect (to_dict py))"

definition dict_get :: "dict \<Rightarrow> string \<Rightarrow> json" where
  "dict_get d k = (case map_of d k of Some v \<Rightarrow> v | None \<Rightarrow> JNull)"

definition dict_item :: "dict \<Rightarrow> string \<Rightarrow> task_error + json" where
  "dict_item d k = (case map_of d k of Some v \<Rightarrow> Inr v | None \<Rightarrow> Inl TaskKeyError)"

text \<open>\<open>d.update(e)\<close>; a dict display or comprehension is the update of the empty dict.\<close>

definition dict_update :: "dict \<Rightarrow> dict \<Rightarrow> dict" where
  "dict_update d e = fold (\<lambda>(k, v). AList.update k v) e d"

text \<open>The first \<open>n\<close> code points of a string, which is given by its UTF-8 bytes, and their number.\<close>

definition continuation_byte :: "char \<Rightarrow> bool" where
  "continuation_byte c \<longleftrightarrow> 128 \<le> (of_char c :: nat) \<and> (of_char c :: nat) < 192"

fun take_points :: "nat \<Rightarrow> string \<Rightarrow> string" where
  "take_points n [] = []"
| "take_points n (c # cs) =
     (if continuation_byte c then c # take_points n cs
      else case n of 0 \<Rightarrow> [] | Suc m \<Rightarrow> c # take_points m cs)"

definition count_points :: "string \<Rightarrow> nat" where
  "count_points s = length (filter (\<lambda>c. \<not> continuation_byte c) s)"

text \<open>
  \<open>==\<close> on JSON values: numbers compare by value, \<open>True\<close> and \<open>1\<close> included, and dicts regardless of the
  order of their items.  A NaN is the same object on both sides wherever the code compares.
\<close>

fun loose_float :: "py_float \<Rightarrow> json" where
  "loose_float (ZERO s) = JInt 0"
| "loose_float (FINITE q) = (if of_int \<lfloor>q\<rfloor> = q then JInt \<lfloor>q\<rfloor> else JFloat (FINITE q))"
| "loose_float x = JFloat x"

fun loose :: "json \<Rightarrow> json" where
  "loose (JBool b) = JInt (if b then 1 else 0)"
| "loose (JFloat x) = loose_float x"
| "loose (JList xs) = JList (map loose xs)"
| "loose (JDict kvs) = JDict (sort_key fst (map (\<lambda>(k, v). (k, loose v)) kvs))"
| "loose v = v"

definition loose_equal :: "json \<Rightarrow> json \<Rightarrow> bool" where
  "loose_equal v w \<longleftrightarrow> loose v = loose w"

section \<open>States\<close>

definition TASK_SCHEMA_VERSION :: int where "TASK_SCHEMA_VERSION = 1"
definition MAX_TASK_EVENTS :: nat where "MAX_TASK_EVENTS = 512"
definition MAX_PROVIDER_ATTEMPTS :: nat where "MAX_PROVIDER_ATTEMPTS = 32"
definition MAX_TASK_TEXT :: nat where "MAX_TASK_TEXT = 320"

datatype execution_task_state =
    CREATED
  | PREFLIGHT
  | DISPATCHING
  | OBSERVING
  | VERIFYING
  | SUCCEEDED_VERIFIED
  | FAILED_PRE_DISPATCH
  | FAILED_POST_DISPATCH
  | MANUAL_REVIEW_REQUIRED
  | CANCELLED_PRE_DISPATCH
  | WAITING_FOR_LOCK
  | COMPENSATING
  | PARTIAL_APPLICATION
  | COMPENSATED
  | SUPERSEDED

fun task_state_value :: "execution_task_state \<Rightarrow> string" where
  "task_state_value CREATED = ''created''"
| "task_state_value PREFLIGHT = ''preflight''"
| "task_state_value DISPATCHING = ''dispatching''"
| "task_state_value OBSERVING = ''observing''"
| "task_state_value VERIFYING = ''verifying''"
| "task_state_value SUCCEEDED_VERIFIED = ''succeeded_verified''"
| "task_state_value FAILED_PRE_DISPATCH = ''failed_pre_dispatch''"
| "task_state_value FAILED_POST_DISPATCH = ''failed_post_dispatch''"
| "task_state_value MANUAL_REVIEW_REQUIRED = ''manual_review_required''"
| "task_state_value CANCELLED_PRE_DISPATCH = ''cancelled_pre_dispatch''"
| "task_state_value WAITING_FOR_LOCK = ''waiting_for_lock''"
| "task_state_value COMPENSATING = ''compensating''"
| "task_state_value PARTIAL_APPLICATION = ''partial_application''"
| "task_state_value COMPENSATED = ''compensated''"
| "task_state_value SUPERSEDED = ''superseded''"

definition ALL_TASK_STATES :: "execution_task_state list" where
  "ALL_TASK_STATES =
     [CREATED, PREFLIGHT, DISPATCHING, OBSERVING, VERIFYING, SUCCEEDED_VERIFIED, FAILED_PRE_DISPATCH,
      FAILED_POST_DISPATCH, MANUAL_REVIEW_REQUIRED, CANCELLED_PRE_DISPATCH, WAITING_FOR_LOCK,
      COMPENSATING, PARTIAL_APPLICATION, COMPENSATED, SUPERSEDED]"

text \<open>\<open>ExecutionTaskState(text)\<close>.\<close>

definition task_state_of :: "string \<Rightarrow> task_error + execution_task_state" where
  "task_state_of s =
     (case find (\<lambda>st. task_state_value st = s) ALL_TASK_STATES of
        Some st \<Rightarrow> Inr st | None \<Rightarrow> Inl TaskValueError)"

definition TERMINAL_TASK_STATES :: "execution_task_state list" where
  "TERMINAL_TASK_STATES =
     [SUCCEEDED_VERIFIED, FAILED_PRE_DISPATCH, FAILED_POST_DISPATCH, MANUAL_REVIEW_REQUIRED,
      CANCELLED_PRE_DISPATCH]"

definition RESERVED_TASK_STATES :: "execution_task_state list" where
  "RESERVED_TASK_STATES =
     [WAITING_FOR_LOCK, COMPENSATING, PARTIAL_APPLICATION, COMPENSATED, SUPERSEDED]"

definition SINGLE_DISPATCH_OPERATIONS :: "string list" where
  "SINGLE_DISPATCH_OPERATIONS =
     [''create_full_backup'', ''controlled_reload'', ''restart_addon'', ''restart_home_assistant'',
      ''set_input_boolean_state'', ''set_input_select_option'', ''update_dashboard'']"

definition TERMINAL_OBSERVATION_EVENTS :: "string list" where
  "TERMINAL_OBSERVATION_EVENTS = [''duplicate_apply_prevented'', ''task_cancellation_rejected'']"

fun ALLOWED_TASK_TRANSITIONS :: "execution_task_state \<Rightarrow> execution_task_state list" where
  "ALLOWED_TASK_TRANSITIONS CREATED = [PREFLIGHT, FAILED_PRE_DISPATCH, CANCELLED_PRE_DISPATCH]"
| "ALLOWED_TASK_TRANSITIONS PREFLIGHT =
     [DISPATCHING, SUCCEEDED_VERIFIED, FAILED_PRE_DISPATCH, CANCELLED_PRE_DISPATCH]"
| "ALLOWED_TASK_TRANSITIONS DISPATCHING =
     [OBSERVING, VERIFYING, FAILED_POST_DISPATCH, MANUAL_REVIEW_REQUIRED]"
| "ALLOWED_TASK_TRANSITIONS OBSERVING =
     [VERIFYING, SUCCEEDED_VERIFIED, FAILED_POST_DISPATCH, MANUAL_REVIEW_REQUIRED]"
| "ALLOWED_TASK_TRANSITIONS VERIFYING =
     [OBSERVING, SUCCEEDED_VERIFIED, FAILED_POST_DISPATCH, MANUAL_REVIEW_REQUIRED]"
| "ALLOWED_TASK_TRANSITIONS _ = []"

section \<open>Timestamps and bounds\<close>

fun parse_task_timestamp :: "coercions \<Rightarrow> json \<Rightarrow> task_error + int" where
  "parse_task_timestamp py (JStr s) =
     (if s = [] then Inl TaskValueError
      else case iso_time py s of
          None \<Rightarrow> Inl TaskValueError
        | Some None \<Rightarrow> Inl TaskValueError
        | Some (Some t) \<Rightarrow> Inr t)"
| "parse_task_timestamp py v = Inl TaskValueError"

definition A_DAY :: int where "A_DAY = 24 * 60 * 60 * 1000000"

function bounded :: "coercions \<Rightarrow> nat \<Rightarrow> json \<Rightarrow> json" where
  "bounded py depth v =
     (if 4 < depth then JNull
      else case v of
          JStr s \<Rightarrow> JStr (take_points MAX_TASK_TEXT s)
        | JList xs \<Rightarrow> JList (map (bounded py (depth + 1)) (take 32 xs))
        | JDict kvs \<Rightarrow>
            JDict (dict_update []
              (map (\<lambda>(k, item). (take_points 80 k, bounded py (depth + 1) item)) (take 64 kvs)))
        | JOther \<Rightarrow> JStr (take_points MAX_TASK_TEXT (class_name py))
        | _ \<Rightarrow> v)"
  by pat_completeness auto
termination
  by (relation "measure (\<lambda>(py, depth, v). 5 - depth)") auto

declare bounded.simps [simp del]

section \<open>Events\<close>

record execution_task_event =
  ev_sequence :: int
  ev_event_type :: string
  ev_occurred_at :: string
  ev_state_before :: "string option"
  ev_state_after :: string
  ev_changes :: dict
  ev_request_id :: "string option"

definition require_single_dispatch_history ::
    "json \<Rightarrow> execution_task_event list \<Rightarrow> dict list \<Rightarrow> task_error + unit" where
  "require_single_dispatch_history operation events provider_attempts =
     (case operation of
        JStr name \<Rightarrow>
          if name \<notin> set SINGLE_DISPATCH_OPERATIONS then Inr ()
          else demand (length (filter (\<lambda>event. ev_event_type event = ''dispatch_attempted'') events) \<le> 1
                       \<and> length provider_attempts \<le> 1) TaskValueError
      | JList xs \<Rightarrow> Inl TaskTypeError
      | JDict kvs \<Rightarrow> Inl TaskTypeError
      | _ \<Rightarrow> Inr ())"

definition optional_text :: "string option \<Rightarrow> json" where
  "optional_text t = (case t of None \<Rightarrow> JNull | Some s \<Rightarrow> JStr s)"

definition event_to_dict :: "coercions \<Rightarrow> execution_task_event \<Rightarrow> dict" where
  "event_to_dict py event =
     [(''sequence'', JInt (ev_sequence event)),
      (''event_type'', JStr (ev_event_type event)),
      (''occurred_at'', JStr (ev_occurred_at event)),
      (''state_before'', optional_text (ev_state_before event)),
      (''state_after'', JStr (ev_state_after event)),
      (''changes'', bounded py 0 (JDict (ev_changes event))),
      (''request_id'', optional_text (ev_request_id event))]"

text \<open>\<open>str(value[key]) if value.get(key) is not None else None\<close>.\<close>

definition str_or_none :: "coercions \<Rightarrow> dict \<Rightarrow> string \<Rightarrow> string option" where
  "str_or_none py d k = (case dict_get d k of JNull \<Rightarrow> None | v \<Rightarrow> Some (to_str py v))"

definition str_item :: "coercions \<Rightarrow> dict \<Rightarrow> string \<Rightarrow> task_error + string" where
  "str_item py d k = and_then (dict_item d k) (\<lambda>v. Inr (to_str py v))"

fun event_from_dict :: "coercions \<Rightarrow> json \<Rightarrow> task_error + execution_task_event" where
  "event_from_dict py (JDict d) =
     and_then (and_then (dict_item d ''sequence'') (to_int py)) (\<lambda>seq.
     and_then (str_item py d ''event_type'') (\<lambda>event_type.
     and_then (str_item py d ''occurred_at'') (\<lambda>occurred_at.
     and_then (str_item py d ''state_after'') (\<lambda>state_after.
     and_then (dict_or_empty py (dict_get d ''changes'')) (\<lambda>changes.
     and_then (parse_task_timestamp py (JStr occurred_at)) (\<lambda>_.
     and_then (demand (1 \<le> seq) TaskValueError) (\<lambda>_.
     and_then (demand (count_points event_type \<le> 96) TaskValueError) (\<lambda>_.
       Inr \<lparr>ev_sequence = seq, ev_event_type = event_type, ev_occurred_at = occurred_at,
            ev_state_before = str_or_none py d ''state_before'', ev_state_after = state_after,
            ev_changes = changes, ev_request_id = str_or_none py d ''request_id''\<rparr>))))))))"
| "event_from_dict py _ = Inl TaskValueError"

section \<open>Materialisation\<close>

definition check_transition ::
    "string option \<Rightarrow> string \<Rightarrow> execution_task_state \<Rightarrow> task_error + unit" where
  "check_transition prior_state event_type state_after =
     (case prior_state of
        None \<Rightarrow> Inr ()
      | Some prior \<Rightarrow>
          and_then (task_state_of prior) (\<lambda>previous.
            if task_state_value state_after \<noteq> prior
            then demand (state_after \<in> set (ALLOWED_TASK_TRANSITIONS previous)) TaskValueError
            else demand (previous \<notin> set TERMINAL_TASK_STATES
                         \<or> event_type \<in> set TERMINAL_OBSERVATION_EVENTS) TaskValueError))"

text \<open>One turn of the loop: the next event, given its index, the record so far and the previous state.\<close>

definition materialize_event ::
    "coercions \<Rightarrow> int \<Rightarrow> execution_task_event \<Rightarrow> dict \<times> string option
     \<Rightarrow> task_error + (dict \<times> string option)" where
  "materialize_event py index event acc =
     (case acc of (record, prior_state) \<Rightarrow>
      and_then (demand (ev_sequence event = index) TaskValueError) (\<lambda>_.
      and_then (parse_task_timestamp py (JStr (ev_occurred_at event))) (\<lambda>_.
      and_then
        (if index = 1
         then demand (ev_event_type event = ''task_created'' \<and> ev_state_before event = None) TaskValueError
         else demand (ev_state_before event = prior_state) TaskValueError) (\<lambda>_.
      and_then (task_state_of (ev_state_after event)) (\<lambda>state_after.
      and_then (demand (state_after \<notin> set RESERVED_TASK_STATES) TaskValueError) (\<lambda>_.
      and_then (check_transition prior_state (ev_event_type event) state_after) (\<lambda>_.
        Inr (AList.update ''state'' (JStr (task_state_value state_after))
               (dict_update record (ev_changes event)),
             Some (task_state_value state_after)))))))))"

fun materialize_loop ::
    "coercions \<Rightarrow> int \<Rightarrow> execution_task_event list \<Rightarrow> dict \<times> string option
     \<Rightarrow> task_error + (dict \<times> string option)" where
  "materialize_loop py index [] acc = Inr acc"
| "materialize_loop py index (event # events) acc =
     and_then (materialize_event py index event acc) (materialize_loop py (index + 1) events)"

definition materialize_execution_task ::
    "coercions \<Rightarrow> execution_task_event list \<Rightarrow> task_error + dict" where
  "materialize_execution_task py events =
     and_then (demand (events \<noteq> []) TaskValueError) (\<lambda>_.
     and_then (materialize_loop py 1 events ([], None)) (\<lambda>(record, _).
     and_then (dict_list py (dict_get record ''provider_attempts'')) (\<lambda>provider_attempts.
     and_then
       (require_single_dispatch_history
          (if truthy (dict_get record ''operation'')
           then JStr (to_str py (dict_get record ''operation'')) else JStr [])
          events provider_attempts) (\<lambda>_.
       Inr record))))"

section \<open>Tasks\<close>

record execution_task =
  et_task_id :: json
  et_task_schema_version :: json
  et_plan_id :: json
  et_plan_hash :: json
  et_operation :: json
  et_target :: dict
  et_created_at :: json
  et_updated_at :: json
  et_started_at :: json
  et_dispatched_at :: json
  et_completed_at :: json
  et_state :: execution_task_state
  et_terminal_outcome :: json
  et_execution_request_id :: json
  et_idempotency_key :: json
  et_approval_reference :: dict
  et_provider_attempts :: "dict list"
  et_verification_summary :: dict
  et_last_error :: "dict option"
  et_manual_review_reason :: json
  et_maximum_post_dispatch_deadline :: json
  et_legacy_projection :: dict
  et_events :: "execution_task_event list"

text \<open>\<open>to_dict\<close> without its last item, the events.\<close>

definition task_fields :: "coercions \<Rightarrow> execution_task \<Rightarrow> dict" where
  "task_fields py task =
     [(''task_id'', et_task_id task),
      (''task_schema_version'', et_task_schema_version task),
      (''plan_id'', et_plan_id task),
      (''plan_hash'', et_plan_hash task),
      (''operation'', et_operation task),
      (''target'', bounded py 0 (JDict (et_target task))),
      (''created_at'', et_created_at task),
      (''updated_at'', et_updated_at task),
      (''started_at'', et_started_at task),
      (''dispatched_at'', et_dispatched_at task),
      (''completed_at'', et_completed_at task),
      (''state'', JStr (task_state_value (et_state task))),
      (''terminal_outcome'', et_terminal_outcome task),
      (''execution_request_id'', et_execution_request_id task),
      (''idempotency_key'', et_idempotency_key task),
      (''approval_reference'', bounded py 0 (JDict (et_approval_reference task))),
      (''provider_attempts'', bounded py 0 (JList (map JDict (et_provider_attempts task)))),
      (''verification_summary'', bounded py 0 (JDict (et_verification_summary task))),
      (''last_error'',
         bounded py 0 (case et_last_error task of None \<Rightarrow> JNull | Some d \<Rightarrow> JDict d)),
      (''manual_review_reason'', et_manual_review_reason task),
      (''maximum_post_dispatch_deadline'', et_maximum_post_dispatch_deadline task),
      (''legacy_projection'', bounded py 0 (JDict (et_legacy_projection task)))]"

definition task_to_dict :: "coercions \<Rightarrow> execution_task \<Rightarrow> dict" where
  "task_to_dict py task =
     task_fields py task @
     [(''events'', JList (map (\<lambda>event. JDict (event_to_dict py event)) (et_events task)))]"

section \<open>Validation\<close>

definition is_dispatch :: "execution_task_event \<Rightarrow> bool" where
  "is_dispatch event \<longleftrightarrow> ev_event_type event = ''dispatch_attempted''"

definition is_approval :: "execution_task_event \<Rightarrow> bool" where
  "is_approval event \<longleftrightarrow> ev_event_type event = ''approval_consumed''"

fun validate_attempts :: "coercions \<Rightarrow> int \<Rightarrow> dict list \<Rightarrow> task_error + unit" where
  "validate_attempts py index [] = Inr ()"
| "validate_attempts py index (attempt # attempts) =
     and_then (demand (loose_equal (dict_get attempt ''attempt'') (JInt index)
                       \<and> truthy (dict_get attempt ''provider'')) TaskValueError) (\<lambda>_.
     and_then (parse_task_timestamp py (dict_get attempt ''attempted_at'')) (\<lambda>_.
       validate_attempts py (index + 1) attempts))"

definition validate_timestamps :: "coercions \<Rightarrow> execution_task \<Rightarrow> task_error + unit" where
  "validate_timestamps py task =
     and_then (collect (parse_task_timestamp py)
       (filter (\<lambda>timestamp. timestamp \<noteq> JNull)
          [et_created_at task, et_updated_at task, et_started_at task, et_dispatched_at task,
           et_completed_at task, et_maximum_post_dispatch_deadline task])) (\<lambda>_. Inr ())"

definition validate_irreversible :: "coercions \<Rightarrow> execution_task \<Rightarrow> task_error + unit" where
  "validate_irreversible py task =
     and_then (demand (et_maximum_post_dispatch_deadline task \<noteq> JNull) TaskValueError) (\<lambda>_.
     and_then (parse_task_timestamp py (et_maximum_post_dispatch_deadline task)) (\<lambda>deadline.
     and_then (parse_task_timestamp py (et_dispatched_at task)) (\<lambda>dispatched.
     and_then (demand (deadline = dispatched + A_DAY) TaskValueError) (\<lambda>_.
     and_then
       (case (filter is_dispatch (et_events task), filter is_approval (et_events task)) of
          (dispatch # _, approval # _) \<Rightarrow>
            demand (ev_sequence approval < ev_sequence dispatch
                    \<and> loose_equal (dict_get (et_approval_reference task) ''approval_state'')
                        (JStr ''consumed'')
                    \<and> et_provider_attempts task \<noteq> []
                    \<and> loose_equal (dict_get (ev_changes dispatch) ''dispatched_at'')
                        (et_dispatched_at task)) TaskValueError
        | _ \<Rightarrow> Inl TaskValueError) (\<lambda>_.
       validate_attempts py 1 (et_provider_attempts task))))))"

definition validate_task :: "coercions \<Rightarrow> execution_task \<Rightarrow> task_error + unit" where
  "validate_task py task =
     and_then (demand (loose_equal (et_task_schema_version task) (JInt TASK_SCHEMA_VERSION))
       TaskValueError) (\<lambda>_.
     and_then (demand (length (et_events task) \<le> MAX_TASK_EVENTS) TaskValueError) (\<lambda>_.
     and_then (demand (length (et_provider_attempts task) \<le> MAX_PROVIDER_ATTEMPTS) TaskValueError) (\<lambda>_.
     and_then (require_single_dispatch_history (et_operation task) (et_events task)
       (et_provider_attempts task)) (\<lambda>_.
     and_then (validate_timestamps py task) (\<lambda>_.
     and_then
       (if et_dispatched_at task \<noteq> JNull then validate_irreversible py task
        else and_then (demand (et_maximum_post_dispatch_deadline task = JNull) TaskValueError) (\<lambda>_.
             demand (et_provider_attempts task = []) TaskValueError)) (\<lambda>_.
     and_then (demand (et_state task \<notin> set RESERVED_TASK_STATES) TaskValueError) (\<lambda>_.
     and_then
       (case et_events task of
          [] \<Rightarrow> Inl TaskValueError
        | event # _ \<Rightarrow> demand (ev_event_type event = ''task_created'') TaskValueError) (\<lambda>_.
     and_then (materialize_execution_task py (et_events task)) (\<lambda>materialized.
       demand (loose_equal (JDict (task_fields py task)) (JDict materialized)) TaskValueError)))))))))"

definition task_from_dict :: "coercions \<Rightarrow> json \<Rightarrow> task_error + execution_task" where
  "task_from_dict py v =
     (case v of JDict d \<Rightarrow>
       and_then (str_item py d ''task_id'') (\<lambda>task_id.
       and_then (and_then (dict_item d ''task_schema_version'') (to_int py)) (\<lambda>version.
       and_then (str_item py d ''plan_id'') (\<lambda>plan_id.
       and_then (str_item py d ''plan_hash'') (\<lambda>plan_hash.
       and_then (str_item py d ''operation'') (\<lambda>operation.
       and_then (dict_or_empty py (dict_get d ''target'')) (\<lambda>target.
       and_then (str_item py d ''created_at'') (\<lambda>created_at.
       and_then (str_item py d ''updated_at'') (\<lambda>updated_at.
       and_then (and_then (str_item py d ''state'') task_state_of) (\<lambda>state.
       and_then (str_item py d ''execution_request_id'') (\<lambda>request_id.
       and_then (str_item py d ''idempotency_key'') (\<lambda>idempotency_key.
       and_then (dict_or_empty py (dict_get d ''approval_reference'')) (\<lambda>approval.
       and_then (dict_list py (dict_get d ''provider_attempts'')) (\<lambda>attempts.
       and_then (dict_or_empty py (dict_get d ''verification_summary'')) (\<lambda>verification.
       and_then (dict_or_empty py (dict_get d ''legacy_projection'')) (\<lambda>legacy.
       and_then (and_then (if truthy (dict_get d ''events'') then to_list py (dict_get d ''events'')
                           else Inr []) (collect (event_from_dict py))) (\<lambda>events.
       let task = \<lparr>
         et_task_id = JStr task_id, et_task_schema_version = JInt version, et_plan_id = JStr plan_id,
         et_plan_hash = JStr plan_hash, et_operation = JStr operation, et_target = target,
         et_created_at = JStr created_at, et_updated_at = JStr updated_at,
         et_started_at = optional_text (str_or_none py d ''started_at''),
         et_dispatched_at = optional_text (str_or_none py d ''dispatched_at''),
         et_completed_at = optional_text (str_or_none py d ''completed_at''),
         et_state = state,
         et_terminal_outcome = optional_text (str_or_none py d ''terminal_outcome''),
         et_execution_request_id = JStr request_id, et_idempotency_key = JStr idempotency_key,
         et_approval_reference = approval, et_provider_attempts = attempts,
         et_verification_summary = verification,
         et_last_error = (case dict_get d ''last_error'' of JDict e \<Rightarrow> Some e | _ \<Rightarrow> None),
         et_manual_review_reason = optional_text (str_or_none py d ''manual_review_reason''),
         et_maximum_post_dispatch_deadline =
           optional_text (str_or_none py d ''maximum_post_dispatch_deadline''),
         et_legacy_projection = legacy, et_events = events\<rparr>
       in and_then (validate_task py task) (\<lambda>_. Inr task)))))))))))))))))
     | _ \<Rightarrow> Inl TaskValueError)"

section \<open>Operations\<close>

text \<open>\<open>setattr\<close> of a field that takes any value.\<close>

definition set_simple_field :: "string \<Rightarrow> json \<Rightarrow> execution_task \<Rightarrow> execution_task" where
  "set_simple_field k v task =
     (if k = ''task_id'' then task\<lparr>et_task_id := v\<rparr>
      else if k = ''task_schema_version'' then task\<lparr>et_task_schema_version := v\<rparr>
      else if k = ''plan_id'' then task\<lparr>et_plan_id := v\<rparr>
      else if k = ''plan_hash'' then task\<lparr>et_plan_hash := v\<rparr>
      else if k = ''operation'' then task\<lparr>et_operation := v\<rparr>
      else if k = ''created_at'' then task\<lparr>et_created_at := v\<rparr>
      else if k = ''updated_at'' then task\<lparr>et_updated_at := v\<rparr>
      else if k = ''started_at'' then task\<lparr>et_started_at := v\<rparr>
      else if k = ''dispatched_at'' then task\<lparr>et_dispatched_at := v\<rparr>
      else if k = ''completed_at'' then task\<lparr>et_completed_at := v\<rparr>
      else if k = ''terminal_outcome'' then task\<lparr>et_terminal_outcome := v\<rparr>
      else if k = ''execution_request_id'' then task\<lparr>et_execution_request_id := v\<rparr>
      else if k = ''idempotency_key'' then task\<lparr>et_idempotency_key := v\<rparr>
      else if k = ''manual_review_reason'' then task\<lparr>et_manual_review_reason := v\<rparr>
      else if k = ''maximum_post_dispatch_deadline''
        then task\<lparr>et_maximum_post_dispatch_deadline := v\<rparr>
      else task)"

definition apply_event_change ::
    "coercions \<Rightarrow> string \<Rightarrow> json \<Rightarrow> execution_task \<Rightarrow> task_error + execution_task" where
  "apply_event_change py key v task =
     (if key = ''state'' then
        and_then (task_state_of (to_str py v)) (\<lambda>st. Inr (task\<lparr>et_state := st\<rparr>))
      else if key = ''provider_attempts'' then
        and_then (dict_list py v) (\<lambda>ds. Inr (task\<lparr>et_provider_attempts := ds\<rparr>))
      else if key = ''target'' then
        and_then (dict_or_empty py v) (\<lambda>d. Inr (task\<lparr>et_target := d\<rparr>))
      else if key = ''approval_reference'' then
        and_then (dict_or_empty py v) (\<lambda>d. Inr (task\<lparr>et_approval_reference := d\<rparr>))
      else if key = ''verification_summary'' then
        and_then (dict_or_empty py v) (\<lambda>d. Inr (task\<lparr>et_verification_summary := d\<rparr>))
      else if key = ''legacy_projection'' then
        and_then (dict_or_empty py v) (\<lambda>d. Inr (task\<lparr>et_legacy_projection := d\<rparr>))
      else if key = ''last_error'' then
        Inr (task\<lparr>et_last_error := (case v of JDict d \<Rightarrow> Some d | _ \<Rightarrow> None)\<rparr>)
      else Inr (set_simple_field key v task))"

text \<open>The changes made before one of them raises remain.\<close>

fun apply_event_changes ::
    "coercions \<Rightarrow> dict \<Rightarrow> execution_task \<Rightarrow> (task_error + unit) \<times> execution_task" where
  "apply_event_changes py [] task = (Inr (), task)"
| "apply_event_changes py ((key, v) # changes) task =
     (case apply_event_change py key v task of
        Inl e \<Rightarrow> (Inl e, task)
      | Inr changed \<Rightarrow> apply_event_changes py changes changed)"

definition safe_changes ::
    "coercions \<Rightarrow> dict \<Rightarrow> string \<Rightarrow> execution_task_state \<Rightarrow> dict" where
  "safe_changes py changes occurred_at target_state =
     AList.update ''state'' (JStr (task_state_value target_state))
       (AList.update ''updated_at'' (JStr occurred_at)
          (case bounded py 0 (JDict changes) of JDict d \<Rightarrow> d | _ \<Rightarrow> []))"

definition append_event ::
    "coercions \<Rightarrow> string \<Rightarrow> string \<Rightarrow> execution_task_state option \<Rightarrow> dict option \<Rightarrow> string option
     \<Rightarrow> execution_task \<Rightarrow> (task_error + unit) \<times> execution_task" where
  "append_event py event_type occurred_at new_state changes request_id task =
     (let target_state = (case new_state of Some st \<Rightarrow> st | None \<Rightarrow> et_state task);
          safe = safe_changes py (case changes of Some d \<Rightarrow> d | None \<Rightarrow> []) occurred_at target_state;
          event = \<lparr>ev_sequence = int (length (et_events task)) + 1, ev_event_type = event_type,
                   ev_occurred_at = occurred_at,
                   ev_state_before = Some (task_state_value (et_state task)),
                   ev_state_after = task_state_value target_state, ev_changes = safe,
                   ev_request_id = request_id\<rparr>
      in case
           (and_then (parse_task_timestamp py (JStr occurred_at)) (\<lambda>_.
            and_then
              (if target_state \<noteq> et_state task
               then demand (target_state \<in> set (ALLOWED_TASK_TRANSITIONS (et_state task))) TaskValueError
               else demand (et_state task \<notin> set TERMINAL_TASK_STATES
                            \<or> event_type \<in> set TERMINAL_OBSERVATION_EVENTS) TaskValueError) (\<lambda>_.
            and_then
              (case map_of safe ''provider_attempts'' of
                 Some v \<Rightarrow> dict_list py v | None \<Rightarrow> Inr (et_provider_attempts task)) (\<lambda>attempts.
              require_single_dispatch_history (et_operation task) (et_events task @ [event]) attempts))))
         of Inl e \<Rightarrow> (Inl e, task)
          | Inr _ \<Rightarrow> apply_event_changes py safe (task\<lparr>et_events := et_events task @ [event]\<rparr>))"

definition new_execution_task ::
    "coercions \<Rightarrow> string \<Rightarrow> string \<Rightarrow> string \<Rightarrow> string \<Rightarrow> dict \<Rightarrow> string \<Rightarrow> string \<Rightarrow> string \<Rightarrow> dict
     \<Rightarrow> dict \<Rightarrow> task_error + execution_task" where
  "new_execution_task py task_id plan_id plan_hash operation target timestamp execution_request_id
     idempotency_key approval_reference legacy_projection =
     and_then (parse_task_timestamp py (JStr timestamp)) (\<lambda>_.
     let initial =
          [(''task_id'', JStr task_id),
           (''task_schema_version'', JInt TASK_SCHEMA_VERSION),
           (''plan_id'', JStr plan_id),
           (''plan_hash'', JStr plan_hash),
           (''operation'', JStr operation),
           (''target'', bounded py 0 (JDict target)),
           (''created_at'', JStr timestamp),
           (''updated_at'', JStr timestamp),
           (''started_at'', JNull),
           (''dispatched_at'', JNull),
           (''completed_at'', JNull),
           (''state'', JStr (task_state_value CREATED)),
           (''terminal_outcome'', JNull),
           (''execution_request_id'', JStr execution_request_id),
           (''idempotency_key'', JStr idempotency_key),
           (''approval_reference'', bounded py 0 (JDict approval_reference)),
           (''provider_attempts'', JList []),
           (''verification_summary'', JDict []),
           (''last_error'', JNull),
           (''manual_review_reason'', JNull),
           (''maximum_post_dispatch_deadline'', JNull),
           (''legacy_projection'', bounded py 0 (JDict legacy_projection))];
         event = \<lparr>ev_sequence = 1, ev_event_type = ''task_created'', ev_occurred_at = timestamp,
                  ev_state_before = None, ev_state_after = task_state_value CREATED,
                  ev_changes = initial, ev_request_id = Some execution_request_id\<rparr>
     in task_from_dict py
          (JDict (AList.update ''events'' (JList [JDict (event_to_dict py event)]) initial)))"

end
