(* ===== verification/Task_Store.thy ===== *)
theory Task_Store
  imports Task_Models "HOL-Library.Word"
begin

unbundle bit_operations_syntax

text \<open>
  \<open>governance/task_storage.py\<close>: the durable repository of execution tasks with its navigation index.

  A record file is named \<open><plan>.<task>.json\<close>; its name is the pair of the two parts, its content the
  JSON value it holds or \<open>None\<close> when it cannot be parsed.  The modification times of the directory are a
  counter that every change of the directory advances.  A file operation fails (\<open>OSError\<close>) when
  \<open>st_faults\<close> says so for its number, the reading of a record when \<open>st_read_faults\<close> does.  Python sets are
  lists without repetition, dicts association lists.  \<open>get\<close>, \<open>save\<close> and the others are the methods of the class; the in-process lock and the
  file lock make each of them one step, the health reader with its cooperative scheduling is left out.
\<close>

section \<open>State\<close>

datatype store_error =
    TaskStorageError bool
  | StoreOSError
  | StoreValueError
  | StoreTypeError

text \<open>\<open>TaskStorageError b\<close>: \<open>b\<close> tells whether the cause is an \<open>OSError\<close>.\<close>

record navigation_entry =
  ne_task_id :: string
  ne_plan_id :: string
  ne_idempotency_key :: string
  ne_created_at :: string
  ne_updated_at :: string
  ne_completed_at :: "string option"
  ne_state :: string
  ne_terminal :: bool
  ne_event_count :: int
  ne_execution_authority :: "string option"

type_synonym order_key = "int \<times> string"
type_synonym signature = "int \<times> int \<times> int"

record navigation =
  nav_entries :: "(string \<times> navigation_entry) list"
  nav_ordered_keys :: "order_key list"
  nav_nonterminal_ids :: "string list"
  nav_nonterminal_keys :: "order_key list"
  nav_f3_nonterminal_ids :: "string list"
  nav_f3_nonterminal_keys :: "order_key list"
  nav_task_by_plan :: "(string \<times> string) list"
  nav_task_by_idempotency :: "(string \<times> string) list"
  nav_expected_nonterminal_count :: int
  nav_expected_signature :: signature
  nav_expected_f3_signature :: signature
  nav_total_event_count :: int
  nav_manual_review_count :: int
  nav_legacy_task_count :: int
  nav_legacy_active_task_count :: int
  nav_generation :: int
  nav_invalidation_count :: int
  nav_update_count :: int
  nav_rebuild_count :: int

type_synonym file_name = "string \<times> string"

record task_store =
  st_nav :: navigation
  st_files :: "(file_name \<times> json option) list"
  st_quarantine :: "file_name list"
  st_directory :: nat
  st_observed :: "nat option"
  st_faults :: "nat \<Rightarrow> bool"
  st_read_faults :: "nat \<Rightarrow> bool"
  st_fault_clock :: nat
  st_corruption_count :: int
  st_quarantine_generation :: int
  st_quarantine_moved :: int
  st_quarantine_removed :: int
  st_quarantine_failed :: int
  st_write_failures :: int
  st_event_write_failures :: int
  st_materialization_failures :: int
  st_rehydration_attempts :: int
  st_records_deserialized :: int
  st_terminal_records_deserialized :: int
  st_full_history_scan_count :: int

type_synonym 'a store_op = "(task_store, store_error, 'a) effect"

definition F3_EXECUTION_AUTHORITY :: string where
  "F3_EXECUTION_AUTHORITY = ''f3_child_sequence''"

definition lower_hex :: "char \<Rightarrow> bool" where
  "lower_hex c \<longleftrightarrow> c \<in> set ''0123456789abcdef''"

text \<open>\<open>TASK_ID\<close> and \<open>PLAN_ID\<close>: 32 lower-case hexadecimal digits.\<close>

definition hex_id :: "string \<Rightarrow> bool" where
  "hex_id s \<longleftrightarrow> length s = 32 \<and> list_all lower_hex s"

text \<open>\<open>int(value, 16)\<close>, on the spellings an identifier can have.\<close>

definition hex_digit_value :: "char \<Rightarrow> int" where
  "hex_digit_value c = (if of_char c < (58 :: int) then of_char c - 48 else of_char c - 87)"

definition hex_value :: "string \<Rightarrow> store_error + int" where
  "hex_value s =
     (if s \<noteq> [] \<and> list_all lower_hex s then Inr (foldl (\<lambda>n c. 16 * n + hex_digit_value c) 0 s)
      else Inl StoreValueError)"

section \<open>The navigation index\<close>

fun field_text :: "json \<Rightarrow> string" where
  "field_text (JStr s) = s" | "field_text _ = []"

fun optional_field :: "json \<Rightarrow> string option" where
  "optional_field (JStr s) = Some s" | "optional_field _ = None"

definition navigation_entry_of :: "coercions \<Rightarrow> execution_task \<Rightarrow> navigation_entry" where
  "navigation_entry_of py task =
     \<lparr>ne_task_id = field_text (et_task_id task), ne_plan_id = field_text (et_plan_id task),
      ne_idempotency_key = field_text (et_idempotency_key task),
      ne_created_at = field_text (et_created_at task), ne_updated_at = field_text (et_updated_at task),
      ne_completed_at = optional_field (et_completed_at task),
      ne_state = task_state_value (et_state task),
      ne_terminal = (et_state task \<in> set TERMINAL_TASK_STATES),
      ne_event_count = int (length (et_events task)),
      ne_execution_authority = str_or_none py (et_legacy_projection task) ''execution_authority''\<rparr>"

definition created_time :: "coercions \<Rightarrow> string \<Rightarrow> int" where
  "created_time py s = (case iso_time py s of Some (Some t) \<Rightarrow> t | _ \<Rightarrow> 0)"

definition entry_order_key :: "coercions \<Rightarrow> navigation_entry \<Rightarrow> order_key" where
  "entry_order_key py entry = (- created_time py (ne_created_at entry), ne_task_id entry)"

text \<open>\<open>(-created, task_id)\<close> as Python compares tuples.\<close>

definition key_less_eq :: "order_key \<Rightarrow> order_key \<Rightarrow> bool" where
  "key_less_eq k l \<longleftrightarrow> fst k < fst l \<or> fst k = fst l \<and> snd k \<le> snd l"

fun insort :: "order_key list \<Rightarrow> order_key \<Rightarrow> order_key list" where
  "insort [] k = [k]"
| "insort (l # ls) k = (if key_less_eq l k then l # insort ls k else k # l # ls)"

definition identifier_signature :: "string list \<Rightarrow> store_error + signature" where
  "identifier_signature values =
     and_then (collect hex_value values) (\<lambda>numeric.
       Inr (int (length numeric), sum_list numeric, foldr (XOR) numeric 0))"

definition nav_update :: "(navigation \<Rightarrow> navigation) \<Rightarrow> unit store_op" where
  "nav_update f = update_eff (st_nav_update f)"

definition read_nav :: "(navigation \<Rightarrow> 'a) \<Rightarrow> 'a store_op" where
  "read_nav f = read_eff (\<lambda>s. f (st_nav s))"

definition refresh_expected_signature :: "unit store_op" where
  "refresh_expected_signature =
     bind_eff (bind_eff (read_nav nav_nonterminal_ids) (\<lambda>ids. lift_eff (identifier_signature ids))) (\<lambda>sig.
     then_eff (nav_update (nav_expected_signature_update (\<lambda>_. sig)))
     (bind_eff (bind_eff (read_nav nav_f3_nonterminal_ids) (\<lambda>ids. lift_eff (identifier_signature ids))) (\<lambda>f3_sig.
       nav_update (nav_expected_f3_signature_update (\<lambda>_. f3_sig)))))"

definition is_f3 :: "navigation_entry \<Rightarrow> bool" where
  "is_f3 entry \<longleftrightarrow> ne_execution_authority entry = Some F3_EXECUTION_AUTHORITY"

text \<open>\<open>list.remove\<close>: \<open>ValueError\<close> when the key is absent.\<close>

definition remove_key ::
    "(navigation \<Rightarrow> order_key list) \<Rightarrow> ((order_key list \<Rightarrow> order_key list) \<Rightarrow> navigation \<Rightarrow> navigation)
     \<Rightarrow> order_key \<Rightarrow> unit store_op" where
  "remove_key get put key =
     bind_eff (read_nav get) (\<lambda>keys.
     then_eff (require (key \<in> set keys) StoreValueError) (nav_update (put (remove1 key))))"

definition remove_entry :: "coercions \<Rightarrow> string \<Rightarrow> unit store_op" where
  "remove_entry py task_id =
     bind_eff (read_nav (\<lambda>nav. map_of (nav_entries nav) task_id)) (\<lambda>found.
     case found of
       None \<Rightarrow> return_eff ()
     | Some entry \<Rightarrow>
        then_eff (nav_update (nav_entries_update (AList.delete task_id)))
        (then_eff
          (catch_eff (remove_key nav_ordered_keys nav_ordered_keys_update (entry_order_key py entry))
             (\<lambda>e. nav_update (nav_invalidation_count_update (\<lambda>n. n + 1))))
        (then_eff (nav_update (nav_nonterminal_ids_update (removeAll task_id)))
        (then_eff
          (if ne_terminal entry then return_eff ()
           else
             then_eff (nav_update (nav_expected_nonterminal_count_update (\<lambda>n. n - 1)))
             (then_eff (remove_key nav_nonterminal_keys nav_nonterminal_keys_update (entry_order_key py entry))
               (if is_f3 entry then
                  then_eff (nav_update (nav_f3_nonterminal_ids_update (removeAll task_id)))
                    (remove_key nav_f3_nonterminal_keys nav_f3_nonterminal_keys_update (entry_order_key py entry))
                else return_eff ())))
        (then_eff (nav_update (nav_total_event_count_update (\<lambda>n. n - ne_event_count entry)))
        (then_eff
          (if ne_state entry = task_state_value MANUAL_REVIEW_REQUIRED
           then nav_update (nav_manual_review_count_update (\<lambda>n. n - 1)) else return_eff ())
        (then_eff
          (if is_f3 entry then return_eff ()
           else
             then_eff (nav_update (nav_legacy_task_count_update (\<lambda>n. n - 1)))
               (if ne_terminal entry then return_eff ()
                else nav_update (nav_legacy_active_task_count_update (\<lambda>n. n - 1))))
        (then_eff (nav_update (\<lambda>nav.
             if map_of (nav_task_by_plan nav) (ne_plan_id entry) = Some task_id
             then nav_task_by_plan_update (AList.delete (ne_plan_id entry)) nav else nav))
        (then_eff (nav_update (\<lambda>nav.
             if map_of (nav_task_by_idempotency nav) (ne_idempotency_key entry) = Some task_id
             then nav_task_by_idempotency_update (AList.delete (ne_idempotency_key entry)) nav else nav))
          refresh_expected_signature)))))))))"

definition put_entry :: "coercions \<Rightarrow> bool \<Rightarrow> execution_task \<Rightarrow> unit store_op" where
  "put_entry py count_update task =
     (let entry = navigation_entry_of py task;
          task_id = ne_task_id entry;
          key = entry_order_key py entry
      in
        then_eff (remove_entry py task_id)
        (then_eff (nav_update (nav_entries_update (AList.update task_id entry)))
        (then_eff (nav_update (nav_task_by_plan_update (AList.update (ne_plan_id entry) task_id)))
        (then_eff (nav_update (nav_task_by_idempotency_update (AList.update (ne_idempotency_key entry) task_id)))
        (then_eff (nav_update (nav_ordered_keys_update (\<lambda>keys. insort keys key)))
        (then_eff
          (if ne_terminal entry then return_eff ()
           else
             then_eff (nav_update (nav_nonterminal_ids_update (List.insert task_id)))
             (then_eff (nav_update (nav_nonterminal_keys_update (\<lambda>keys. insort keys key)))
             (then_eff (nav_update (nav_expected_nonterminal_count_update (\<lambda>n. n + 1)))
               (if is_f3 entry then
                  then_eff (nav_update (nav_f3_nonterminal_ids_update (List.insert task_id)))
                    (nav_update (nav_f3_nonterminal_keys_update (\<lambda>keys. insort keys key)))
                else return_eff ()))))
        (then_eff (nav_update (nav_total_event_count_update (\<lambda>n. n + ne_event_count entry)))
        (then_eff
          (if ne_state entry = task_state_value MANUAL_REVIEW_REQUIRED
           then nav_update (nav_manual_review_count_update (\<lambda>n. n + 1)) else return_eff ())
        (then_eff
          (if is_f3 entry then return_eff ()
           else
             then_eff (nav_update (nav_legacy_task_count_update (\<lambda>n. n + 1)))
               (if ne_terminal entry then return_eff ()
                else nav_update (nav_legacy_active_task_count_update (\<lambda>n. n + 1))))
        (then_eff refresh_expected_signature
          (if count_update
           then nav_update (\<lambda>nav. nav\<lparr>nav_generation := nav_generation nav + 1,
                                   nav_update_count := nav_update_count nav + 1\<rparr>)
           else return_eff ())))))))))))"

section \<open>Files\<close>

definition file_fault :: "unit store_op" where
  "file_fault =
     bind_eff (read_eff (\<lambda>s. st_faults s (st_fault_clock s))) (\<lambda>fails.
     then_eff (update_eff (st_fault_clock_update Suc)) (require (\<not> fails) StoreOSError))"

text \<open>Reading the text of a record.\<close>

definition read_fault :: "unit store_op" where
  "read_fault =
     bind_eff (read_eff (\<lambda>s. st_read_faults s (st_fault_clock s))) (\<lambda>fails.
     then_eff (update_eff (st_fault_clock_update Suc)) (require (\<not> fails) StoreOSError))"

definition touch_directory :: "unit store_op" where
  "touch_directory = update_eff (st_directory_update Suc)"

text \<open>\<open>raise ExecutionTaskStorageError from exc\<close> for an \<open>OSError\<close>.\<close>

definition os_error_as_storage :: "'a store_op \<Rightarrow> 'a store_op" where
  "os_error_as_storage m =
     catch_eff m (\<lambda>e. case e of StoreOSError \<Rightarrow> raise_eff (TaskStorageError True) | _ \<Rightarrow> raise_eff e)"

definition directory_token :: "nat store_op" where
  "directory_token = os_error_as_storage (then_eff file_fault (read_eff st_directory))"

definition mark_navigation_current :: "unit store_op" where
  "mark_navigation_current =
     bind_eff directory_token (\<lambda>token. update_eff (st_observed_update (\<lambda>_. Some token)))"

definition file_name_text :: "file_name \<Rightarrow> string" where
  "file_name_text name = fst name @ CHR ''.'' # snd name @ ''.json''"

definition record_paths :: "file_name list store_op" where
  "record_paths = read_eff (\<lambda>s. sort_key file_name_text (map fst (st_files s)))"

text \<open>Moving a corrupt record aside, or removing it when that fails.\<close>

definition quarantine_record :: "coercions \<Rightarrow> file_name \<Rightarrow> unit store_op" where
  "quarantine_record py path =
     then_eff (update_eff (\<lambda>s. s\<lparr>st_corruption_count := st_corruption_count s + 1,
                               st_quarantine_generation := st_quarantine_generation s + 1\<rparr>))
     (then_eff (remove_entry py (snd path))
     (then_eff (nav_update (\<lambda>nav. nav\<lparr>nav_generation := nav_generation nav + 1,
                                 nav_invalidation_count := nav_invalidation_count nav + 1\<rparr>))
     (bind_eff (read_eff (\<lambda>s. map_of (st_files s) path \<noteq> None)) (\<lambda>present.
      try_else_eff (then_eff file_fault (require present StoreOSError))
        (\<lambda>e. if \<not> present then return_eff ()
             else try_else_eff file_fault
               (\<lambda>e. update_eff (st_quarantine_failed_update (\<lambda>n. n + 1)))
               (\<lambda>_. then_eff (update_eff (st_files_update (AList.delete path)))
                    (then_eff touch_directory
                      (update_eff (st_quarantine_removed_update (\<lambda>n. n + 1))))))
        (\<lambda>_. then_eff (update_eff (\<lambda>s. s\<lparr>st_files := AList.delete path (st_files s),
                                        st_quarantine := st_quarantine s @ [path]\<rparr>))
             (then_eff touch_directory (update_eff (st_quarantine_moved_update (\<lambda>n. n + 1)))))))))"

definition load_record :: "coercions \<Rightarrow> bool \<Rightarrow> file_name \<Rightarrow> execution_task option store_op" where
  "load_record py quarantine_corrupt path =
     then_eff (os_error_as_storage read_fault)
     (bind_eff (read_eff (\<lambda>s. map_of (st_files s) path)) (\<lambda>content.
      case content of
        None \<Rightarrow> return_eff None
      | Some text \<Rightarrow>
          (case (case text of None \<Rightarrow> Inl TaskValueError | Some v \<Rightarrow> task_from_dict py v) of
             Inl e \<Rightarrow>
               then_eff (if quarantine_corrupt then quarantine_record py path else return_eff ())
                 (raise_eff (TaskStorageError False))
           | Inr task \<Rightarrow>
               then_eff (update_eff (\<lambda>s. s\<lparr>st_records_deserialized := st_records_deserialized s + 1,
                   st_terminal_records_deserialized := st_terminal_records_deserialized s +
                     (if et_state task \<in> set TERMINAL_TASK_STATES then 1 else 0)\<rparr>))
                 (return_eff (Some task)))))"

text \<open>\<open>try: task = self._load(path) except ExecutionTaskStorageError: continue\<close>.\<close>

definition load_or_skip :: "coercions \<Rightarrow> bool \<Rightarrow> file_name \<Rightarrow> execution_task option store_op" where
  "load_or_skip py quarantine_corrupt path =
     catch_eff (load_record py quarantine_corrupt path)
       (\<lambda>e. case e of TaskStorageError b \<Rightarrow> return_eff None | _ \<Rightarrow> raise_eff e)"

section \<open>Rebuilding the index\<close>

definition clear_navigation :: "navigation \<Rightarrow> navigation" where
  "clear_navigation nav =
     nav\<lparr>nav_entries := [], nav_ordered_keys := [], nav_nonterminal_ids := [], nav_nonterminal_keys := [],
         nav_f3_nonterminal_ids := [], nav_f3_nonterminal_keys := [], nav_task_by_plan := [],
         nav_task_by_idempotency := [], nav_expected_nonterminal_count := 0, nav_total_event_count := 0,
         nav_manual_review_count := 0, nav_legacy_task_count := 0, nav_legacy_active_task_count := 0\<rparr>"

fun index_records :: "coercions \<Rightarrow> file_name list \<Rightarrow> string list \<Rightarrow> unit store_op" where
  "index_records py [] idempotency_keys = return_eff ()"
| "index_records py (path # paths) idempotency_keys =
     bind_eff (load_or_skip py True path) (\<lambda>loaded.
     case loaded of
       None \<Rightarrow> index_records py paths idempotency_keys
     | Some task \<Rightarrow>
        (let entry = navigation_entry_of py task in
         bind_eff (read_nav nav_task_by_plan) (\<lambda>by_plan.
         then_eff (require (map_of by_plan (ne_plan_id entry) = None
                            \<and> ne_idempotency_key entry \<notin> set idempotency_keys) (TaskStorageError False))
         (then_eff (put_entry py False task)
           (index_records py paths (ne_idempotency_key entry # idempotency_keys))))))"

definition rebuild_navigation_index :: "coercions \<Rightarrow> (int \<times> int \<times> int \<times> int) store_op" where
  "rebuild_navigation_index py =
     then_eff (nav_update clear_navigation)
     (then_eff refresh_expected_signature
     (bind_eff (read_eff st_records_deserialized) (\<lambda>deserialized.
      bind_eff record_paths (\<lambda>paths.
      then_eff (index_records py paths [])
      (then_eff (nav_update (\<lambda>nav. nav\<lparr>nav_generation := nav_generation nav + 1,
                                    nav_rebuild_count := nav_rebuild_count nav + 1\<rparr>))
      (then_eff mark_navigation_current
        (read_eff (\<lambda>s. (int (length paths), st_records_deserialized s - deserialized,
                       int (length (nav_entries (st_nav s))),
                       int (length (nav_nonterminal_ids (st_nav s))))))))))))"

text \<open>The index is stale when the directory changed since, or when the tables disagree.\<close>

definition counts_disagree :: "navigation \<Rightarrow> bool" where
  "counts_disagree nav \<longleftrightarrow>
     length (nav_ordered_keys nav) \<noteq> length (nav_entries nav) \<or>
     length (nav_task_by_plan nav) \<noteq> length (nav_entries nav) \<or>
     length (nav_task_by_idempotency nav) \<noteq> length (nav_entries nav) \<or>
     int (length (nav_nonterminal_ids nav)) \<noteq> nav_expected_nonterminal_count nav \<or>
     int (length (nav_nonterminal_keys nav)) \<noteq> nav_expected_nonterminal_count nav"

definition f3_ids_wrong :: "navigation \<Rightarrow> bool" where
  "f3_ids_wrong nav \<longleftrightarrow>
     list_ex (\<lambda>task_id. case map_of (nav_entries nav) task_id of
         None \<Rightarrow> True | Some entry \<Rightarrow> ne_terminal entry \<or> \<not> is_f3 entry) (nav_f3_nonterminal_ids nav)"

definition tables_disagree :: "navigation \<Rightarrow> store_error + bool" where
  "tables_disagree nav =
     (if counts_disagree nav then Inr True
      else and_then (identifier_signature (nav_nonterminal_ids nav)) (\<lambda>sig.
        if sig \<noteq> nav_expected_signature nav then Inr True
        else and_then (identifier_signature (remdups (map snd (nav_nonterminal_keys nav)))) (\<lambda>key_sig.
        if key_sig \<noteq> nav_expected_signature nav then Inr True
        else if \<not> set (nav_f3_nonterminal_ids nav) \<subseteq> set (nav_nonterminal_ids nav)
          \<or> length (nav_f3_nonterminal_keys nav) \<noteq> length (nav_f3_nonterminal_ids nav) then Inr True
        else and_then (identifier_signature (nav_f3_nonterminal_ids nav)) (\<lambda>f3_sig.
        if f3_sig \<noteq> nav_expected_f3_signature nav then Inr True
        else and_then (identifier_signature (remdups (map snd (nav_f3_nonterminal_keys nav)))) (\<lambda>f3_key_sig.
        Inr (f3_key_sig \<noteq> nav_expected_f3_signature nav \<or> f3_ids_wrong nav))))))"

definition navigation_index_stale :: "bool store_op" where
  "navigation_index_stale =
     bind_eff directory_token (\<lambda>token.
     bind_eff (read_eff st_observed) (\<lambda>observed.
     if observed \<noteq> Some token then return_eff True
     else bind_eff (read_nav tables_disagree) lift_eff))"

definition ensure_navigation_index :: "coercions \<Rightarrow> unit store_op" where
  "ensure_navigation_index py =
     bind_eff navigation_index_stale (\<lambda>stale.
     if stale
     then then_eff (nav_update (nav_invalidation_count_update (\<lambda>n. n + 1)))
            (then_eff (rebuild_navigation_index py) (return_eff ()))
     else return_eff ())"

section \<open>Transactions and writes\<close>

definition in_transaction :: "'a store_op \<Rightarrow> 'a store_op" where
  "in_transaction body = os_error_as_storage (then_eff file_fault body)"

definition record_path :: "string \<Rightarrow> string \<Rightarrow> file_name store_op" where
  "record_path task_id plan_id =
     then_eff (require (hex_id task_id) (TaskStorageError False))
     (then_eff (require (hex_id plan_id) (TaskStorageError False)) (return_eff (plan_id, task_id)))"

text \<open>The path of a task whose plan is not known.\<close>

definition find_record_path :: "string \<Rightarrow> file_name store_op" where
  "find_record_path task_id =
     then_eff (require (hex_id task_id) (TaskStorageError False))
     (bind_eff record_paths (\<lambda>paths.
      case filter (\<lambda>path. snd path = task_id) paths of
        [] \<Rightarrow> return_eff (''missing'', task_id)
      | [path] \<Rightarrow> return_eff path
      | _ \<Rightarrow> raise_eff (TaskStorageError False)))"

text \<open>What reading back a written record gives: \<open>json.dumps\<close> sorts the keys.\<close>

fun sorted_keys :: "json \<Rightarrow> json" where
  "sorted_keys (JList xs) = JList (map sorted_keys xs)"
| "sorted_keys (JDict kvs) = JDict (sort_key fst (map (\<lambda>(k, v). (k, sorted_keys v)) kvs))"
| "sorted_keys v = v"

definition immutable_fields :: "execution_task \<Rightarrow> json list" where
  "immutable_fields task =
     [et_task_id task, et_task_schema_version task, et_plan_id task, et_plan_hash task, et_operation task,
      JDict (et_target task), et_created_at task, et_execution_request_id task, et_idempotency_key task]"

definition event_values :: "coercions \<Rightarrow> execution_task_event list \<Rightarrow> json" where
  "event_values py events = JList (map (\<lambda>event. JDict (event_to_dict py event)) events)"

definition require_append_only :: "coercions \<Rightarrow> execution_task \<Rightarrow> execution_task \<Rightarrow> store_error + unit" where
  "require_append_only py previous task =
     and_then (demand (list_all2 loose_equal (immutable_fields previous) (immutable_fields task))
       (TaskStorageError False)) (\<lambda>_.
     and_then (demand (loose_equal (event_values py (et_events previous))
         (event_values py (take (length (et_events previous)) (et_events task)))) (TaskStorageError False)) (\<lambda>_.
     and_then (demand (length (et_events previous) \<le> length (et_events task)) (TaskStorageError False)) (\<lambda>_.
       demand (et_maximum_post_dispatch_deadline previous = JNull \<or>
               loose_equal (et_maximum_post_dispatch_deadline task) (et_maximum_post_dispatch_deadline previous))
         (TaskStorageError False))))"

fun list_loaded :: "coercions \<Rightarrow> file_name list \<Rightarrow> execution_task list store_op" where
  "list_loaded py [] = return_eff []"
| "list_loaded py (path # paths) =
     bind_eff (load_or_skip py True path) (\<lambda>loaded.
     bind_eff (list_loaded py paths) (\<lambda>tasks.
       return_eff (case loaded of None \<Rightarrow> tasks | Some task \<Rightarrow> task # tasks)))"

definition list_unlocked :: "coercions \<Rightarrow> execution_task list store_op" where
  "list_unlocked py = bind_eff record_paths (list_loaded py)"

definition require_unique :: "coercions \<Rightarrow> execution_task \<Rightarrow> unit store_op" where
  "require_unique py task =
     (let task_id = field_text (et_task_id task); plan_id = field_text (et_plan_id task) in
      bind_eff (read_eff (\<lambda>s. list_ex (\<lambda>path. fst path = plan_id \<and> path \<noteq> (plan_id, task_id)) (map fst (st_files s))
                             \<or> list_ex (\<lambda>path. fst path = plan_id) (st_quarantine s))) (\<lambda>reserved.
      then_eff (require (\<not> reserved) (TaskStorageError False))
      (bind_eff (list_unlocked py) (\<lambda>candidates.
        require (list_all (\<lambda>candidate.
            loose_equal (et_task_id candidate) (et_task_id task) \<or>
            \<not> loose_equal (et_plan_id candidate) (et_plan_id task) \<and>
            \<not> loose_equal (et_idempotency_key candidate) (et_idempotency_key task)) candidates)
          (TaskStorageError False)))))"

definition write_record :: "coercions \<Rightarrow> file_name \<Rightarrow> execution_task \<Rightarrow> unit store_op" where
  "write_record py path task =
     then_eff file_fault
     (then_eff touch_directory
     (then_eff file_fault
     (then_eff file_fault
     (then_eff (update_eff (st_files_update (AList.update path (Some (sorted_keys (JDict (task_to_dict py task)))))))
     (then_eff touch_directory
       file_fault)))))"

definition save :: "coercions \<Rightarrow> execution_task \<Rightarrow> unit store_op" where
  "save py task =
     then_eff
       (case validate_task py task of
          Inr _ \<Rightarrow> return_eff ()
        | Inl e \<Rightarrow> then_eff (update_eff (st_materialization_failures_update (\<lambda>n. n + 1)))
                    (raise_eff (TaskStorageError False)))
     (bind_eff (record_path (field_text (et_task_id task)) (field_text (et_plan_id task))) (\<lambda>path.
      catch_eff
        (in_transaction
          (then_eff (ensure_navigation_index py)
          (bind_eff (load_record py False path) (\<lambda>previous.
           then_eff (case previous of
                       None \<Rightarrow> require_unique py task
                     | Some p \<Rightarrow> lift_eff (require_append_only py p task))
           (then_eff file_fault
           (then_eff (write_record py path task)
           (then_eff file_fault
           (then_eff (put_entry py True task)
             mark_navigation_current))))))))
        (\<lambda>e. if e = TaskStorageError True \<or> e = StoreOSError
             then then_eff (update_eff (\<lambda>s. s\<lparr>st_write_failures := st_write_failures s + 1,
                      st_event_write_failures := st_event_write_failures s + 1\<rparr>))
                    (then_eff touch_directory (raise_eff (TaskStorageError True)))
             else raise_eff e)))"

section \<open>Reads\<close>

definition quarantined_task :: "string \<Rightarrow> bool store_op" where
  "quarantined_task task_id = read_eff (\<lambda>s. list_ex (\<lambda>path. snd path = task_id) (st_quarantine s))"

definition get :: "coercions \<Rightarrow> string \<Rightarrow> execution_task option store_op" where
  "get py task_id =
     (if \<not> hex_id task_id then return_eff None
      else
        then_eff (ensure_navigation_index py)
        (then_eff (update_eff (st_rehydration_attempts_update (\<lambda>n. n + 1)))
        (bind_eff (read_nav (\<lambda>nav. map_of (nav_entries nav) task_id)) (\<lambda>entry.
         bind_eff (case entry of Some e \<Rightarrow> record_path task_id (ne_plan_id e) | None \<Rightarrow> find_record_path task_id) (\<lambda>path.
         bind_eff (load_record py True path) (\<lambda>loaded.
         bind_eff (quarantined_task task_id) (\<lambda>quarantined.
         then_eff (require (\<not> (loaded = None \<and> entry = None \<and> quarantined)) (TaskStorageError False))
         (then_eff
           (case (loaded, entry) of
              (Some task, None) \<Rightarrow> then_eff (put_entry py True task) mark_navigation_current
            | _ \<Rightarrow> return_eff ())
           (return_eff loaded)))))))))"

text \<open>Reading one record as stored, without any effect on index or quarantine.\<close>

definition read_for_inspection :: "coercions \<Rightarrow> string \<Rightarrow> execution_task option store_op" where
  "read_for_inspection py task_id =
     (if \<not> hex_id task_id then return_eff None
      else
        bind_eff (find_record_path task_id) (\<lambda>path.
        bind_eff (load_record py False path) (\<lambda>loaded.
        bind_eff (quarantined_task task_id) (\<lambda>quarantined.
        then_eff (require (\<not> (loaded = None \<and> quarantined)) (TaskStorageError False))
          (return_eff loaded)))))"

definition get_for_plan :: "coercions \<Rightarrow> string \<Rightarrow> execution_task option store_op" where
  "get_for_plan py plan_id =
     (if \<not> hex_id plan_id then return_eff None
      else
        then_eff (ensure_navigation_index py)
        (bind_eff (read_nav (\<lambda>nav. map_of (nav_task_by_plan nav) plan_id)) (\<lambda>task_id.
         bind_eff (case task_id of
             None \<Rightarrow> bind_eff record_paths (\<lambda>paths. return_eff (filter (\<lambda>path. fst path = plan_id) paths))
           | Some t \<Rightarrow> bind_eff (record_path t plan_id) (\<lambda>path. return_eff [path])) (\<lambda>paths.
         bind_eff (read_eff (\<lambda>s. list_ex (\<lambda>path. fst path = plan_id) (st_quarantine s))) (\<lambda>quarantined.
         then_eff (require (\<not> quarantined) (TaskStorageError False))
         (case paths of
            [] \<Rightarrow> return_eff None
          | path # _ \<Rightarrow>
              bind_eff (load_record py True path) (\<lambda>loaded.
              case loaded of
                None \<Rightarrow> raise_eff (TaskStorageError False)
              | Some task \<Rightarrow>
                  then_eff (require (et_plan_id task = JStr plan_id) (TaskStorageError False))
                  (then_eff
                    (if task_id = None then then_eff (put_entry py True task) mark_navigation_current
                     else return_eff ())
                    (return_eff (Some task))))))))))"

definition get_for_idempotency :: "coercions \<Rightarrow> string \<Rightarrow> execution_task option store_op" where
  "get_for_idempotency py idempotency_key =
     then_eff (ensure_navigation_index py)
     (bind_eff (read_nav (\<lambda>nav. map_of (nav_task_by_idempotency nav) idempotency_key)) (\<lambda>task_id.
      case task_id of
        None \<Rightarrow>
          bind_eff (list_unlocked py) (\<lambda>tasks.
          case filter (\<lambda>task. et_idempotency_key task = JStr idempotency_key) tasks of
            [] \<Rightarrow> return_eff None
          | [task] \<Rightarrow> then_eff (put_entry py True task)
                      (then_eff mark_navigation_current (return_eff (Some task)))
          | _ \<Rightarrow> raise_eff (TaskStorageError False))
      | Some t \<Rightarrow>
          bind_eff (read_nav (\<lambda>nav. map_of (nav_entries nav) t)) (\<lambda>entry.
          case entry of
            None \<Rightarrow> raise_eff (TaskStorageError False)
          | Some e \<Rightarrow>
              bind_eff (record_path t (ne_plan_id e)) (\<lambda>path.
              bind_eff (load_record py True path) (\<lambda>loaded.
              case loaded of
                None \<Rightarrow> raise_eff (TaskStorageError False)
              | Some task \<Rightarrow>
                  then_eff (require (et_idempotency_key task = JStr idempotency_key) (TaskStorageError False))
                    (return_eff (Some task)))))))"

definition nonterminal_task_ids :: "coercions \<Rightarrow> string list store_op" where
  "nonterminal_task_ids py =
     then_eff (ensure_navigation_index py) (read_nav (\<lambda>nav. map snd (nav_nonterminal_keys nav)))"

definition f3_nonterminal_task_ids :: "coercions \<Rightarrow> int \<Rightarrow> string list store_op" where
  "f3_nonterminal_task_ids py limit =
     then_eff (require (1 \<le> limit) (TaskStorageError False))
     (then_eff (ensure_navigation_index py)
     (bind_eff (read_nav nav_f3_nonterminal_keys) (\<lambda>keys.
      then_eff (require (int (length keys) \<le> limit) (TaskStorageError False))
        (return_eff (map snd keys)))))"

fun get_unfinished :: "coercions \<Rightarrow> string list \<Rightarrow> execution_task list store_op" where
  "get_unfinished py [] = return_eff []"
| "get_unfinished py (task_id # ids) =
     bind_eff (get py task_id) (\<lambda>loaded.
     bind_eff (get_unfinished py ids) (\<lambda>tasks.
       return_eff (case loaded of
           Some task \<Rightarrow> if et_state task \<in> set TERMINAL_TASK_STATES then tasks else task # tasks
         | None \<Rightarrow> tasks)))"

definition list_nonterminal :: "coercions \<Rightarrow> execution_task list store_op" where
  "list_nonterminal py = bind_eff (nonterminal_task_ids py) (get_unfinished py)"

fun manual_review_records :: "coercions \<Rightarrow> file_name list \<Rightarrow> string list store_op" where
  "manual_review_records py [] = return_eff []"
| "manual_review_records py (path # paths) =
     bind_eff (load_or_skip py False path) (\<lambda>loaded.
     bind_eff (manual_review_records py paths) (\<lambda>ids.
       return_eff (case loaded of
           Some task \<Rightarrow> if et_state task = MANUAL_REVIEW_REQUIRED then field_text (et_task_id task) # ids else ids
         | None \<Rightarrow> ids)))"

definition manual_review_task_ids :: "coercions \<Rightarrow> string list store_op" where
  "manual_review_task_ids py =
     bind_eff navigation_index_stale (\<lambda>stale.
     if \<not> stale
     then read_nav (\<lambda>nav. sort (map fst
            (filter (\<lambda>(task_id, entry). ne_state entry = task_state_value MANUAL_REVIEW_REQUIRED) (nav_entries nav))))
     else bind_eff record_paths (\<lambda>paths.
          bind_eff (manual_review_records py paths) (\<lambda>ids. return_eff (sort ids))))"

text \<open>Newest first by the text of the creation time; \<open>sorted(..., reverse=True)\<close> keeps ties in order.\<close>

fun insert_newest :: "execution_task \<Rightarrow> execution_task list \<Rightarrow> execution_task list" where
  "insert_newest task [] = [task]"
| "insert_newest task (t # ts) =
     (if field_text (et_created_at t) \<le> field_text (et_created_at task) then task # t # ts
      else t # insert_newest task ts)"

definition list_tasks :: "coercions \<Rightarrow> execution_task list store_op" where
  "list_tasks py =
     then_eff (update_eff (\<lambda>s. s\<lparr>st_rehydration_attempts := st_rehydration_attempts s + 1,
                               st_full_history_scan_count := st_full_history_scan_count s + 1\<rparr>))
     (bind_eff (list_unlocked py) (\<lambda>tasks.
      then_eff (require (distinct (map et_plan_id tasks) \<and> distinct (map et_idempotency_key tasks))
        (TaskStorageError False))
        (return_eff (foldr insert_newest tasks []))))"

section \<open>Retention\<close>

definition cleanup_entry :: "coercions \<Rightarrow> int \<Rightarrow> navigation_entry \<Rightarrow> int store_op" where
  "cleanup_entry py cutoff entry =
     (if \<not> ne_terminal entry then return_eff 0
      else case iso_time py (case ne_completed_at entry of
             Some c \<Rightarrow> if c = [] then ne_updated_at entry else c | None \<Rightarrow> ne_updated_at entry) of
        Some (Some completed) \<Rightarrow>
          if completed < cutoff then
            try_else_eff
              (bind_eff (record_path (ne_task_id entry) (ne_plan_id entry)) (\<lambda>path.
               then_eff file_fault
               (then_eff (update_eff (st_files_update (AList.delete path)))
               (then_eff touch_directory
               (then_eff (remove_entry py (ne_task_id entry))
                 (nav_update (\<lambda>nav. nav\<lparr>nav_generation := nav_generation nav + 1,
                                       nav_update_count := nav_update_count nav + 1\<rparr>)))))))
              (\<lambda>e. case e of
                  StoreOSError \<Rightarrow> then_eff (update_eff (st_write_failures_update (\<lambda>n. n + 1))) (return_eff 0)
                | _ \<Rightarrow> raise_eff e)
              (\<lambda>_. return_eff 1)
          else return_eff 0
      | Some None \<Rightarrow> raise_eff StoreTypeError
      | None \<Rightarrow> return_eff 0)"

fun cleanup_entries :: "coercions \<Rightarrow> int \<Rightarrow> navigation_entry list \<Rightarrow> int store_op" where
  "cleanup_entries py cutoff [] = return_eff 0"
| "cleanup_entries py cutoff (entry # entries) =
     bind_eff (cleanup_entry py cutoff entry) (\<lambda>n.
     bind_eff (cleanup_entries py cutoff entries) (\<lambda>m. return_eff (n + m)))"

definition cleanup :: "coercions \<Rightarrow> int \<Rightarrow> int \<Rightarrow> int store_op" where
  "cleanup py now retention_days =
     bind_eff (read_nav (\<lambda>nav. map snd (nav_entries nav)))
       (cleanup_entries py (now - retention_days * A_DAY))"

section \<open>Health\<close>

definition TASK_NAMESPACE :: string where
  "TASK_NAMESPACE = ''execution-tasks-v1''"

text \<open>The index is checked first unless the caller has validated it.\<close>

definition validated_index :: "coercions \<Rightarrow> bool \<Rightarrow> unit store_op" where
  "validated_index py validated = (if validated then return_eff () else ensure_navigation_index py)"

definition metrics_of :: "task_store \<Rightarrow> dict" where
  "metrics_of s =
     (let nav = st_nav s in
      [(''generation'', JInt (nav_generation nav)),
       (''record_count'', JInt (int (length (nav_entries nav)))),
       (''nonterminal_record_count'', JInt (int (length (nav_nonterminal_ids nav)))),
       (''index_rebuild_count'', JInt (nav_rebuild_count nav)),
       (''index_update_count'', JInt (nav_update_count nav)),
       (''index_invalidation_count'', JInt (nav_invalidation_count nav)),
       (''records_deserialized'', JInt (st_records_deserialized s)),
       (''terminal_records_deserialized'', JInt (st_terminal_records_deserialized s)),
       (''full_history_scan_count'', JInt (st_full_history_scan_count s)),
       (''legacy_task_count'', JInt (nav_legacy_task_count nav)),
       (''legacy_active_task_count'', JInt (nav_legacy_active_task_count nav))])"

definition navigation_metrics :: "coercions \<Rightarrow> bool \<Rightarrow> dict store_op" where
  "navigation_metrics py validated = then_eff (validated_index py validated) (read_eff metrics_of)"

definition health_status :: "task_store \<Rightarrow> string" where
  "health_status s =
     (if st_corruption_count s \<noteq> 0 \<or> st_write_failures s \<noteq> 0 \<or> st_materialization_failures s \<noteq> 0
      then ''degraded'' else ''healthy'')"

definition health :: "coercions \<Rightarrow> int \<Rightarrow> bool \<Rightarrow> dict store_op" where
  "health py retention_days validated =
     then_eff (validated_index py validated)
     (bind_eff (read_nav (\<lambda>nav. (int (length (nav_entries nav)), nav_total_event_count nav, nav_manual_review_count nav)))
        (\<lambda>(record_count, event_count, manual_review_count).
      bind_eff (read_eff (\<lambda>s.
        [(''configured'', JBool True),
         (''status'', JStr (health_status s)),
         (''namespace'', JStr TASK_NAMESPACE),
         (''record_count'', JInt record_count),
         (''event_count'', JInt event_count),
         (''corruption_count'', JInt (st_corruption_count s)),
         (''write_failures'', JInt (st_write_failures s)),
         (''event_write_failures'', JInt (st_event_write_failures s)),
         (''materialization_failures'', JInt (st_materialization_failures s)),
         (''rehydration_attempts'', JInt (st_rehydration_attempts s)),
         (''retention_days'', JInt retention_days),
         (''manual_review_count'', JInt manual_review_count)])) (\<lambda>fields.
      bind_eff (navigation_metrics py validated) (\<lambda>navigation.
        return_eff (fields @ [(''navigation'', JDict navigation)])))))"

text \<open>The plans that may own a quarantined record; \<open>None\<close> when the directory cannot be listed.\<close>

definition quarantined_plan_prefixes :: "string list option store_op" where
  "quarantined_plan_prefixes =
     catch_eff (then_eff file_fault (read_eff (\<lambda>s. Some (remdups (map fst (st_quarantine s))))))
       (\<lambda>e. case e of StoreOSError \<Rightarrow> return_eff None | _ \<Rightarrow> raise_eff e)"

end
