(* ===== verification/Task_Properties.thy ===== *)
theory Task_Properties
  imports Task_Models Json_Properties
begin

text \<open>
  The execution task refines its event history: the record that \<open>append_event\<close> mutates stays the
  materialisation of the events.  Terminal states absorb, histories only grow, a single-dispatch
  operation has one dispatch, and no task gets stuck.
\<close>

section \<open>Bounding\<close>

lemma take_points_idem [simp]: "take_points n (take_points n s) = take_points n s"
  by (induction n s rule: take_points.induct) (auto split: nat.splits)

lemma dict_update_Nil [simp]: "dict_update d [] = d"
  by (simp add: dict_update_def)

lemma dict_update_Cons [simp]: "dict_update d ((k, v) # e) = dict_update (AList.update k v d) e"
  by (simp add: dict_update_def)

lemma map_of_dict_update: "map_of (dict_update d e) = map_of d ++ map_of (rev e)"
proof (induction e arbitrary: d)
  case (Cons p e)
  obtain k v where "p = (k, v)" by (cases p)
  with Cons show ?case
    by (auto simp: fun_eq_iff update_conv' map_add_def split: option.splits)
qed simp

lemma distinct_keys_dict_update: "distinct (map fst d) \<Longrightarrow> distinct (map fst (dict_update d e))"
  by (induction e arbitrary: d) (auto simp: distinct_update)

lemma length_dict_update: "length (dict_update d e) \<le> length d + length e"
proof (induction e arbitrary: d)
  case (Cons p e)
  have "length (AList.update k v d) \<le> Suc (length d)" for k v by (induction d) auto
  with Cons show ?case by (cases p) (fastforce intro: order_trans)
qed simp

lemma update_new_key: "k \<notin> fst ` set d \<Longrightarrow> AList.update k v d = d @ [(k, v)]"
  by (induction d) auto

lemma dict_update_fresh:
  "distinct (map fst (d @ e)) \<Longrightarrow> dict_update d e = d @ e"
proof (induction e arbitrary: d)
  case (Cons p e)
  obtain k v where p: "p = (k, v)" by (cases p)
  with Cons.prems have "k \<notin> fst ` set d" by auto
  with p Cons.prems Cons.IH [of "d @ [(k, v)]"] show ?case by (simp add: update_new_key)
qed simp

lemma set_update_subset: "set (AList.update k v d) \<subseteq> insert (k, v) (set d)"
  by (induction d) auto

lemma set_dict_update: "set (dict_update d e) \<subseteq> set d \<union> set e"
proof (induction e arbitrary: d)
  case (Cons p e)
  obtain k v where p: "p = (k, v)" by (cases p)
  have "set (dict_update d (p # e)) \<subseteq> set (AList.update k v d) \<union> set e" using Cons p by simp
  also have "\<dots> \<subseteq> insert (k, v) (set d) \<union> set e" using set_update_subset [of k v d] by (rule Un_mono) simp
  finally show ?case using p by simp
qed simp

lemma bounded_fixed_items:
  assumes "\<And>k v. (k, v) \<in> set e \<Longrightarrow> take_points 80 k = k \<and> f v = v"
    and "length e \<le> 64" and "distinct (map fst e)"
  shows "dict_update [] (map (\<lambda>(k, item). (take_points 80 k, f item)) (take 64 e)) = e"
proof -
  have "map (\<lambda>(k, item). (take_points 80 k, f item)) e = e"
    by (rule map_idI) (use assms(1) in auto)
  then show ?thesis using assms(2,3) dict_update_fresh [of "[]" e] by simp
qed

lemma bounded_bounded: "d \<le> e \<Longrightarrow> bounded py d (bounded py e v) = bounded py e v"
proof (induction py e v arbitrary: d rule: bounded.induct)
  case (1 py e v)
  show ?case
  proof (cases "4 < e")
    case True
    then show ?thesis by (simp add: bounded.simps)
  next
    case False
    then have d: "\<not> 4 < d" using 1(3) by simp
    have step: "bounded py (Suc d) (bounded py (Suc e) x) = bounded py (Suc e) x"
      if "x \<in> set (take 32 xs)" "v = JList xs" for x xs
      using 1(1) [OF False that(2) that(1), of "Suc d"] 1(3) by simp
    show ?thesis
    proof (cases v)
      case (JList xs)
      then show ?thesis using False d step [OF _ JList]
        by (simp add: bounded.simps [of _ e] bounded.simps [of _ d])
    next
      case (JDict kvs)
      let ?e = "dict_update [] (map (\<lambda>(k, item). (take_points 80 k, bounded py (e + 1) item)) (take 64 kvs))"
      have "take_points 80 k = k \<and> bounded py (d + 1) x = x" if "(k, x) \<in> set ?e" for k x
      proof -
        from that set_dict_update [of "[]"] obtain k' x' where
          "(k', x') \<in> set (take 64 kvs)" "k = take_points 80 k'" "x = bounded py (e + 1) x'"
          by fastforce
        then show ?thesis
          using 1(2) [OF False JDict, of "(k', x')" k' x' "d + 1"] 1(3) by simp
      qed
      then have "dict_update [] (map (\<lambda>(k, item). (take_points 80 k, bounded py (d + 1) item)) (take 64 ?e)) = ?e"
        by (rule bounded_fixed_items)
          (use length_dict_update [of "[]" "map (\<lambda>(k, item). (take_points 80 k, bounded py (e + 1) item)) (take 64 kvs)"]
            distinct_keys_dict_update [of "[]"] in \<open>auto intro: order_trans\<close>)
      then show ?thesis using JDict False d
        by (simp add: bounded.simps [of _ e] bounded.simps [of _ d])
    qed (use False d in \<open>simp_all add: bounded.simps\<close>)
  qed
qed

section \<open>Views\<close>

text \<open>The value of every field, up to \<open>==\<close>.\<close>

definition view :: "dict \<Rightarrow> string \<Rightarrow> json option" where
  "view d k = map_option loose (map_of d k)"

lemma loose_dict_iff:
  assumes "distinct (map fst d)" and "distinct (map fst e)"
  shows "loose_equal (JDict d) (JDict e) \<longleftrightarrow> view d = view e"
proof -
  let ?f = "\<lambda>(k, v). (k, loose v)"
  have dist: "distinct (map fst (map ?f d))" "distinct (map fst (map ?f e))"
    using assms by (simp_all add: comp_def case_prod_unfold)
  have "view d = map_of (map ?f d)" "view e = map_of (map ?f e)"
    by (auto simp: fun_eq_iff view_def map_of_canon_items)
  then show ?thesis
    using sorted_items_unique [OF dist] map_of_inject_set [OF dist] by (simp add: loose_equal_def)
qed

lemma loose_JStr_iff [simp]: "loose v = JStr s \<longleftrightarrow> v = JStr s" "JStr s = loose v \<longleftrightarrow> v = JStr s"
proof -
  have "loose_float x \<noteq> JStr s" for x by (cases x) auto
  then show "loose v = JStr s \<longleftrightarrow> v = JStr s" by (cases v) auto
  then show "JStr s = loose v \<longleftrightarrow> v = JStr s" by auto
qed

lemma loose_containers:
  "loose v = JList ws \<Longrightarrow> \<exists>xs. v = JList xs \<and> map loose xs = ws"
  "loose v = JDict kws \<Longrightarrow> \<exists>kvs. v = JDict kvs"
proof -
  have "loose_float x \<noteq> JList ws \<and> loose_float x \<noteq> JDict kws" for x by (cases x) auto
  then show "loose v = JList ws \<Longrightarrow> \<exists>xs. v = JList xs \<and> map loose xs = ws"
    "loose v = JDict kws \<Longrightarrow> \<exists>kvs. v = JDict kvs"
    by (cases v; auto)+
qed

definition task_keys :: "string list" where
  "task_keys =
     [''task_id'', ''task_schema_version'', ''plan_id'', ''plan_hash'', ''operation'', ''target'',
      ''created_at'', ''updated_at'', ''started_at'', ''dispatched_at'', ''completed_at'', ''state'',
      ''terminal_outcome'', ''execution_request_id'', ''idempotency_key'', ''approval_reference'',
      ''provider_attempts'', ''verification_summary'', ''last_error'', ''manual_review_reason'',
      ''maximum_post_dispatch_deadline'', ''legacy_projection'']"

lemma task_fields_keys [simp]: "map fst (task_fields py task) = task_keys"
  by (simp add: task_fields_def task_keys_def)

lemma distinct_task_keys [simp]: "distinct task_keys"
  by (simp add: task_keys_def)

lemma map_of_task_fields [simp]:
  "map_of (task_fields py task) ''state'' = Some (JStr (task_state_value (et_state task)))"
  "map_of (task_fields py task) ''operation'' = Some (et_operation task)"
  "map_of (task_fields py task) ''provider_attempts'' =
     Some (bounded py 0 (JList (map JDict (et_provider_attempts task))))"
  by (simp_all add: task_fields_def)

section \<open>Well-typed changes\<close>

text \<open>A change of a field other than the operation, of the type the class declares.\<close>

fun is_dict_list :: "json \<Rightarrow> bool" where
  "is_dict_list (JList xs) = list_all is_dict xs" | "is_dict_list _ = False"

definition typed_change :: "string \<Rightarrow> json \<Rightarrow> bool" where
  "typed_change k v \<longleftrightarrow>
     k \<in> set task_keys \<and> k \<noteq> ''operation'' \<and>
     (if k \<in> {''target'', ''approval_reference'', ''verification_summary'', ''legacy_projection''}
      then is_dict v
      else if k = ''provider_attempts'' then is_dict_list v
      else if k = ''last_error'' then is_dict v \<or> v = JNull
      else if k = ''state'' then (case v of JStr s \<Rightarrow> s \<in> task_state_value ` set ALL_TASK_STATES | _ \<Rightarrow> False)
      else True)"

definition typed_changes :: "dict \<Rightarrow> bool" where
  "typed_changes d \<longleftrightarrow> list_all (\<lambda>(k, v). k \<noteq> ''state'' \<longrightarrow> typed_change k v) d"

lemma task_state_of_value [simp]: "task_state_of (task_state_value st) = Inr st"
  by (cases st) (simp_all add: task_state_of_def ALL_TASK_STATES_def)

lemma task_state_of_ok: "task_state_of s = Inr st \<longleftrightarrow> s = task_state_value st"
proof
  show "task_state_of s = Inr st \<Longrightarrow> s = task_state_value st"
    by (auto simp: task_state_of_def find_Some_iff split: option.splits)
qed simp

lemma task_state_value_inject [simp]: "task_state_value st = task_state_value st' \<longleftrightarrow> st = st'"
  by (metis sum.inject(2) task_state_of_value)

lemma task_state_of_error: "task_state_of s = Inl e \<Longrightarrow> e = TaskValueError"
  by (simp add: task_state_of_def split: option.splits)

lemma is_dict_iff: "is_dict v \<longleftrightarrow> (\<exists>d. v = JDict d)"
  by (cases v) simp_all

lemma dict_or_empty_dict [simp]: "dict_or_empty py (JDict d) = Inr d"
  by (cases d) (simp_all add: dict_or_empty_def)

lemma collect_dicts [simp]: "collect (to_dict py) (map JDict ds) = Inr ds"
  by (induction ds) simp_all

lemma dict_list_dicts [simp]: "dict_list py (JList (map JDict ds)) = Inr ds"
  by (cases ds) (simp_all add: dict_list_def)

lemma dicts_are_map: "list_all is_dict xs \<longleftrightarrow> (\<exists>ds. xs = map JDict ds)"
proof (induction xs)
  case (Cons x xs)
  then show ?case by (auto simp: is_dict_iff) (metis list.simps(9))
qed simp

lemma is_dict_list_iff: "is_dict_list v \<longleftrightarrow> (\<exists>ds. v = JList (map JDict ds))"
  by (cases v) (auto simp: dicts_are_map)

lemma bounded_0_1: "bounded py (Suc 0) v = v \<Longrightarrow> bounded py 0 v = v"
  using bounded_bounded [of 0 "Suc 0" py v] by simp

definition simple_keys :: "string list" where
  "simple_keys =
     [''task_id'', ''task_schema_version'', ''plan_id'', ''plan_hash'', ''created_at'', ''updated_at'',
      ''started_at'', ''dispatched_at'', ''completed_at'', ''terminal_outcome'', ''execution_request_id'',
      ''idempotency_key'', ''manual_review_reason'', ''maximum_post_dispatch_deadline'']"

lemma set_simple_field_frame [simp]:
  "et_events (set_simple_field k v task) = et_events task"
  "et_state (set_simple_field k v task) = et_state task"
  "k \<noteq> ''operation'' \<Longrightarrow> et_operation (set_simple_field k v task) = et_operation task"
  by (simp_all add: set_simple_field_def)

lemma set_simple_field_fields:
  "list_all (\<lambda>k. task_fields py (set_simple_field k v task) = AList.update k v (task_fields py task))
     simple_keys"
  unfolding simple_keys_def set_simple_field_def list.pred_inject
  by (intro conjI TrueI; simp add: task_fields_def)

lemma apply_simple_change:
  "list_all (\<lambda>k. apply_event_change py k v task = Inr (set_simple_field k v task)) simple_keys"
  by (simp add: simple_keys_def apply_event_change_def)

lemma task_keys_cases:
  "list_all (\<lambda>k. k = ''operation'' \<or> k = ''provider_attempts'' \<or> k = ''last_error'' \<or> k = ''state'' \<or>
     k \<in> {''target'', ''approval_reference'', ''verification_summary'', ''legacy_projection''} \<or>
     k \<in> set simple_keys \<and> k \<noteq> ''state'' \<and> k \<noteq> ''operation'') task_keys"
  by code_simp

text \<open>One settled, well-typed change sets its field and no other.\<close>

lemma apply_event_change_typed:
  assumes typed: "typed_change k v" and settled: "bounded py (Suc 0) v = v \<or> k = ''updated_at'' \<or> k = ''state''"
  shows "\<exists>task'. apply_event_change py k v task = Inr task' \<and>
    task_fields py task' = AList.update k v (task_fields py task) \<and>
    et_events task' = et_events task \<and> et_operation task' = et_operation task \<and>
    (k \<noteq> ''state'' \<longrightarrow> et_state task' = et_state task)" (is "?P k v")
proof -
  have fixed: "bounded py 0 v = v" if "k \<noteq> ''updated_at''" "k \<noteq> ''state''"
    using settled that bounded_0_1 by auto
  have keys: "k \<in> set task_keys" "k \<noteq> ''operation''" using typed by (simp_all add: typed_change_def)
  have "k = ''operation'' \<or> k = ''provider_attempts'' \<or> k = ''last_error'' \<or> k = ''state'' \<or>
      k \<in> {''target'', ''approval_reference'', ''verification_summary'', ''legacy_projection''} \<or>
      k \<in> set simple_keys \<and> k \<noteq> ''state'' \<and> k \<noteq> ''operation''"
    using task_keys_cases keys(1) unfolding list_all_iff by (rule bspec)
  then show ?thesis
  proof (elim disjE)
    assume "k = ''operation''"
    with keys(2) show ?thesis by contradiction
  next
    assume 1: "k = ''provider_attempts''"
    with typed obtain ds where v: "v = JList (map JDict ds)"
      by (auto simp: typed_change_def is_dict_list_iff)
    then show ?thesis using 1 fixed
      by (auto simp: apply_event_change_def task_fields_def)
  next
    assume 2: "k = ''last_error''"
    with typed have "v = JNull \<or> (\<exists>d. v = JDict d)"
      by (auto simp: typed_change_def is_dict_iff)
    then show ?thesis using 2 fixed
      by (auto simp: apply_event_change_def task_fields_def)
  next
    assume 3: "k = ''state''"
    with typed obtain st where "v = JStr (task_state_value st)"
      by (auto simp: typed_change_def split: json.splits)
    then show ?thesis using 3
      by (auto simp: apply_event_change_def task_fields_def)
  next
    assume 4: "k \<in> {''target'', ''approval_reference'', ''verification_summary'', ''legacy_projection''}"
    with typed obtain d where v: "v = JDict d" unfolding typed_change_def is_dict_iff by presburger
    have "bounded py 0 (JDict d) = JDict d" using 4 v by (intro fixed [unfolded v]) auto
    then have "\<forall>k \<in> {''target'', ''approval_reference'', ''verification_summary'', ''legacy_projection''}.
        ?P k (JDict d)"
      by (simp add: apply_event_change_def task_fields_def)
    from bspec [OF this 4] show ?thesis unfolding v .
  next
    assume "k \<in> set simple_keys \<and> k \<noteq> ''state'' \<and> k \<noteq> ''operation''"
    then show ?thesis
      using set_simple_field_fields [of py v task] apply_simple_change [of py v task]
      by (simp add: list_all_iff)
  qed
qed

text \<open>The changes an event records.\<close>

definition settled_change :: "coercions \<Rightarrow> string \<times> json \<Rightarrow> bool" where
  "settled_change py = (\<lambda>(k, v). typed_change k v \<and>
     (bounded py (Suc 0) v = v \<or> k = ''updated_at'' \<or> k = ''state''))"

lemma apply_event_changes_settled:
  assumes "list_all (settled_change py) changes"
  shows "\<exists>task'. apply_event_changes py changes task = (Inr (), task') \<and>
    task_fields py task' = dict_update (task_fields py task) changes \<and>
    et_events task' = et_events task \<and> et_operation task' = et_operation task"
  using assms
proof (induction changes arbitrary: task)
  case (Cons p changes)
  obtain k v where p: "p = (k, v)" by (cases p)
  with Cons.prems obtain task1 where
    "apply_event_change py k v task = Inr task1"
    "task_fields py task1 = AList.update k v (task_fields py task)"
    "et_events task1 = et_events task" "et_operation task1 = et_operation task"
    using apply_event_change_typed [of k v py task] by (auto simp: settled_change_def)
  moreover from Cons.prems have "list_all (settled_change py) changes" by simp
  ultimately show ?case using Cons.IH [of task1] p by simp
qed simp

lemma short_task_keys: "list_all (\<lambda>k. take_points 80 k = k) task_keys"
  by code_simp

lemma state_update_keys: "''state'' \<in> set task_keys" "''updated_at'' \<in> set task_keys"
  by (simp_all add: task_keys_def)

lemma typed_state: "typed_change ''state'' (JStr (task_state_value st))"
  by (cases st) (simp_all add: typed_change_def state_update_keys ALL_TASK_STATES_def)

lemma typed_updated_at: "typed_change ''updated_at'' v"
  by (simp add: typed_change_def state_update_keys)

lemma typed_bounded:
  assumes "typed_change k v" and "k \<noteq> ''state''"
  shows "typed_change k (bounded py (Suc 0) v)"
proof -
  have dict: "is_dict w \<Longrightarrow> is_dict (bounded py (Suc 0) w)" for w
    by (auto simp: is_dict_iff bounded.simps)
  have dict2: "is_dict w \<Longrightarrow> is_dict (bounded py (Suc (Suc 0)) w)" for w
    by (auto simp: is_dict_iff bounded.simps)
  have list: "is_dict_list w \<Longrightarrow> is_dict_list (bounded py (Suc 0) w)" for w
    by (cases w) (auto simp: bounded.simps [of _ "Suc 0"] list_all_iff dict2 dest!: in_set_takeD)
  have null: "bounded py (Suc 0) JNull = JNull" by (simp add: bounded.simps)
  from assms show ?thesis
    unfolding typed_change_def using dict list null
    by (auto split: if_splits)
qed

lemma settled_bounded_items:
  assumes "typed_changes changes" and "bounded py 0 (JDict changes) = JDict d" and "(k, v) \<in> set d"
    and "k \<noteq> ''state''"
  shows "settled_change py (k, v)"
proof -
  from assms(2,3) obtain k' v' where kv: "(k', v') \<in> set changes" "k = take_points 80 k'"
    "v = bounded py (Suc 0) v'"
    using set_dict_update [of "[]"] by (fastforce simp: bounded.simps dest!: in_set_takeD)
  from assms(1) kv(1) have typed: "k' \<noteq> ''state'' \<longrightarrow> typed_change k' v'"
    by (auto simp: typed_changes_def list_all_iff)
  have "take_points 80 ''state'' = ''state''" using short_task_keys state_update_keys
    by (simp add: list_all_iff)
  with kv(2) assms(4) have "k' \<noteq> ''state''" by metis
  with typed have t: "typed_change k' v'" by simp
  then have "k = k'" using kv(2) short_task_keys by (simp add: typed_change_def list_all_iff)
  then show ?thesis using typed_bounded [OF t \<open>k' \<noteq> ''state''\<close>] kv(3)
    by (simp add: settled_change_def bounded_bounded)
qed

lemma safe_changes_settled:
  assumes "typed_changes changes"
  shows "list_all (settled_change py) (safe_changes py changes occurred_at st)"
    and "map_of (safe_changes py changes occurred_at st) ''state'' = Some (JStr (task_state_value st))"
    and "distinct (map fst (safe_changes py changes occurred_at st))"
proof -
  obtain d where d: "bounded py 0 (JDict changes) = JDict d" "distinct (map fst d)"
    using distinct_keys_dict_update [of "[]"] by (simp add: bounded.simps)
  let ?u = "AList.update ''updated_at'' (JStr occurred_at) d"
  have safe: "safe_changes py changes occurred_at st = AList.update ''state'' (JStr (task_state_value st)) ?u"
    by (simp add: safe_changes_def d)
  have u: "distinct (map fst ?u)" using d(2) by (rule distinct_update)
  then show dist: "distinct (map fst (safe_changes py changes occurred_at st))"
    unfolding safe by (rule distinct_update)
  show state: "map_of (safe_changes py changes occurred_at st) ''state'' = Some (JStr (task_state_value st))"
    unfolding safe by (simp add: update_conv')
  have "settled_change py (k, v)" if kv: "(k, v) \<in> set (safe_changes py changes occurred_at st)" for k v
  proof (cases "k = ''state''")
    case True
    with kv state dist have "v = JStr (task_state_value st)" by (simp add: map_of_eq_Some_iff)
    with True show ?thesis by (simp add: settled_change_def typed_state)
  next
    case False
    from kv have "map_of (safe_changes py changes occurred_at st) k = Some v"
      using dist by (simp add: map_of_eq_Some_iff)
    with False have "k = ''updated_at'' \<or> (k, v) \<in> set d"
      using map_of_SomeD [of d k v] by (auto simp: safe update_conv' split: if_splits)
    then show ?thesis
      using settled_bounded_items [OF assms d(1) _ False] by (auto simp: settled_change_def typed_updated_at)
  qed
  then show "list_all (settled_change py) (safe_changes py changes occurred_at st)"
    by (auto simp: list_all_iff)
qed

section \<open>Histories\<close>

lemma materialize_loop_append:
  "materialize_loop py i (events @ [event]) acc =
     and_then (materialize_loop py i events acc) (materialize_event py (i + int (length events)) event)"
proof (induction events arbitrary: i acc)
  case Nil
  then show ?case by (cases "materialize_event py i event acc") simp_all
next
  case (Cons e events)
  then show ?case by (cases "materialize_event py i e acc") (simp_all add: algebra_simps)
qed

text \<open>What an event does to the record when it is accepted.\<close>

definition transition_allowed :: "execution_task_state \<Rightarrow> string \<Rightarrow> execution_task_state \<Rightarrow> bool" where
  "transition_allowed previous event_type st \<longleftrightarrow>
     (if st \<noteq> previous then st \<in> set (ALLOWED_TASK_TRANSITIONS previous)
      else previous \<notin> set TERMINAL_TASK_STATES \<or> event_type \<in> set TERMINAL_OBSERVATION_EVENTS)"

definition event_accepted ::
    "coercions \<Rightarrow> execution_task_event \<Rightarrow> string option \<Rightarrow> execution_task_state \<Rightarrow> bool" where
  "event_accepted py event prior_state st \<longleftrightarrow>
     (\<exists>t. parse_task_timestamp py (JStr (ev_occurred_at event)) = Inr t) \<and>
     ev_state_after event = task_state_value st \<and> st \<notin> set RESERVED_TASK_STATES \<and>
     (case prior_state of None \<Rightarrow> True
      | Some prior \<Rightarrow> \<exists>previous. prior = task_state_value previous \<and>
          transition_allowed previous (ev_event_type event) st)"

lemma check_transition_ok:
  "check_transition prior_state event_type st = Inr u \<longleftrightarrow>
     (case prior_state of None \<Rightarrow> True
      | Some prior \<Rightarrow> \<exists>previous. prior = task_state_value previous \<and>
          transition_allowed previous event_type st)"
proof (cases prior_state)
  case (Some prior)
  show ?thesis
  proof (cases "task_state_of prior")
    case (Inl e)
    then have "prior \<noteq> task_state_value previous" for previous by auto
    with Some Inl show ?thesis by (simp add: check_transition_def)
  next
    case (Inr previous)
    then have "prior = task_state_value previous" by (simp add: task_state_of_ok)
    with Some show ?thesis by (simp add: check_transition_def transition_allowed_def)
  qed
qed (simp add: check_transition_def)

lemma materialize_event_ok:
  "materialize_event py index event (record, prior_state) = Inr out \<longleftrightarrow>
     ev_sequence event = index \<and>
     (if index = 1 then ev_event_type event = ''task_created'' \<and> ev_state_before event = None
      else ev_state_before event = prior_state) \<and>
     (\<exists>st. event_accepted py event prior_state st \<and>
        out = (AList.update ''state'' (JStr (task_state_value st)) (dict_update record (ev_changes event)),
               Some (task_state_value st)))"
proof -
  define created where "created \<longleftrightarrow> ev_event_type event = ''task_created''"
  have "materialize_event py index event (record, prior_state) = Inr out \<longleftrightarrow>
     ev_sequence event = index \<and>
     (\<exists>t. parse_task_timestamp py (JStr (ev_occurred_at event)) = Inr t) \<and>
     (if index = 1 then created \<and> ev_state_before event = None else ev_state_before event = prior_state) \<and>
     (\<exists>st. ev_state_after event = task_state_value st \<and> st \<notin> set RESERVED_TASK_STATES \<and>
        check_transition prior_state (ev_event_type event) st = Inr () \<and>
        out = (AList.update ''state'' (JStr (task_state_value st)) (dict_update record (ev_changes event)),
               Some (task_state_value st)))"
    unfolding materialize_event_def prod.case created_def [symmetric]
    by (cases "index = 1")
      (simp_all add: and_then_ok_iff task_state_of_ok del: parse_task_timestamp.simps, blast+)
  then show ?thesis
    unfolding event_accepted_def check_transition_ok created_def by blast
qed

lemma materialize_execution_task_ok:
  "materialize_execution_task py events = Inr record \<longleftrightarrow>
     events \<noteq> [] \<and>
     (\<exists>prior. materialize_loop py 1 events ([], None) = Inr (record, prior)) \<and>
     (\<exists>attempts. dict_list py (dict_get record ''provider_attempts'') = Inr attempts \<and>
        require_single_dispatch_history
          (if truthy (dict_get record ''operation'')
           then JStr (to_str py (dict_get record ''operation'')) else JStr []) events attempts = Inr ())"
  by (auto simp: materialize_execution_task_def and_then_ok_iff)

lemma materialize_loop_state:
  assumes "materialize_loop py 1 events ([], None) = Inr (record, prior)" and "events \<noteq> []"
  shows "\<exists>st. prior = Some (task_state_value st) \<and> st \<notin> set RESERVED_TASK_STATES \<and>
    map_of record ''state'' = Some (JStr (task_state_value st))"
proof -
  from assms(2) obtain es e where "events = es @ [e]" by (metis rev_exhaust)
  with assms(1) obtain acc where "materialize_event py (1 + int (length es)) e acc = Inr (record, prior)"
    by (auto simp: materialize_loop_append and_then_ok_iff)
  then show ?thesis
    by (cases acc) (auto simp: materialize_event_ok event_accepted_def update_conv')
qed

lemma materialize_loop_distinct:
  "materialize_loop py i events (r, p) = Inr (record, prior) \<Longrightarrow> distinct (map fst r) \<Longrightarrow>
     distinct (map fst record)"
proof (induction events arbitrary: i r p)
  case (Cons e events)
  from Cons.prems(1) obtain r1 p1 where e: "materialize_event py i e (r, p) = Inr (r1, p1)"
    and loop: "materialize_loop py (i + 1) events (r1, p1) = Inr (record, prior)"
    by (auto simp: and_then_ok_iff)
  from e Cons.prems(2) have "distinct (map fst r1)"
    by (auto simp: materialize_event_ok distinct_keys_dict_update intro: distinct_update)
  from Cons.IH [OF loop this] show ?case .
qed simp

section \<open>The record and its history\<close>

definition materialized :: "coercions \<Rightarrow> execution_task \<Rightarrow> bool" where
  "materialized py task \<longleftrightarrow>
     (case et_operation task of JStr s \<Rightarrow> True | _ \<Rightarrow> False) \<and>
     (case materialize_execution_task py (et_events task) of
        Inr record \<Rightarrow> loose_equal (JDict (task_fields py task)) (JDict record) | Inl e \<Rightarrow> False)"

lemma materialized_iff:
  "materialized py task \<longleftrightarrow>
     (\<exists>s. et_operation task = JStr s) \<and>
     (\<exists>record. materialize_execution_task py (et_events task) = Inr record \<and>
        view (task_fields py task) = view record)"
proof -
  have "loose_equal (JDict (task_fields py task)) (JDict r) \<longleftrightarrow> view (task_fields py task) = view r"
    if "materialize_execution_task py (et_events task) = Inr r" for r
    using that materialize_loop_distinct
    by (intro loose_dict_iff) (auto simp: materialize_execution_task_ok)
  moreover have "(case et_operation task of JStr s \<Rightarrow> True | _ \<Rightarrow> False) \<longleftrightarrow> (\<exists>s. et_operation task = JStr s)"
    by (cases "et_operation task") auto
  ultimately show ?thesis unfolding materialized_def
    by (cases "materialize_execution_task py (et_events task)") auto
qed

lemma view_JStr: "view d k = view e k \<Longrightarrow> map_of e k = Some (JStr s) \<Longrightarrow> map_of d k = Some (JStr s)"
  by (auto simp: view_def)

lemma view_update:
  "view d = view e \<Longrightarrow> view (dict_update d c) = view (dict_update e c)"
  by (auto simp: fun_eq_iff view_def map_of_dict_update map_add_def split: option.splits)

lemma view_update_same:
  "map_of d k = Some v \<Longrightarrow> view (AList.update k v d) = view d"
  by (auto simp: fun_eq_iff view_def update_conv')

lemma map_of_rev_distinct: "distinct (map fst xs) \<Longrightarrow> map_of (rev xs) = map_of xs"
  by (rule map_of_inject_set [THEN iffD2]) (simp_all add: rev_map [symmetric])

lemma map_of_dict_update_distinct:
  "distinct (map fst e) \<Longrightarrow> map_of (dict_update d e) = map_of d ++ map_of e"
  by (simp add: map_of_dict_update map_of_rev_distinct)

text \<open>The provider attempts of record and task agree in their number, as far as single dispatch looks.\<close>

lemma view_attempts:
  assumes "view (task_fields py task) = view record"
  shows "\<exists>ds. dict_list py (dict_get record ''provider_attempts'') = Inr ds \<and>
    (length ds \<le> 1 \<longleftrightarrow> length (et_provider_attempts task) \<le> 1)"
proof -
  let ?xs = "map (bounded py 1) (take 32 (map JDict (et_provider_attempts task)))"
  have "view record ''provider_attempts'' = view (task_fields py task) ''provider_attempts''"
    using assms by simp
  then obtain v where v: "map_of record ''provider_attempts'' = Some v" "loose v = loose (JList ?xs)"
    by (auto simp: view_def bounded.simps [of _ 0])
  then obtain ys where ys: "v = JList ys" "map loose ys = map loose ?xs"
    using loose_containers(1) by fastforce
  have "is_dict y" if "y \<in> set ys" for y
  proof -
    from that have "loose y \<in> set (map loose ys)" by simp
    then obtain x where "x \<in> set ?xs" "loose y = loose x" unfolding ys(2) by auto
    then obtain d where "loose y = loose (bounded py 1 (JDict d))" by (auto dest!: in_set_takeD)
    then have "\<exists>kws. loose y = JDict kws" by (simp add: bounded.simps)
    then show ?thesis using loose_containers(2) is_dict_iff by metis
  qed
  then obtain ds where ds: "ys = map JDict ds" using dicts_are_map by (metis list_all_iff)
  then have "length ds = min 32 (length (et_provider_attempts task))"
    using ys(2) by (metis length_map length_take min.commute)
  then show ?thesis using v(1) ys(1) ds by (auto simp: dict_get_def)
qed

lemma require_single_iff:
  "require_single_dispatch_history (JStr s) events attempts = Inr () \<longleftrightarrow>
     (s \<in> set SINGLE_DISPATCH_OPERATIONS \<longrightarrow>
      length (filter is_dispatch events) \<le> 1 \<and> length attempts \<le> 1)"
  by (auto simp: require_single_dispatch_history_def is_dispatch_def [abs_def])

section \<open>Appending an event\<close>

definition target_of :: "execution_task_state option \<Rightarrow> execution_task \<Rightarrow> execution_task_state" where
  "target_of new_state task = (case new_state of Some st \<Rightarrow> st | None \<Rightarrow> et_state task)"

definition appended_event ::
    "coercions \<Rightarrow> string \<Rightarrow> string \<Rightarrow> execution_task_state \<Rightarrow> dict \<Rightarrow> string option \<Rightarrow> execution_task
     \<Rightarrow> execution_task_event" where
  "appended_event py event_type occurred_at st changes request_id task =
     \<lparr>ev_sequence = int (length (et_events task)) + 1, ev_event_type = event_type,
      ev_occurred_at = occurred_at, ev_state_before = Some (task_state_value (et_state task)),
      ev_state_after = task_state_value st, ev_changes = safe_changes py changes occurred_at st,
      ev_request_id = request_id\<rparr>"

definition attempts_after :: "coercions \<Rightarrow> dict \<Rightarrow> execution_task \<Rightarrow> task_error + dict list" where
  "attempts_after py safe task =
     (case map_of safe ''provider_attempts'' of
        Some v \<Rightarrow> dict_list py v | None \<Rightarrow> Inr (et_provider_attempts task))"

lemma append_event_unfold:
  "append_event py event_type occurred_at new_state (Some changes) request_id task =
     (let st = target_of new_state task;
          event = appended_event py event_type occurred_at st changes request_id task
      in case
           and_then (parse_task_timestamp py (JStr occurred_at)) (\<lambda>_.
           and_then (demand (transition_allowed (et_state task) event_type st) TaskValueError) (\<lambda>_.
           and_then (attempts_after py (safe_changes py changes occurred_at st) task) (\<lambda>attempts.
             require_single_dispatch_history (et_operation task) (et_events task @ [event]) attempts)))
         of Inl e \<Rightarrow> (Inl e, task)
          | Inr _ \<Rightarrow> apply_event_changes py (safe_changes py changes occurred_at st)
                       (task\<lparr>et_events := et_events task @ [event]\<rparr>))"
proof -
  have "demand (transition_allowed (et_state task) event_type st) TaskValueError =
      (if st \<noteq> et_state task
       then demand (st \<in> set (ALLOWED_TASK_TRANSITIONS (et_state task))) TaskValueError
       else demand (et_state task \<notin> set TERMINAL_TASK_STATES
                    \<or> event_type \<in> set TERMINAL_OBSERVATION_EVENTS) TaskValueError)" for st
    by (simp add: transition_allowed_def)
  then show ?thesis
    unfolding append_event_def target_of_def appended_event_def attempts_after_def Let_def option.case
    by (simp only:)
qed

lemma typed_attempts:
  assumes "typed_changes changes"
  shows "\<exists>ds. attempts_after py (safe_changes py changes occurred_at st) task = Inr ds \<and>
    (\<forall>v. map_of (safe_changes py changes occurred_at st) ''provider_attempts'' = Some v \<longrightarrow>
       v = JList (map JDict ds))"
proof (cases "map_of (safe_changes py changes occurred_at st) ''provider_attempts''")
  case (Some v)
  with safe_changes_settled(1) [OF assms, of py occurred_at st]
  have "settled_change py (''provider_attempts'', v)" by (auto simp: list_all_iff dest: map_of_SomeD)
  then obtain ds where "v = JList (map JDict ds)"
    by (auto simp: settled_change_def typed_change_def is_dict_list_iff)
  with Some show ?thesis by (simp add: attempts_after_def)
qed (simp add: attempts_after_def)

text \<open>The exact condition under which an event with well-typed changes is accepted.\<close>

definition append_accepted ::
    "coercions \<Rightarrow> string \<Rightarrow> string \<Rightarrow> execution_task_state \<Rightarrow> dict \<Rightarrow> execution_task \<Rightarrow> bool" where
  "append_accepted py event_type occurred_at st changes task \<longleftrightarrow>
     (\<exists>t. parse_task_timestamp py (JStr occurred_at) = Inr t) \<and>
     transition_allowed (et_state task) event_type st \<and>
     (et_operation task \<in> JStr ` set SINGLE_DISPATCH_OPERATIONS \<longrightarrow>
        length (filter is_dispatch (et_events task)) +
          (if event_type = ''dispatch_attempted'' then 1 else 0) \<le> 1 \<and>
        (\<forall>ds. attempts_after py (safe_changes py changes occurred_at st) task = Inr ds \<longrightarrow> length ds \<le> 1))"

lemma append_event_typed:
  fixes py new_state request_id event_type occurred_at
  assumes "typed_changes changes" and op: "et_operation task = JStr s"
  defines "st \<equiv> target_of new_state task"
  defines "event \<equiv> appended_event py event_type occurred_at st changes request_id task"
  shows "if append_accepted py event_type occurred_at st changes task
    then \<exists>task'. append_event py event_type occurred_at new_state (Some changes) request_id task = (Inr (), task') \<and>
      task_fields py task' = dict_update (task_fields py task) (safe_changes py changes occurred_at st) \<and>
      et_events task' = et_events task @ [event] \<and> et_operation task' = et_operation task
    else append_event py event_type occurred_at new_state (Some changes) request_id task = (Inl TaskValueError, task)"
proof -
  let ?safe = "safe_changes py changes occurred_at st"
  obtain ds where ds: "attempts_after py ?safe task = Inr ds" using typed_attempts [OF assms(1)] by metis
  have disp: "length (filter is_dispatch (et_events task @ [event])) =
      length (filter is_dispatch (et_events task)) + (if event_type = ''dispatch_attempted'' then 1 else 0)"
    by (simp add: event_def appended_event_def is_dispatch_def)
  have single: "require_single_dispatch_history (JStr s) (et_events task @ [event]) ds =
      (if s \<in> set SINGLE_DISPATCH_OPERATIONS \<and>
          \<not> (length (filter is_dispatch (et_events task)) +
               (if event_type = ''dispatch_attempted'' then 1 else 0) \<le> 1 \<and> length ds \<le> 1)
       then Inl TaskValueError else Inr ())"
    unfolding disp [symmetric] require_single_dispatch_history_def json.case is_dispatch_def [symmetric] demand_def
    by (simp only: de_Morgan_conj split: if_splits) blast
  have time: "parse_task_timestamp py (JStr occurred_at) = Inl TaskValueError \<or>
      (\<exists>t. parse_task_timestamp py (JStr occurred_at) = Inr t)"
    by (simp split: option.splits)
  have fields: "task_fields py (task\<lparr>et_events := es\<rparr>) = task_fields py task" for es
    by (simp add: task_fields_def)
  have unf: "append_event py event_type occurred_at new_state (Some changes) request_id task =
     (case
           and_then (parse_task_timestamp py (JStr occurred_at)) (\<lambda>_.
           and_then (demand (transition_allowed (et_state task) event_type st) TaskValueError) (\<lambda>_.
             require_single_dispatch_history (JStr s) (et_events task @ [event]) ds))
         of Inl e \<Rightarrow> (Inl e, task)
          | Inr _ \<Rightarrow> apply_event_changes py ?safe (task\<lparr>et_events := et_events task @ [event]\<rparr>))"
    unfolding append_event_unfold Let_def st_def [symmetric] event_def [symmetric] ds op by simp
  have img: "JStr s \<in> JStr ` X \<longleftrightarrow> s \<in> X" for X by auto
  have accepted: "append_accepted py event_type occurred_at st changes task \<longleftrightarrow>
      (\<exists>t. parse_task_timestamp py (JStr occurred_at) = Inr t) \<and>
      transition_allowed (et_state task) event_type st \<and>
      require_single_dispatch_history (JStr s) (et_events task @ [event]) ds = Inr ()"
    unfolding append_accepted_def op single img ds by auto
  show ?thesis
  proof (cases "append_accepted py event_type occurred_at st changes task")
    case True
    then show ?thesis unfolding unf accepted using
        apply_event_changes_settled [OF safe_changes_settled(1) [OF assms(1)],
          of py occurred_at st "task\<lparr>et_events := et_events task @ [event]\<rparr>"]
      by (auto simp: fields demand_def simp del: parse_task_timestamp.simps)
  next
    case False
    have "require_single_dispatch_history (JStr s) (et_events task @ [event]) ds = Inr () \<or>
        require_single_dispatch_history (JStr s) (et_events task @ [event]) ds = Inl TaskValueError"
      unfolding single by simp
    with False time show ?thesis unfolding unf accepted
      by (auto simp: demand_def simp del: parse_task_timestamp.simps)
  qed
qed

section \<open>The record refines its history\<close>

lemma typed_view_state:
  assumes "materialized py task"
  shows "\<exists>record. materialize_execution_task py (et_events task) = Inr record \<and>
    materialize_loop py 1 (et_events task) ([], None) = Inr (record, Some (task_state_value (et_state task))) \<and>
    et_events task \<noteq> [] \<and> et_state task \<notin> set RESERVED_TASK_STATES \<and>
    view (task_fields py task) = view record \<and>
    dict_get record ''operation'' = et_operation task"
proof -
  from assms obtain s r where s: "et_operation task = JStr s"
    and r: "materialize_execution_task py (et_events task) = Inr r" and v: "view (task_fields py task) = view r"
    by (auto simp: materialized_iff)
  from r obtain prior where loop: "materialize_loop py 1 (et_events task) ([], None) = Inr (r, prior)"
    and ne: "et_events task \<noteq> []"
    by (auto simp: materialize_execution_task_ok)
  from materialize_loop_state [OF loop ne] obtain st where st: "prior = Some (task_state_value st)"
    "st \<notin> set RESERVED_TASK_STATES" "map_of r ''state'' = Some (JStr (task_state_value st))" by auto
  have "map_of (task_fields py task) ''state'' = Some (JStr (task_state_value st))"
    using fun_cong [OF v] st(3) by (rule view_JStr)
  then have "et_state task = st" by simp
  moreover have "map_of r ''operation'' = Some (JStr s)"
    using fun_cong [OF v [symmetric]] by (rule view_JStr) (simp add: s)
  ultimately show ?thesis using r loop ne st v s by (auto simp: dict_get_def)
qed

lemma allowed_not_reserved: "st \<in> set (ALLOWED_TASK_TRANSITIONS prior) \<Longrightarrow> st \<notin> set RESERVED_TASK_STATES"
  by (cases prior) (auto simp: RESERVED_TASK_STATES_def)

lemma accepted_materialized:
  fixes py new_state request_id event_type occurred_at
  assumes mat: "materialized py task" and typed: "typed_changes changes"
  defines "st \<equiv> target_of new_state task"
  defines "event \<equiv> appended_event py event_type occurred_at st changes request_id task"
  assumes accepted: "append_accepted py event_type occurred_at st changes task"
    and fields: "task_fields py task' = dict_update (task_fields py task) (safe_changes py changes occurred_at st)"
    and events: "et_events task' = et_events task @ [event]"
    and operation: "et_operation task' = et_operation task"
  shows "materialized py task'"
proof -
  let ?safe = "safe_changes py changes occurred_at st"
  from mat obtain s where s: "et_operation task = JStr s" by (auto simp: materialized_iff)
  from typed_view_state [OF mat] obtain r where
    loop: "materialize_loop py 1 (et_events task) ([], None) = Inr (r, Some (task_state_value (et_state task)))"
    and ne: "et_events task \<noteq> []" and res: "et_state task \<notin> set RESERVED_TASK_STATES"
    and v: "view (task_fields py task) = view r" and op: "dict_get r ''operation'' = JStr s"
    by (auto simp: s)
  have "st \<notin> set RESERVED_TASK_STATES"
    using accepted res allowed_not_reserved by (auto simp: append_accepted_def transition_allowed_def split: if_splits)
  then have "event_accepted py event (Some (task_state_value (et_state task))) st"
    using accepted by (auto simp: event_accepted_def append_accepted_def event_def appended_event_def)
  moreover have "1 + int (length (et_events task)) \<noteq> 1" using ne by simp
  ultimately have step: "materialize_event py (1 + int (length (et_events task))) event
      (r, Some (task_state_value (et_state task))) =
      Inr (AList.update ''state'' (JStr (task_state_value st)) (dict_update r ?safe), Some (task_state_value st))"
    by (simp add: materialize_event_ok) (simp add: event_def appended_event_def)
  let ?r = "AList.update ''state'' (JStr (task_state_value st)) (dict_update r ?safe)"
  have loop': "materialize_loop py 1 (et_events task') ([], None) = Inr (?r, Some (task_state_value st))"
    unfolding events materialize_loop_append loop using step by simp
  note safe = safe_changes_settled [OF typed, of py occurred_at st]
  have "map_of (dict_update r ?safe) ''state'' = Some (JStr (task_state_value st))"
    using safe(2,3) by (simp add: map_of_dict_update_distinct)
  then have "view ?r = view (dict_update r ?safe)" by (rule view_update_same)
  also have "\<dots> = view (task_fields py task')" unfolding fields using v by (rule view_update [symmetric])
  finally have v': "view (task_fields py task') = view ?r" by simp
  have op': "dict_get ?r ''operation'' = JStr s"
  proof -
    have "map_of ?r ''operation'' = Some (JStr s)"
      using fun_cong [OF v' [symmetric]] by (rule view_JStr) (simp add: operation s)
    then show ?thesis by (simp add: dict_get_def)
  qed
  from view_attempts [OF v'] obtain ds where ds: "dict_list py (dict_get ?r ''provider_attempts'') = Inr ds"
    "length ds \<le> 1 \<longleftrightarrow> length (et_provider_attempts task') \<le> 1" by auto
  obtain as where as: "attempts_after py ?safe task = Inr as"
    "\<And>w. map_of ?safe ''provider_attempts'' = Some w \<Longrightarrow> w = JList (map JDict as)"
    using typed_attempts [OF typed] by metis
  have "length as \<le> 1 \<Longrightarrow> length ds \<le> 1"
  proof (cases "map_of ?safe ''provider_attempts''")
    case None
    assume "length as \<le> 1"
    moreover from None as(1) have "as = et_provider_attempts task" by (simp add: attempts_after_def)
    moreover have "map_of ?r ''provider_attempts'' = map_of r ''provider_attempts''"
      using None safe(3) by (simp add: update_conv' map_of_dict_update_distinct map_add_def)
    moreover obtain ds0 where "dict_list py (dict_get r ''provider_attempts'') = Inr ds0"
      "length ds0 \<le> 1 \<longleftrightarrow> length (et_provider_attempts task) \<le> 1" using view_attempts [OF v] by auto
    ultimately show ?thesis using ds(1) by (simp add: dict_get_def)
  next
    case (Some w)
    assume "length as \<le> 1"
    moreover from Some as(2) have "w = JList (map JDict as)" by simp
    moreover have "map_of ?r ''provider_attempts'' = Some w"
      using Some safe(3) by (simp add: update_conv' map_of_dict_update_distinct map_add_def)
    ultimately show ?thesis using ds(1) by (simp add: dict_get_def)
  qed
  then have "require_single_dispatch_history (JStr s) (et_events task') ds = Inr ()"
    using accepted as(1) unfolding require_single_iff append_accepted_def s events
    by (auto simp: event_def appended_event_def is_dispatch_def split: if_splits)
  then have "materialize_execution_task py (et_events task') = Inr ?r"
    using loop' ds(1) op' by (auto simp: materialize_execution_task_ok events)
  then show ?thesis using v' operation s by (auto simp: materialized_iff)
qed

end
