(* ===== verification/Task_Index.thy ===== *)
theory Task_Index
  imports Task_Store Task_Properties "HOL-Library.Multiset" "HOL-Library.Product_Lexorder"
begin

text \<open>
  The navigation index as a view of its entries: every table is an image of the multiset of entries.
  Putting and removing an entry keep it so, and an index that is such a view is never reported to
  disagree with itself.
\<close>

section \<open>Keys and signatures\<close>

lemma key_less_eq_iff: "key_less_eq k l \<longleftrightarrow> k \<le> l"
  by (auto simp: key_less_eq_def less_eq_prod_def)

lemma mset_insort [simp]: "mset (insort ls k) = add_mset k (mset ls)"
  by (induction ls) auto

lemma sorted_insort [simp]: "sorted ls \<Longrightarrow> sorted (insort ls k)"
proof (induction ls)
  case (Cons l ls)
  have "set (insort ls k) = insert k (set ls)"
    using mset_insort [of ls k] by (metis set_mset_add_mset_insert set_mset_mset)
  with Cons show ?case by (auto simp: key_less_eq_iff)
qed simp

definition good_id :: "string \<Rightarrow> bool" where
  "good_id s \<longleftrightarrow> s \<noteq> [] \<and> list_all lower_hex s"

lemma hex_id_good: "hex_id s \<Longrightarrow> good_id s"
  by (auto simp: hex_id_def good_id_def)

definition id_number :: "string \<Rightarrow> int" where
  "id_number s = foldl (\<lambda>n c. 16 * n + hex_digit_value c) 0 s"

lemma hex_value_good: "good_id s \<Longrightarrow> hex_value s = Inr (id_number s)"
  by (auto simp: hex_value_def good_id_def id_number_def)

lemma collect_hex: "list_all good_id ids \<Longrightarrow> collect hex_value ids = Inr (map id_number ids)"
  by (induction ids) (simp_all add: hex_value_good)

definition signature_of :: "string list \<Rightarrow> signature" where
  "signature_of ids = (int (length ids), sum_list (map id_number ids), foldr (XOR) (map id_number ids) 0)"

lemma identifier_signature_good:
  "list_all good_id ids \<Longrightarrow> identifier_signature ids = Inr (signature_of ids)"
  by (simp add: identifier_signature_def collect_hex signature_of_def)

lemma foldr_xor_mset:
  fixes xs ys :: "int list"
  assumes "mset xs = mset ys"
  shows "foldr (XOR) xs 0 = foldr (XOR) ys 0"
proof -
  have step: "(XOR) x \<circ> (XOR) y = (XOR) y \<circ> (XOR) x" for x y :: int
    by (auto simp: fun_eq_iff xor.left_commute)
  have "fold (XOR) (rev xs) = fold (XOR) (rev ys)"
    by (rule fold_multiset_equiv) (use step assms in simp_all)
  then show ?thesis by (simp add: foldr_conv_fold)
qed

lemma signature_of_mset:
  assumes "mset xs = mset ys"
  shows "signature_of xs = signature_of ys"
proof -
  have "mset (map id_number xs) = mset (map id_number ys)" using assms by simp
  then show ?thesis
    using mset_eq_length [OF assms] foldr_xor_mset by (metis signature_of_def sum_mset_sum_list)
qed

section \<open>The view\<close>

abbreviation entries_of :: "navigation \<Rightarrow> navigation_entry multiset" where
  "entries_of nav \<equiv> mset (map snd (nav_entries nav))"

definition active :: "navigation_entry \<Rightarrow> bool" where
  "active e \<longleftrightarrow> \<not> ne_terminal e"

definition f3_active :: "navigation_entry \<Rightarrow> bool" where
  "f3_active e \<longleftrightarrow> \<not> ne_terminal e \<and> is_f3 e"

definition entry_key :: "navigation_entry \<Rightarrow> string" where
  "entry_key e = ne_task_id e"

definition tables_view :: "coercions \<Rightarrow> navigation_entry multiset \<Rightarrow> navigation \<Rightarrow> bool" where
  "tables_view py E nav \<longleftrightarrow>
     sorted (nav_ordered_keys nav) \<and> mset (nav_ordered_keys nav) = image_mset (entry_order_key py) E \<and>
     mset (nav_nonterminal_ids nav) = image_mset ne_task_id (filter_mset active E) \<and>
     sorted (nav_nonterminal_keys nav) \<and>
     mset (nav_nonterminal_keys nav) = image_mset (entry_order_key py) (filter_mset active E) \<and>
     mset (nav_f3_nonterminal_ids nav) = image_mset ne_task_id (filter_mset f3_active E) \<and>
     sorted (nav_f3_nonterminal_keys nav) \<and>
     mset (nav_f3_nonterminal_keys nav) = image_mset (entry_order_key py) (filter_mset f3_active E) \<and>
     mset (nav_task_by_plan nav) = image_mset (\<lambda>e. (ne_plan_id e, ne_task_id e)) E \<and>
     mset (nav_task_by_idempotency nav) = image_mset (\<lambda>e. (ne_idempotency_key e, ne_task_id e)) E"

definition counts_view :: "navigation_entry multiset \<Rightarrow> navigation \<Rightarrow> bool" where
  "counts_view E nav \<longleftrightarrow>
     nav_expected_nonterminal_count nav = int (size (filter_mset active E)) \<and>
     nav_total_event_count nav = (\<Sum>e \<in># E. ne_event_count e) \<and>
     nav_manual_review_count nav =
       int (size (filter_mset (\<lambda>e. ne_state e = task_state_value MANUAL_REVIEW_REQUIRED) E)) \<and>
     nav_legacy_task_count nav = int (size (filter_mset (\<lambda>e. \<not> is_f3 e) E)) \<and>
     nav_legacy_active_task_count nav = int (size (filter_mset (\<lambda>e. \<not> is_f3 e \<and> active e) E))"

definition signatures_view :: "navigation \<Rightarrow> bool" where
  "signatures_view nav \<longleftrightarrow>
     nav_expected_signature nav = signature_of (nav_nonterminal_ids nav) \<and>
     nav_expected_f3_signature nav = signature_of (nav_f3_nonterminal_ids nav)"

text \<open>Entries are keyed by their task, no plan and no idempotency key has two of them.\<close>

definition entries_sound :: "navigation \<Rightarrow> bool" where
  "entries_sound nav \<longleftrightarrow>
     distinct (map fst (nav_entries nav)) \<and>
     list_all (\<lambda>(k, e). ne_task_id e = k \<and> good_id k) (nav_entries nav) \<and>
     distinct (map (ne_plan_id \<circ> snd) (nav_entries nav)) \<and>
     distinct (map (ne_idempotency_key \<circ> snd) (nav_entries nav))"

definition index_sound :: "coercions \<Rightarrow> navigation \<Rightarrow> bool" where
  "index_sound py nav \<longleftrightarrow>
     entries_sound nav \<and> tables_view py (entries_of nav) nav \<and> counts_view (entries_of nav) nav \<and>
     signatures_view nav"

lemmas index_view_defs = tables_view_def counts_view_def

section \<open>Removing and putting\<close>

definition unlink_entry :: "coercions \<Rightarrow> navigation_entry \<Rightarrow> navigation \<Rightarrow> navigation" where
  "unlink_entry py e nav =
     nav\<lparr>nav_entries := AList.delete (ne_task_id e) (nav_entries nav),
         nav_ordered_keys := remove1 (entry_order_key py e) (nav_ordered_keys nav),
         nav_nonterminal_ids := removeAll (ne_task_id e) (nav_nonterminal_ids nav),
         nav_nonterminal_keys :=
           (if active e then remove1 (entry_order_key py e) else id) (nav_nonterminal_keys nav),
         nav_f3_nonterminal_ids :=
           (if f3_active e then removeAll (ne_task_id e) else id) (nav_f3_nonterminal_ids nav),
         nav_f3_nonterminal_keys :=
           (if f3_active e then remove1 (entry_order_key py e) else id) (nav_f3_nonterminal_keys nav),
         nav_task_by_plan := AList.delete (ne_plan_id e) (nav_task_by_plan nav),
         nav_task_by_idempotency := AList.delete (ne_idempotency_key e) (nav_task_by_idempotency nav),
         nav_expected_nonterminal_count := nav_expected_nonterminal_count nav - (if active e then 1 else 0),
         nav_total_event_count := nav_total_event_count nav - ne_event_count e,
         nav_manual_review_count := nav_manual_review_count nav -
           (if ne_state e = task_state_value MANUAL_REVIEW_REQUIRED then 1 else 0),
         nav_legacy_task_count := nav_legacy_task_count nav - (if is_f3 e then 0 else 1),
         nav_legacy_active_task_count :=
           nav_legacy_active_task_count nav - (if \<not> is_f3 e \<and> active e then 1 else 0)\<rparr>"

definition resign :: "navigation \<Rightarrow> navigation" where
  "resign nav =
     nav\<lparr>nav_expected_signature := signature_of (nav_nonterminal_ids nav),
         nav_expected_f3_signature := signature_of (nav_f3_nonterminal_ids nav)\<rparr>"

definition link_entry :: "coercions \<Rightarrow> navigation_entry \<Rightarrow> navigation \<Rightarrow> navigation" where
  "link_entry py e nav =
     nav\<lparr>nav_entries := AList.update (ne_task_id e) e (nav_entries nav),
         nav_ordered_keys := insort (nav_ordered_keys nav) (entry_order_key py e),
         nav_nonterminal_ids := (if active e then List.insert (ne_task_id e) else id) (nav_nonterminal_ids nav),
         nav_nonterminal_keys :=
           (if active e then (\<lambda>ks. insort ks (entry_order_key py e)) else id) (nav_nonterminal_keys nav),
         nav_f3_nonterminal_ids :=
           (if f3_active e then List.insert (ne_task_id e) else id) (nav_f3_nonterminal_ids nav),
         nav_f3_nonterminal_keys :=
           (if f3_active e then (\<lambda>ks. insort ks (entry_order_key py e)) else id) (nav_f3_nonterminal_keys nav),
         nav_task_by_plan := AList.update (ne_plan_id e) (ne_task_id e) (nav_task_by_plan nav),
         nav_task_by_idempotency :=
           AList.update (ne_idempotency_key e) (ne_task_id e) (nav_task_by_idempotency nav),
         nav_expected_nonterminal_count := nav_expected_nonterminal_count nav + (if active e then 1 else 0),
         nav_total_event_count := nav_total_event_count nav + ne_event_count e,
         nav_manual_review_count := nav_manual_review_count nav +
           (if ne_state e = task_state_value MANUAL_REVIEW_REQUIRED then 1 else 0),
         nav_legacy_task_count := nav_legacy_task_count nav + (if is_f3 e then 0 else 1),
         nav_legacy_active_task_count :=
           nav_legacy_active_task_count nav + (if \<not> is_f3 e \<and> active e then 1 else 0)\<rparr>"

text \<open>Association lists with distinct keys, as multisets.\<close>

lemma mset_delete:
  "distinct (map fst xs) \<Longrightarrow> map_of xs k = Some v \<Longrightarrow> mset xs = add_mset (k, v) (mset (AList.delete k xs))"
proof (induction xs)
  case (Cons x xs)
  obtain a b where x: "x = (a, b)" by (cases x)
  show ?case
  proof (cases "a = k")
    case True
    with Cons.prems x have "k \<notin> fst ` set xs" by auto
    then have "AList.delete k xs = xs" by (induction xs) auto
    with True Cons.prems x show ?thesis by simp
  qed (use Cons x in auto)
qed simp

lemma mset_update_fresh: "k \<notin> fst ` set xs \<Longrightarrow> mset (AList.update k v xs) = add_mset (k, v) (mset xs)"
  by (simp add: update_new_key)

lemma update_new_key': "map_of xs k = None \<Longrightarrow> AList.update k v xs = xs @ [(k, v)]"
  by (simp add: update_new_key map_of_eq_None_iff)

lemma mset_map_distinct:
  "mset (map fst xs) = mset ys \<Longrightarrow> distinct ys \<Longrightarrow> distinct (map fst xs)"
  using mset_eq_imp_distinct_iff by metis

text \<open>What the entries say about one of them.\<close>

lemma entry_found:
  assumes "entries_sound nav" and "map_of (nav_entries nav) k = Some e"
  shows "ne_task_id e = k" and "e \<in># entries_of nav" and "good_id k"
    and "entries_of nav = add_mset e (mset (map snd (AList.delete k (nav_entries nav))))"
proof -
  from assms(2) have mem: "(k, e) \<in> set (nav_entries nav)" by (rule map_of_SomeD)
  with assms(1) show "ne_task_id e = k" "good_id k" by (auto simp: entries_sound_def list_all_iff)
  from mem show "e \<in># entries_of nav" by (metis (no_types, lifting) image_eqI list.set_map set_mset_mset snd_conv)
  have "mset (nav_entries nav) = add_mset (k, e) (mset (AList.delete k (nav_entries nav)))"
    using assms by (intro mset_delete) (simp_all add: entries_sound_def)
  then have "image_mset snd (mset (nav_entries nav)) =
      image_mset snd (add_mset (k, e) (mset (AList.delete k (nav_entries nav))))" by simp
  then show "entries_of nav = add_mset e (mset (map snd (AList.delete k (nav_entries nav))))" by simp
qed

lemma entries_sound_ids:
  assumes "entries_sound nav"
  shows "distinct (map ne_task_id (map snd (nav_entries nav)))"
    and "distinct (map ne_plan_id (map snd (nav_entries nav)))"
    and "distinct (map ne_idempotency_key (map snd (nav_entries nav)))"
    and "list_all good_id (map ne_task_id (map snd (nav_entries nav)))"
proof -
  have "map ne_task_id (map snd (nav_entries nav)) = map fst (nav_entries nav)"
    using assms by (auto simp: entries_sound_def list_all_iff)
  then show "distinct (map ne_task_id (map snd (nav_entries nav)))"
    using assms by (simp only: entries_sound_def)
  show "distinct (map ne_plan_id (map snd (nav_entries nav)))"
    "distinct (map ne_idempotency_key (map snd (nav_entries nav)))"
    using assms by (simp_all add: entries_sound_def comp_def)
  show "list_all good_id (map ne_task_id (map snd (nav_entries nav)))"
    using assms by (auto simp: entries_sound_def list_all_iff)
qed

lemma tables_ids:
  assumes "entries_sound nav" and "tables_view py (entries_of nav) nav"
  shows "distinct (nav_nonterminal_ids nav)" and "distinct (nav_f3_nonterminal_ids nav)"
    and "list_all good_id (nav_nonterminal_ids nav)" and "list_all good_id (nav_f3_nonterminal_ids nav)"
proof -
  let ?es = "map snd (nav_entries nav)"
  have a: "mset (nav_nonterminal_ids nav) = mset (map ne_task_id (filter active ?es))"
    and f: "mset (nav_f3_nonterminal_ids nav) = mset (map ne_task_id (filter f3_active ?es))"
    using assms(2) by (simp_all add: tables_view_def)
  have d: "distinct (map ne_task_id (filter P ?es))" for P
    using entries_sound_ids(1) [OF assms(1)] by (rule distinct_map_filter)
  show "distinct (nav_nonterminal_ids nav)" "distinct (nav_f3_nonterminal_ids nav)"
    using mset_eq_imp_distinct_iff [OF a] mset_eq_imp_distinct_iff [OF f] d by simp_all
  show "list_all good_id (nav_nonterminal_ids nav)" "list_all good_id (nav_f3_nonterminal_ids nav)"
    using mset_eq_setD [OF a] mset_eq_setD [OF f] entries_sound_ids(4) [OF assms(1)]
    by (auto simp: list_all_iff)
qed

lemma tables_owner:
  assumes "entries_sound nav" and "tables_view py (entries_of nav) nav"
  shows "distinct (map fst (nav_task_by_plan nav))" and "distinct (map fst (nav_task_by_idempotency nav))"
    and "map_of (nav_task_by_plan nav) p = Some t \<longleftrightarrow>
      (\<exists>e. map_of (nav_entries nav) t = Some e \<and> ne_plan_id e = p)"
    and "map_of (nav_task_by_idempotency nav) p = Some t \<longleftrightarrow>
      (\<exists>e. map_of (nav_entries nav) t = Some e \<and> ne_idempotency_key e = p)"
proof -
  let ?es = "map snd (nav_entries nav)"
  have p: "mset (nav_task_by_plan nav) = mset (map (\<lambda>e. (ne_plan_id e, ne_task_id e)) ?es)"
    and i: "mset (nav_task_by_idempotency nav) = mset (map (\<lambda>e. (ne_idempotency_key e, ne_task_id e)) ?es)"
    using assms(2) unfolding tables_view_def mset_map by blast+
  from arg_cong [OF p, of "image_mset fst"] arg_cong [OF i, of "image_mset fst"]
  have "mset (map fst (nav_task_by_plan nav)) = mset (map ne_plan_id ?es)"
    "mset (map fst (nav_task_by_idempotency nav)) = mset (map ne_idempotency_key ?es)"
    by (simp_all add: multiset.map_comp comp_def)
  then show dp: "distinct (map fst (nav_task_by_plan nav))" and di: "distinct (map fst (nav_task_by_idempotency nav))"
    using entries_sound_ids(2,3) [OF assms(1)] mset_eq_imp_distinct_iff by metis+
  have ent: "map_of (nav_entries nav) t = Some e \<longleftrightarrow> e \<in> set ?es \<and> ne_task_id e = t" for t e
    using assms(1) by (force simp: entries_sound_def list_all_iff map_of_eq_Some_iff)
  show "map_of (nav_task_by_plan nav) p = Some t \<longleftrightarrow>
      (\<exists>e. map_of (nav_entries nav) t = Some e \<and> ne_plan_id e = p)"
    using mset_eq_setD [OF p] unfolding map_of_eq_Some_iff [OF dp] ent by force
  show "map_of (nav_task_by_idempotency nav) p = Some t \<longleftrightarrow>
      (\<exists>e. map_of (nav_entries nav) t = Some e \<and> ne_idempotency_key e = p)"
    using mset_eq_setD [OF i] unfolding map_of_eq_Some_iff [OF di] ent by force
qed

lemma remove_view:
  assumes "entries_sound nav" and "tables_view py (entries_of nav) nav" and "counts_view (entries_of nav) nav"
    and "map_of (nav_entries nav) k = Some e"
  shows "index_sound py (resign (unlink_entry py e nav))"
    and "entries_of nav = add_mset e (entries_of (resign (unlink_entry py e nav)))"
proof -
  note found = entry_found [OF assms(1,4)]
  note ids = tables_ids [OF assms(1,2)]
  note owner = tables_owner [OF assms(1,2)]
  let ?nav = "unlink_entry py e nav"
  let ?E = "mset (map snd (AList.delete k (nav_entries nav)))"
  have E: "entries_of nav = add_mset e ?E" using found(4) .
  have entries: "nav_entries ?nav = AList.delete k (nav_entries nav)"
    by (simp add: unlink_entry_def found(1))
  then show "entries_of nav = add_mset e (entries_of (resign (unlink_entry py e nav)))"
    using E by (simp add: resign_def)
  have sub: "set (AList.delete k (nav_entries nav)) \<subseteq> set (nav_entries nav)" by (auto simp: AList.delete_eq)
  have dist: "distinct (map (f \<circ> snd) (AList.delete k (nav_entries nav)))"
    if "distinct (map (f \<circ> snd) (nav_entries nav))" for f :: "navigation_entry \<Rightarrow> string"
    using that unfolding AList.delete_eq by (rule distinct_map_filter)
  have sound: "entries_sound ?nav"
    unfolding entries_sound_def entries
    using assms(1) sub dist distinct_delete by (auto simp: entries_sound_def list_all_iff)
  have del: "removeAll x xs = remove1 x xs" if "distinct xs" for x :: string and xs
    using that by (simp add: distinct_remove1_removeAll)
  have plan: "mset (nav_task_by_plan nav) =
      add_mset (ne_plan_id e, k) (mset (AList.delete (ne_plan_id e) (nav_task_by_plan nav)))"
    using owner(1,3) assms(4) by (intro mset_delete) auto
  have idem: "mset (nav_task_by_idempotency nav) =
      add_mset (ne_idempotency_key e, k) (mset (AList.delete (ne_idempotency_key e) (nav_task_by_idempotency nav)))"
    using owner(2,4) assms(4) by (intro mset_delete) auto
  have "k \<notin># image_mset ne_task_id (filter_mset active ?E)"
    using assms(1) by (auto simp: AList.delete_eq entries_sound_def list_all_iff)
  then have absent: "image_mset ne_task_id (filter_mset active ?E) - {#k#} =
      image_mset ne_task_id (filter_mset active ?E)" by (rule diff_single_trivial)
  have tables: "tables_view py ?E ?nav"
    using assms(2) plan idem unfolding E
    by (cases "ne_terminal e")
      (auto simp: tables_view_def unlink_entry_def del ids(1,2) found(1) sorted_remove1 f3_active_def active_def
        absent [simplified])
  have counts: "counts_view ?E ?nav"
    using assms(3) unfolding E by (auto simp: counts_view_def unlink_entry_def active_def)
  show "index_sound py (resign ?nav)"
    using sound tables counts
    by (simp add: index_sound_def resign_def signatures_view_def tables_view_def counts_view_def
        entries_sound_def entries)
qed

definition unowned :: "navigation_entry \<Rightarrow> navigation \<Rightarrow> bool" where
  "unowned e nav \<longleftrightarrow>
     ne_task_id e \<notin> fst ` set (nav_entries nav) \<and> good_id (ne_task_id e) \<and>
     ne_plan_id e \<notin> ne_plan_id ` snd ` set (nav_entries nav) \<and>
     ne_idempotency_key e \<notin> ne_idempotency_key ` snd ` set (nav_entries nav)"

lemma link_view:
  assumes "entries_sound nav" and "tables_view py (entries_of nav) nav" and "counts_view (entries_of nav) nav"
    and "unowned e nav"
  shows "index_sound py (resign (link_entry py e nav))"
    and "entries_of (resign (link_entry py e nav)) = add_mset e (entries_of nav)"
proof -
  let ?nav = "link_entry py e nav"
  let ?E = "entries_of nav"
  note owner = tables_owner [OF assms(1,2)]
  from assms(4) have new: "ne_task_id e \<notin> fst ` set (nav_entries nav)" and good: "good_id (ne_task_id e)"
    by (simp_all add: unowned_def)
  have entries: "nav_entries ?nav = nav_entries nav @ [(ne_task_id e, e)]"
    using new by (simp add: link_entry_def update_new_key)
  then show E: "entries_of (resign ?nav) = add_mset e ?E" by (simp add: resign_def)
  have sound: "entries_sound ?nav"
    using assms(1,4) unfolding entries_sound_def entries unowned_def by (auto simp: image_iff)
  have ids: "x \<in> set (nav_nonterminal_ids nav) \<or> x \<in> set (nav_f3_nonterminal_ids nav) \<Longrightarrow>
      x \<in> fst ` set (nav_entries nav)" for x
  proof -
    have a: "set_mset (mset (nav_nonterminal_ids nav)) = set_mset (image_mset ne_task_id (filter_mset active ?E))"
      and f: "set_mset (mset (nav_f3_nonterminal_ids nav)) = set_mset (image_mset ne_task_id (filter_mset f3_active ?E))"
      using assms(2) unfolding tables_view_def by (simp_all only:)
    assume "x \<in> set (nav_nonterminal_ids nav) \<or> x \<in> set (nav_f3_nonterminal_ids nav)"
    then obtain k e' where "(k, e') \<in> set (nav_entries nav)" "x = ne_task_id e'"
      using a f by auto
    then show ?thesis using assms(1) by (force simp: entries_sound_def list_all_iff)
  qed
  have plan: "ne_plan_id e \<notin> fst ` set (nav_task_by_plan nav)"
  proof
    assume "ne_plan_id e \<in> fst ` set (nav_task_by_plan nav)"
    then obtain t where "map_of (nav_task_by_plan nav) (ne_plan_id e) = Some t"
      by (metis map_of_eq_None_iff not_None_eq)
    then obtain e' where "map_of (nav_entries nav) t = Some e'" "ne_plan_id e' = ne_plan_id e"
      unfolding owner(3) by auto
    then have "ne_plan_id e \<in> ne_plan_id ` snd ` set (nav_entries nav)"
      by (metis image_eqI map_of_SomeD snd_conv)
    with assms(4) show False by (simp add: unowned_def)
  qed
  have idem: "ne_idempotency_key e \<notin> fst ` set (nav_task_by_idempotency nav)"
  proof
    assume "ne_idempotency_key e \<in> fst ` set (nav_task_by_idempotency nav)"
    then obtain t where "map_of (nav_task_by_idempotency nav) (ne_idempotency_key e) = Some t"
      by (metis map_of_eq_None_iff not_None_eq)
    then obtain e' where "map_of (nav_entries nav) t = Some e'" "ne_idempotency_key e' = ne_idempotency_key e"
      unfolding owner(4) by auto
    then have "ne_idempotency_key e \<in> ne_idempotency_key ` snd ` set (nav_entries nav)"
      by (metis image_eqI map_of_SomeD snd_conv)
    with assms(4) show False by (simp add: unowned_def)
  qed
  have tables: "tables_view py (add_mset e ?E) ?nav"
    using assms(2) plan idem ids [of "ne_task_id e"] new
    by (cases "ne_terminal e"; cases "is_f3 e")
      (auto simp: tables_view_def link_entry_def mset_update_fresh f3_active_def active_def List.insert_def)
  have counts: "counts_view (add_mset e ?E) ?nav"
    using assms(3) by (auto simp: counts_view_def link_entry_def active_def)
  show "index_sound py (resign ?nav)"
    using sound tables counts E
    by (simp add: index_sound_def resign_def signatures_view_def tables_view_def counts_view_def
        entries_sound_def)
qed

section \<open>The operations\<close>

lemma refresh_eq:
  assumes "list_all good_id (nav_nonterminal_ids (st_nav s))" and "list_all good_id (nav_f3_nonterminal_ids (st_nav s))"
  shows "refresh_expected_signature s = (Inr (), s\<lparr>st_nav := resign (st_nav s)\<rparr>)"
  using assms
  by (simp add: refresh_expected_signature_def effect_defs read_nav_def nav_update_def identifier_signature_good
      resign_def)

lemma remove_key_eq:
  "key \<in> set (tbl (st_nav s)) \<Longrightarrow>
     remove_key tbl upd key s = (Inr (), s\<lparr>st_nav := upd (remove1 key) (st_nav s)\<rparr>)"
  by (simp add: remove_key_def effect_defs read_nav_def nav_update_def)

lemma remove_entry_absent:
  "map_of (nav_entries (st_nav s)) k = None \<Longrightarrow> remove_entry py k s = (Inr (), s)"
  by (simp add: remove_entry_def effect_defs read_nav_def)

lemma remove_entry_found:
  assumes "index_sound py (st_nav s)" and "map_of (nav_entries (st_nav s)) k = Some e"
  shows "remove_entry py k s = (Inr (), s\<lparr>st_nav := resign (unlink_entry py e (st_nav s))\<rparr>)"
proof -
  let ?nav = "st_nav s"
  have es: "entries_sound ?nav" and tv: "tables_view py (entries_of ?nav) ?nav"
    using assms(1) by (simp_all add: index_sound_def)
  note found = entry_found [OF es assms(2)]
  note ids = tables_ids [OF es tv]
  have mem: "set_mset (mset (nav_ordered_keys ?nav)) = set_mset (image_mset (entry_order_key py) (entries_of ?nav))"
    "set_mset (mset (nav_nonterminal_keys ?nav)) =
       set_mset (image_mset (entry_order_key py) (filter_mset active (entries_of ?nav)))"
    "set_mset (mset (nav_f3_nonterminal_keys ?nav)) =
       set_mset (image_mset (entry_order_key py) (filter_mset f3_active (entries_of ?nav)))"
    using tv unfolding tables_view_def by (simp_all only:)
  have o: "entry_order_key py e \<in> set (nav_ordered_keys ?nav)"
    using mem(1) found(2) by auto
  have a: "entry_order_key py e \<in> set (nav_nonterminal_keys ?nav)" if "\<not> ne_terminal e"
    using mem(2) found(2) that by (auto simp: active_def)
  have f: "entry_order_key py e \<in> set (nav_f3_nonterminal_keys ?nav)" if "\<not> ne_terminal e" "is_f3 e"
    using mem(3) found(2) that by (auto simp: f3_active_def)
  have p: "map_of (nav_task_by_plan ?nav) (ne_plan_id e) = Some k"
    "map_of (nav_task_by_idempotency ?nav) (ne_idempotency_key e) = Some k"
    using tables_owner(3,4) [OF es tv] assms(2) by auto
  have g: "list_all good_id (removeAll k (nav_nonterminal_ids ?nav))"
    "list_all good_id (removeAll k (nav_f3_nonterminal_ids ?nav))"
    "list_all good_id (nav_f3_nonterminal_ids ?nav)"
    using ids(3,4) by (auto simp: list_all_iff)
  note steps = effect_basic_defs read_nav_def nav_update_def
  show ?thesis
    using assms(2) o a f p g found(1)
    by (cases "ne_terminal e"; cases "is_f3 e"; cases "ne_state e = task_state_value MANUAL_REVIEW_REQUIRED")
      (simp_all add: remove_entry_def steps remove_key_eq refresh_eq unlink_entry_def resign_def active_def
        f3_active_def)
qed

text \<open>An entry may be put when no other task owns its plan or its idempotency key.\<close>

definition ownable :: "navigation_entry \<Rightarrow> navigation \<Rightarrow> bool" where
  "ownable e nav \<longleftrightarrow> good_id (ne_task_id e) \<and>
     list_all (\<lambda>(k, e'). k = ne_task_id e \<or>
       ne_plan_id e' \<noteq> ne_plan_id e \<and> ne_idempotency_key e' \<noteq> ne_idempotency_key e) (nav_entries nav)"

lemma remove_entry_sound:
  assumes "index_sound py (st_nav s)"
  shows "\<exists>nav. remove_entry py k s = (Inr (), s\<lparr>st_nav := nav\<rparr>) \<and> index_sound py nav \<and>
    nav_entries nav = AList.delete k (nav_entries (st_nav s))"
proof (cases "map_of (nav_entries (st_nav s)) k")
  case None
  then have "AList.delete k (nav_entries (st_nav s)) = nav_entries (st_nav s)"
    by (simp add: map_of_eq_None_iff)
  with None assms show ?thesis
    by (intro exI [of _ "st_nav s"]) (simp add: remove_entry_absent)
next
  case (Some e)
  have views: "entries_sound (st_nav s)" "tables_view py (entries_of (st_nav s)) (st_nav s)"
    "counts_view (entries_of (st_nav s)) (st_nav s)"
    using assms by (simp_all add: index_sound_def)
  have "ne_task_id e = k" using entry_found(1) [OF views(1) Some] .
  then show ?thesis
    using remove_entry_found [OF assms Some] remove_view(1) [OF views Some]
    by (auto simp: resign_def unlink_entry_def)
qed

definition count_put :: "bool \<Rightarrow> navigation \<Rightarrow> navigation" where
  "count_put count_update nav =
     (if count_update
      then nav\<lparr>nav_generation := nav_generation nav + 1, nav_update_count := nav_update_count nav + 1\<rparr> else nav)"

lemma put_entry_steps:
  assumes "remove_entry py (ne_task_id e) s = (Inr (), s\<lparr>st_nav := nav\<rparr>)" and "e = navigation_entry_of py task"
    and "index_sound py nav" and "good_id (ne_task_id e)"
  shows "put_entry py count_update task s =
    (Inr (), s\<lparr>st_nav := count_put count_update (resign (link_entry py e nav))\<rparr>)"
proof -
  have es: "entries_sound nav" and tv: "tables_view py (entries_of nav) nav"
    using assms(3) by (simp_all add: index_sound_def)
  note ids = tables_ids(3,4) [OF es tv]
  have good: "list_all good_id (List.insert (ne_task_id e) (nav_nonterminal_ids nav))"
    "list_all good_id (List.insert (ne_task_id e) (nav_f3_nonterminal_ids nav))"
    using ids assms(4) by (auto simp: list_all_iff)
  note steps = effect_basic_defs read_nav_def nav_update_def
  show ?thesis
    using good ids
    by (cases "ne_terminal e"; cases "is_f3 e"; cases "ne_state e = task_state_value MANUAL_REVIEW_REQUIRED";
        cases count_update)
      (simp_all add: put_entry_def assms(1) assms(2) [symmetric] steps Let_def refresh_eq link_entry_def
        active_def f3_active_def count_put_def resign_def)
qed

lemma count_put_frame [simp]:
  "index_sound py (count_put b nav) = index_sound py nav" "nav_entries (count_put b nav) = nav_entries nav"
  by (simp_all add: count_put_def index_sound_def entries_sound_def tables_view_def counts_view_def
      signatures_view_def)

lemma put_entry_sound:
  assumes "index_sound py (st_nav s)" and "e = navigation_entry_of py task" and "ownable e (st_nav s)"
  shows "\<exists>nav. put_entry py count_update task s = (Inr (), s\<lparr>st_nav := nav\<rparr>) \<and> index_sound py nav \<and>
    nav_entries nav = AList.delete (ne_task_id e) (nav_entries (st_nav s)) @ [(ne_task_id e, e)]"
proof -
  from remove_entry_sound [OF assms(1)] obtain nav where
    rem: "remove_entry py (ne_task_id e) s = (Inr (), s\<lparr>st_nav := nav\<rparr>)" and sound: "index_sound py nav"
    and entries: "nav_entries nav = AList.delete (ne_task_id e) (nav_entries (st_nav s))" by metis
  have views: "entries_sound nav" "tables_view py (entries_of nav) nav" "counts_view (entries_of nav) nav"
    using sound by (simp_all add: index_sound_def)
  have "unowned e nav"
    using assms(3) unfolding unowned_def ownable_def entries
    by (auto simp: AList.delete_eq list_all_iff)
  then have link: "index_sound py (resign (link_entry py e nav))" by (rule link_view [OF views])
  moreover have "nav_entries (resign (link_entry py e nav)) =
      AList.delete (ne_task_id e) (nav_entries (st_nav s)) @ [(ne_task_id e, e)]"
    using \<open>unowned e nav\<close> by (simp add: resign_def link_entry_def update_new_key unowned_def entries)
  ultimately show ?thesis using put_entry_steps [OF rem assms(2) sound] assms(3) by (auto simp: ownable_def)
qed

section \<open>Staleness\<close>

lemma keys_ids:
  "mset ks = image_mset (entry_order_key py) M \<Longrightarrow> mset ids = image_mset ne_task_id M \<Longrightarrow>
     mset (map snd ks) = mset ids"
proof -
  assume "mset ks = image_mset (entry_order_key py) M" and ids: "mset ids = image_mset ne_task_id M"
  then have "mset (map snd ks) = image_mset (snd \<circ> entry_order_key py) M" by (simp add: multiset.map_comp)
  also have "snd \<circ> entry_order_key py = ne_task_id" by (auto simp: entry_order_key_def)
  finally show ?thesis using ids by simp
qed

lemma sound_index_agrees:
  assumes "index_sound py nav"
  shows "tables_disagree nav = Inr False"
proof -
  have es: "entries_sound nav" and tv: "tables_view py (entries_of nav) nav"
    and cv: "counts_view (entries_of nav) nav" and sv: "signatures_view nav"
    using assms by (simp_all add: index_sound_def)
  note ids = tables_ids [OF es tv]
  have n: "mset (map snd (nav_nonterminal_keys nav)) = mset (nav_nonterminal_ids nav)"
    and f: "mset (map snd (nav_f3_nonterminal_keys nav)) = mset (nav_f3_nonterminal_ids nav)"
    using tv unfolding tables_view_def by (blast intro: keys_ids)+
  then have dist: "remdups (map snd (nav_nonterminal_keys nav)) = map snd (nav_nonterminal_keys nav)"
    "remdups (map snd (nav_f3_nonterminal_keys nav)) = map snd (nav_f3_nonterminal_keys nav)"
    using ids(1,2) mset_eq_imp_distinct_iff by (metis distinct_remdups_id)+
  have good: "list_all good_id (map snd (nav_nonterminal_keys nav))"
    "list_all good_id (map snd (nav_f3_nonterminal_keys nav))"
    using mset_eq_setD [OF n] mset_eq_setD [OF f] ids(3,4) by (simp_all add: list_all_iff)
  have len: "length (nav_f3_nonterminal_keys nav) = length (nav_f3_nonterminal_ids nav)"
    using mset_eq_length [OF f] by simp
  have memb: "set_mset (mset (nav_nonterminal_ids nav)) = set_mset (image_mset ne_task_id (filter_mset active (entries_of nav)))"
    "set_mset (mset (nav_f3_nonterminal_ids nav)) = set_mset (image_mset ne_task_id (filter_mset f3_active (entries_of nav)))"
    using tv unfolding tables_view_def by (simp_all only:)
  then have sub: "set (nav_f3_nonterminal_ids nav) \<subseteq> set (nav_nonterminal_ids nav)"
    by (auto simp: active_def f3_active_def)
  have found: "\<exists>e. map_of (nav_entries nav) t = Some e \<and> \<not> ne_terminal e \<and> is_f3 e"
    if "t \<in> set (nav_f3_nonterminal_ids nav)" for t
  proof -
    from that memb(2) obtain k e where "(k, e) \<in> set (nav_entries nav)" "f3_active e" "t = ne_task_id e" by auto
    with es show ?thesis
      by (auto simp: entries_sound_def list_all_iff f3_active_def map_of_eq_Some_iff)
  qed
  have "\<not> counts_disagree nav"
  proof -
    have s: "size (mset (nav_ordered_keys nav)) = size (image_mset (entry_order_key py) (entries_of nav))"
      "size (mset (nav_task_by_plan nav)) = size (image_mset (\<lambda>e. (ne_plan_id e, ne_task_id e)) (entries_of nav))"
      "size (mset (nav_task_by_idempotency nav)) =
         size (image_mset (\<lambda>e. (ne_idempotency_key e, ne_task_id e)) (entries_of nav))"
      "size (mset (nav_nonterminal_ids nav)) = size (image_mset ne_task_id (filter_mset active (entries_of nav)))"
      "size (mset (nav_nonterminal_keys nav)) =
         size (image_mset (entry_order_key py) (filter_mset active (entries_of nav)))"
      using tv unfolding tables_view_def by (simp_all only:)
    have "size (entries_of nav) = length (nav_entries nav)" by simp
    with s cv show ?thesis by (simp add: counts_disagree_def counts_view_def)
  qed
  moreover have "\<not> f3_ids_wrong nav"
    using found by (fastforce simp: f3_ids_wrong_def list_ex_iff)
  ultimately show ?thesis
    using sv ids(3,4) good sub len signature_of_mset [OF n] signature_of_mset [OF f]
    by (simp add: tables_disagree_def identifier_signature_good dist signatures_view_def)
qed

end
