(* ===== verification/Task_Triples.thy ===== *)
theory Task_Triples
  imports Task_Index
begin

text \<open>
  Hoare triples for the operations of the task repository, with a postcondition for the calls that return
  and one for those that raise: the rules for each building block of the model.
\<close>

section \<open>Triples\<close>

definition triple ::
    "(task_store \<Rightarrow> bool) \<Rightarrow> 'a store_op \<Rightarrow> ('a \<Rightarrow> task_store \<Rightarrow> bool) \<Rightarrow> (task_store \<Rightarrow> bool) \<Rightarrow> bool" where
  "triple P m Q E \<longleftrightarrow> (\<forall>s. P s \<longrightarrow> (case m s of (Inl e, t) \<Rightarrow> E t | (Inr x, t) \<Rightarrow> Q x t))"

named_theorems triples \<open>composition rules for triples\<close>

lemma tripleI:
  assumes "\<And>s x t. P s \<Longrightarrow> m s = (Inr x, t) \<Longrightarrow> Q x t" and "\<And>s e t. P s \<Longrightarrow> m s = (Inl e, t) \<Longrightarrow> E t"
  shows "triple P m Q E"
  unfolding triple_def using assms by (auto split: prod.splits sum.splits)

lemma triple_exec:
  assumes "\<And>s. P s \<Longrightarrow> \<exists>x t. m s = (Inr x, t) \<and> Q x t"
  shows "triple P m Q E"
  by (rule tripleI) (use assms in fastforce)+

lemma tripleD:
  assumes "triple P m Q E" and "P s"
  shows "m s = (Inr x, t) \<Longrightarrow> Q x t" and "m s = (Inl e, t) \<Longrightarrow> E t"
  using assms by (auto simp: triple_def)

lemma triple_conseq:
  assumes "triple P m Q E" and "\<And>s. P' s \<Longrightarrow> P s" and "\<And>x s. Q x s \<Longrightarrow> Q' x s" and "\<And>s. E s \<Longrightarrow> E' s"
  shows "triple P' m Q' E'"
  using assms unfolding triple_def by (fastforce split: prod.splits sum.splits)

lemma triple_bind:
  assumes "triple P m R E" and "\<And>x. triple (R x) (f x) Q E"
  shows "triple P (bind_eff m f) Q E"
  using assms unfolding triple_def bind_eff_def by (fastforce split: prod.splits sum.splits)

lemma triple_then:
  assumes "triple P m (\<lambda>_. R) E" and "triple R k Q E"
  shows "triple P (then_eff m k) Q E"
  unfolding then_eff_def by (rule triple_bind [OF assms(1)]) (rule assms(2))

lemma triple_return: "(\<And>s. P s \<Longrightarrow> Q x s) \<Longrightarrow> triple P (return_eff x) Q E"
  by (simp add: triple_def return_eff_def)

lemma triple_raise: "(\<And>s. P s \<Longrightarrow> E s) \<Longrightarrow> triple P (raise_eff e) Q E"
  by (simp add: triple_def raise_eff_def)

lemma triple_require: "(\<And>s. P s \<Longrightarrow> E s) \<Longrightarrow> triple P (require b e) (\<lambda>_ s. P s \<and> b) E"
  by (simp add: triple_def require_def return_eff_def raise_eff_def)

lemma triple_read: "triple P (read_eff f) (\<lambda>x s. P s \<and> x = f s) E"
  by (simp add: triple_def read_eff_def)

lemma triple_read_nav: "triple P (read_nav f) (\<lambda>x s. P s \<and> x = f (st_nav s)) E"
  unfolding read_nav_def by (rule triple_read)

lemma triple_update: "(\<And>s. P s \<Longrightarrow> Q (f s)) \<Longrightarrow> triple P (update_eff f) (\<lambda>_. Q) E"
  by (simp add: triple_def update_eff_def)

lemma triple_lift: "(\<And>s x. P s \<Longrightarrow> r = Inr x \<Longrightarrow> Q x s) \<Longrightarrow> (\<And>s. P s \<Longrightarrow> E s) \<Longrightarrow> triple P (lift_eff r) Q E"
  by (cases r) (simp_all add: triple_def lift_eff_def)

lemma triple_catch:
  assumes "triple P m Q R" and "\<And>e. triple R (h e) Q E"
  shows "triple P (catch_eff m h) Q E"
  using assms unfolding triple_def catch_eff_def by (fastforce split: prod.splits sum.splits)

lemma triple_try_else:
  assumes "triple P m R F" and "\<And>e. triple F (h e) Q E" and "\<And>x. triple (R x) (k x) Q E"
  shows "triple P (try_else_eff m h k) Q E"
  using assms unfolding triple_def try_else_eff_def by (fastforce split: prod.splits sum.splits)

lemma triple_os_error:
  "triple P m Q E \<Longrightarrow> triple P (os_error_as_storage m) Q E"
  unfolding os_error_as_storage_def
  by (erule triple_catch) (auto intro: triple_raise split: store_error.split)

text \<open>A predicate on the state that fault points do not touch.\<close>

definition fault_free :: "(task_store \<Rightarrow> bool) \<Rightarrow> bool" where
  "fault_free P \<longleftrightarrow> (\<forall>s f. P (st_fault_clock_update f s) = P s)"

lemma triple_fault: "fault_free P \<Longrightarrow> triple P file_fault (\<lambda>_. P) P"
  unfolding triple_def file_fault_def
  by (auto simp: effect_basic_defs fault_free_def)

lemma triple_token:
  assumes "fault_free P"
  shows "triple P directory_token (\<lambda>token s. P s \<and> token = st_directory s) P"
  unfolding directory_token_def
  by (intro triple_os_error triple_then [OF triple_fault [OF assms]]) (rule triple_read)

end
