(* ===== verification/Task_Loading.thy ===== *)
theory Task_Loading
  imports Task_Triples
begin

text \<open>
  What the navigation index of the task repository promises of the files on disk, and loading, quarantining
  and indexing one record under that promise.
\<close>

section \<open>What the index promises\<close>

definition file_entry :: "coercions \<Rightarrow> json option \<Rightarrow> navigation_entry option" where
  "file_entry py content =
     (case content of None \<Rightarrow> None
      | Some v \<Rightarrow> (case task_from_dict py v of Inr task \<Rightarrow> Some (navigation_entry_of py task) | Inl e \<Rightarrow> None))"

text \<open>File names are unique, no two name the same task, and a readable record is of the task it is named after.\<close>

definition canonical :: "coercions \<Rightarrow> (file_name \<times> json option) list \<Rightarrow> bool" where
  "canonical py files \<longleftrightarrow>
     distinct (map fst files) \<and> distinct (map (snd \<circ> fst) files) \<and>
     list_all (\<lambda>(name, content). case file_entry py content of
         None \<Rightarrow> True
       | Some e \<Rightarrow> ne_plan_id e = fst name \<and> ne_task_id e = snd name \<and> good_id (snd name)) files"

definition readable :: "coercions \<Rightarrow> (file_name \<times> json option) list \<Rightarrow> file_name \<Rightarrow> navigation_entry \<Rightarrow> bool" where
  "readable py files name e \<longleftrightarrow> (\<exists>content. map_of files name = Some content \<and> file_entry py content = Some e)"

definition reflects :: "coercions \<Rightarrow> navigation \<Rightarrow> (file_name \<times> json option) list \<Rightarrow> bool" where
  "reflects py nav files \<longleftrightarrow>
     (\<forall>k e. map_of (nav_entries nav) k = Some e \<longleftrightarrow> (\<exists>p. readable py files (p, k) e))"

definition base :: "coercions \<Rightarrow> task_store \<Rightarrow> bool" where
  "base py s \<longleftrightarrow> (\<forall>n. \<not> st_read_faults s n) \<and> canonical py (st_files s) \<and> index_sound py (st_nav s) \<and>
     (\<forall>n. st_observed s = Some n \<longrightarrow> n \<le> st_directory s)"

definition behind :: "coercions \<Rightarrow> task_store \<Rightarrow> bool" where
  "behind py s \<longleftrightarrow> base py s \<and> st_observed s \<noteq> Some (st_directory s)"

definition fresh :: "coercions \<Rightarrow> task_store \<Rightarrow> bool" where
  "fresh py s \<longleftrightarrow> base py s \<and> reflects py (st_nav s) (st_files s)"

definition store_inv :: "coercions \<Rightarrow> task_store \<Rightarrow> bool" where
  "store_inv py s \<longleftrightarrow> base py s \<and> (st_observed s = Some (st_directory s) \<longrightarrow> reflects py (st_nav s) (st_files s))"

lemma store_inv_cases: "store_inv py s \<longleftrightarrow> behind py s \<or> fresh py s"
  by (auto simp: store_inv_def behind_def fresh_def)

lemma fault_free_preds [simp]:
  "fault_free (behind py)" "fault_free (fresh py)" "fault_free (store_inv py)"
  by (simp_all add: fault_free_def behind_def fresh_def store_inv_def base_def)

lemma canonical_readable:
  assumes "canonical py files" and "readable py files name e"
  shows "ne_plan_id e = fst name" and "ne_task_id e = snd name" and "good_id (snd name)"
  using assms unfolding readable_def canonical_def list_all_iff
  by (auto dest!: map_of_SomeD split: option.splits)

lemma canonical_unique:
  assumes "canonical py files" and "map_of files (p, k) = Some c" and "map_of files (q, k) = Some d"
  shows "p = q"
proof -
  from assms have "((p, k), c) \<in> set files" "((q, k), d) \<in> set files" by (auto dest: map_of_SomeD)
  moreover have "inj_on (snd \<circ> fst) (set files)"
    using assms(1) unfolding canonical_def distinct_map by (elim conjE)
  ultimately have "((p, k), c) = ((q, k), d)" by (elim inj_onD) simp_all
  then show ?thesis by simp
qed

section \<open>Counters and files\<close>

text \<open>Counters play no part in the promise.\<close>

definition same_store :: "task_store \<Rightarrow> task_store \<Rightarrow> bool" where
  "same_store s t \<longleftrightarrow> st_nav t = st_nav s \<and> st_files t = st_files s \<and> st_observed t = st_observed s \<and>
     st_directory t = st_directory s \<and> st_read_faults t = st_read_faults s"

lemma same_store_preds:
  assumes "same_store s t"
  shows "base py t = base py s" and "behind py t = behind py s" and "fresh py t = fresh py s"
    and "store_inv py t = store_inv py s"
  using assms by (simp_all add: same_store_def base_def behind_def fresh_def store_inv_def)

definition counter_blind :: "(task_store \<Rightarrow> bool) \<Rightarrow> bool" where
  "counter_blind P \<longleftrightarrow> (\<forall>s t. same_store s t \<longrightarrow> P s \<longrightarrow> P t)"

lemma counter_blind_preds [simp]:
  "counter_blind (behind py)" "counter_blind (fresh py)" "counter_blind (store_inv py)"
  by (simp_all add: counter_blind_def same_store_preds)

lemma triple_counter:
  "counter_blind P \<Longrightarrow> (\<And>s. same_store s (f s)) \<Longrightarrow> triple P (update_eff f) (\<lambda>_. P) E"
  by (rule triple_update) (auto simp: counter_blind_def)

text \<open>Any change of the directory puts the index behind.\<close>

lemma triple_touch: "triple (base py) touch_directory (\<lambda>_. behind py) E"
  unfolding touch_directory_def
  by (rule triple_update) (auto simp: behind_def base_def split: option.splits)

lemma canonical_delete: "canonical py files \<Longrightarrow> canonical py (AList.delete name files)"
  unfolding canonical_def AList.delete_eq
  by (auto simp: list_all_iff distinct_map_filter)

lemma readable_delete:
  assumes "\<And>e. \<not> readable py files name e"
  shows "readable py (AList.delete name files) = readable py files"
  using assms by (auto simp: fun_eq_iff readable_def delete_conv' split: if_splits)

text \<open>
  The index covers the files named in \<open>names\<close>: its entries are the readable ones among them.  The flag
  says that the directory has changed since the index was last declared current.
\<close>

definition covers :: "coercions \<Rightarrow> file_name set \<Rightarrow> bool \<Rightarrow> task_store \<Rightarrow> bool" where
  "covers py names b s \<longleftrightarrow> base py s \<and> (b \<longrightarrow> st_observed s \<noteq> Some (st_directory s)) \<and>
     (\<forall>k e. map_of (nav_entries (st_nav s)) k = Some e \<longleftrightarrow>
        (\<exists>p. (p, k) \<in> names \<and> readable py (st_files s) (p, k) e))"

lemma fresh_covers: "fresh py = covers py UNIV False"
  by (auto simp: fun_eq_iff fresh_def covers_def reflects_def)

lemma covers_behind: "covers py names True s \<Longrightarrow> behind py s"
  by (simp add: covers_def behind_def)

lemma covers_blind [simp]: "fault_free (covers py names b)" "counter_blind (covers py names b)"
  by (auto simp: fault_free_def counter_blind_def same_store_def covers_def base_def)

lemma covers_no_entry:
  assumes "covers py names b s" and "map_of (st_files s) (p, k) = Some c" and "file_entry py c = None"
  shows "map_of (nav_entries (st_nav s)) k = None"
proof (rule ccontr)
  assume "map_of (nav_entries (st_nav s)) k \<noteq> None"
  then obtain e where "map_of (nav_entries (st_nav s)) k = Some e" by auto
  then obtain q where q: "readable py (st_files s) (q, k) e"
    using assms(1) by (auto simp: covers_def)
  then have "q = p" using canonical_unique assms(1,2) by (auto simp: readable_def covers_def base_def)
  with q assms(2,3) show False by (auto simp: readable_def)
qed

section \<open>Loading\<close>

definition corrupt :: "coercions \<Rightarrow> file_name \<Rightarrow> task_store \<Rightarrow> bool" where
  "corrupt py path s \<longleftrightarrow> (\<exists>c. map_of (st_files s) path = Some c \<and> file_entry py c = None)"

lemma triple_remove_entry:
  "triple (behind py) (remove_entry py k) (\<lambda>_. behind py) E"
proof (rule triple_exec)
  fix s assume "behind py s"
  then show "\<exists>x t. remove_entry py k s = (Inr x, t) \<and> behind py t"
    using remove_entry_sound [of py s k] by (auto simp: behind_def base_def)
qed

lemma triple_remove_corrupt:
  "triple (\<lambda>s. covers py names b s \<and> corrupt py path s) (remove_entry py (snd path))
     (\<lambda>_ s. covers py names b s \<and> corrupt py path s) E"
proof (rule triple_exec)
  fix s assume s: "covers py names b s \<and> corrupt py path s"
  then have "remove_entry py (snd path) s = (Inr (), s)"
    using covers_no_entry [of py names b s "fst path" "snd path"] by (auto simp: corrupt_def remove_entry_absent)
  with s show "\<exists>x t. remove_entry py (snd path) s = (Inr x, t) \<and> covers py names b t \<and> corrupt py path t" by simp
qed

definition drop_file :: "file_name \<Rightarrow> task_store \<Rightarrow> task_store" where
  "drop_file path s = st_directory_update Suc (s\<lparr>st_files := AList.delete path (st_files s)\<rparr>)"

lemma behind_dropped: "base py s \<Longrightarrow> behind py (drop_file path s)"
  using canonical_delete by (auto simp: behind_def base_def drop_file_def)

lemma covers_dropped:
  assumes "covers py names b s" and "corrupt py path s"
  shows "covers py names b (drop_file path s)"
proof -
  have "readable py (AList.delete path (st_files s)) = readable py (st_files s)"
    using assms(2) by (intro readable_delete) (auto simp: corrupt_def readable_def)
  then show ?thesis using assms canonical_delete
    by (auto simp: covers_def base_def drop_file_def)
qed

text \<open>Navigation counters play no part either.\<close>

definition nav_blind :: "(task_store \<Rightarrow> bool) \<Rightarrow> bool" where
  "nav_blind P \<longleftrightarrow> (\<forall>s nav. nav_entries nav = nav_entries (st_nav s) \<longrightarrow>
     (\<forall>py. index_sound py nav = index_sound py (st_nav s)) \<longrightarrow> P s \<longrightarrow> P (s\<lparr>st_nav := nav\<rparr>))"

lemma nav_blind_preds [simp]: "nav_blind (behind py)" "nav_blind (covers py names b)" "nav_blind (store_inv py)"
  "nav_blind (corrupt py path)"
  by (auto simp: nav_blind_def behind_def covers_def base_def corrupt_def store_inv_def reflects_def)

lemma blind_conj:
  "nav_blind P \<Longrightarrow> nav_blind P' \<Longrightarrow> nav_blind (\<lambda>s. P s \<and> P' s)"
  "counter_blind P \<Longrightarrow> counter_blind P' \<Longrightarrow> counter_blind (\<lambda>s. P s \<and> P' s)"
  "fault_free P \<Longrightarrow> fault_free P' \<Longrightarrow> fault_free (\<lambda>s. P s \<and> P' s)"
  by (auto simp: nav_blind_def counter_blind_def fault_free_def)

lemma corrupt_blind [simp]: "counter_blind (corrupt py path)" "fault_free (corrupt py path)"
  by (auto simp: counter_blind_def fault_free_def corrupt_def same_store_def)

lemma index_sound_counters [simp]:
  "index_sound py (nav_generation_update f nav) = index_sound py nav"
  "index_sound py (nav_invalidation_count_update f nav) = index_sound py nav"
  "index_sound py (nav_update_count_update f nav) = index_sound py nav"
  "index_sound py (nav_rebuild_count_update f nav) = index_sound py nav"
  by (simp_all add: index_sound_def entries_sound_def tables_view_def counts_view_def signatures_view_def)

lemma triple_nav_counter:
  assumes "nav_blind P" and "\<And>nav. nav_entries (f nav) = nav_entries nav"
    and "\<And>py nav. index_sound py (f nav) = index_sound py nav"
  shows "triple P (nav_update f) (\<lambda>_. P) E"
proof -
  have "P (st_nav_update f s)" if "P s" for s
  proof -
    have eq: "st_nav_update f s = s\<lparr>st_nav := f (st_nav s)\<rparr>" by simp
    show ?thesis unfolding eq
      by (rule assms(1) [unfolded nav_blind_def, rule_format]) (use assms(2,3) that in simp_all)
  qed
  then show ?thesis unfolding nav_update_def by (rule triple_update)
qed

text \<open>Quarantining a record, whatever is known of the index meanwhile.\<close>

lemma triple_quarantine:
  assumes blind: "nav_blind P" "counter_blind P" "fault_free P" and counters: "counter_blind R"
    and remove: "triple P (remove_entry py (snd path)) (\<lambda>_. P) R"
    and kept: "\<And>s. P s \<Longrightarrow> R s" and dropped: "\<And>s. P s \<Longrightarrow> R (drop_file path s)"
  shows "triple P (quarantine_record py path) (\<lambda>_. R) R"
proof -
  have after: "R t" if "P s" "same_store (drop_file path s) t" for s t
    using counters dropped [OF that(1)] that(2) unfolding counter_blind_def by blast
  have drop: "triple P (then_eff (update_eff (st_files_update (AList.delete path)))
       (then_eff touch_directory (update_eff (st_quarantine_removed_update (\<lambda>n. n + 1))))) (\<lambda>_. R) R"
    "triple P (then_eff (update_eff (\<lambda>s. s\<lparr>st_files := AList.delete path (st_files s),
                                        st_quarantine := st_quarantine s @ [path]\<rparr>))
             (then_eff touch_directory (update_eff (st_quarantine_moved_update (\<lambda>n. n + 1))))) (\<lambda>_. R) R"
    by (auto simp: triple_def effect_basic_defs touch_directory_def drop_file_def same_store_def
        elim!: after)
  have fault: "triple P file_fault (\<lambda>_. P) P" by (rule triple_fault [OF blind(3)])
  have keep: "triple P m (\<lambda>_. P) E \<Longrightarrow> triple P m (\<lambda>_. R) E" for m :: "unit store_op" and E
    by (erule triple_conseq) (use kept in auto)
  show ?thesis
    unfolding quarantine_record_def
    apply (rule triple_then [where R = P])
     apply (rule triple_counter [OF blind(2)], simp add: same_store_def)
    apply (rule triple_then [OF remove])
    apply (rule triple_then [where R = P])
     apply (rule triple_nav_counter [OF blind(1)]; simp)
    apply (rule triple_bind [OF triple_read])
    apply (rule triple_try_else [where R = "\<lambda>_. P" and F = P])
      apply (rule triple_conseq [where P = P and Q = "\<lambda>_. P" and E = P])
         apply (rule triple_then [OF fault])
         apply (rule triple_conseq [OF triple_require [where P = P]]; blast)
        apply blast+
     apply (split if_split, intro conjI impI)
      apply (rule triple_return, erule kept)
     apply (rule triple_try_else [OF fault])
      apply (rule keep, rule triple_counter [OF blind(2)], simp add: same_store_def)
     apply (rule drop(1))
    apply (rule drop(2))
    done
qed

text \<open>What a loaded task says about the file it came from.\<close>

definition loaded_from :: "coercions \<Rightarrow> file_name \<Rightarrow> execution_task \<Rightarrow> task_store \<Rightarrow> bool" where
  "loaded_from py path task s \<longleftrightarrow>
     (\<exists>v. map_of (st_files s) path = Some (Some v) \<and> task_from_dict py v = Inr task)"

lemma loaded_readable: "loaded_from py path task s \<Longrightarrow> readable py (st_files s) path (navigation_entry_of py task)"
  by (auto simp: loaded_from_def readable_def file_entry_def)

definition load_outcome :: "coercions \<Rightarrow> file_name \<Rightarrow> execution_task option \<Rightarrow> task_store \<Rightarrow> bool" where
  "load_outcome py path loaded s \<longleftrightarrow>
     (case loaded of None \<Rightarrow> map_of (st_files s) path = None | Some task \<Rightarrow> loaded_from py path task s)"

lemma load_outcome_blind: "same_store s t \<Longrightarrow> load_outcome py path loaded t = load_outcome py path loaded s"
  by (simp add: load_outcome_def same_store_def loaded_from_def split: option.splits)

text \<open>The file holds no readable record.\<close>

definition unreadable :: "coercions \<Rightarrow> file_name \<Rightarrow> task_store \<Rightarrow> bool" where
  "unreadable py path s \<longleftrightarrow> (\<forall>e. \<not> readable py (st_files s) path e)"

lemma unreadable_intros:
  "corrupt py path s \<Longrightarrow> unreadable py path s" "unreadable py path (drop_file path s)"
  "map_of (st_files s) path = None \<Longrightarrow> unreadable py path s"
  by (auto simp: unreadable_def corrupt_def readable_def drop_file_def delete_conv')

lemma unreadable_blind [simp]: "counter_blind (unreadable py path)" "fault_free (unreadable py path)"
  by (auto simp: counter_blind_def unreadable_def same_store_def fault_free_def)

definition reads_work :: "(task_store \<Rightarrow> bool) \<Rightarrow> bool" where
  "reads_work P \<longleftrightarrow> (\<forall>s n. P s \<longrightarrow> \<not> st_read_faults s n)"

lemma reads_work_preds [simp]: "reads_work (behind py)" "reads_work (covers py names b)"
  by (simp_all add: reads_work_def behind_def covers_def base_def)

lemma triple_read_fault:
  "fault_free P \<Longrightarrow> reads_work P \<Longrightarrow> triple P (os_error_as_storage read_fault) (\<lambda>_. P) E"
  unfolding triple_def read_fault_def os_error_as_storage_def
  by (auto simp: effect_basic_defs fault_free_def reads_work_def)

lemma triple_load:
  assumes blind: "fault_free P" "counter_blind P" "reads_work P"
    and quarantine: "q \<Longrightarrow> triple (\<lambda>s. P s \<and> corrupt py path s) (quarantine_record py path)
      (\<lambda>_ s. P s \<and> unreadable py path s) (\<lambda>s. P s \<and> unreadable py path s)"
  shows "triple P (load_record py q path) (\<lambda>loaded s. P s \<and> load_outcome py path loaded s)
    (\<lambda>s. P s \<and> unreadable py path s)"
proof -
  let ?parse = "\<lambda>text. case text of None \<Rightarrow> Inl TaskValueError | Some v \<Rightarrow> task_from_dict py v"
  have cnt: "P t" if "P s" "same_store s t" for s t
    using blind(2) that unfolding counter_blind_def by blast
  have body: "triple (\<lambda>s. P s \<and> map_of (st_files s) path = content)
     (case content of
        None \<Rightarrow> return_eff None
      | Some text \<Rightarrow>
          (case ?parse text of
             Inl e \<Rightarrow>
               then_eff (if q then quarantine_record py path else return_eff ())
                 (raise_eff (TaskStorageError False))
           | Inr task \<Rightarrow>
               then_eff (update_eff (\<lambda>s. s\<lparr>st_records_deserialized := st_records_deserialized s + 1,
                   st_terminal_records_deserialized := st_terminal_records_deserialized s +
                     (if et_state task \<in> set TERMINAL_TASK_STATES then 1 else 0)\<rparr>))
                 (return_eff (Some task))))
     (\<lambda>loaded s. P s \<and> load_outcome py path loaded s) (\<lambda>s. P s \<and> unreadable py path s)" for content
  proof (cases content)
    case None
    then show ?thesis by (auto intro!: triple_return simp: load_outcome_def)
  next
    case (Some raw)
    show ?thesis
    proof (cases "?parse raw")
      case (Inl e)
      then have none: "file_entry py raw = None" by (auto simp: file_entry_def split: option.splits)
      have pre: "triple (\<lambda>s. P s \<and> map_of (st_files s) path = content)
          (if q then quarantine_record py path else return_eff ()) (\<lambda>_ s. P s \<and> unreadable py path s)
          (\<lambda>s. P s \<and> unreadable py path s)"
      proof (cases q)
        case True
        show ?thesis unfolding if_P [OF True]
          by (rule triple_conseq [OF quarantine [OF True]]) (auto simp: corrupt_def Some none)
      next
        case False
        show ?thesis unfolding if_not_P [OF False]
          by (rule triple_return) (auto intro: unreadable_intros simp: corrupt_def Some none)
      qed
      show ?thesis unfolding Some option.case Inl sum.case
        by (intro triple_then [OF pre [unfolded Some]] triple_raise)
    next
      case (Inr task)
      then obtain v where v: "raw = Some v" "task_from_dict py v = Inr task" by (cases raw) auto
      have out: "P t \<and> load_outcome py path (Some task) t"
        if "P s" "map_of (st_files s) path = content" "same_store s t" for s t
        using cnt [OF that(1,3)] that(2,3) v by (simp add: load_outcome_def loaded_from_def same_store_def Some)
      show ?thesis unfolding Some option.case Inr sum.case
        by (rule triple_then [where R = "\<lambda>s. P s \<and> load_outcome py path (Some task) s"], rule triple_update,
            elim conjE, rule out) (auto simp: same_store_def Some intro: triple_return)
    qed
  qed
  show ?thesis
    unfolding load_record_def
    by (intro triple_then [OF triple_read_fault [OF blind(1,3)]] triple_bind [OF triple_read])
      (rule triple_conseq [OF body]; auto)
qed

definition skip_outcome :: "coercions \<Rightarrow> file_name \<Rightarrow> execution_task option \<Rightarrow> task_store \<Rightarrow> bool" where
  "skip_outcome py path loaded s \<longleftrightarrow>
     (case loaded of None \<Rightarrow> unreadable py path s | Some task \<Rightarrow> loaded_from py path task s)"

lemma triple_load_skip:
  assumes "fault_free P" "counter_blind P" "reads_work P"
    and "q \<Longrightarrow> triple (\<lambda>s. P s \<and> corrupt py path s) (quarantine_record py path)
      (\<lambda>_ s. P s \<and> unreadable py path s) (\<lambda>s. P s \<and> unreadable py path s)"
  shows "triple P (load_or_skip py q path) (\<lambda>loaded s. P s \<and> skip_outcome py path loaded s) P"
  unfolding load_or_skip_def
  by (rule triple_catch [where R = "\<lambda>s. P s \<and> unreadable py path s"], rule triple_conseq [OF triple_load [OF assms]])
    (auto simp: load_outcome_def skip_outcome_def split: option.splits store_error.splits
      intro!: triple_return triple_raise intro: unreadable_intros)

lemma quarantine_covers:
  "triple (\<lambda>s. covers py names b s \<and> corrupt py path s) (quarantine_record py path)
     (\<lambda>_ s. covers py names b s \<and> unreadable py path s) (\<lambda>s. covers py names b s \<and> unreadable py path s)"
  by (rule triple_quarantine)
    (auto intro!: blind_conj triple_remove_corrupt covers_dropped unreadable_intros(2) intro: unreadable_intros(1))

lemma behind_base: "behind py s \<Longrightarrow> base py s"
  by (simp add: behind_def)

lemma triple_and: "triple P m Q E \<Longrightarrow> triple P' m Q' E' \<Longrightarrow>
    triple (\<lambda>s. P s \<and> P' s) m (\<lambda>x s. Q x s \<and> Q' x s) (\<lambda>s. E s \<and> E' s)"
  unfolding triple_def by (fastforce split: prod.splits sum.splits)

lemma remove_entry_files:
  "triple (\<lambda>s. behind py s \<and> corrupt py path s) (remove_entry py k) (\<lambda>_ s. behind py s \<and> corrupt py path s) E"
proof (rule triple_exec)
  fix s assume s: "behind py s \<and> corrupt py path s"
  then obtain nav where "remove_entry py k s = (Inr (), s\<lparr>st_nav := nav\<rparr>)" "index_sound py nav"
    using remove_entry_sound [of py s k] by (auto simp: behind_def base_def)
  with s show "\<exists>x t. remove_entry py k s = (Inr x, t) \<and> behind py t \<and> corrupt py path t"
    by (auto simp: behind_def base_def corrupt_def)
qed

lemma quarantine_behind:
  "triple (\<lambda>s. behind py s \<and> corrupt py path s) (quarantine_record py path)
     (\<lambda>_ s. behind py s \<and> unreadable py path s) (\<lambda>s. behind py s \<and> unreadable py path s)"
  by (rule triple_quarantine [OF _ _ _ _ remove_entry_files])
    (auto intro!: blind_conj unreadable_intros(2) intro: behind_dropped behind_base unreadable_intros(1))

lemmas load_covers = triple_load [OF covers_blind reads_work_preds(2) quarantine_covers]
  and load_skip_covers = triple_load_skip [OF covers_blind reads_work_preds(2) quarantine_covers]
  and load_skip_behind =
    triple_load_skip [OF fault_free_preds(1) counter_blind_preds(1) reads_work_preds(1) quarantine_behind]

section \<open>Putting a loaded record\<close>

text \<open>The index covers the files, except for what it has on one task.\<close>

definition covers_except :: "coercions \<Rightarrow> string \<Rightarrow> file_name set \<Rightarrow> bool \<Rightarrow> task_store \<Rightarrow> bool" where
  "covers_except py k names b s \<longleftrightarrow> base py s \<and> (b \<longrightarrow> st_observed s \<noteq> Some (st_directory s)) \<and>
     (\<forall>k' e. k' \<noteq> k \<longrightarrow> (map_of (nav_entries (st_nav s)) k' = Some e \<longleftrightarrow>
        (\<exists>p. (p, k') \<in> names \<and> readable py (st_files s) (p, k') e)))"

lemma covers_is_except: "covers py names b s \<Longrightarrow> covers_except py k names b s"
  by (simp add: covers_def covers_except_def)

lemma put_covered_except:
  assumes "covers_except py k names b s" and "readable py (st_files s) (p, k) e" and "e = navigation_entry_of py task"
    and own: "\<And>k' e'. map_of (nav_entries (st_nav s)) k' = Some e' \<Longrightarrow> k' \<noteq> k \<Longrightarrow>
      ne_plan_id e' \<noteq> ne_plan_id e \<and> ne_idempotency_key e' \<noteq> ne_idempotency_key e"
  shows "\<exists>t. put_entry py cu task s = (Inr (), t) \<and> covers py (insert (p, k) names) b t \<and>
    st_files t = st_files s"
proof -
  have base: "canonical py (st_files s)" "index_sound py (st_nav s)"
    using assms(1) by (auto simp: covers_except_def base_def)
  note can = canonical_readable [OF base(1) assms(2)]
  have es: "distinct (map fst (nav_entries (st_nav s)))"
    using base(2) by (simp add: index_sound_def entries_sound_def)
  have "ownable e (st_nav s)"
    using can(2,3) own map_of_is_SomeI [OF es] unfolding ownable_def list_all_iff by auto
  from put_entry_sound [OF base(2) assms(3) this] obtain nav where
    put: "put_entry py cu task s = (Inr (), s\<lparr>st_nav := nav\<rparr>)" and sound: "index_sound py nav"
    and entries: "nav_entries nav = AList.delete (ne_task_id e) (nav_entries (st_nav s)) @ [(ne_task_id e, e)]"
    by metis
  have look: "map_of (nav_entries nav) k' = (if k' = k then Some e else map_of (nav_entries (st_nav s)) k')" for k'
    using can(2) by (auto simp: entries delete_conv' map_add_def split: option.splits)
  have "map_of (nav_entries nav) k' = Some e' \<longleftrightarrow>
      (\<exists>q. (q, k') \<in> insert (p, k) names \<and> readable py (st_files s) (q, k') e')" for k' e'
  proof (cases "k' = k")
    case True
    have "q = p \<and> e' = e" if "readable py (st_files s) (q, k) e'" for q
    proof -
      have "q = p" using that assms(2) canonical_unique [OF base(1)] by (auto simp: readable_def)
      with that assms(2) show ?thesis by (auto simp: readable_def)
    qed
    then show ?thesis using True assms(2) look by auto
  next
    case False
    then show ?thesis using look assms(1) by (auto simp: covers_except_def)
  qed
  then have "covers py (insert (p, k) names) b (s\<lparr>st_nav := nav\<rparr>)"
    using assms(1) sound by (simp add: covers_except_def covers_def base_def)
  with put show ?thesis by auto
qed

lemmas put_covered = put_covered_except [OF covers_is_except]

lemma entries_apart:
  assumes "entries_sound nav" and "map_of (nav_entries nav) k = Some e" and "map_of (nav_entries nav) k' = Some e'"
    and "k' \<noteq> k"
  shows "ne_plan_id e' \<noteq> ne_plan_id e \<and> ne_idempotency_key e' \<noteq> ne_idempotency_key e"
proof -
  have mem: "(k, e) \<in> set (nav_entries nav)" "(k', e') \<in> set (nav_entries nav)"
    using assms(2,3) by (auto dest: map_of_SomeD)
  have inj: "inj_on (ne_plan_id \<circ> snd) (set (nav_entries nav))"
    "inj_on (ne_idempotency_key \<circ> snd) (set (nav_entries nav))"
    using assms(1) unfolding entries_sound_def distinct_map by blast+
  have ne: "(k', e') \<noteq> (k, e)" using assms(4) by simp
  show ?thesis
    using inj_onD [OF inj(1) _ mem(2,1)] inj_onD [OF inj(2) _ mem(2,1)] ne by auto
qed

text \<open>A record the index has may be put again.\<close>

definition indexed :: "coercions \<Rightarrow> (string \<times> navigation_entry) list \<Rightarrow> execution_task \<Rightarrow> bool" where
  "indexed py es task \<longleftrightarrow> map_of es (ne_task_id (navigation_entry_of py task)) = Some (navigation_entry_of py task)"

lemma fresh_indexed:
  assumes "fresh py s" and "loaded_from py path task s"
  shows "indexed py (nav_entries (st_nav s)) task"
proof -
  obtain p k where path: "path = (p, k)" by (cases path)
  with loaded_readable [OF assms(2)] have r: "readable py (st_files s) (p, k) (navigation_entry_of py task)" by simp
  then have "ne_task_id (navigation_entry_of py task) = k"
    using canonical_readable(2) assms(1) by (fastforce simp: fresh_def base_def)
  then show ?thesis using r assms(1) by (auto simp: indexed_def fresh_def reflects_def)
qed

lemma put_again:
  "triple (\<lambda>s. fresh py s \<and> indexed py (nav_entries (st_nav s)) task) (put_entry py cu task) (\<lambda>_. fresh py) E"
proof (rule triple_exec)
  fix s assume s: "fresh py s \<and> indexed py (nav_entries (st_nav s)) task"
  let ?e = "navigation_entry_of py task"
  from s have c: "covers py UNIV False s" by (simp add: fresh_covers)
  from s have found: "map_of (nav_entries (st_nav s)) (ne_task_id ?e) = Some ?e" by (simp add: indexed_def)
  with c obtain p where r: "readable py (st_files s) (p, ne_task_id ?e) ?e" by (auto simp: covers_def)
  have es: "entries_sound (st_nav s)" using c by (simp add: covers_def base_def index_sound_def)
  obtain t where "put_entry py cu task s = (Inr (), t)" "covers py (insert (p, ne_task_id ?e) UNIV) False t"
    using put_covered [OF c r refl] entries_apart [OF es found] by blast
  then show "\<exists>x t. put_entry py cu task s = (Inr x, t) \<and> fresh py t" by (auto simp: fresh_covers)
qed

end
