(* ===== verification/Task_Rebuild.thy ===== *)
theory Task_Rebuild
  imports Task_Loading
begin

text \<open>
  Rebuilding the navigation index from the directory establishes its promise, whatever it was before; and
  a call that needs the index first makes it true.
\<close>

section \<open>Rebuilding\<close>

definition keys_known :: "string list \<Rightarrow> task_store \<Rightarrow> bool" where
  "keys_known keys s \<longleftrightarrow>
     (\<forall>k e. map_of (nav_entries (st_nav s)) k = Some e \<longrightarrow> ne_idempotency_key e \<in> set keys)"

lemma covers_skip:
  "covers py names b s \<Longrightarrow> unreadable py path s \<Longrightarrow> covers py (insert path names) b s"
  by (cases path) (auto simp: covers_def unreadable_def)

text \<open>Loading touches no entry while the index covers what it has.\<close>

lemma remove_corrupt_entries:
  "triple (\<lambda>s. (covers py names b s \<and> nav_entries (st_nav s) = es) \<and> corrupt py path s) (remove_entry py (snd path))
     (\<lambda>_ s. (covers py names b s \<and> nav_entries (st_nav s) = es) \<and> corrupt py path s) E"
proof (rule triple_exec)
  fix s assume s: "(covers py names b s \<and> nav_entries (st_nav s) = es) \<and> corrupt py path s"
  then have "remove_entry py (snd path) s = (Inr (), s)"
    using covers_no_entry [of py names b s "fst path" "snd path"] by (auto simp: corrupt_def remove_entry_absent)
  with s show "\<exists>x t. remove_entry py (snd path) s = (Inr x, t) \<and>
      (covers py names b t \<and> nav_entries (st_nav t) = es) \<and> corrupt py path t" by simp
qed

lemma entries_blind [simp]:
  "nav_blind (\<lambda>s. nav_entries (st_nav s) = es)" "counter_blind (\<lambda>s. nav_entries (st_nav s) = es)"
  "fault_free (\<lambda>s. nav_entries (st_nav s) = es)"
  by (auto simp: nav_blind_def counter_blind_def fault_free_def same_store_def)

lemma drop_file_nav [simp]: "st_nav (drop_file path s) = st_nav s"
  by (simp add: drop_file_def)

lemma reads_work_conj: "reads_work P \<Longrightarrow> reads_work (\<lambda>s. P s \<and> P' s)"
  by (simp add: reads_work_def)

lemma quarantine_covers_entries:
  "triple (\<lambda>s. (covers py names b s \<and> nav_entries (st_nav s) = es) \<and> corrupt py path s) (quarantine_record py path)
     (\<lambda>_ s. (covers py names b s \<and> nav_entries (st_nav s) = es) \<and> unreadable py path s)
     (\<lambda>s. (covers py names b s \<and> nav_entries (st_nav s) = es) \<and> unreadable py path s)"
  by (rule triple_quarantine [OF _ _ _ _ remove_corrupt_entries])
    (auto intro!: blind_conj covers_dropped unreadable_intros(2) intro: unreadable_intros(1))

lemma load_skip_entries:
  "triple (\<lambda>s. covers py names b s \<and> nav_entries (st_nav s) = es) (load_or_skip py q path)
     (\<lambda>loaded s. (covers py names b s \<and> nav_entries (st_nav s) = es) \<and> skip_outcome py path loaded s)
     (\<lambda>s. covers py names b s \<and> nav_entries (st_nav s) = es)"
  by (rule triple_load_skip [OF _ _ _ quarantine_covers_entries])
    (auto intro: blind_conj reads_work_conj)

lemma triple_pure: "(K \<Longrightarrow> triple P m Q E) \<Longrightarrow> triple (\<lambda>s. P s \<and> K) m Q E"
  by (auto simp: triple_def)

lemma triple_lift_pre: "(\<And>es. triple (\<lambda>s. P s \<and> f s = es) m Q E) \<Longrightarrow> triple P m Q E"
  by (auto simp: triple_def)

lemma triple_index_records:
  "triple (\<lambda>s. covers py names True s \<and> keys_known keys s) (index_records py paths keys)
     (\<lambda>_. covers py (names \<union> set paths) True) (behind py)"
proof (induction paths arbitrary: names keys)
  case Nil
  then show ?case by (auto intro!: triple_return)
next
  case (Cons path paths)
  let ?R = "\<lambda>loaded s. covers py names True s \<and> keys_known keys s \<and> skip_outcome py path loaded s"
  have load: "triple (\<lambda>s. covers py names True s \<and> keys_known keys s) (load_or_skip py True path) ?R (behind py)"
  proof (rule triple_lift_pre [where f = "\<lambda>s. nav_entries (st_nav s)"])
    fix es :: "(string \<times> navigation_entry) list"
    let ?K = "\<forall>k e. map_of es k = Some e \<longrightarrow> ne_idempotency_key e \<in> set keys"
    have "triple (\<lambda>s. (covers py names True s \<and> nav_entries (st_nav s) = es) \<and> ?K) (load_or_skip py True path) ?R
        (behind py)"
      by (rule triple_pure, rule triple_conseq [OF load_skip_entries [of py names True es]])
        (auto simp: keys_known_def intro: covers_behind)
    then show "triple (\<lambda>s. (covers py names True s \<and> keys_known keys s) \<and> nav_entries (st_nav s) = es)
        (load_or_skip py True path) ?R (behind py)"
      by (rule triple_conseq) (auto simp: keys_known_def)
  qed
  have none: "triple (?R None) (index_records py paths keys) (\<lambda>_. covers py (insert path names \<union> set paths) True) (behind py)"
    by (rule triple_conseq [OF Cons.IH [of "insert path names" keys]])
      (auto simp: skip_outcome_def intro: covers_skip)
  have some: "triple (?R (Some task))
      (let entry = navigation_entry_of py task in
         bind_eff (read_nav nav_task_by_plan) (\<lambda>by_plan.
         then_eff (require (map_of by_plan (ne_plan_id entry) = None
                            \<and> ne_idempotency_key entry \<notin> set keys) (TaskStorageError False))
         (then_eff (put_entry py False task)
           (index_records py paths (ne_idempotency_key entry # keys)))))
      (\<lambda>_. covers py (insert path names \<union> set paths) True) (behind py)" for task
  proof -
    let ?e = "navigation_entry_of py task"
    have put: "triple (\<lambda>s. (?R (Some task) s \<and> by_plan = nav_task_by_plan (st_nav s)) \<and>
          (map_of by_plan (ne_plan_id ?e) = None \<and> ne_idempotency_key ?e \<notin> set keys))
        (put_entry py False task)
        (\<lambda>_ s. covers py (insert path names) True s \<and> keys_known (ne_idempotency_key ?e # keys) s) (behind py)" for by_plan
    proof (rule triple_exec)
      fix s
      assume s: "(?R (Some task) s \<and> by_plan = nav_task_by_plan (st_nav s)) \<and>
          (map_of by_plan (ne_plan_id ?e) = None \<and> ne_idempotency_key ?e \<notin> set keys)"
      then have c: "covers py names True s" and known: "keys_known keys s"
        and r: "readable py (st_files s) path ?e"
        by (auto simp: skip_outcome_def loaded_readable)
      have es: "entries_sound (st_nav s)" and tv: "tables_view py (entries_of (st_nav s)) (st_nav s)"
        using c by (simp_all add: covers_def base_def index_sound_def)
      have own: "ne_plan_id e' \<noteq> ne_plan_id ?e \<and> ne_idempotency_key e' \<noteq> ne_idempotency_key ?e"
        if "map_of (nav_entries (st_nav s)) k' = Some e'" for k' e'
      proof -
        have "map_of (nav_task_by_plan (st_nav s)) (ne_plan_id e') = Some k'"
          using tables_owner(3) [OF es tv] that by blast
        moreover have "ne_idempotency_key e' \<in> set keys"
          using known that unfolding keys_known_def by blast
        ultimately show ?thesis using s by auto
      qed
      obtain p k where path: "path = (p, k)" by (cases path)
      obtain t where put: "put_entry py False task s = (Inr (), t)" and t: "covers py (insert (p, k) names) True t"
        "st_files t = st_files s"
        using put_covered [OF c r [unfolded path] refl] own by blast
      have "keys_known (ne_idempotency_key ?e # keys) t"
        unfolding keys_known_def
      proof (intro allI impI)
        fix k' e' assume "map_of (nav_entries (st_nav t)) k' = Some e'"
        then obtain q where q: "(q, k') \<in> insert (p, k) names" "readable py (st_files s) (q, k') e'"
          using t by (auto simp: covers_def)
        show "ne_idempotency_key e' \<in> set (ne_idempotency_key ?e # keys)"
        proof (cases "(q, k') = (p, k)")
          case True
          with q(2) r path have "e' = ?e" by (auto simp: readable_def)
          then show ?thesis by simp
        next
          case False
          with q c have "map_of (nav_entries (st_nav s)) k' = Some e'" by (auto simp: covers_def)
          with known show ?thesis by (auto simp: keys_known_def)
        qed
      qed
      with put t path show "\<exists>x t. put_entry py False task s = (Inr x, t) \<and>
          (covers py (insert path names) True t \<and> keys_known (ne_idempotency_key ?e # keys) t)" by auto
    qed
    show ?thesis
      unfolding Let_def
      by (intro triple_bind [OF triple_read_nav] triple_then [OF triple_require] triple_then [OF put] Cons.IH)
        (auto dest: covers_behind)
  qed
  show ?case
    unfolding index_records.simps
    apply (rule triple_bind [OF load])
    subgoal for loaded using none some by (cases loaded) auto
    done
qed

lemma cleared_sound: "index_sound py (resign (clear_navigation nav))"
  by (simp add: index_sound_def entries_sound_def tables_view_def counts_view_def signatures_view_def
      resign_def clear_navigation_def)

lemma triple_clear:
  "triple (behind py) (then_eff (nav_update clear_navigation) refresh_expected_signature)
     (\<lambda>_ s. covers py {} True s \<and> keys_known [] s) E"
proof (rule triple_exec)
  fix s assume s: "behind py s"
  have "then_eff (nav_update clear_navigation) refresh_expected_signature s =
      (Inr (), s\<lparr>st_nav := resign (clear_navigation (st_nav s))\<rparr>)"
    by (simp add: effect_basic_defs nav_update_def refresh_eq clear_navigation_def)
  with s cleared_sound [of py "st_nav s"]
  show "\<exists>x t. then_eff (nav_update clear_navigation) refresh_expected_signature s = (Inr x, t) \<and>
      (covers py {} True t \<and> keys_known [] t)"
    by (auto simp: covers_def behind_def base_def keys_known_def resign_def clear_navigation_def)
qed

lemma triple_mark:
  "triple (fresh py) mark_navigation_current (\<lambda>_ s. fresh py s \<and> st_observed s = Some (st_directory s)) (fresh py)"
  unfolding mark_navigation_current_def
  by (rule triple_bind [OF triple_token]) (auto intro!: triple_update simp: fresh_def base_def)

lemma covers_all:
  assumes "covers py names b s" and "fst ` set (st_files s) \<subseteq> names"
  shows "fresh py s"
proof -
  have "(q, k) \<in> names" if "readable py (st_files s) (q, k) e" for q k e
    using that assms(2) by (force simp: readable_def dest: map_of_SomeD)
  then show ?thesis using assms(1) by (auto simp: fresh_def covers_def reflects_def)
qed

text \<open>Files are only ever removed while the index is rebuilt.\<close>

definition files_within :: "file_name set \<Rightarrow> task_store \<Rightarrow> bool" where
  "files_within names s \<longleftrightarrow> fst ` set (st_files s) \<subseteq> names"

definition same_files :: "task_store \<Rightarrow> task_store \<Rightarrow> bool" where
  "same_files s t \<longleftrightarrow> fst ` set (st_files t) \<subseteq> fst ` set (st_files s)"

lemma same_files_trans: "same_files s t \<Longrightarrow> same_files t u \<Longrightarrow> same_files s u"
  by (auto simp: same_files_def)

lemma same_files_refl [simp]: "same_files s s"
  by (simp add: same_files_def)

interpretation only_removes: guarantee_relation same_files
  by unfold_locales (auto intro: same_files_trans)

lemma nav_update_removes [guarantee_rules]: "guarantees same_files (nav_update f)"
  unfolding nav_update_def by (rule only_removes.update_guar) (simp add: same_files_def)

lemma counter_removes:
  "(\<And>s. fst ` set (st_files (f s)) \<subseteq> fst ` set (st_files s)) \<Longrightarrow> guarantees same_files (update_eff f)"
  by (rule only_removes.update_guar) (simp add: same_files_def)

lemma basic_removes [guarantee_rules]:
  "guarantees same_files file_fault" "guarantees same_files read_fault"
  "guarantees same_files touch_directory" "guarantees same_files (read_nav g)"
  unfolding file_fault_def read_fault_def touch_directory_def read_nav_def
  by (auto intro!: guarantee_rules counter_removes)

lemma os_error_removes [guarantee_rules]:
  "guarantees same_files m \<Longrightarrow> guarantees same_files (os_error_as_storage m)"
  unfolding os_error_as_storage_def
  by (rule only_removes.catch_guar) (auto intro: guarantee_rules split: store_error.split)

lemma refresh_removes [guarantee_rules]: "guarantees same_files refresh_expected_signature"
  unfolding refresh_expected_signature_def by (intro guarantee_rules)

lemma remove_key_removes [guarantee_rules]: "guarantees same_files (remove_key tbl upd key)"
  unfolding remove_key_def by (intro guarantee_rules)

lemma remove_entry_removes [guarantee_rules]: "guarantees same_files (remove_entry py k)"
  unfolding remove_entry_def
  by (intro guarantee_rules)

lemma put_entry_removes [guarantee_rules]: "guarantees same_files (put_entry py cu task)"
  unfolding put_entry_def Let_def
  by (intro guarantee_rules)

lemma quarantine_removes [guarantee_rules]: "guarantees same_files (quarantine_record py path)"
  unfolding quarantine_record_def
  by (intro guarantee_rules counter_removes) (simp_all add: dom_delete_subset)

lemma load_removes [guarantee_rules]: "guarantees same_files (load_record py q path)"
  unfolding load_record_def
  by (intro guarantee_rules) (auto intro!: guarantee_rules counter_removes split: option.split sum.split)

lemma load_skip_removes [guarantee_rules]: "guarantees same_files (load_or_skip py q path)"
  unfolding load_or_skip_def
  by (rule only_removes.catch_guar) (auto intro!: guarantee_rules split: store_error.split)

lemma index_records_removes [guarantee_rules]: "guarantees same_files (index_records py paths keys)"
  by (induction paths arbitrary: keys)
    (auto intro!: guarantee_rules split: option.split simp: Let_def)

lemma triple_guarantee:
  assumes "triple P m Q E" and "guarantees R m" and "\<And>s t. F s \<Longrightarrow> R s t \<Longrightarrow> F t"
  shows "triple (\<lambda>s. P s \<and> F s) m (\<lambda>x s. Q x s \<and> F s) (\<lambda>s. E s \<and> F s)"
  using assms unfolding triple_def guarantees_def by (fastforce split: prod.splits sum.splits)

lemma files_within_stable: "files_within names s \<Longrightarrow> same_files s t \<Longrightarrow> files_within names t"
  by (auto simp: files_within_def same_files_def)

lemma then_assoc: "then_eff a (then_eff b k) = then_eff (then_eff a b) k"
  by (simp add: then_eff_def bind_assoc)

lemma triple_rebuild:
  "triple (behind py) (rebuild_navigation_index py)
     (\<lambda>_ s. fresh py s \<and> st_observed s = Some (st_directory s)) (store_inv py)"
proof -
  have index: "triple (\<lambda>s. (covers py {} True s \<and> keys_known [] s) \<and> files_within (set paths) s)
      (index_records py paths []) (\<lambda>_. fresh py) (store_inv py)" for paths
    by (rule triple_conseq [OF triple_guarantee [OF triple_index_records [of py "{}" "[]" paths]
            index_records_removes files_within_stable [of "set paths"]]])
      (auto simp: store_inv_cases files_within_def intro: covers_all)
  have count: "triple (fresh py) (nav_update (\<lambda>nav. nav\<lparr>nav_generation := nav_generation nav + 1,
                                    nav_rebuild_count := nav_rebuild_count nav + 1\<rparr>)) (\<lambda>_. fresh py) (store_inv py)"
    unfolding fresh_covers by (rule triple_nav_counter) auto
  have mark: "triple (fresh py) mark_navigation_current
      (\<lambda>_ s. fresh py s \<and> st_observed s = Some (st_directory s)) (store_inv py)"
    by (rule triple_conseq [OF triple_mark]) (auto simp: store_inv_cases)
  show ?thesis
    unfolding rebuild_navigation_index_def record_paths_def
    apply (subst then_assoc)
    apply (rule triple_then [OF triple_clear])
    apply (rule triple_bind [OF triple_read])
    apply (rule triple_bind [OF triple_read])
    apply (rule triple_then [OF triple_conseq [OF index]])
       apply (simp add: files_within_def)
      apply assumption
     apply assumption
    apply (rule triple_then [OF count])
    apply (rule triple_then [OF mark])
    apply (rule triple_conseq [OF triple_read]; simp)
    done
qed

lemma triple_stale:
  "triple (store_inv py) navigation_index_stale
     (\<lambda>b s. if b then behind py s else fresh py s \<and> st_observed s = Some (st_directory s)) (store_inv py)"
proof -
  have agree: "tables_disagree (st_nav s) = Inr False" if "store_inv py s" for s
    using that sound_index_agrees [of py "st_nav s"] by (simp add: store_inv_def base_def)
  have tail: "triple (\<lambda>s. (store_inv py s \<and> token = st_directory s) \<and> observed = st_observed s)
      (if observed \<noteq> Some token then return_eff True else bind_eff (read_nav tables_disagree) lift_eff)
      (\<lambda>b s. if b then behind py s else fresh py s \<and> st_observed s = Some (st_directory s)) (store_inv py)"
    for token observed
  proof (cases "observed = Some token")
    case True
    then show ?thesis
      by (intro triple_exec)
        (auto simp: effect_basic_defs read_nav_def agree store_inv_def fresh_def)
  next
    case False
    then show ?thesis by (auto intro!: triple_return simp: store_inv_def behind_def)
  qed
  show ?thesis
    unfolding navigation_index_stale_def
    by (rule triple_bind [OF triple_token], simp, rule triple_bind [OF triple_read], rule tail)
qed

lemma triple_ensure:
  "triple (store_inv py) (ensure_navigation_index py)
     (\<lambda>_ s. fresh py s \<and> st_observed s = Some (st_directory s)) (store_inv py)"
proof -
  have count: "triple (behind py) (nav_update (nav_invalidation_count_update (\<lambda>n. n + 1))) (\<lambda>_. behind py)
      (store_inv py)"
    by (rule triple_nav_counter) auto
  show ?thesis
    unfolding ensure_navigation_index_def
    apply (rule triple_bind [OF triple_stale])
    subgoal for stale
      by (cases stale)
        (auto intro!: triple_then [OF count] triple_then [OF triple_rebuild] triple_return)
    done
qed

end
