(* ===== verification/Task_Saving.thy ===== *)
theory Task_Saving
  imports Task_Rebuild
begin

text \<open>
  Saving a task: the checks of \<open>_require_unique\<close> and \<open>_require_append_only\<close>, the write, and the index
  entry that follows it, under the promise of the index.
\<close>

section \<open>Listing and uniqueness\<close>

definition text_ids :: "execution_task \<Rightarrow> bool" where
  "text_ids task \<longleftrightarrow>
     (case (et_task_id task, et_plan_id task, et_idempotency_key task) of
       (JStr i, JStr p, JStr k) \<Rightarrow> True
     | _ \<Rightarrow> False)"

lemma text_ids_iff:
  "text_ids task \<longleftrightarrow>
     (\<exists>i p k. et_task_id task = JStr i \<and> et_plan_id task = JStr p \<and> et_idempotency_key task = JStr k)"
  by (auto simp: text_ids_def split: json.split)

lemma parsed_text_ids: "task_from_dict py v = Inr task \<Longrightarrow> text_ids task"
  by (cases v) (auto simp: task_from_dict_def and_then_ok_iff Let_def text_ids_iff)

lemma loaded_text_ids: "loaded_from py path task s \<Longrightarrow> text_ids task"
  by (auto simp: loaded_from_def intro: parsed_text_ids)

definition listed ::
    "coercions \<Rightarrow> (string \<times> navigation_entry) list \<Rightarrow> file_name list \<Rightarrow> execution_task list \<Rightarrow> bool" where
  "listed py es paths tasks \<longleftrightarrow>
     (\<forall>task \<in> set tasks. indexed py es task \<and> text_ids task) \<and>
     (\<forall>k e. map_of es k = Some e \<longrightarrow> (ne_plan_id e, k) \<in> set paths \<longrightarrow>
        (\<exists>task \<in> set tasks. navigation_entry_of py task = e))"

abbreviation holding :: "coercions \<Rightarrow> (string \<times> navigation_entry) list \<Rightarrow> task_store \<Rightarrow> bool" where
  "holding py es s \<equiv> fresh py s \<and> nav_entries (st_nav s) = es"

lemma triple_vacuous: "(\<And>s. \<not> P s) \<Longrightarrow> triple P m Q E"
  by (simp add: triple_def)

lemma load_skip_holding:
  "triple (holding py es) (load_or_skip py q path) (\<lambda>loaded s. holding py es s \<and> skip_outcome py path loaded s)
     (holding py es)"
  using load_skip_entries [of py UNIV False] by (simp add: fresh_covers)

lemma holding_file:
  assumes "holding py es s" and "map_of es k = Some e"
  shows "readable py (st_files s) (ne_plan_id e, k) e"
proof -
  from assms obtain p where p: "readable py (st_files s) (p, k) e" by (auto simp: fresh_def reflects_def)
  then have "ne_plan_id e = p" using canonical_readable(1) assms(1) by (fastforce simp: fresh_def base_def)
  with p show ?thesis by simp
qed

lemma triple_list_loaded:
  "triple (holding py es) (list_loaded py paths) (\<lambda>tasks s. holding py es s \<and> listed py es paths tasks)
     (holding py es)"
proof (induction paths)
  case Nil
  then show ?case by (auto intro!: triple_return simp: listed_def)
next
  case (Cons path paths)
  have step: "listed py es (path # paths) (case loaded of None \<Rightarrow> tasks | Some task \<Rightarrow> task # tasks)"
    if s: "holding py es s" "skip_outcome py path loaded s" and t: "listed py es paths tasks"
    for s loaded tasks
  proof (cases loaded)
    case None
    have "map_of es k \<noteq> Some e" if "(ne_plan_id e, k) = path" for k e
      using s(2) holding_file [OF s(1)] None that by (auto simp: skip_outcome_def unreadable_def)
    with t None show ?thesis by (auto simp: listed_def)
  next
    case (Some task)
    with s(2) have l: "loaded_from py path task s" by (simp add: skip_outcome_def)
    have "indexed py es task" "text_ids task"
      using fresh_indexed [OF _ l] loaded_text_ids [OF l] s(1) by auto
    moreover have "navigation_entry_of py task = e" if "map_of es k = Some e" "(ne_plan_id e, k) = path" for k e
      using holding_file [OF s(1) that(1)] loaded_readable [OF l] that(2) by (auto simp: readable_def)
    ultimately show ?thesis using t Some by (auto simp: listed_def)
  qed
  have rest: "triple (\<lambda>s. holding py es s \<and> skip_outcome py path loaded s)
      (bind_eff (list_loaded py paths) (\<lambda>tasks.
         return_eff (case loaded of None \<Rightarrow> tasks | Some task \<Rightarrow> task # tasks)))
      (\<lambda>tasks s. holding py es s \<and> listed py es (path # paths) tasks) (holding py es)" for loaded
  proof (cases "\<exists>s. holding py es s \<and> skip_outcome py path loaded s")
    case True
    then obtain s where s: "holding py es s" "skip_outcome py path loaded s" by auto
    have ih: "triple (\<lambda>s. holding py es s \<and> skip_outcome py path loaded s) (list_loaded py paths)
        (\<lambda>tasks s. holding py es s \<and> listed py es paths tasks) (holding py es)"
      by (rule triple_conseq [OF Cons.IH]) blast+
    have "triple (\<lambda>s. holding py es s \<and> listed py es paths tasks)
        (return_eff (case loaded of None \<Rightarrow> tasks | Some task \<Rightarrow> task # tasks))
        (\<lambda>tasks s. holding py es s \<and> listed py es (path # paths) tasks) (holding py es)" for tasks
      by (rule triple_return) (use step [OF s] in blast)
    then show ?thesis by (rule triple_bind [OF ih])
  next
    case False
    then show ?thesis by (intro triple_vacuous) blast
  qed
  show ?case
    unfolding list_loaded.simps by (rule triple_bind [OF load_skip_holding rest])
qed

text \<open>All entries are listed.\<close>

definition all_listed :: "coercions \<Rightarrow> (string \<times> navigation_entry) list \<Rightarrow> execution_task list \<Rightarrow> bool" where
  "all_listed py es tasks \<longleftrightarrow>
     (\<forall>task \<in> set tasks. indexed py es task \<and> text_ids task) \<and>
     (\<forall>k e. map_of es k = Some e \<longrightarrow> (\<exists>task \<in> set tasks. navigation_entry_of py task = e))"

lemma triple_list_unlocked:
  "triple (holding py es) (list_unlocked py) (\<lambda>tasks s. holding py es s \<and> all_listed py es tasks) (holding py es)"
proof -
  have body: "triple (\<lambda>s. holding py es s \<and> paths = sort_key file_name_text (map fst (st_files s)))
      (list_loaded py paths) (\<lambda>tasks s. holding py es s \<and> all_listed py es tasks) (holding py es)" for paths
  proof (cases "\<exists>s. holding py es s \<and> paths = sort_key file_name_text (map fst (st_files s))")
    case True
    then obtain s where s: "holding py es s" "set paths = fst ` set (st_files s)" by auto
    have "(ne_plan_id e, k) \<in> set paths" if "map_of es k = Some e" for k e
      using holding_file [OF s(1) that] s(2) by (force simp: readable_def dest: map_of_SomeD)
    then have "listed py es paths tasks \<Longrightarrow> all_listed py es tasks" for tasks
      by (auto simp: listed_def all_listed_def)
    then show ?thesis by (intro triple_conseq [OF triple_list_loaded]) auto
  next
    case False
    then show ?thesis by (intro triple_vacuous) blast
  qed
  show ?thesis unfolding list_unlocked_def record_paths_def by (rule triple_bind [OF triple_read body])
qed

definition owns_alone :: "coercions \<Rightarrow> execution_task \<Rightarrow> (string \<times> navigation_entry) list \<Rightarrow> bool" where
  "owns_alone py task es \<longleftrightarrow>
     (\<forall>k e. map_of es k = Some e \<longrightarrow> k \<noteq> field_text (et_task_id task) \<longrightarrow>
        ne_plan_id e \<noteq> field_text (et_plan_id task) \<and> ne_idempotency_key e \<noteq> field_text (et_idempotency_key task))"

lemma loose_equal_text: "loose_equal (JStr a) (JStr b) \<longleftrightarrow> a = b"
  by (simp add: loose_equal_def)

lemma triple_require_unique:
  assumes "text_ids task" and "\<And>k e. map_of es k = Some e \<Longrightarrow> ne_task_id e = k"
  shows "triple (holding py es) (require_unique py task)
    (\<lambda>_ s. holding py es s \<and> owns_alone py task es) (holding py es)"
proof -
  from assms(1) obtain i p k where ids: "et_task_id task = JStr i" "et_plan_id task = JStr p"
    "et_idempotency_key task = JStr k" by (auto simp: text_ids_iff)
  have unique: "owns_alone py task es" if l: "all_listed py es tasks" and c: "list_all (\<lambda>candidate.
            loose_equal (et_task_id candidate) (et_task_id task) \<or>
            \<not> loose_equal (et_plan_id candidate) (et_plan_id task) \<and>
            \<not> loose_equal (et_idempotency_key candidate) (et_idempotency_key task)) tasks" for tasks
    unfolding owns_alone_def
  proof (intro allI impI)
    fix k' e assume e: "map_of es k' = Some e" "k' \<noteq> field_text (et_task_id task)"
    with l obtain cand where cand: "cand \<in> set tasks" "navigation_entry_of py cand = e" "text_ids cand"
      unfolding all_listed_def by blast
    from cand(3) obtain i' p' k'' where f: "et_task_id cand = JStr i'" "et_plan_id cand = JStr p'"
      "et_idempotency_key cand = JStr k''" by (auto simp: text_ids_iff)
    have "ne_task_id e = k'" using assms(2) e(1) .
    then show "ne_plan_id e \<noteq> field_text (et_plan_id task) \<and>
        ne_idempotency_key e \<noteq> field_text (et_idempotency_key task)"
      using c cand e(2) f ids by (auto simp: list_all_iff loose_equal_text navigation_entry_of_def)
  qed
  let ?ok = "\<lambda>tasks. list_all (\<lambda>candidate.
            loose_equal (et_task_id candidate) (et_task_id task) \<or>
            \<not> loose_equal (et_plan_id candidate) (et_plan_id task) \<and>
            \<not> loose_equal (et_idempotency_key candidate) (et_idempotency_key task)) tasks"
  have check: "triple (\<lambda>s. holding py es s \<and> all_listed py es tasks) (require (?ok tasks) (TaskStorageError False))
      (\<lambda>_ s. holding py es s \<and> owns_alone py task es) (holding py es)" for tasks
    by (rule triple_conseq [OF triple_require [where P = "\<lambda>s. holding py es s \<and> all_listed py es tasks" and
            E = "holding py es"]]) (use unique in blast)+
  have rest: "triple (holding py es) (bind_eff (list_unlocked py) (\<lambda>tasks. require (?ok tasks) (TaskStorageError False)))
      (\<lambda>_ s. holding py es s \<and> owns_alone py task es) (holding py es)"
    by (rule triple_bind [OF triple_list_unlocked check])
  have first: "triple (holding py es) (require b (TaskStorageError False)) (\<lambda>_. holding py es) (holding py es)" for b
    by (rule triple_conseq [OF triple_require [where P = "holding py es" and E = "holding py es"]]) blast+
  show ?thesis
    unfolding require_unique_def Let_def
    by (rule triple_bind [OF triple_read], rule triple_conseq [OF triple_then [OF first rest]]) blast+
qed

section \<open>Saving\<close>

text \<open>
  A task that reads back as itself, as far as the index is concerned; its file name; and no other file
  with its identifier.
\<close>

definition storable :: "coercions \<Rightarrow> execution_task \<Rightarrow> bool" where
  "storable py task \<longleftrightarrow>
     text_ids task \<and>
     file_entry py (Some (sorted_keys (JDict (task_to_dict py task)))) = Some (navigation_entry_of py task)"

definition task_file :: "execution_task \<Rightarrow> file_name" where
  "task_file task = (field_text (et_plan_id task), field_text (et_task_id task))"

definition id_unused :: "execution_task \<Rightarrow> task_store \<Rightarrow> bool" where
  "id_unused task s \<longleftrightarrow>
     (\<forall>path \<in> fst ` set (st_files s). snd path = field_text (et_task_id task) \<longrightarrow> path = task_file task)"

lemma id_unused_stable: "id_unused task s \<Longrightarrow> same_files s t \<Longrightarrow> id_unused task t"
  by (auto simp: id_unused_def same_files_def)

definition saved_content :: "coercions \<Rightarrow> execution_task \<Rightarrow> json option" where
  "saved_content py task = Some (sorted_keys (JDict (task_to_dict py task)))"

definition ready :: "coercions \<Rightarrow> execution_task \<Rightarrow> task_store \<Rightarrow> bool" where
  "ready py task s \<longleftrightarrow> fresh py s \<and> owns_alone py task (nav_entries (st_nav s)) \<and> id_unused task s"

definition written :: "coercions \<Rightarrow> execution_task \<Rightarrow> task_store \<Rightarrow> bool" where
  "written py task s \<longleftrightarrow> st_observed s \<noteq> Some (st_directory s) \<and>
     (\<exists>files. ready py task (s\<lparr>st_files := files\<rparr>) \<and>
        st_files s = AList.update (task_file task) (saved_content py task) files)"

lemma text_ids_entry:
  "text_ids task \<Longrightarrow> ne_task_id (navigation_entry_of py task) = field_text (et_task_id task)"
  "text_ids task \<Longrightarrow> ne_plan_id (navigation_entry_of py task) = field_text (et_plan_id task)"
  "text_ids task \<Longrightarrow> ne_idempotency_key (navigation_entry_of py task) = field_text (et_idempotency_key task)"
  by (simp_all add: navigation_entry_of_def)

lemma canonical_update:
  assumes "canonical py files" and "storable py task" and "good_id (field_text (et_task_id task))"
    and unused: "\<forall>path \<in> fst ` set files. snd path = field_text (et_task_id task) \<longrightarrow> path = task_file task"
  shows "canonical py (AList.update (task_file task) (saved_content py task) files)"
proof -
  let ?files = "AList.update (task_file task) (saved_content py task) files"
  have names: "distinct (map fst ?files)"
    using assms(1) by (intro distinct_update) (simp add: canonical_def)
  have keys: "fst ` set ?files = insert (task_file task) (fst ` set files)" by (simp add: dom_update)
  have inj: "inj_on snd (fst ` set files)"
    using assms(1) by (auto simp: canonical_def distinct_map comp_def inj_on_def)
  then have "inj_on snd (fst ` set ?files)"
    unfolding keys using unused by (auto simp: inj_on_def task_file_def)
  then have ids: "distinct (map (snd \<circ> fst) ?files)"
    using names by (simp add: distinct_map comp_inj_on)
  have "(name, content) \<in> set files \<or> (name, content) = (task_file task, saved_content py task)"
    if "(name, content) \<in> set ?files" for name content
    using that set_update_subset by fastforce
  then have "list_all (\<lambda>(name, content). case file_entry py content of
         None \<Rightarrow> True
       | Some e \<Rightarrow> ne_plan_id e = fst name \<and> ne_task_id e = snd name \<and> good_id (snd name)) ?files"
    using assms(1-3) unfolding list_all_iff canonical_def
    by (fastforce simp: storable_def saved_content_def task_file_def navigation_entry_of_def)
  with names ids show ?thesis by (simp add: canonical_def)
qed

lemma written_base:
  assumes "written py task s" and "storable py task" and "good_id (field_text (et_task_id task))"
  shows "behind py s"
proof -
  from assms(1) obtain files where f: "ready py task (s\<lparr>st_files := files\<rparr>)"
    "st_files s = AList.update (task_file task) (saved_content py task) files" "st_observed s \<noteq> Some (st_directory s)"
    by (auto simp: written_def)
  then have "canonical py (st_files s)"
    unfolding f(2) by (intro canonical_update assms(2,3)) (auto simp: ready_def fresh_def base_def id_unused_def)
  then show ?thesis using f by (simp add: behind_def ready_def fresh_def base_def)
qed

lemma written_put:
  assumes "written py task s" and "storable py task" and "good_id (field_text (et_task_id task))"
  shows "\<exists>t. put_entry py True task s = (Inr (), t) \<and> fresh py t"
proof -
  from assms(1) obtain files where f: "ready py task (s\<lparr>st_files := files\<rparr>)"
    "st_files s = AList.update (task_file task) (saved_content py task) files" "st_observed s \<noteq> Some (st_directory s)"
    by (auto simp: written_def)
  let ?k = "field_text (et_task_id task)" and ?e = "navigation_entry_of py task"
  have b: "base py s" using written_base [OF assms] by (simp add: behind_def)
  have r: "readable py (st_files s) (field_text (et_plan_id task), ?k) ?e"
    using assms(2) unfolding f(2) readable_def update_conv'
    by (simp add: task_file_def saved_content_def storable_def)
  have other: "readable py (st_files s) (p, k') e \<longleftrightarrow> readable py files (p, k') e" if "k' \<noteq> ?k" for p k' e
    using that unfolding f(2) readable_def update_conv' by (simp add: task_file_def)
  have "covers_except py ?k UNIV False s"
    using b f(1) other by (auto simp: covers_except_def ready_def fresh_def reflects_def)
  moreover have "ne_plan_id e' \<noteq> ne_plan_id ?e \<and> ne_idempotency_key e' \<noteq> ne_idempotency_key ?e"
    if "map_of (nav_entries (st_nav s)) k' = Some e'" "k' \<noteq> ?k" for k' e'
    using that f(1) by (auto simp: ready_def owns_alone_def navigation_entry_of_def)
  ultimately obtain t where "put_entry py True task s = (Inr (), t)" "covers py UNIV False t"
    using put_covered_except [OF _ r refl, of UNIV False True] by auto
  then show ?thesis by (auto simp: fresh_covers)
qed

lemma inv_blind [simp]:
  "fault_free (ready py task)" "fault_free (written py task)" "fault_free (id_unused task)"
  "fault_free (\<lambda>s. ready py task s \<and> st_observed s \<noteq> Some (st_directory s))"
proof -
  show "fault_free (ready py task)" "fault_free (id_unused task)"
    "fault_free (\<lambda>s. ready py task s \<and> st_observed s \<noteq> Some (st_directory s))"
    by (simp_all add: fault_free_def ready_def fresh_def base_def id_unused_def)
  have "st_fault_clock_update f s\<lparr>st_files := files\<rparr> = st_fault_clock_update f (s\<lparr>st_files := files\<rparr>)" for f s files
    by simp
  then show "fault_free (written py task)"
    by (simp add: fault_free_def written_def ready_def fresh_def base_def id_unused_def)
qed

lemma ready_inv: "ready py task s \<Longrightarrow> store_inv py s"
  by (simp add: ready_def store_inv_cases)

definition admissible_task :: "coercions \<Rightarrow> execution_task \<Rightarrow> bool" where
  "admissible_task py task \<longleftrightarrow>
     storable py task \<and> hex_id (field_text (et_plan_id task)) \<and> hex_id (field_text (et_task_id task))"

lemma written_inv: "admissible_task py task \<Longrightarrow> written py task s \<Longrightarrow> store_inv py s"
  using written_base hex_id_good by (auto simp: store_inv_cases admissible_task_def)

lemma triple_fault_inv:
  assumes "fault_free P" and "\<And>s. P s \<Longrightarrow> store_inv py s"
  shows "triple P file_fault (\<lambda>_. P) (store_inv py)"
  by (rule triple_conseq [OF triple_fault [OF assms(1)]]) (use assms(2) in auto)

lemma touch_ready:
  "triple (ready py task) touch_directory (\<lambda>_ s. ready py task s \<and> st_observed s \<noteq> Some (st_directory s)) E"
  unfolding touch_directory_def
  by (rule triple_update) (auto simp: ready_def fresh_def base_def id_unused_def)

lemma touch_written: "triple (written py task) touch_directory (\<lambda>_. written py task) E"
  unfolding touch_directory_def
proof (rule triple_update)
  fix s assume w: "written py task s"
  then obtain files where f: "ready py task (s\<lparr>st_files := files\<rparr>)"
    "st_files s = AList.update (task_file task) (saved_content py task) files" by (auto simp: written_def)
  then have "ready py task (st_directory_update Suc s\<lparr>st_files := files\<rparr>)"
    by (auto simp: ready_def fresh_def base_def id_unused_def)
  moreover have "st_observed s \<noteq> Some (Suc (st_directory s))"
    using f(1) by (auto simp: ready_def fresh_def base_def)
  ultimately show "written py task (st_directory_update Suc s)" using f(2) by (auto simp: written_def)
qed

lemma triple_write:
  assumes "admissible_task py task"
  shows "triple (ready py task) (write_record py (task_file task) task) (\<lambda>_. written py task) (store_inv py)"
proof -
  let ?moved = "\<lambda>s. ready py task s \<and> st_observed s \<noteq> Some (st_directory s)"
  have f: "triple (ready py task) file_fault (\<lambda>_. ready py task) (store_inv py)"
    "triple ?moved file_fault (\<lambda>_. ?moved) (store_inv py)"
    "triple (written py task) file_fault (\<lambda>_. written py task) (store_inv py)"
    using written_inv [OF assms] by (auto intro!: triple_fault_inv dest: ready_inv)
  have u: "triple ?moved (update_eff (st_files_update (AList.update (task_file task)
      (Some (sorted_keys (JDict (task_to_dict py task))))))) (\<lambda>_. written py task) (store_inv py)"
  proof (rule triple_update)
    fix s assume "?moved s"
    then show "written py task (st_files_update (AList.update (task_file task)
        (Some (sorted_keys (JDict (task_to_dict py task))))) s)"
      unfolding written_def by (intro conjI exI [of _ "st_files s"]) (auto simp: saved_content_def)
  qed
  show ?thesis
    unfolding write_record_def
    by (rule triple_then [OF f(1) triple_then [OF touch_ready triple_then [OF f(2) triple_then [OF f(2)
            triple_then [OF u triple_then [OF touch_written f(3)]]]]]])
qed

lemma append_only_owner:
  assumes "admissible_task py task" and "require_append_only py previous task = Inr ()" and "loaded_from py (task_file task) previous s"
    and "fresh py s" and "id_unused task s"
  shows "ready py task s"
proof -
  obtain i p k where ids: "et_task_id task = JStr i" "et_plan_id task = JStr p" "et_idempotency_key task = JStr k"
    using assms(1) by (auto simp: admissible_task_def storable_def text_ids_iff)
  obtain i' p' k' where prev: "et_task_id previous = JStr i'" "et_plan_id previous = JStr p'"
    "et_idempotency_key previous = JStr k'" using loaded_text_ids [OF assms(3)] by (auto simp: text_ids_iff)
  have same: "i' = i" "p' = p" "k' = k"
    using assms(2) by (auto simp: require_append_only_def immutable_fields_def ids prev loose_equal_text)
  let ?e = "navigation_entry_of py previous"
  have e: "ne_task_id ?e = i" "ne_plan_id ?e = p" "ne_idempotency_key ?e = k"
    by (simp_all add: navigation_entry_of_def prev same)
  have "map_of (nav_entries (st_nav s)) i = Some ?e"
    using fresh_indexed [OF assms(4,3)] by (simp add: indexed_def e)
  moreover have "entries_sound (st_nav s)" using assms(4) by (simp add: fresh_def base_def index_sound_def)
  ultimately have "owns_alone py task (nav_entries (st_nav s))"
    unfolding owns_alone_def ids field_text.simps using entries_apart e by metis
  then show ?thesis using assms(4,5) by (simp add: ready_def)
qed

lemma list_removes [guarantee_rules]:
  "guarantees same_files (list_loaded py paths)" "guarantees same_files (list_unlocked py)"
  "guarantees same_files (require_unique py task)"
proof -
  show a: "guarantees same_files (list_loaded py ps)" for ps
    by (induction ps) (auto intro!: guarantee_rules)
  show b: "guarantees same_files (list_unlocked py)"
    unfolding list_unlocked_def record_paths_def by (intro guarantee_rules a)
  show "guarantees same_files (require_unique py task)"
    unfolding require_unique_def Let_def by (intro guarantee_rules b)
qed

lemma triple_check:
  assumes adm: "admissible_task py task"
  shows "triple (\<lambda>s. (fresh py s \<and> load_outcome py (task_file task) previous s) \<and> id_unused task s)
     (case previous of
        None \<Rightarrow> require_unique py task
      | Some p \<Rightarrow> lift_eff (require_append_only py p task))
     (\<lambda>_. ready py task) (store_inv py)"
proof (cases previous)
  case None
  have tids: "text_ids task" using adm by (simp add: admissible_task_def storable_def)
  have "triple (\<lambda>s. ((fresh py s \<and> load_outcome py (task_file task) previous s) \<and> id_unused task s) \<and>
      nav_entries (st_nav s) = es) (require_unique py task) (\<lambda>_. ready py task) (store_inv py)" for es
  proof (cases "\<exists>s. holding py es s")
    case True
    then obtain s where "holding py es s" by blast
    then have keyed: "ne_task_id e = k" if "map_of es k = Some e" for k e
      using that entry_found(1) [of "st_nav s"] by (auto simp: fresh_def base_def index_sound_def)
    show ?thesis
      by (rule triple_conseq [OF triple_guarantee [OF triple_require_unique [OF tids keyed] list_removes(3)
              id_unused_stable]]) (auto simp: ready_def store_inv_cases)
  next
    case False
    then show ?thesis by (intro triple_vacuous) blast
  qed
  then show ?thesis unfolding None option.case by (rule triple_lift_pre)
next
  case (Some p)
  show ?thesis unfolding Some option.case
    by (rule triple_lift) (auto simp: load_outcome_def store_inv_cases intro: append_only_owner [OF adm])
qed

lemma ensure_removes [guarantee_rules]: "guarantees same_files (ensure_navigation_index py)"
proof -
  have mark: "guarantees same_files mark_navigation_current"
    unfolding mark_navigation_current_def directory_token_def by (intro guarantee_rules counter_removes) simp
  have stale: "guarantees same_files navigation_index_stale"
    unfolding navigation_index_stale_def directory_token_def by (intro guarantee_rules)
  have rebuild: "guarantees same_files (rebuild_navigation_index py)"
    unfolding rebuild_navigation_index_def record_paths_def by (intro guarantee_rules mark)
  show ?thesis unfolding ensure_navigation_index_def by (intro guarantee_rules stale rebuild)
qed

lemma triple_save_body:
  assumes adm: "admissible_task py task"
  shows "triple (\<lambda>s. store_inv py s \<and> id_unused task s)
     (then_eff (ensure_navigation_index py)
          (bind_eff (load_record py False (task_file task)) (\<lambda>previous.
           then_eff (case previous of
                       None \<Rightarrow> require_unique py task
                     | Some p \<Rightarrow> lift_eff (require_append_only py p task))
           (then_eff file_fault
           (then_eff (write_record py (task_file task) task)
           (then_eff file_fault
           (then_eff (put_entry py True task)
             mark_navigation_current)))))))
     (\<lambda>_. store_inv py) (store_inv py)"
proof -
  have ensure: "triple (\<lambda>s. store_inv py s \<and> id_unused task s) (ensure_navigation_index py)
      (\<lambda>_ s. fresh py s \<and> id_unused task s) (store_inv py)"
    by (rule triple_conseq [OF triple_guarantee [OF triple_ensure ensure_removes id_unused_stable]]) auto
  have load: "triple (\<lambda>s. fresh py s \<and> id_unused task s) (load_record py False (task_file task))
      (\<lambda>previous s. (fresh py s \<and> load_outcome py (task_file task) previous s) \<and> id_unused task s) (store_inv py)"
    unfolding fresh_covers
    by (rule triple_conseq [OF triple_guarantee [OF triple_load [where q = False] load_removes id_unused_stable]])
      (auto simp: store_inv_cases fresh_covers)
  have put: "triple (written py task) (put_entry py True task) (\<lambda>_. fresh py) (store_inv py)"
    by (rule triple_exec) (use written_put adm hex_id_good in \<open>auto simp: admissible_task_def\<close>)
  have mark: "triple (fresh py) mark_navigation_current (\<lambda>_. store_inv py) (store_inv py)"
    by (rule triple_conseq [OF triple_mark]) (auto simp: store_inv_cases)
  have fault: "triple (ready py task) file_fault (\<lambda>_. ready py task) (store_inv py)"
    "triple (written py task) file_fault (\<lambda>_. written py task) (store_inv py)"
    using written_inv [OF adm] by (auto intro!: triple_fault_inv dest: ready_inv)
  show ?thesis
    by (rule triple_then [OF ensure triple_bind [OF load triple_then [OF triple_check [OF adm] triple_then [OF fault(1)
              triple_then [OF triple_write [OF adm] triple_then [OF fault(2) triple_then [OF put mark]]]]]]])
qed

end
