(* ===== verification/Task_Calls.thy ===== *)
theory Task_Calls
  imports Task_Saving
begin

text \<open>
  Every public call of the task repository keeps the promise of its index, whether it returns or raises.
\<close>

section \<open>The calls keep the promise\<close>

abbreviation keeps :: "coercions \<Rightarrow> 'a store_op \<Rightarrow> bool" where
  "keeps py m \<equiv> triple (store_inv py) m (\<lambda>_. store_inv py) (store_inv py)"

lemma triple_reading: "(\<And>s. snd (m s) = s) \<Longrightarrow> triple P m (\<lambda>_. P) P"
  unfolding triple_def by (metis (mono_tags, lifting) case_prod_beta old.sum.exhaust old.sum.simps(5,6) prod.collapse)

lemma fresh_inv: "fresh py s \<Longrightarrow> store_inv py s"
  by (simp add: store_inv_cases)

lemma behind_inv: "behind py s \<Longrightarrow> store_inv py s"
  by (simp add: store_inv_cases)

lemma triple_save:
  assumes stor: "storable py task"
  shows "triple (\<lambda>s. store_inv py s \<and> id_unused task s) (save py task) (\<lambda>_. store_inv py) (store_inv py)"
proof -
  let ?P = "\<lambda>s. store_inv py s \<and> id_unused task s"
  have valid: "triple ?P (case validate_task py task of
          Inr _ \<Rightarrow> return_eff ()
        | Inl e \<Rightarrow> then_eff (update_eff (st_materialization_failures_update (\<lambda>n. n + 1)))
                    (raise_eff (TaskStorageError False))) (\<lambda>_. ?P) (store_inv py)"
  proof (cases "validate_task py task")
    case (Inl e)
    have "triple ?P (update_eff (st_materialization_failures_update (\<lambda>n. n + 1))) (\<lambda>_. store_inv py) (store_inv py)"
      by (rule triple_update) (auto simp: store_inv_def base_def)
    then show ?thesis using Inl by (auto intro!: triple_then triple_raise)
  qed (auto intro!: triple_return)
  have handler: "triple (store_inv py) (if e = TaskStorageError True \<or> e = StoreOSError
             then then_eff (update_eff (\<lambda>s. s\<lparr>st_write_failures := st_write_failures s + 1,
                      st_event_write_failures := st_event_write_failures s + 1\<rparr>))
                    (then_eff touch_directory (raise_eff (TaskStorageError True)))
             else raise_eff e) (\<lambda>_. store_inv py) (store_inv py)" for e
  proof -
    have "triple (store_inv py) (update_eff (\<lambda>s. s\<lparr>st_write_failures := st_write_failures s + 1,
                      st_event_write_failures := st_event_write_failures s + 1\<rparr>)) (\<lambda>_. base py) (store_inv py)"
      by (rule triple_update) (auto simp: store_inv_def base_def)
    then show ?thesis
      by (auto intro!: triple_raise triple_then [OF _ triple_then [OF triple_touch triple_raise]]
          intro: behind_inv)
  qed
  have path: "triple ?P (record_path (field_text (et_task_id task)) (field_text (et_plan_id task)))
      (\<lambda>path s. ?P s \<and> path = task_file task \<and> hex_id (field_text (et_task_id task)) \<and>
         hex_id (field_text (et_plan_id task))) (store_inv py)"
    unfolding record_path_def task_file_def triple_def by (auto simp: effect_basic_defs)
  have body: "triple (\<lambda>s. ?P s \<and> path = task_file task \<and> hex_id (field_text (et_task_id task)) \<and>
         hex_id (field_text (et_plan_id task)))
     (in_transaction
          (then_eff (ensure_navigation_index py)
          (bind_eff (load_record py False path) (\<lambda>previous.
           then_eff (case previous of
                       None \<Rightarrow> require_unique py task
                     | Some p \<Rightarrow> lift_eff (require_append_only py p task))
           (then_eff file_fault
           (then_eff (write_record py path task)
           (then_eff file_fault
           (then_eff (put_entry py True task)
             mark_navigation_current))))))))
     (\<lambda>_. store_inv py) (store_inv py)" for path
  proof (cases "path = task_file task \<and> hex_id (field_text (et_task_id task)) \<and> hex_id (field_text (et_plan_id task))")
    case True
    then have adm: "admissible_task py task" using stor by (simp add: admissible_task_def)
    have path: "path = task_file task" using True by simp
    have fault: "triple ?P file_fault (\<lambda>_. ?P) (store_inv py)"
      by (rule triple_fault_inv) (auto simp: blind_conj)
    show ?thesis unfolding in_transaction_def path
      by (rule triple_os_error, rule triple_conseq [OF triple_then [OF fault triple_save_body [OF adm]]]) auto
  next
    case False
    then show ?thesis by (intro triple_vacuous) blast
  qed
  show ?thesis
    unfolding save_def
    by (rule triple_then [OF valid triple_bind [OF path triple_catch [OF body handler]]])
qed

lemma ensure_fresh: "triple (store_inv py) (ensure_navigation_index py) (\<lambda>_. fresh py) (store_inv py)"
  by (rule triple_conseq [OF triple_ensure]) auto

lemma load_fresh: "triple (fresh py) (load_record py q path)
    (\<lambda>loaded s. fresh py s \<and> load_outcome py path loaded s) (store_inv py)"
  unfolding fresh_covers
  by (rule triple_conseq [OF load_covers]) (auto simp: store_inv_cases fresh_covers)

lemma put_and_mark:
  "triple (\<lambda>s. fresh py s \<and> indexed py (nav_entries (st_nav s)) task)
     (then_eff (put_entry py True task) mark_navigation_current) (\<lambda>_. fresh py) (store_inv py)"
  by (rule triple_then [OF put_again], rule triple_conseq [OF triple_mark]) (auto intro: fresh_inv)

lemma path_reading:
  "triple P (record_path t p) (\<lambda>_. P) P" "triple P (find_record_path t) (\<lambda>_. P) P"
  by (rule triple_reading; auto simp: record_path_def find_record_path_def record_paths_def effect_basic_defs
      split: list.splits)+

lemma get_keeps: "keeps py (get py task_id)"
proof (cases "hex_id task_id")
  case True
  have path: "triple (fresh py) (case entry of Some e \<Rightarrow> record_path task_id (ne_plan_id e)
      | None \<Rightarrow> find_record_path task_id) (\<lambda>_. fresh py) (store_inv py)" for entry :: "navigation_entry option"
    by (cases entry) (auto intro: triple_conseq [OF path_reading(1)] triple_conseq [OF path_reading(2)] fresh_inv)
  have count: "triple (fresh py) (update_eff (st_rehydration_attempts_update (\<lambda>n. n + 1))) (\<lambda>_. fresh py) (store_inv py)"
    by (rule triple_counter) (auto simp: same_store_def)
  have last: "triple (\<lambda>s. fresh py s \<and> load_outcome py path loaded s)
      (bind_eff (quarantined_task task_id) (\<lambda>quarantined.
         then_eff (require (\<not> (loaded = None \<and> entry = None \<and> quarantined)) (TaskStorageError False))
         (then_eff
           (case (loaded, entry) of
              (Some task, None) \<Rightarrow> then_eff (put_entry py True task) mark_navigation_current
            | _ \<Rightarrow> return_eff ())
           (return_eff loaded)))) (\<lambda>_. store_inv py) (store_inv py)"
    for path loaded and entry :: "navigation_entry option"
  proof -
    have req: "triple (\<lambda>s. fresh py s \<and> load_outcome py path loaded s) (require b (TaskStorageError False))
        (\<lambda>_ s. fresh py s \<and> load_outcome py path loaded s) (store_inv py)" for b
      by (rule triple_conseq [OF triple_require [where P = "\<lambda>s. fresh py s \<and> load_outcome py path loaded s" and
              E = "store_inv py"]]) (auto intro: fresh_inv)
    have put: "triple (\<lambda>s. fresh py s \<and> load_outcome py path loaded s)
        (case (loaded, entry) of
              (Some task, None) \<Rightarrow> then_eff (put_entry py True task) mark_navigation_current
            | _ \<Rightarrow> return_eff ()) (\<lambda>_. fresh py) (store_inv py)"
      by (cases loaded; cases entry)
        (auto intro!: triple_return triple_conseq [OF put_and_mark] fresh_indexed simp: load_outcome_def)
    show ?thesis
      unfolding quarantined_task_def
      by (rule triple_bind [OF triple_read], rule triple_conseq [OF triple_then [OF req triple_then [OF put
                triple_return]]]) (auto intro: fresh_inv)
  qed
  have run: "\<not> \<not> hex_id task_id" using True by simp
  show ?thesis
    unfolding get_def if_not_P [OF run]
    by (rule triple_then [OF ensure_fresh triple_then [OF count triple_bind [OF triple_read_nav]]],
        rule triple_conseq [OF triple_bind [OF path triple_bind [OF load_fresh last]]]) auto
qed (simp add: get_def triple_return)

text \<open>The other readers.\<close>

lemma inspect_keeps: "keeps py (read_for_inspection py task_id)"
proof (cases "hex_id task_id")
  case True
  have quiet: "triple P (load_record py False path) (\<lambda>_. P) P" if "fault_free P" "counter_blind P" "reads_work P"
    for P path by (rule triple_conseq [OF triple_load [where q = False, OF that]]) auto
  have load: "triple (store_inv py) (load_record py False path) (\<lambda>_. store_inv py) (store_inv py)" for path
    by (rule quiet) (auto simp: reads_work_def store_inv_def base_def)
  have req: "triple (store_inv py) (require b (TaskStorageError False)) (\<lambda>_. store_inv py) (store_inv py)" for b
    by (rule triple_conseq [OF triple_require [where P = "store_inv py" and E = "store_inv py"]]) auto
  have run: "\<not> \<not> hex_id task_id" using True by simp
  have quarantined: "triple (store_inv py) (quarantined_task task_id) (\<lambda>_. store_inv py) (store_inv py)"
    unfolding quarantined_task_def by (rule triple_conseq [OF triple_read]) auto
  show ?thesis
    unfolding read_for_inspection_def if_not_P [OF run]
    by (rule triple_bind [OF path_reading(2) triple_bind [OF load triple_bind [OF quarantined triple_then [OF req
              triple_return]]]])
qed (simp add: read_for_inspection_def triple_return)

lemma triple_require_keep: "(\<And>s. P s \<Longrightarrow> E s) \<Longrightarrow> triple P (require b e) (\<lambda>_. P) E"
  by (rule triple_conseq [OF triple_require [where P = P and E = E]]) auto

lemma triple_read_keep: "triple P (read_eff f) (\<lambda>_. P) E" "triple P (read_nav g) (\<lambda>_. P) E"
  by (rule triple_conseq [OF triple_read], auto) (rule triple_conseq [OF triple_read_nav], auto)

lemma loaded_task_checked:
  "triple (fresh py) (bind_eff (load_record py True path) (\<lambda>loaded.
      case loaded of
        None \<Rightarrow> raise_eff (TaskStorageError False)
      | Some task \<Rightarrow> then_eff (require (ok task) (TaskStorageError False)) (return_eff (Some task))))
    (\<lambda>_. store_inv py) (store_inv py)"
proof (rule triple_bind [OF load_fresh])
  fix loaded
  show "triple (\<lambda>s. fresh py s \<and> load_outcome py path loaded s)
      (case loaded of
        None \<Rightarrow> raise_eff (TaskStorageError False)
      | Some task \<Rightarrow> then_eff (require (ok task) (TaskStorageError False)) (return_eff (Some task)))
      (\<lambda>_. store_inv py) (store_inv py)"
    by (cases loaded)
      (auto intro!: triple_raise triple_then [OF triple_require_keep triple_return] intro: fresh_inv)
qed

lemma record_path_fresh: "triple (fresh py) (record_path t p) (\<lambda>_. fresh py) (store_inv py)"
  by (rule triple_conseq [OF path_reading(1) [of "fresh py"]]) (auto intro: fresh_inv)

lemma list_fresh:
  "triple (fresh py) (list_unlocked py)
     (\<lambda>tasks s. fresh py s \<and> (\<forall>task \<in> set tasks. indexed py (nav_entries (st_nav s)) task)) (store_inv py)"
  by (rule triple_lift_pre [where f = "\<lambda>s. nav_entries (st_nav s)"], rule triple_conseq [OF triple_list_unlocked])
    (auto simp: all_listed_def store_inv_cases)

lemma get_for_idempotency_keeps: "keeps py (get_for_idempotency py key)"
proof -
  have put: "triple (\<lambda>s. fresh py s \<and> (\<forall>task \<in> set tasks. indexed py (nav_entries (st_nav s)) task))
      (case filter (\<lambda>task. et_idempotency_key task = JStr key) tasks of
            [] \<Rightarrow> return_eff None
          | [task] \<Rightarrow> then_eff (put_entry py True task)
                      (then_eff mark_navigation_current (return_eff (Some task)))
          | _ \<Rightarrow> raise_eff (TaskStorageError False)) (\<lambda>_. store_inv py) (store_inv py)" for tasks
  proof -
    have one: "triple (\<lambda>s. fresh py s \<and> (\<forall>task \<in> set tasks. indexed py (nav_entries (st_nav s)) task))
        (then_eff (put_entry py True task) (then_eff mark_navigation_current (return_eff (Some task))))
        (\<lambda>_. store_inv py) (store_inv py)" if "filter (\<lambda>task. et_idempotency_key task = JStr key) tasks = [task]" for task
    proof -
      have "task \<in> set tasks" using arg_cong [OF that, of set] by auto
      then show ?thesis unfolding then_assoc
        by (intro triple_conseq [OF triple_then [OF put_and_mark triple_return]]) (auto intro: fresh_inv)
    qed
    show ?thesis
      using one by (auto split: list.split intro!: triple_return triple_raise intro: fresh_inv)
  qed
  have found: "triple (fresh py) (bind_eff (read_nav (\<lambda>nav. map_of (nav_entries nav) t)) (\<lambda>entry.
          case entry of
            None \<Rightarrow> raise_eff (TaskStorageError False)
          | Some e \<Rightarrow>
              bind_eff (record_path t (ne_plan_id e)) (\<lambda>path.
              bind_eff (load_record py True path) (\<lambda>loaded.
              case loaded of
                None \<Rightarrow> raise_eff (TaskStorageError False)
              | Some task \<Rightarrow>
                  then_eff (require (et_idempotency_key task = JStr key) (TaskStorageError False))
                    (return_eff (Some task)))))) (\<lambda>_. store_inv py) (store_inv py)" for t
    by (rule triple_bind [OF triple_read_keep(2)])
      (auto split: option.split intro!: triple_raise triple_bind [OF record_path_fresh loaded_task_checked]
        intro: fresh_inv)
  show ?thesis
    unfolding get_for_idempotency_def
    by (rule triple_then [OF ensure_fresh triple_bind [OF triple_read_keep(2)]])
      (use found triple_bind [OF list_fresh put] in \<open>auto split: option.split\<close>)
qed

lemma get_for_plan_keeps: "keeps py (get_for_plan py plan_id)"
proof (cases "hex_id plan_id")
  case True
  have run: "\<not> \<not> hex_id plan_id" using True by simp
  have paths: "triple (fresh py) (case task_id of
             None \<Rightarrow> bind_eff record_paths (\<lambda>paths. return_eff (filter (\<lambda>path. fst path = plan_id) paths))
           | Some t \<Rightarrow> bind_eff (record_path t plan_id) (\<lambda>path. return_eff [path])) (\<lambda>_. fresh py) (store_inv py)"
    for task_id
    unfolding record_paths_def
    by (cases task_id)
      (auto intro!: triple_bind [OF triple_read_keep(1) triple_return] triple_bind [OF record_path_fresh triple_return])
  have last: "triple (fresh py)
      (case paths of
            [] \<Rightarrow> return_eff None
          | path # _ \<Rightarrow>
              bind_eff (load_record py True path) (\<lambda>loaded.
              case loaded of
                None \<Rightarrow> raise_eff (TaskStorageError False)
              | Some task \<Rightarrow>
                  then_eff (require (et_plan_id task = JStr plan_id) (TaskStorageError False))
                  (then_eff
                    (if task_id = None then then_eff (put_entry py True task) mark_navigation_current
                     else return_eff ())
                    (return_eff (Some task))))) (\<lambda>_. store_inv py) (store_inv py)" for paths and task_id :: "string option"
  proof (cases paths)
    case Nil
    then show ?thesis by (auto intro!: triple_return intro: fresh_inv)
  next
    case (Cons path rest)
    have use: "triple (\<lambda>s. fresh py s \<and> load_outcome py path (Some task) s)
        (then_eff (require b (TaskStorageError False))
           (then_eff
              (if task_id = None then then_eff (put_entry py True task) mark_navigation_current else return_eff ())
              (return_eff (Some task)))) (\<lambda>_. store_inv py) (store_inv py)" for task b
    proof (rule triple_then [OF triple_require_keep triple_then [OF _ triple_return]])
      show "triple (\<lambda>s. fresh py s \<and> load_outcome py path (Some task) s)
          (if task_id = None then then_eff (put_entry py True task) mark_navigation_current else return_eff ())
          (\<lambda>_. fresh py) (store_inv py)"
        by (auto intro!: triple_return triple_conseq [OF put_and_mark] fresh_indexed simp: load_outcome_def)
    qed (auto intro: fresh_inv)
    show ?thesis unfolding Cons list.case
    proof (rule triple_bind [OF load_fresh])
      fix loaded
      show "triple (\<lambda>s. fresh py s \<and> load_outcome py path loaded s)
          (case loaded of
                None \<Rightarrow> raise_eff (TaskStorageError False)
              | Some task \<Rightarrow>
                  then_eff (require (et_plan_id task = JStr plan_id) (TaskStorageError False))
                  (then_eff
                    (if task_id = None then then_eff (put_entry py True task) mark_navigation_current
                     else return_eff ())
                    (return_eff (Some task)))) (\<lambda>_. store_inv py) (store_inv py)"
      proof (cases loaded)
        case None
        show ?thesis unfolding None option.case by (rule triple_raise) (auto intro: fresh_inv)
      next
        case (Some task)
        show ?thesis unfolding Some option.case by (rule use)
      qed
    qed
  qed
  have req: "triple (fresh py) (require b (TaskStorageError False)) (\<lambda>_. fresh py) (store_inv py)" for b
    by (rule triple_require_keep) (rule fresh_inv)
  show ?thesis
    unfolding get_for_plan_def if_not_P [OF run]
    by (rule triple_then [OF ensure_fresh triple_bind [OF triple_read_keep(2) triple_bind [OF paths
            triple_bind [OF triple_read_keep(1) triple_then [OF req last]]]]])
qed (simp add: get_for_plan_def triple_return)

lemma nonterminal_keeps: "keeps py (nonterminal_task_ids py)"
  unfolding nonterminal_task_ids_def
  by (rule triple_then [OF ensure_fresh triple_conseq [OF triple_read_nav]]) (auto intro: fresh_inv)

lemma f3_nonterminal_keeps: "keeps py (f3_nonterminal_task_ids py limit)"
  unfolding f3_nonterminal_task_ids_def
  by (rule triple_then [OF triple_require_keep triple_then [OF ensure_fresh triple_bind [OF triple_read_keep(2)
          triple_then [OF triple_require_keep triple_return]]]]) (auto intro: fresh_inv)

lemma get_unfinished_keeps: "keeps py (get_unfinished py ids)"
  by (induction ids) (auto intro!: triple_return triple_bind [OF get_keeps] triple_bind)

lemma list_nonterminal_keeps: "keeps py (list_nonterminal py)"
  unfolding list_nonterminal_def by (rule triple_bind [OF nonterminal_keeps get_unfinished_keeps])

lemma quiet_skip: "triple (store_inv py) (load_or_skip py False path) (\<lambda>_. store_inv py) (store_inv py)"
  by (rule triple_conseq [OF triple_load_skip [where q = False and P = "store_inv py"]])
    (auto simp: reads_work_def store_inv_def base_def)

lemma manual_review_keeps: "keeps py (manual_review_task_ids py)"
proof -
  have records: "keeps py (manual_review_records py paths)" for paths
    by (induction paths) (auto intro!: triple_return triple_bind [OF quiet_skip] triple_bind)
  have slow: "keeps py (bind_eff (read_eff f) (\<lambda>paths.
      bind_eff (manual_review_records py paths) (\<lambda>ids. return_eff (sort ids))))" for f
    by (rule triple_bind [OF triple_read_keep(1) triple_bind [OF records triple_return]])
  have quick: "triple (\<lambda>s. fresh py s \<and> X s) (read_nav f) (\<lambda>_. store_inv py) (store_inv py)"
    for X and f :: "navigation \<Rightarrow> string list"
    by (rule triple_conseq [OF triple_read_keep(2) [of "fresh py"]]) (auto intro: fresh_inv)
  show ?thesis
    unfolding manual_review_task_ids_def record_paths_def
    apply (rule triple_bind [OF triple_stale])
    subgoal for stale
      by (cases stale)
        (auto intro!: triple_conseq [OF slow] quick intro: behind_inv)
    done
qed

lemma triple_or: "triple P m Q E \<Longrightarrow> triple P' m Q E \<Longrightarrow> triple (\<lambda>s. P s \<or> P' s) m Q E"
  by (auto simp: triple_def)

lemma list_tasks_keeps: "keeps py (list_tasks py)"
proof -
  have skip: "triple (behind py) (load_or_skip py True path) (\<lambda>_. behind py) (store_inv py)" for path
    by (rule triple_conseq [OF load_skip_behind]) (auto intro: behind_inv)
  have behind: "triple (behind py) (list_loaded py paths) (\<lambda>_. behind py) (store_inv py)" for paths
    by (induction paths) (auto intro!: triple_return triple_bind [OF skip] triple_bind)
  have "triple (behind py) (list_unlocked py) (\<lambda>_. store_inv py) (store_inv py)"
    unfolding list_unlocked_def record_paths_def
    by (rule triple_bind [OF triple_read_keep(1) triple_conseq [OF behind]]) (auto intro: behind_inv)
  moreover have "triple (fresh py) (list_unlocked py) (\<lambda>_. store_inv py) (store_inv py)"
    by (rule triple_conseq [OF list_fresh]) (auto intro: fresh_inv)
  ultimately have list: "keeps py (list_unlocked py)"
    by (rule triple_conseq [OF triple_or]) (auto simp: store_inv_cases)
  have count: "keeps py (update_eff (\<lambda>s. s\<lparr>st_rehydration_attempts := st_rehydration_attempts s + 1,
                               st_full_history_scan_count := st_full_history_scan_count s + 1\<rparr>))"
    by (rule triple_counter) (auto simp: same_store_def)
  show ?thesis
    unfolding list_tasks_def
    by (rule triple_then [OF count triple_bind [OF list triple_then [OF triple_require_keep triple_return]]]) auto
qed

lemma cleanup_keeps: "keeps py (cleanup py now days)"
proof -
  have drop: "triple (store_inv py) (update_eff (st_files_update (AList.delete path))) (\<lambda>_. base py) (store_inv py)" for path
    by (rule triple_update) (use canonical_delete in \<open>auto simp: store_inv_def base_def\<close>)
  have count: "triple (behind py) (nav_update (\<lambda>nav. nav\<lparr>nav_generation := nav_generation nav + 1,
                                       nav_update_count := nav_update_count nav + 1\<rparr>)) (\<lambda>_. store_inv py) (store_inv py)"
    by (rule triple_conseq [OF triple_nav_counter [where P = "behind py"]]) (auto intro: behind_inv)
  have fault: "keeps py file_fault" by (rule triple_fault_inv) auto
  have removal: "keeps py (bind_eff (record_path t p) (\<lambda>path.
               then_eff file_fault
               (then_eff (update_eff (st_files_update (AList.delete path)))
               (then_eff touch_directory
               (then_eff (remove_entry py t)
                 (nav_update (\<lambda>nav. nav\<lparr>nav_generation := nav_generation nav + 1,
                                       nav_update_count := nav_update_count nav + 1\<rparr>)))))))" for t p
    by (rule triple_bind [OF path_reading(1) triple_then [OF fault triple_then [OF drop triple_then [OF triple_touch
              triple_then [OF triple_remove_entry count]]]]])
  have entry: "keeps py (cleanup_entry py cutoff e)" for cutoff e
  proof -
    have handler: "keeps py (case err of
                  StoreOSError \<Rightarrow> then_eff (update_eff (st_write_failures_update (\<lambda>n. n + 1))) (return_eff (0 :: int))
                | _ \<Rightarrow> raise_eff err)" for err
      by (cases err)
        (auto intro!: triple_raise triple_then [OF triple_counter triple_return] simp: same_store_def)
    show ?thesis
      unfolding cleanup_entry_def
      by (auto intro!: triple_return triple_raise triple_try_else [OF removal handler] split: option.split)
  qed
  have "keeps py (cleanup_entries py cutoff es)" for cutoff es
    by (induction es) (auto intro!: triple_return triple_bind [OF entry] triple_bind)
  then show ?thesis unfolding cleanup_def by (rule triple_bind [OF triple_read_keep(2)])
qed

lemma validated_keeps: "keeps py (validated_index py validated)"
proof (cases validated)
  case True
  then show ?thesis by (simp add: validated_index_def triple_return)
next
  case False
  then show ?thesis
    using triple_conseq [OF ensure_fresh [of py]] fresh_inv by (simp add: validated_index_def)
qed

lemma metrics_keeps: "keeps py (navigation_metrics py validated)"
  unfolding navigation_metrics_def by (rule triple_then [OF validated_keeps triple_read_keep(1)])

lemma health_keeps: "keeps py (health py days validated)"
  unfolding health_def
  by (auto intro!: triple_then [OF validated_keeps] triple_bind [OF triple_read_keep(2)]
      triple_bind [OF triple_read_keep(1)] triple_bind [OF metrics_keeps] triple_return)

lemma prefixes_keep: "keeps py quarantined_plan_prefixes"
  unfolding quarantined_plan_prefixes_def
  by (rule triple_catch, rule triple_then [OF triple_fault_inv triple_read_keep(1)])
    (auto intro!: triple_return triple_raise split: store_error.split)

end
