(* ===== verification/Task_History.thy ===== *)
theory Task_History
  imports Task_Properties "HOL-Library.Sublist"
begin

text \<open>
  The properties of the execution tasks: one event, any sequence of events, and the way out of every
  state.  \<open>append_all\<close> applies a sequence of \<open>append_event\<close> calls, refused ones included.
\<close>

section \<open>A sample task\<close>

definition sample_coercions :: coercions where
  "sample_coercions =
     \<lparr>str_of = (\<lambda>v. ''?''), int_of = (\<lambda>v. Inl TaskTypeError), dict_of = (\<lambda>v. Inl TaskTypeError),
      list_of = (\<lambda>v. Inl TaskTypeError),
      iso_time = (\<lambda>s. if s = ''2026-01-01T00:00:00Z'' then Some (Some 0) else None),
      class_name = ''object''\<rparr>"

definition sample_task :: execution_task where
  "sample_task =
     \<lparr>et_task_id = JStr ''t1'', et_task_schema_version = JInt 1,
     et_plan_id = JStr ''p1'', et_plan_hash = JStr ''h1'',
     et_operation = JStr ''restart_addon'',
     et_target = [(''slug'', JStr ''core_ssh'')],
     et_created_at = JStr ''2026-01-01T00:00:00Z'',
     et_updated_at = JStr ''2026-01-01T00:00:00Z'', et_started_at = JNull,
     et_dispatched_at = JNull, et_completed_at = JNull, et_state = CREATED,
     et_terminal_outcome = JNull, et_execution_request_id = JStr ''r1'',
     et_idempotency_key = JStr ''k1'',
     et_approval_reference = [(''approval_state'', JStr ''approved'')],
     et_provider_attempts = [], et_verification_summary = [],
     et_last_error = None, et_manual_review_reason = JNull,
     et_maximum_post_dispatch_deadline = JNull, et_legacy_projection = [],
     et_events =
     [\<lparr>ev_sequence = 1, ev_event_type = ''task_created'',
     ev_occurred_at = ''2026-01-01T00:00:00Z'', ev_state_before = None,
     ev_state_after = ''created'',
     ev_changes =
       [(''task_id'', JStr ''t1''), (''task_schema_version'', JInt 1),
       (''plan_id'', JStr ''p1''), (''plan_hash'', JStr ''h1''),
       (''operation'', JStr ''restart_addon''),
       (''target'', JDict [(''slug'', JStr ''core_ssh'')]),
       (''created_at'', JStr ''2026-01-01T00:00:00Z''),
       (''updated_at'', JStr ''2026-01-01T00:00:00Z''),
       (''started_at'', JNull), (''dispatched_at'', JNull),
       (''completed_at'', JNull), (''state'', JStr ''created''),
       (''terminal_outcome'', JNull),
       (''execution_request_id'', JStr ''r1''),
       (''idempotency_key'', JStr ''k1''),
       (''approval_reference'',
       JDict [(''approval_state'', JStr ''approved'')]),
       (''provider_attempts'', JList []),
       (''verification_summary'', JDict []), (''last_error'', JNull),
       (''manual_review_reason'', JNull),
       (''maximum_post_dispatch_deadline'', JNull),
       (''legacy_projection'', JDict [])],
     ev_request_id = Some ''r1''\<rparr>]\<rparr>"

lemma sample_task_created: "et_state sample_task = CREATED"
  by code_simp

lemma sample_time: "parse_task_timestamp sample_coercions (JStr ''2026-01-01T00:00:00Z'') = Inr 0"
  by code_simp

text \<open>Every loaded or newly created task is materialised.\<close>

lemma loaded_task_materialized:
  assumes "task_from_dict py v = Inr task"
  shows "materialized py task"
proof -
  obtain d where "v = JDict d" using assms by (cases v) (simp_all add: task_from_dict_def)
  with assms obtain s where "et_operation task = JStr s" and "validate_task py task = Inr ()"
    by (auto simp: task_from_dict_def and_then_ok_iff Let_def)
  then show ?thesis by (auto simp: validate_task_def and_then_ok_iff materialized_def)
qed

lemma new_task_materialized:
  "new_execution_task py task_id plan_id plan_hash operation target timestamp request_id key approval legacy
     = Inr task \<Longrightarrow> materialized py task"
  by (auto simp: new_execution_task_def and_then_ok_iff Let_def intro: loaded_task_materialized)

lemma sample_task_is_new:
  "new_execution_task sample_coercions ''t1'' ''p1'' ''h1'' ''restart_addon''
     [(''slug'', JStr ''core_ssh'')] ''2026-01-01T00:00:00Z'' ''r1'' ''k1''
     [(''approval_state'', JStr ''approved'')] [] = Inr sample_task"
  by code_simp

lemmas sample_task_materialized = new_task_materialized [OF sample_task_is_new]

text \<open>
  The event bounds the target one level deeper than the record does, so a task for a target whose
  nesting reaches the bound is refused at its creation.
\<close>

lemma deep_target_refused:
  "new_execution_task sample_coercions ''t1'' ''p1'' ''h1'' ''restart_addon''
     [(''a'', JDict [(''b'', JDict [(''c'', JDict [(''d'', JDict [])])])])] ''2026-01-01T00:00:00Z'' ''r1'' ''k1''
     [] [] = Inl TaskValueError"
  by code_simp

section \<open>One event\<close>

text \<open>C33: A task record refines its event history.  For a task whose fields are what its events materialise
  to, \<open>append_event\<close> with well-typed changes either refuses with \<open>ValueError\<close> and leaves the task alone,
  exactly when the timestamp is unusable, the transition is not in the table, a terminal task would get
  anything but an observation, or a single-dispatch operation would get a second dispatch or provider
  attempt; or it records the one event, updates exactly the fields the bounded changes name, and the new
  record is again the materialisation of the new history.
\<close>
theorem append_event_refines_history:
  assumes "materialized py task" and "typed_changes changes"
  shows "if append_accepted py event_type occurred_at (target_of new_state task) changes task
    then \<exists>task'.
      append_event py event_type occurred_at new_state (Some changes) request_id task = (Inr (), task') \<and>
      et_events task' = et_events task @
        [appended_event py event_type occurred_at (target_of new_state task) changes request_id task] \<and>
      task_fields py task' =
        dict_update (task_fields py task)
          (safe_changes py changes occurred_at (target_of new_state task)) \<and>
      et_operation task' = et_operation task \<and>
      materialized py task'
    else append_event py event_type occurred_at new_state (Some changes) request_id task =
      (Inl TaskValueError, task)"
proof -
  from assms(1) obtain s where s: "et_operation task = JStr s" by (auto simp: materialized_iff)
  show ?thesis
    using append_event_typed [OF assms(2) s, of py event_type occurred_at new_state request_id]
      accepted_materialized [OF assms, of event_type occurred_at new_state]
    by (smt (verit, best))
qed

theorem append_event_refines_history_witness:
  "\<exists>task'. append_event sample_coercions ''preflight_started'' ''2026-01-01T00:00:00Z'' (Some PREFLIGHT)
      (Some [(''started_at'', JStr ''2026-01-01T00:00:00Z'')]) None sample_task = (Inr (), task') \<and>
    materialized sample_coercions task'"
proof -
  have typed: "typed_changes [(''started_at'', JStr ''2026-01-01T00:00:00Z'')]" by code_simp
  have "transition_allowed (et_state sample_task) ''preflight_started'' (target_of (Some PREFLIGHT) sample_task)"
    by code_simp
  moreover have "length (filter is_dispatch (et_events sample_task)) = 0" by code_simp
  moreover have "attempts_after sample_coercions
      (safe_changes sample_coercions [(''started_at'', JStr ''2026-01-01T00:00:00Z'')] ''2026-01-01T00:00:00Z''
        (target_of (Some PREFLIGHT) sample_task)) sample_task = Inr []" by code_simp
  ultimately have "append_accepted sample_coercions ''preflight_started'' ''2026-01-01T00:00:00Z''
      (target_of (Some PREFLIGHT) sample_task) [(''started_at'', JStr ''2026-01-01T00:00:00Z'')] sample_task"
    using sample_time unfolding append_accepted_def by simp
  with append_event_refines_history [OF sample_task_materialized typed, of "''preflight_started''"
      "''2026-01-01T00:00:00Z''" "Some PREFLIGHT" None]
  show ?thesis by (simp only: if_True) blast
qed

section \<open>Sequences of events\<close>

record append_request =
  rq_event_type :: string
  rq_occurred_at :: string
  rq_new_state :: "execution_task_state option"
  rq_changes :: dict
  rq_request_id :: "string option"

fun append_all :: "coercions \<Rightarrow> append_request list \<Rightarrow> execution_task \<Rightarrow> execution_task" where
  "append_all py [] task = task"
| "append_all py (r # rs) task =
     append_all py rs (snd (append_event py (rq_event_type r) (rq_occurred_at r) (rq_new_state r)
       (Some (rq_changes r)) (rq_request_id r) task))"

text \<open>What one call does to a materialised task, in the terms the sequences need.\<close>

lemma fields_state:
  assumes "task_fields py task' = dict_update (task_fields py task) (safe_changes py changes occurred_at st)"
    and "typed_changes changes"
  shows "et_state task' = st"
proof -
  note safe = safe_changes_settled [OF assms(2), of py occurred_at st]
  have "map_of (task_fields py task') ''state'' = Some (JStr (task_state_value st))"
    unfolding assms(1) using safe(2,3) by (simp add: map_of_dict_update_distinct)
  then show ?thesis by simp
qed

lemma append_event_step:
  assumes "materialized py task" and "typed_changes (rq_changes r)"
  defines "task' \<equiv> snd (append_event py (rq_event_type r) (rq_occurred_at r) (rq_new_state r)
      (Some (rq_changes r)) (rq_request_id r) task)"
  shows "materialized py task' \<and> et_operation task' = et_operation task \<and>
    (task' = task \<or>
     (\<exists>event. et_events task' = et_events task @ [event] \<and>
        (et_state task \<in> set TERMINAL_TASK_STATES \<longrightarrow>
           et_state task' = et_state task \<and> ev_event_type event \<in> set TERMINAL_OBSERVATION_EVENTS)))"
proof (cases "append_accepted py (rq_event_type r) (rq_occurred_at r) (target_of (rq_new_state r) task)
    (rq_changes r) task")
  case True
  let ?st = "target_of (rq_new_state r) task"
  from assms(1) obtain s where s: "et_operation task = JStr s" by (auto simp: materialized_iff)
  from True append_event_typed [OF assms(2) s, of py "rq_event_type r" "rq_occurred_at r" "rq_new_state r"
      "rq_request_id r"]
  have task': "task_fields py task' =
      dict_update (task_fields py task) (safe_changes py (rq_changes r) (rq_occurred_at r) ?st)"
    "et_events task' = et_events task @
      [appended_event py (rq_event_type r) (rq_occurred_at r) ?st (rq_changes r) (rq_request_id r) task]"
    "et_operation task' = et_operation task"
    by (auto simp: task'_def)
  have "materialized py task'"
    using accepted_materialized [OF assms(1,2) True] task' by blast
  moreover have "et_state task' = ?st" using fields_state [OF task'(1) assms(2)] .
  moreover have "?st = et_state task \<and> rq_event_type r \<in> set TERMINAL_OBSERVATION_EVENTS"
    if "et_state task \<in> set TERMINAL_TASK_STATES"
  proof -
    from that have "ALLOWED_TASK_TRANSITIONS (et_state task) = []"
      by (auto simp: TERMINAL_TASK_STATES_def)
    with True that show ?thesis
      by (auto simp: append_accepted_def transition_allowed_def split: if_splits)
  qed
  ultimately show ?thesis using task' by (auto simp: appended_event_def)
next
  case False
  from assms(1) obtain s where s: "et_operation task = JStr s" by (auto simp: materialized_iff)
  from False append_event_typed [OF assms(2) s, of py "rq_event_type r" "rq_occurred_at r" "rq_new_state r"
      "rq_request_id r"]
  have "task' = task" by (simp add: task'_def)
  with assms(1) show ?thesis by simp
qed

lemma materialized_single_dispatch:
  assumes "materialized py task" and "et_operation task = JStr s" and "s \<in> set SINGLE_DISPATCH_OPERATIONS"
  shows "length (filter is_dispatch (et_events task)) \<le> 1 \<and> length (et_provider_attempts task) \<le> 1"
proof -
  from typed_view_state [OF assms(1)] obtain r where r: "materialize_execution_task py (et_events task) = Inr r"
    "view (task_fields py task) = view r" "dict_get r ''operation'' = JStr s"
    by (auto simp: assms(2))
  have "s \<noteq> []" using assms(3) by (auto simp: SINGLE_DISPATCH_OPERATIONS_def)
  with r obtain ds where ds: "dict_list py (dict_get r ''provider_attempts'') = Inr ds"
    "require_single_dispatch_history (JStr s) (et_events task) ds = Inr ()"
    by (auto simp: materialize_execution_task_ok)
  moreover have "length ds \<le> 1 \<longleftrightarrow> length (et_provider_attempts task) \<le> 1"
    using view_attempts [OF r(2)] ds(1) by auto
  ultimately show ?thesis using assms(3) by (simp add: require_single_iff)
qed

lemma append_all_invariant:
  assumes "materialized py task" and "list_all (\<lambda>r. typed_changes (rq_changes r)) rs"
  shows "materialized py (append_all py rs task) \<and>
    et_operation (append_all py rs task) = et_operation task \<and>
    (\<exists>later. et_events (append_all py rs task) = et_events task @ later \<and>
       (et_state task \<in> set TERMINAL_TASK_STATES \<longrightarrow>
          et_state (append_all py rs task) = et_state task \<and>
          list_all (\<lambda>event. ev_event_type event \<in> set TERMINAL_OBSERVATION_EVENTS) later))"
  using assms
proof (induction rs arbitrary: task)
  case (Cons r rs)
  let ?task = "snd (append_event py (rq_event_type r) (rq_occurred_at r) (rq_new_state r)
      (Some (rq_changes r)) (rq_request_id r) task)"
  from Cons.prems append_event_step [of py task r] have
    mat: "materialized py ?task" and op: "et_operation ?task = et_operation task"
    and step: "?task = task \<or> (\<exists>event. et_events ?task = et_events task @ [event] \<and>
        (et_state task \<in> set TERMINAL_TASK_STATES \<longrightarrow>
           et_state ?task = et_state task \<and> ev_event_type event \<in> set TERMINAL_OBSERVATION_EVENTS))"
    by auto
  from Cons.prems(2) have "list_all (\<lambda>r. typed_changes (rq_changes r)) rs" by simp
  from Cons.IH [OF mat this] step op show ?case by auto
qed simp


definition sample_appends :: "append_request list" where
  "sample_appends =
     [\<lparr>rq_event_type = ''task_cancelled'', rq_occurred_at = ''2026-01-01T00:00:00Z'',
       rq_new_state = Some CANCELLED_PRE_DISPATCH, rq_changes = [], rq_request_id = None\<rparr>,
      \<lparr>rq_event_type = ''dispatch_attempted'', rq_occurred_at = ''2026-01-01T00:00:00Z'',
       rq_new_state = None, rq_changes = [], rq_request_id = None\<rparr>,
      \<lparr>rq_event_type = ''duplicate_apply_prevented'', rq_occurred_at = ''2026-01-01T00:00:00Z'',
       rq_new_state = None, rq_changes = [], rq_request_id = None\<rparr>]"


section \<open>The way out\<close>

fun stop_state :: "execution_task_state \<Rightarrow> execution_task_state" where
  "stop_state CREATED = CANCELLED_PRE_DISPATCH"
| "stop_state PREFLIGHT = CANCELLED_PRE_DISPATCH"
| "stop_state st = MANUAL_REVIEW_REQUIRED"

lemma stop_state_allowed:
  "st \<notin> set TERMINAL_TASK_STATES \<Longrightarrow> st \<notin> set RESERVED_TASK_STATES \<Longrightarrow>
     stop_state st \<noteq> st \<and> stop_state st \<in> set (ALLOWED_TASK_TRANSITIONS st) \<and>
     stop_state st \<in> set TERMINAL_TASK_STATES"
  by (cases st) (simp_all add: TERMINAL_TASK_STATES_def RESERVED_TASK_STATES_def)

text \<open>C35: No task gets stuck.  A task that has not ended can be ended by a single event, whatever its
  operation and however far its dispatch has gone: it is cancelled before the dispatch and handed to
  manual review after it, and the call is accepted.
\<close>
theorem no_task_is_stuck:
  assumes "materialized py task" and "et_state task \<notin> set TERMINAL_TASK_STATES"
    and "parse_task_timestamp py (JStr now) = Inr t" and "event_type \<noteq> ''dispatch_attempted''"
  shows "\<exists>task'. append_event py event_type now (Some (stop_state (et_state task))) (Some []) request_id task =
      (Inr (), task') \<and>
    et_state task' = stop_state (et_state task) \<and> et_state task' \<in> set TERMINAL_TASK_STATES \<and>
    materialized py task'"
proof -
  let ?st = "stop_state (et_state task)"
  obtain s where s: "et_operation task = JStr s" using assms(1) by (auto simp: materialized_iff)
  have stop: "?st \<noteq> et_state task" "?st \<in> set (ALLOWED_TASK_TRANSITIONS (et_state task))"
    "?st \<in> set TERMINAL_TASK_STATES"
    using stop_state_allowed [OF assms(2)] typed_view_state [OF assms(1)] by auto
  have "attempts_after py (safe_changes py [] now ?st) task = Inr (et_provider_attempts task)"
    by (simp add: attempts_after_def safe_changes_def bounded.simps update_conv')
  then have accepted: "append_accepted py event_type now (target_of (Some ?st) task) [] task"
    using assms(3,4) stop materialized_single_dispatch [OF assms(1) s] s
    by (auto simp: append_accepted_def transition_allowed_def target_of_def)
  have typed: "typed_changes []" by (simp add: typed_changes_def)
  from accepted append_event_typed [OF typed s, of py event_type now "Some ?st" request_id]
  obtain task' where task': "append_event py event_type now (Some ?st) (Some []) request_id task = (Inr (), task')"
    "task_fields py task' = dict_update (task_fields py task) (safe_changes py [] now (target_of (Some ?st) task))"
    "et_events task' = et_events task @
       [appended_event py event_type now (target_of (Some ?st) task) [] request_id task]"
    "et_operation task' = et_operation task"
    by auto
  have "materialized py task'"
    using accepted_materialized [OF assms(1) typed accepted] task' by blast
  moreover have "et_state task' = ?st" using fields_state [OF task'(2) typed] by (simp add: target_of_def)
  ultimately show ?thesis using task'(1) stop(3) by auto
qed

theorem no_task_is_stuck_witness:
  "\<exists>task'. append_event sample_coercions ''task_cancelled'' ''2026-01-01T00:00:00Z''
      (Some (stop_state (et_state sample_task))) (Some []) None sample_task = (Inr (), task') \<and>
    et_state task' = stop_state (et_state sample_task)"
proof -
  have "et_state sample_task \<notin> set TERMINAL_TASK_STATES" by code_simp
  from no_task_is_stuck [OF sample_task_materialized this sample_time, of "''task_cancelled''" None]
  show ?thesis by (simp del: stop_state.simps) blast
qed

end
