(* ===== verification/Task_Repository.thy ===== *)
theory Task_Repository
  imports Task_Calls Task_History
begin

text \<open>
  The repository of execution tasks keeps its promise: whenever it answers from the navigation index, the
  index describes exactly the readable records on disk.  This holds after any sequence of calls, with directory
  operations, writes and removals failing anywhere and other processes changing the directory
  between the calls.
\<close>

section \<open>Histories of the repository\<close>

datatype repository_call =
    Save execution_task
  | Get string
  | Get_for_plan string
  | Get_for_idempotency string
  | Read_for_inspection string
  | Nonterminal_ids
  | F3_nonterminal_ids int
  | List_nonterminal
  | Manual_review_ids
  | List_tasks
  | Cleanup int int
  | Navigation_metrics bool
  | Health int bool
  | Quarantined_plan_prefixes
  | Others "(file_name \<times> json option) list"

text \<open>\<open>Others files\<close>: other processes leave these files, and the directory a new modification time.\<close>

fun perform :: "coercions \<Rightarrow> repository_call \<Rightarrow> task_store \<Rightarrow> task_store" where
  "perform py (Save task) s = snd (save py task s)"
| "perform py (Get task_id) s = snd (get py task_id s)"
| "perform py (Get_for_plan plan_id) s = snd (get_for_plan py plan_id s)"
| "perform py (Get_for_idempotency key) s = snd (get_for_idempotency py key s)"
| "perform py (Read_for_inspection task_id) s = snd (read_for_inspection py task_id s)"
| "perform py Nonterminal_ids s = snd (nonterminal_task_ids py s)"
| "perform py (F3_nonterminal_ids limit) s = snd (f3_nonterminal_task_ids py limit s)"
| "perform py List_nonterminal s = snd (list_nonterminal py s)"
| "perform py Manual_review_ids s = snd (manual_review_task_ids py s)"
| "perform py List_tasks s = snd (list_tasks py s)"
| "perform py (Cleanup now days) s = snd (cleanup py now days s)"
| "perform py (Navigation_metrics validated) s = snd (navigation_metrics py validated s)"
| "perform py (Health days validated) s = snd (health py days validated s)"
| "perform py Quarantined_plan_prefixes s = snd (quarantined_plan_prefixes s)"
| "perform py (Others files) s = s\<lparr>st_files := files, st_directory := Suc (st_directory s)\<rparr>"

text \<open>A saved task reads back and has an identifier of its own; what others leave is canonical.\<close>

fun permitted :: "coercions \<Rightarrow> repository_call \<Rightarrow> task_store \<Rightarrow> bool" where
  "permitted py (Save task) s \<longleftrightarrow> storable py task \<and> id_unused task s"
| "permitted py (Others files) s \<longleftrightarrow> canonical py files"
| "permitted py _ s \<longleftrightarrow> True"

fun perform_all :: "coercions \<Rightarrow> repository_call list \<Rightarrow> task_store \<Rightarrow> task_store" where
  "perform_all py [] s = s"
| "perform_all py (c # cs) s = perform_all py cs (perform py c s)"

fun all_permitted :: "coercions \<Rightarrow> repository_call list \<Rightarrow> task_store \<Rightarrow> bool" where
  "all_permitted py [] s \<longleftrightarrow> True"
| "all_permitted py (c # cs) s \<longleftrightarrow> permitted py c s \<and> all_permitted py cs (perform py c s)"

lemma triple_snd:
  assumes "triple P m (\<lambda>_. Q) Q" and "P s"
  shows "Q (snd (m s))"
  using assms unfolding triple_def by (cases "m s"; cases "fst (m s)") auto

lemma perform_inv:
  assumes "store_inv py s" and "permitted py c s"
  shows "store_inv py (perform py c s)"
proof (cases c)
  case (Save task)
  with assms(2) have "storable py task" "id_unused task s" by simp_all
  then show ?thesis using triple_snd [OF triple_save [of py task], of s] assms(1) Save by simp
next
  case (Others files)
  with assms show ?thesis by (auto simp: store_inv_def base_def)
qed (use assms(1) in \<open>simp_all add: triple_snd [OF get_keeps] triple_snd [OF get_for_plan_keeps]
    triple_snd [OF get_for_idempotency_keeps] triple_snd [OF inspect_keeps] triple_snd [OF nonterminal_keeps]
    triple_snd [OF f3_nonterminal_keeps] triple_snd [OF list_nonterminal_keeps] triple_snd [OF manual_review_keeps]
    triple_snd [OF list_tasks_keeps] triple_snd [OF cleanup_keeps]
    triple_snd [OF metrics_keeps] triple_snd [OF health_keeps] triple_snd [OF prefixes_keep]\<close>)

lemma perform_all_inv:
  "store_inv py s \<Longrightarrow> all_permitted py cs s \<Longrightarrow> store_inv py (perform_all py cs s)"
  by (induction cs arbitrary: s) (auto intro: perform_inv)

text \<open>A repository before its constructor has read the directory.\<close>

definition empty_navigation :: navigation where
  "empty_navigation =
     \<lparr>nav_entries = [], nav_ordered_keys = [], nav_nonterminal_ids = [], nav_nonterminal_keys = [],
      nav_f3_nonterminal_ids = [], nav_f3_nonterminal_keys = [], nav_task_by_plan = [],
      nav_task_by_idempotency = [], nav_expected_nonterminal_count = 0, nav_expected_signature = (0, 0, 0),
      nav_expected_f3_signature = (0, 0, 0), nav_total_event_count = 0, nav_manual_review_count = 0,
      nav_legacy_task_count = 0, nav_legacy_active_task_count = 0, nav_generation = 0,
      nav_invalidation_count = 0, nav_update_count = 0, nav_rebuild_count = 0\<rparr>"

definition unopened :: "coercions \<Rightarrow> task_store \<Rightarrow> bool" where
  "unopened py s \<longleftrightarrow> st_nav s = empty_navigation \<and> st_observed s = None \<and> canonical py (st_files s) \<and>
     (\<forall>n. \<not> st_read_faults s n)"

lemma unopened_behind:
  assumes "unopened py s"
  shows "behind py s"
proof -
  have "index_sound py empty_navigation"
    by (simp add: index_sound_def entries_sound_def tables_view_def counts_view_def signatures_view_def
        empty_navigation_def signature_of_def)
  with assms show ?thesis by (simp add: unopened_def behind_def base_def)
qed

lemma fresh_unfinished:
  assumes "fresh py s"
  shows "\<exists>es. map snd (nav_nonterminal_keys (st_nav s)) = map ne_task_id es \<and>
    sorted (map (entry_order_key py) es) \<and> distinct (map ne_task_id es) \<and>
    (\<forall>e. e \<in> set es \<longleftrightarrow> \<not> ne_terminal e \<and> (\<exists>path. readable py (st_files s) path e))"
proof -
  let ?nav = "st_nav s"
  have es: "entries_sound ?nav" and tv: "tables_view py (entries_of ?nav) ?nav"
    using assms by (simp_all add: fresh_def base_def index_sound_def)
  define es where "es = sort_key (entry_order_key py) (filter active (map snd (nav_entries ?nav)))"
  have m: "mset es = filter_mset active (entries_of ?nav)" by (simp add: es_def)
  have "sort (map (entry_order_key py) es) = nav_nonterminal_keys ?nav"
    using tv m by (intro properties_for_sort) (simp_all add: tables_view_def)
  moreover have "sort (map (entry_order_key py) es) = map (entry_order_key py) es"
    by (intro properties_for_sort) (simp_all add: es_def)
  ultimately have "map snd (nav_nonterminal_keys ?nav) = map snd (map (entry_order_key py) es)" by simp
  then have "map snd (nav_nonterminal_keys ?nav) = map ne_task_id es"
    by (simp add: entry_order_key_def comp_def)
  moreover have "sorted (map (entry_order_key py) es)" by (simp add: es_def)
  moreover have "distinct (map ne_task_id es)"
  proof -
    have "mset (map ne_task_id es) = mset (map ne_task_id (filter active (map snd (nav_entries ?nav))))"
      using m by simp
    then show ?thesis using distinct_map_filter [OF entries_sound_ids(1) [OF es]] mset_eq_imp_distinct_iff by metis
  qed
  moreover have "e \<in> set es \<longleftrightarrow> \<not> ne_terminal e \<and> (\<exists>path. readable py (st_files s) path e)" for e
  proof -
    have "e \<in> set (map snd (nav_entries ?nav)) \<longleftrightarrow> (\<exists>k. map_of (nav_entries ?nav) k = Some e)"
      using es by (force simp: entries_sound_def map_of_eq_Some_iff)
    also have "\<dots> \<longleftrightarrow> (\<exists>path. readable py (st_files s) path e)"
      using assms by (auto simp: fresh_def reflects_def)
    finally show ?thesis by (auto simp: es_def active_def)
  qed
  ultimately show ?thesis by blast
qed


section \<open>A repository in use\<close>

definition stored_task :: execution_task where
  "stored_task = sample_task
     \<lparr>et_task_id := JStr ''0123456789abcdef0123456789abcdef'',
      et_plan_id := JStr ''fedcba9876543210fedcba9876543210'',
      et_events := map (\<lambda>event. event\<lparr>ev_changes :=
          map (\<lambda>(k, v). (k, if k = ''task_id'' then JStr ''0123456789abcdef0123456789abcdef''
                           else if k = ''plan_id'' then JStr ''fedcba9876543210fedcba9876543210'' else v))
            (ev_changes event)\<rparr>) (et_events sample_task)\<rparr>"

definition empty_store :: task_store where
  "empty_store =
     \<lparr>st_nav = empty_navigation, st_files = [], st_quarantine = [], st_directory = 0, st_observed = None,
      st_faults = (\<lambda>_. False), st_read_faults = (\<lambda>_. False), st_fault_clock = 0, st_corruption_count = 0,
      st_quarantine_generation = 0, st_quarantine_moved = 0, st_quarantine_removed = 0,
      st_quarantine_failed = 0, st_write_failures = 0, st_event_write_failures = 0,
      st_materialization_failures = 0, st_rehydration_attempts = 0,
      st_records_deserialized = 0, st_terminal_records_deserialized = 0, st_full_history_scan_count = 0\<rparr>"

definition opened_store :: task_store where
  "opened_store = snd (rebuild_navigation_index sample_coercions empty_store)"

lemma opened_store_files: "st_files opened_store = []"
  by code_simp

lemma stored_task_storable: "storable sample_coercions stored_task"
  by code_simp

lemma nothing_to_index: "fst (rebuild_navigation_index sample_coercions empty_store) = Inr (0, 0, 0, 0)"
  by code_simp

lemma one_task_listed:
  "fst (nonterminal_task_ids sample_coercions
     (perform_all sample_coercions [Save stored_task] opened_store)) = Inr [''0123456789abcdef0123456789abcdef'']"
  by code_simp


end
