(* ===== verification/Approval_Models.thy ===== *)
theory Approval_Models
  imports Task_Models "HOL-Library.Product_Lexorder"
begin

text \<open>
  Change plans and their approvals: \<open>governance/models.py\<close>, the policy decision a plan is bound to
  (\<open>governance/policy.py\<close>), the hash an approval is bound to (\<open>ChangeGovernanceService.plan_hash\<close>) and the
  objects a safety-critical acknowledgement names (\<open>governance/physical_effects.py\<close>).

  A plan is its content, which nothing changes once it is created, and the fields of its lifecycle.  What
  other modules decide from the content alone is passed in as \<open>authority\<close>: the classification of a change
  (\<open>_single_plan_policy\<close>), the comparison of physical effects (\<open>compare_operation\<close>), the checks of the review
  projections, and what Python computes (digests, timestamps).
\<close>

section \<open>Enumerations\<close>

datatype plan_status =
    DRAFT | VALIDATION_FAILED | AWAITING_APPROVAL | APPROVED_PLAN | APPLYING | VERIFICATION_REQUIRED
  | APPLIED | VERIFICATION_FAILED | FAILED | ROLLBACK_PENDING | ROLLED_BACK | ROLLBACK_FAILED
  | EXPIRED_PLAN | SUPERSEDED_PLAN | REJECTED_PLAN

datatype change_kind =
    CREATE_AUTOMATION | UPDATE_AUTOMATION | CONFIGURATION_PLAN | CREATE_FULL_BACKUP | CONTROLLED_RELOAD
  | RESTART_ADDON | RESTART_HOME_ASSISTANT | SET_INPUT_BOOLEAN_STATE | SET_INPUT_SELECT_OPTION
  | UPDATE_DASHBOARD

datatype risk_level = LOW_RISK | MEDIUM_RISK | HIGH_RISK

datatype approval_state =
    REQUIRED | EXTERNAL_PENDING | APPROVED | REJECTED | CONSUMED | EXPIRED | INVALIDATED

datatype policy_class = STANDARD_ADMIN | ELEVATED_ADMIN | PROHIBITED

datatype risk_delta = NO_DELTA | LOW_DELTA | MODERATE_DELTA | HIGH_DELTA | CRITICAL_DELTA

datatype physical_consequence = NO_CONSEQUENCE | INDIRECT | DIRECT | SAFETY_CRITICAL | UNKNOWN_CONSEQUENCE

datatype action_kind =
    PLAN_APPROVAL | ELEVATED_RISK_ACKNOWLEDGEMENT | SAFETY_CRITICAL_ACKNOWLEDGEMENT

fun change_kind_value :: "change_kind \<Rightarrow> string" where
  "change_kind_value CREATE_AUTOMATION = ''create_automation''"
| "change_kind_value UPDATE_AUTOMATION = ''update_automation''"
| "change_kind_value CONFIGURATION_PLAN = ''configuration_plan''"
| "change_kind_value CREATE_FULL_BACKUP = ''create_full_backup''"
| "change_kind_value CONTROLLED_RELOAD = ''controlled_reload''"
| "change_kind_value RESTART_ADDON = ''restart_addon''"
| "change_kind_value RESTART_HOME_ASSISTANT = ''restart_home_assistant''"
| "change_kind_value SET_INPUT_BOOLEAN_STATE = ''set_input_boolean_state''"
| "change_kind_value SET_INPUT_SELECT_OPTION = ''set_input_select_option''"
| "change_kind_value UPDATE_DASHBOARD = ''update_dashboard''"

fun risk_level_value :: "risk_level \<Rightarrow> string" where
  "risk_level_value LOW_RISK = ''low''"
| "risk_level_value MEDIUM_RISK = ''medium''"
| "risk_level_value HIGH_RISK = ''high''"

fun policy_class_value :: "policy_class \<Rightarrow> string" where
  "policy_class_value STANDARD_ADMIN = ''standard_admin''"
| "policy_class_value ELEVATED_ADMIN = ''elevated_admin''"
| "policy_class_value PROHIBITED = ''prohibited''"

fun risk_delta_value :: "risk_delta \<Rightarrow> string" where
  "risk_delta_value NO_DELTA = ''none''"
| "risk_delta_value LOW_DELTA = ''low''"
| "risk_delta_value MODERATE_DELTA = ''moderate''"
| "risk_delta_value HIGH_DELTA = ''high''"
| "risk_delta_value CRITICAL_DELTA = ''critical''"

fun consequence_value :: "physical_consequence \<Rightarrow> string" where
  "consequence_value NO_CONSEQUENCE = ''none''"
| "consequence_value INDIRECT = ''indirect''"
| "consequence_value DIRECT = ''direct''"
| "consequence_value SAFETY_CRITICAL = ''safety_critical''"
| "consequence_value UNKNOWN_CONSEQUENCE = ''unknown''"

fun action_value :: "action_kind \<Rightarrow> string" where
  "action_value PLAN_APPROVAL = ''plan_approval''"
| "action_value ELEVATED_RISK_ACKNOWLEDGEMENT = ''elevated_risk_acknowledgement''"
| "action_value SAFETY_CRITICAL_ACKNOWLEDGEMENT = ''safety_critical_acknowledgement''"

lemma action_value_inject [simp]: "action_value a = action_value b \<longleftrightarrow> a = b"
  by (cases a; cases b) simp_all

section \<open>Errors\<close>

datatype error_code =
    CHANGE_PLAN_STORAGE_ERROR
  | CHANGE_PLAN_NOT_FOUND
  | CHANGE_PLAN_EXPIRED
  | CHANGE_PLAN_REJECTED
  | CHANGE_PLAN_NOT_APPROVED
  | PROHIBITED_CHANGE
  | POLICY_SNAPSHOT_REQUIRED
  | POLICY_SNAPSHOT_MISMATCH
  | OPERATIONAL_VALIDATION_FAILED
  | CONFIGURATION_VALIDATION_FAILED
  | AUTOMATION_VALIDATION_FAILED
  | CONFIGURATION_PROJECTION_UNREVIEWABLE
  | APPROVAL_AUTHORITY_MISMATCH
  | APPROVAL_HASH_MISMATCH
  | APPROVAL_ALREADY_CONSUMED
  | APPROVAL_SEQUENCE_FAILURE
  | APPROVAL_PRINCIPAL_MISMATCH
  | EXTERNAL_APPROVAL_EXPIRED
  | EXTERNAL_APPROVAL_INVALID
  | EXTERNAL_APPROVAL_REQUIRED
  | ELEVATED_RISK_ACKNOWLEDGEMENT_REQUIRED
  | SAFETY_CRITICAL_ACKNOWLEDGEMENT_REQUIRED
  | SAFETY_CRITICAL_ACKNOWLEDGEMENT_MISMATCH
  | OTHER_ERROR_CODE string

text \<open>
  \<open>GovernanceError\<close>, the errors Python raises on an unusable timestamp, and an error of the audit, the
  task projection or the notifications, which run after a plan has been saved.
\<close>

datatype governance_error =
    GovernanceError error_code
  | GovernanceValueError
  | GovernanceTypeError
  | AfterSaveError

section \<open>The content of a plan\<close>

record risk_assessment =
  ri_level :: risk_level
  ri_reasons :: "string list"
  ri_apply_allowed :: bool
  ri_evidence :: "dict list"
  ri_warnings :: "string list"

text \<open>\<open>co_evidence\<close>: the further fields of an operation that the checks of other modules read.\<close>

record configuration_operation =
  co_operation_id :: string
  co_order :: int
  co_depends_on :: "string list"
  co_resource_type :: string
  co_action :: string
  co_target_id :: string
  co_helper_type :: "string option"
  co_proposed_config :: json
  co_normalized_proposed_config :: json
  co_current_state_fingerprint :: string
  co_proposed_config_hash :: string
  co_normalization_version :: int
  co_risk :: risk_assessment
  co_semantic_projection_hash :: "string option"
  co_called_scripts :: "json option"
  co_evidence :: json

record operational_details =
  od_schema_version :: json
  od_family :: string
  od_operation :: string
  od_requested_name :: string
  od_provider :: string
  od_capability_evidence :: json
  od_expected_effects :: json
  od_preconditions :: json
  od_verification_contract :: json
  od_baseline :: json
  od_limitations :: json
  od_rollback_available :: bool

record plan_content =
  pc_plan_id :: string
  pc_plan_version :: int
  pc_created_at :: string
  pc_expires_at :: string
  pc_title :: string
  pc_description :: string
  pc_requested_by :: string
  pc_target_type :: string
  pc_target_id :: string
  pc_operation :: change_kind
  pc_proposed_config :: json
  pc_normalized_proposed_config :: json
  pc_current_state_fingerprint :: string
  pc_proposed_config_hash :: string
  pc_risk :: risk_assessment
  pc_normalization_version :: int
  pc_valid :: bool
  pc_contract_version :: int
  pc_operations :: "configuration_operation list"
  pc_plan_family :: string
  pc_operational :: "operational_details option"
  pc_rollback_expected_fingerprint :: "string option"
  pc_evidence :: json

section \<open>Decisions and approvals\<close>

record policy_decision =
  pd_policy_version :: string
  pd_policy_class :: policy_class
  pd_risk_delta :: risk_delta
  pd_physical_consequence :: physical_consequence
  pd_reason_codes :: "string list"
  pd_required_acknowledgements :: "action_kind list"
  pd_policy_subject_hash :: string
  pd_policy_decision_hash :: string

record approval_action =
  aa_kind :: action_kind
  aa_authority_version :: int
  aa_state :: approval_state
  aa_bound_plan_hash :: "string option"
  aa_policy_decision_hash :: "string option"
  aa_policy_class :: "string option"
  aa_risk_delta :: "string option"
  aa_physical_consequence :: "string option"
  aa_challenge_id :: "string option"
  aa_challenge_requested_at :: "string option"
  aa_challenge_expires_at :: "string option"
  aa_granted_at :: "string option"
  aa_approver_principal :: "string option"
  aa_consumed_at :: "string option"
  aa_csrf_digest :: "string option"
  aa_csrf_issued_at :: "string option"
  aa_projection_hash :: "string option"
  aa_acknowledged_objects :: "(string \<times> string) list option"

record change_approval =
  ca_state :: approval_state
  ca_authority_version :: int
  ca_channel :: "string option"
  ca_approver_principal :: "string option"
  ca_principal_separation_enforced :: "bool option"
  ca_approved_at :: "string option"
  ca_approving_caller_id :: "string option"
  ca_approval_note :: "string option"
  ca_bound_plan_hash :: "string option"
  ca_consumed_at :: "string option"
  ca_approval_kind :: string
  ca_approval_expires_at :: "string option"
  ca_challenge_id :: "string option"
  ca_challenge_requested_at :: "string option"
  ca_challenge_expires_at :: "string option"
  ca_challenge_plan_version :: "int option"
  ca_challenge_target_type :: "string option"
  ca_challenge_target_id :: "string option"
  ca_challenge_operation :: "string option"
  ca_challenge_risk_level :: "string option"
  ca_request_note :: "string option"
  ca_csrf_digest :: "string option"
  ca_csrf_issued_at :: "string option"
  ca_policy_decision_hash :: "string option"
  ca_policy_class :: "string option"
  ca_bundle_state :: "string option"
  ca_same_principal_confirmed :: "bool option"
  ca_acknowledgement :: "approval_action option"

record change_event =
  ce_event :: string
  ce_timestamp :: string
  ce_request_id :: string
  ce_caller_id :: string
  ce_result_status :: string
  ce_error_code :: "error_code option"

text \<open>\<open>cp_dispatched_once\<close>: \<open>operational.dispatch.get("attempt_count") == 1\<close>.\<close>

record change_plan =
  cp_content :: plan_content
  cp_updated_at :: string
  cp_status :: plan_status
  cp_policy_decision :: "policy_decision option"
  cp_approval :: change_approval
  cp_dispatched_once :: bool
  cp_rollback_approved_at :: "string option"
  cp_apply_request_id :: "string option"
  cp_execution_outcome :: "string option"
  cp_events :: "change_event list"

text \<open>The defaults of the two dataclasses.\<close>

definition new_action :: "action_kind \<Rightarrow> approval_action" where
  "new_action kind =
     \<lparr>aa_kind = kind, aa_authority_version = 3, aa_state = REQUIRED, aa_bound_plan_hash = None,
      aa_policy_decision_hash = None, aa_policy_class = None, aa_risk_delta = None,
      aa_physical_consequence = None, aa_challenge_id = None, aa_challenge_requested_at = None,
      aa_challenge_expires_at = None, aa_granted_at = None, aa_approver_principal = None,
      aa_consumed_at = None, aa_csrf_digest = None, aa_csrf_issued_at = None, aa_projection_hash = None,
      aa_acknowledged_objects = None\<rparr>"

definition new_approval :: change_approval where
  "new_approval =
     \<lparr>ca_state = REQUIRED, ca_authority_version = 3, ca_channel = None, ca_approver_principal = None,
      ca_principal_separation_enforced = None, ca_approved_at = None, ca_approving_caller_id = None,
      ca_approval_note = None, ca_bound_plan_hash = None, ca_consumed_at = None,
      ca_approval_kind = ''apply'', ca_approval_expires_at = None, ca_challenge_id = None,
      ca_challenge_requested_at = None, ca_challenge_expires_at = None, ca_challenge_plan_version = None,
      ca_challenge_target_type = None, ca_challenge_target_id = None, ca_challenge_operation = None,
      ca_challenge_risk_level = None, ca_request_note = None, ca_csrf_digest = None,
      ca_csrf_issued_at = None, ca_policy_decision_hash = None, ca_policy_class = None,
      ca_bundle_state = None, ca_same_principal_confirmed = None, ca_acknowledgement = None\<rparr>"

end
