(* ===== verification/Approval_Policy.thy ===== *)
theory Approval_Policy
  imports Approval_Models
begin

text \<open>
  The policy decision of a plan (\<open>governance/policy.py\<close>), the hash its approval is bound to
  (\<open>ChangeGovernanceService.plan_hash\<close>) and the objects a safety-critical acknowledgement is bound to
  (\<open>governance/physical_effects.py\<close>).
\<close>

section \<open>What other modules and Python contribute\<close>

record policy_classification =
  cl_policy_class :: policy_class
  cl_risk_delta :: risk_delta
  cl_physical_consequence :: physical_consequence
  cl_reason_codes :: "string list"
  cl_safety_critical_acknowledgement :: bool

record effect_comparison =
  ec_protected :: bool
  ec_projection_hash :: string
  ec_acknowledgement_objects :: "string list"

text \<open>
  \<open>au_iso\<close> is \<open>datetime.fromisoformat\<close>: \<open>None\<close> when it raises, \<open>Some None\<close> for a time without a zone,
  otherwise the instant in microseconds; \<open>au_time_text\<close> is \<open>isoformat\<close>.  \<open>au_plan_policy\<close> is
  \<open>_single_plan_policy\<close> and \<open>au_owner_exact\<close> the test \<open>exact_owner_authoritative\<close>, both under the current
  policy; \<open>au_compare\<close> is \<open>compare_operation\<close>.  \<open>au_readable\<close> is the check of \<open>_load_for_projection\<close>,
  \<open>au_historical\<close> is \<open>persisted_historical_policy_snapshot_matches\<close>, \<open>au_prohibited\<close> is
  \<open>_is_effectively_prohibited_plan\<close>; the remaining ones are named after their methods and give \<open>True\<close> or
  \<open>Inr\<close> when the check passes.
\<close>

record authority =
  au_python :: python
  au_iso :: "string \<Rightarrow> int option option"
  au_time_text :: "int \<Rightarrow> string"
  au_normalize_automation :: "json \<Rightarrow> int \<Rightarrow> json"
  au_plan_policy :: "plan_content \<Rightarrow> policy_classification list"
  au_owner_exact :: "plan_content \<Rightarrow> bool"
  au_compare :: "configuration_operation \<Rightarrow> governance_error + effect_comparison"
  au_persisted_safe :: "change_plan \<Rightarrow> bool"
  au_configuration_projection :: "bool \<Rightarrow> plan_content \<Rightarrow> bool"
  au_dashboard_projection :: "plan_content \<Rightarrow> bool"
  au_normalization :: "plan_content \<Rightarrow> governance_error + unit"
  au_actionable :: "plan_content \<Rightarrow> bool"
  au_replan_required :: "plan_content \<Rightarrow> bool"
  au_rollback_source :: "plan_content \<Rightarrow> governance_error + unit"
  au_readable :: "change_plan \<Rightarrow> governance_error + unit"
  au_historical :: "change_plan \<Rightarrow> bool"
  au_prohibited :: "change_plan \<Rightarrow> bool"
  au_sanitize_note :: "string \<Rightarrow> string option"

definition stable_hash :: "authority \<Rightarrow> json \<Rightarrow> string" where
  "stable_hash au v = sha256_hex (au_python au) (json_text (au_python au) True v)"

section \<open>Aggregation\<close>

fun policy_rank :: "policy_class \<Rightarrow> nat" where
  "policy_rank STANDARD_ADMIN = 0" | "policy_rank ELEVATED_ADMIN = 1" | "policy_rank PROHIBITED = 2"

fun risk_rank :: "risk_delta \<Rightarrow> nat" where
  "risk_rank NO_DELTA = 0" | "risk_rank LOW_DELTA = 1" | "risk_rank MODERATE_DELTA = 2"
| "risk_rank HIGH_DELTA = 3" | "risk_rank CRITICAL_DELTA = 4"

fun consequence_rank :: "physical_consequence \<Rightarrow> nat" where
  "consequence_rank NO_CONSEQUENCE = 0" | "consequence_rank INDIRECT = 1"
| "consequence_rank UNKNOWN_CONSEQUENCE = 2" | "consequence_rank DIRECT = 3"
| "consequence_rank SAFETY_CRITICAL = 4"

text \<open>\<open>max(values, key=...)\<close>: the first of the greatest.\<close>

definition top_by :: "('a \<Rightarrow> nat) \<Rightarrow> 'a \<Rightarrow> 'a list \<Rightarrow> 'a" where
  "top_by rank x xs = foldl (\<lambda>best y. if rank best < rank y then y else best) x xs"

fun aggregate_policy_classifications :: "policy_classification list \<Rightarrow> policy_classification" where
  "aggregate_policy_classifications [] =
     \<lparr>cl_policy_class = PROHIBITED, cl_risk_delta = CRITICAL_DELTA,
      cl_physical_consequence = NO_CONSEQUENCE, cl_reason_codes = [''unknown_policy_classification''],
      cl_safety_critical_acknowledgement = False\<rparr>"
| "aggregate_policy_classifications (c # cs) =
     \<lparr>cl_policy_class = cl_policy_class (top_by (\<lambda>c. policy_rank (cl_policy_class c)) c cs),
      cl_risk_delta = cl_risk_delta (top_by (\<lambda>c. risk_rank (cl_risk_delta c)) c cs),
      cl_physical_consequence =
        cl_physical_consequence (top_by (\<lambda>c. consequence_rank (cl_physical_consequence c)) c cs),
      cl_reason_codes = bytewise (concat (map cl_reason_codes (c # cs))),
      cl_safety_critical_acknowledgement = list_ex cl_safety_critical_acknowledgement (c # cs)\<rparr>"

section \<open>The decision\<close>

definition POLICY_VERSION :: string where "POLICY_VERSION = ''f2-v3''"

definition policy_reason_code :: "string \<Rightarrow> bool" where
  "policy_reason_code s \<longleftrightarrow>
     (case s of [] \<Rightarrow> False
      | c # cs \<Rightarrow> lower_char c \<and> length cs \<le> 95 \<and>
          list_all (\<lambda>c. lower_char c \<or> digit_char c \<or> c = CHR ''_'') cs)"

definition sha256_text :: "string \<Rightarrow> bool" where
  "sha256_text s \<longleftrightarrow> length s = 64 \<and> list_all (\<lambda>c. c \<in> set ''0123456789abcdef'') s"

text \<open>\<open>ChangePolicyDecision.__post_init__\<close>.\<close>

definition valid_decision :: "policy_decision \<Rightarrow> bool" where
  "valid_decision d \<longleftrightarrow>
     pd_policy_version d \<in> set [''f2-v1'', ''f2-v2'', ''f2-v3''] \<and>
     pd_reason_codes d \<noteq> [] \<and> bytewise (pd_reason_codes d) = pd_reason_codes d \<and>
     list_all policy_reason_code (pd_reason_codes d) \<and> length (pd_reason_codes d) \<le> 32 \<and>
     distinct (map action_value (pd_required_acknowledgements d)) \<and>
     sha256_text (pd_policy_subject_hash d) \<and> sha256_text (pd_policy_decision_hash d)"

definition text_list :: "string list \<Rightarrow> json" where
  "text_list ts = JList (map JStr ts)"

definition decision_to_dict :: "policy_decision \<Rightarrow> dict" where
  "decision_to_dict d =
     [(''policy_version'', JStr (pd_policy_version d)),
      (''policy_class'', JStr (policy_class_value (pd_policy_class d))),
      (''risk_delta'', JStr (risk_delta_value (pd_risk_delta d))),
      (''physical_consequence'', JStr (consequence_value (pd_physical_consequence d))),
      (''reason_codes'', text_list (pd_reason_codes d)),
      (''required_acknowledgements'', text_list (map action_value (pd_required_acknowledgements d))),
      (''policy_subject_hash'', JStr (pd_policy_subject_hash d)),
      (''policy_decision_hash'', JStr (pd_policy_decision_hash d))]"

definition sorted_operations :: "plan_content \<Rightarrow> configuration_operation list" where
  "sorted_operations c = sort_key co_order (pc_operations c)"

definition risk_payload :: "authority \<Rightarrow> string \<Rightarrow> risk_assessment \<Rightarrow> dict" where
  "risk_payload au prefix r =
     [(prefix @ ''level'', JStr (risk_level_value (ri_level r))),
      (prefix @ ''apply_allowed'', JBool (ri_apply_allowed r)),
      (prefix @ ''reasons'', text_list (bytewise (ri_reasons r))),
      (prefix @ ''evidence'', JList (sort_key (stable_hash au) (map JDict (ri_evidence r)))),
      (prefix @ ''warnings'', text_list (bytewise (ri_warnings r)))]"

definition operation_subject :: "authority \<Rightarrow> configuration_operation \<Rightarrow> json" where
  "operation_subject au op = JDict (
     [(''operation_id'', JStr (co_operation_id op)),
      (''order'', JInt (co_order op)),
      (''depends_on'', text_list (co_depends_on op)),
      (''resource_type'', JStr (co_resource_type op)),
      (''helper_type'', optional_text (co_helper_type op)),
      (''action'', JStr (co_action op)),
      (''target_id'', JStr (co_target_id op)),
      (''current_state_fingerprint'', JStr (co_current_state_fingerprint op)),
      (''proposed_config_hash'', JStr (co_proposed_config_hash op)),
      (''raw_proposed_config_hash'', JStr (stable_hash au (co_proposed_config op))),
      (''normalized_proposed_config_hash'', JStr (stable_hash au (co_normalized_proposed_config op))),
      (''normalization_version'', JInt (co_normalization_version op))] @
     risk_payload au ''risk_'' (co_risk op) @
     (case co_semantic_projection_hash op of None \<Rightarrow> [] | Some h \<Rightarrow> [(''semantic_projection_hash'', JStr h)]) @
     (case co_called_scripts op of None \<Rightarrow> [] | Some v \<Rightarrow> [(''called_scripts_hash'', JStr (stable_hash au v))]))"

definition operational_subject :: "operational_details option \<Rightarrow> json" where
  "operational_subject od =
     (case od of None \<Rightarrow> JNull
      | Some d \<Rightarrow> JDict
         [(''schema_version'', od_schema_version d),
          (''family'', JStr (od_family d)),
          (''operation'', JStr (od_operation d)),
          (''requested_name'', JStr (od_requested_name d)),
          (''provider'', JStr (od_provider d)),
          (''provider_capability_evidence'', od_capability_evidence d),
          (''expected_effects'', od_expected_effects d),
          (''preconditions'', od_preconditions d),
          (''verification_contract'', od_verification_contract d),
          (''baseline'', od_baseline d),
          (''limitations'', od_limitations d),
          (''rollback_available'', JBool (od_rollback_available d))])"

definition policy_subject_payload :: "authority \<Rightarrow> plan_content \<Rightarrow> json" where
  "policy_subject_payload au c = JDict
     [(''contract_version'', JInt (pc_contract_version c)),
      (''plan_family'', JStr (pc_plan_family c)),
      (''plan_id'', JStr (pc_plan_id c)),
      (''plan_version'', JInt (pc_plan_version c)),
      (''created_at'', JStr (pc_created_at c)),
      (''expires_at'', JStr (pc_expires_at c)),
      (''title'', JStr (pc_title c)),
      (''description'', JStr (pc_description c)),
      (''requested_by'', JStr (pc_requested_by c)),
      (''operation'', JStr (change_kind_value (pc_operation c))),
      (''target'', JDict [(''target_type'', JStr (pc_target_type c)), (''target_id'', JStr (pc_target_id c))]),
      (''current_state_fingerprint'', JStr (pc_current_state_fingerprint c)),
      (''proposed_config_hash'', JStr (pc_proposed_config_hash c)),
      (''raw_proposed_config_hash'', JStr (stable_hash au (pc_proposed_config c))),
      (''normalized_proposed_config_hash'', JStr (stable_hash au (pc_normalized_proposed_config c))),
      (''normalization_version'', JInt (pc_normalization_version c)),
      (''risk'', JDict (risk_payload au [] (pc_risk c))),
      (''operations'', JList (map (operation_subject au) (sorted_operations c))),
      (''operational'', operational_subject (pc_operational c))]"

definition required_actions :: "policy_classification \<Rightarrow> bool \<Rightarrow> action_kind list" where
  "required_actions cl exact_owner =
     (if cl_safety_critical_acknowledgement cl \<and> cl_policy_class cl = ELEVATED_ADMIN
      then [PLAN_APPROVAL, SAFETY_CRITICAL_ACKNOWLEDGEMENT]
      else case cl_policy_class cl of
          STANDARD_ADMIN \<Rightarrow> [PLAN_APPROVAL]
        | ELEVATED_ADMIN \<Rightarrow>
            if exact_owner then [PLAN_APPROVAL] else [PLAN_APPROVAL, ELEVATED_RISK_ACKNOWLEDGEMENT]
        | PROHIBITED \<Rightarrow> [])"

definition evaluate_change_policy :: "authority \<Rightarrow> plan_content \<Rightarrow> governance_error + policy_decision" where
  "evaluate_change_policy au c =
     (let cl = aggregate_policy_classifications (au_plan_policy au c);
          required = required_actions cl (au_owner_exact au c);
          subject_hash = stable_hash au (policy_subject_payload au c);
          payload = JDict
            [(''policy_version'', JStr POLICY_VERSION),
             (''policy_class'', JStr (policy_class_value (cl_policy_class cl))),
             (''risk_delta'', JStr (risk_delta_value (cl_risk_delta cl))),
             (''physical_consequence'', JStr (consequence_value (cl_physical_consequence cl))),
             (''reason_codes'', text_list (cl_reason_codes cl)),
             (''required_acknowledgements'', text_list (map action_value required)),
             (''policy_subject_hash'', JStr subject_hash)];
          decision =
            \<lparr>pd_policy_version = POLICY_VERSION, pd_policy_class = cl_policy_class cl,
             pd_risk_delta = cl_risk_delta cl, pd_physical_consequence = cl_physical_consequence cl,
             pd_reason_codes = cl_reason_codes cl, pd_required_acknowledgements = required,
             pd_policy_subject_hash = subject_hash, pd_policy_decision_hash = stable_hash au payload\<rparr>
      in and_then (demand (valid_decision decision) GovernanceValueError) (\<lambda>_. Inr decision))"

definition policy_snapshot_matches :: "authority \<Rightarrow> change_plan \<Rightarrow> governance_error + bool" where
  "policy_snapshot_matches au plan =
     (case cp_policy_decision plan of
        None \<Rightarrow> Inr False
      | Some d \<Rightarrow> and_then (evaluate_change_policy au (cp_content plan)) (\<lambda>current. Inr (d = current)))"

section \<open>The hash an approval is bound to\<close>

definition APPROVAL_AUTHORITY_VERSION :: int where "APPROVAL_AUTHORITY_VERSION = 3"
definition CONFIGURATION_PLAN_CONTRACT_VERSION :: int where "CONFIGURATION_PLAN_CONTRACT_VERSION = 2"
definition OPERATIONAL_PLAN_CONTRACT_VERSION :: int where "OPERATIONAL_PLAN_CONTRACT_VERSION = 3"

definition decision_field :: "policy_decision option \<Rightarrow> dict" where
  "decision_field d = (case d of None \<Rightarrow> [] | Some d \<Rightarrow> [(''policy_decision'', JDict (decision_to_dict d))])"

definition operation_hash_fields :: "authority \<Rightarrow> configuration_operation \<Rightarrow> json" where
  "operation_hash_fields au op = JDict (
     [(''operation_id'', JStr (co_operation_id op)),
      (''order'', JInt (co_order op)),
      (''depends_on'', text_list (co_depends_on op)),
      (''resource_type'', JStr (co_resource_type op)),
      (''helper_type'', optional_text (co_helper_type op)),
      (''action'', JStr (co_action op)),
      (''target_id'', JStr (co_target_id op)),
      (''current_state_fingerprint'', JStr (co_current_state_fingerprint op)),
      (''proposed_config_hash'', JStr (co_proposed_config_hash op)),
      (''raw_proposed_config_hash'', JStr (stable_hash au (co_proposed_config op))),
      (''normalized_proposed_config_hash'', JStr (stable_hash au (co_normalized_proposed_config op))),
      (''normalization_version'', JInt (co_normalization_version op)),
      (''risk_level'', JStr (risk_level_value (ri_level (co_risk op)))),
      (''risk_apply_allowed'', JBool (ri_apply_allowed (co_risk op)))] @
     (case co_semantic_projection_hash op of None \<Rightarrow> [] | Some h \<Rightarrow> [(''semantic_projection_hash'', JStr h)]) @
     (case co_called_scripts op of None \<Rightarrow> [] | Some v \<Rightarrow> [(''called_scripts_hash'', JStr (stable_hash au v))]))"

definition operational_hash_fields :: "plan_content \<Rightarrow> operational_details \<Rightarrow> string \<Rightarrow> int \<Rightarrow> dict" where
  "operational_hash_fields c d kind version =
     [(''contract_version'', JInt (pc_contract_version c)),
      (''plan_family'', JStr (pc_plan_family c)),
      (''plan_id'', JStr (pc_plan_id c)),
      (''plan_version'', JInt (pc_plan_version c)),
      (''operation'', JStr (change_kind_value (pc_operation c))),
      (''target_type'', JStr (pc_target_type c)),
      (''target_id'', JStr (pc_target_id c)),
      (''expires_at'', JStr (pc_expires_at c)),
      (''requested_name'', JStr (od_requested_name d)),
      (''provider'', JStr (od_provider d)),
      (''provider_capability_evidence'', od_capability_evidence d),
      (''expected_effects'', od_expected_effects d),
      (''preconditions'', od_preconditions d),
      (''verification_contract'', od_verification_contract d),
      (''baseline'', od_baseline d),
      (''limitations'', od_limitations d),
      (''rollback_available'', JBool (od_rollback_available d)),
      (''risk_level'', JStr (risk_level_value (ri_level (pc_risk c)))),
      (''risk_apply_allowed'', JBool (ri_apply_allowed (pc_risk c))),
      (''approval_kind'', JStr kind),
      (''approval_authority_version'', JInt version)]"

definition configuration_hash_fields :: "authority \<Rightarrow> plan_content \<Rightarrow> string \<Rightarrow> int \<Rightarrow> dict" where
  "configuration_hash_fields au c kind version =
     [(''contract_version'', JInt (pc_contract_version c)),
      (''plan_id'', JStr (pc_plan_id c)),
      (''plan_version'', JInt (pc_plan_version c)),
      (''operation'', JStr (change_kind_value (pc_operation c))),
      (''target_type'', JStr (pc_target_type c)),
      (''target_id'', JStr (pc_target_id c)),
      (''expires_at'', JStr (pc_expires_at c)),
      (''operations'', JList (map (operation_hash_fields au) (sorted_operations c))),
      (''risk_level'', JStr (risk_level_value (ri_level (pc_risk c)))),
      (''risk_apply_allowed'', JBool (ri_apply_allowed (pc_risk c))),
      (''approval_kind'', JStr kind),
      (''approval_authority_version'', JInt version)]"

definition automation_hash_fields :: "authority \<Rightarrow> plan_content \<Rightarrow> string \<Rightarrow> int \<Rightarrow> dict" where
  "automation_hash_fields au c kind version =
     (let normalized = au_normalize_automation au (pc_proposed_config c) (pc_normalization_version c) in
     [(''plan_id'', JStr (pc_plan_id c)),
      (''plan_version'', JInt (pc_plan_version c)),
      (''operation'', JStr (change_kind_value (pc_operation c))),
      (''target_type'', JStr (pc_target_type c)),
      (''target_id'', JStr (pc_target_id c)),
      (''expires_at'', JStr (pc_expires_at c)),
      (''current_state_fingerprint'', JStr (pc_current_state_fingerprint c)),
      (''proposed_config_hash'',
       JStr (stable_hash au (if truthy normalized then normalized else JDict []))),
      (''normalization_version'', JInt (pc_normalization_version c)),
      (''risk_level'', JStr (risk_level_value (ri_level (pc_risk c)))),
      (''approval_kind'', JStr kind),
      (''rollback_expected_fingerprint'', optional_text (pc_rollback_expected_fingerprint c))] @
     (if 2 \<le> version then [(''approval_authority_version'', JInt version)] else []))"

definition plan_hash :: "authority \<Rightarrow> change_plan \<Rightarrow> string" where
  "plan_hash au plan =
     (let c = cp_content plan; kind = ca_approval_kind (cp_approval plan);
          version = ca_authority_version (cp_approval plan);
          decision = decision_field (cp_policy_decision plan);
          current = (if APPROVAL_AUTHORITY_VERSION \<le> version then decision else [])
      in if pc_contract_version c = OPERATIONAL_PLAN_CONTRACT_VERSION then
           (case pc_operational c of
              None \<Rightarrow> stable_hash au (JDict [(''invalid_operational_plan'', JStr (pc_plan_id c))])
            | Some d \<Rightarrow> stable_hash au (JDict (operational_hash_fields c d kind version @ current)))
         else if pc_contract_version c = CONFIGURATION_PLAN_CONTRACT_VERSION then
           stable_hash au (JDict (configuration_hash_fields au c kind version @ decision))
         else stable_hash au (JDict (automation_hash_fields au c kind version @ current)))"

section \<open>The objects of a safety-critical acknowledgement\<close>

definition MAX_ACKNOWLEDGED_OBJECTS :: nat where "MAX_ACKNOWLEDGED_OBJECTS = 32"

definition COMPARISON_MODEL :: string where "COMPARISON_MODEL = ''physical-effect-comparison-v1''"

record acknowledgement_binding =
  ab_projection_hash :: string
  ab_objects :: "(string \<times> string) list"

definition protected_rows ::
    "authority \<Rightarrow> configuration_operation list
     \<Rightarrow> governance_error + (configuration_operation \<times> effect_comparison) list" where
  "protected_rows au ops =
     and_then (collect (\<lambda>op. and_then (au_compare au op) (\<lambda>cmp. Inr (op, cmp))) ops)
       (\<lambda>rows. Inr (filter (\<lambda>(op, cmp). ec_protected cmp) rows))"

definition plan_acknowledgement_binding ::
    "authority \<Rightarrow> plan_content \<Rightarrow> governance_error + acknowledgement_binding option" where
  "plan_acknowledgement_binding au c =
     and_then (protected_rows au (sorted_operations c)) (\<lambda>rows.
     let objects = concat (map (\<lambda>(op, cmp). map (Pair (co_operation_id op)) (ec_acknowledgement_objects cmp)) rows);
         comparisons = map (\<lambda>(op, cmp). JDict
            [(''operation_id'', JStr (co_operation_id op)),
             (''projection_hash'', JStr (ec_projection_hash cmp))]) rows
     in Inr (if objects = [] then None
        else Some \<lparr>ab_projection_hash = stable_hash au (JDict
               [(''model'', JStr COMPARISON_MODEL), (''operations'', JList comparisons)]),
             ab_objects = sort objects\<rparr>))"

text \<open>\<open>safety_critical_binding\<close>: any error, no object and too many objects all count as no binding.\<close>

definition safety_critical_binding :: "authority \<Rightarrow> plan_content \<Rightarrow> acknowledgement_binding option" where
  "safety_critical_binding au c =
     (case plan_acknowledgement_binding au c of
        Inr (Some b) \<Rightarrow>
          if ab_objects b = [] \<or> MAX_ACKNOWLEDGED_OBJECTS < length (ab_objects b) then None else Some b
      | _ \<Rightarrow> None)"

definition acknowledgement_object_token :: "authority \<Rightarrow> string \<times> string \<Rightarrow> string" where
  "acknowledgement_object_token au row =
     take 32 (stable_hash au (JDict [(''operation_id'', JStr (fst row)), (''object_id'', JStr (snd row))]))"

definition acknowledgement_tokens :: "authority \<Rightarrow> acknowledgement_binding \<Rightarrow> string list" where
  "acknowledgement_tokens au b = map (acknowledgement_object_token au) (ab_objects b)"

end
