(* ===== verification/Approval_Service.thy ===== *)
theory Approval_Service
  imports Approval_Policy
begin

text \<open>
  The approval of a change plan: the approval part of \<open>governance/service.py\<close> and its consumption by the
  F3 runtime (\<open>f3_runtime/runtime.py\<close>).  A caller requests an approval (\<open>approve\<close>); an administrator
  opens the review, which issues a one-time form nonce, and decides; plans that carry more risk need a
  second action of the same administrator; the dispatch of the change consumes what was granted.

  Each operation loads its plan from the repository, works on the copy and saves it with every event it
  records; an operation that raises leaves what was saved last.  A read or a save of the repository fails
  when \<open>gv_storage_faults\<close> says so for its number; the audit, the task projection and the notifications
  that follow a save raise when \<open>gv_after_faults\<close> does.  Clock readings and random tokens are streams.
\<close>

section \<open>State\<close>

record governance =
  gv_plans :: "(string \<times> change_plan) list"
  gv_clock :: nat
  gv_times :: "nat \<Rightarrow> int"
  gv_token_count :: nat
  gv_tokens :: "nat \<Rightarrow> string"
  gv_storage_count :: nat
  gv_storage_faults :: "nat \<Rightarrow> bool"
  gv_after_faults :: "nat \<Rightarrow> bool"
  gv_request_id :: string
  gv_caller_id :: string

type_synonym 'a gov_op = "(governance, governance_error, 'a) effect"

definition now :: "int gov_op" where
  "now = bind_eff (read_eff (\<lambda>g. gv_times g (gv_clock g))) (\<lambda>t.
         then_eff (update_eff (gv_clock_update Suc)) (return_eff t))"

definition timestamp_now :: "authority \<Rightarrow> string gov_op" where
  "timestamp_now au = bind_eff now (\<lambda>t. return_eff (au_time_text au t))"

text \<open>\<open>secrets.token_urlsafe\<close>.\<close>

definition token_urlsafe :: "string gov_op" where
  "token_urlsafe = bind_eff (read_eff (\<lambda>g. gv_tokens g (gv_token_count g))) (\<lambda>t.
                   then_eff (update_eff (gv_token_count_update Suc)) (return_eff t))"

definition storage_step :: "unit gov_op" where
  "storage_step =
     bind_eff (read_eff (\<lambda>g. gv_storage_faults g (gv_storage_count g))) (\<lambda>fails.
     then_eff (update_eff (gv_storage_count_update Suc))
       (require (\<not> fails) (GovernanceError CHANGE_PLAN_STORAGE_ERROR)))"

definition after_save :: "unit gov_op" where
  "after_save =
     bind_eff (read_eff (\<lambda>g. gv_after_faults g (gv_storage_count g))) (\<lambda>fails.
       require (\<not> fails) AfterSaveError)"

definition save_plan :: "authority \<Rightarrow> change_plan \<Rightarrow> change_plan gov_op" where
  "save_plan au plan =
     bind_eff (timestamp_now au) (\<lambda>t.
     let saved = plan\<lparr>cp_updated_at := t\<rparr> in
     then_eff storage_step
     (then_eff (update_eff (gv_plans_update (AList.update (pc_plan_id (cp_content plan)) saved)))
       (return_eff saved)))"

definition record_event ::
    "authority \<Rightarrow> change_plan \<Rightarrow> string \<Rightarrow> string \<Rightarrow> error_code option \<Rightarrow> change_plan gov_op" where
  "record_event au plan event result_status error_code =
     bind_eff (timestamp_now au) (\<lambda>t.
     bind_eff (read_eff (\<lambda>g. \<lparr>ce_event = event, ce_timestamp = t, ce_request_id = gv_request_id g,
                  ce_caller_id = gv_caller_id g, ce_result_status = result_status,
                  ce_error_code = error_code\<rparr>)) (\<lambda>e.
     bind_eff (save_plan au (plan\<lparr>cp_events := cp_events plan @ [e]\<rparr>)) (\<lambda>saved.
     then_eff after_save (return_eff saved))))"

section \<open>Approval vocabulary\<close>

definition APPROVAL_CHANNEL :: string where "APPROVAL_CHANNEL = ''home_assistant_ingress''"
definition APPROVAL_CHALLENGE_TTL :: int where "APPROVAL_CHALLENGE_TTL = 60 * 60 * 1000000"
definition LEGACY_ANONYMOUS_APPROVER_PRINCIPAL :: string where
  "LEGACY_ANONYMOUS_APPROVER_PRINCIPAL = ''home_assistant_admin_ingress''"
definition SAFETY_CRITICAL_ACKNOWLEDGEMENT_AUTHORITY_VERSION :: int where
  "SAFETY_CRITICAL_ACKNOWLEDGEMENT_AUTHORITY_VERSION = 4"

text \<open>The truth of an optional text: present and not empty.\<close>

definition present :: "string option \<Rightarrow> bool" where
  "present t \<longleftrightarrow> (case t of Some s \<Rightarrow> s \<noteq> [] | None \<Rightarrow> False)"

definition principal_separation_proven :: "string \<Rightarrow> bool" where
  "principal_separation_proven approver \<longleftrightarrow> approver \<noteq> LEGACY_ANONYMOUS_APPROVER_PRINCIPAL"

fun pending_state :: "action_kind \<Rightarrow> string" where
  "pending_state ELEVATED_RISK_ACKNOWLEDGEMENT = ''pending_elevated_risk_acknowledgement''"
| "pending_state SAFETY_CRITICAL_ACKNOWLEDGEMENT = ''pending_safety_critical_acknowledgement''"
| "pending_state PLAN_APPROVAL = ''pending_plan_approval''"

definition second_action :: "action_kind \<Rightarrow> bool" where
  "second_action k \<longleftrightarrow> k \<noteq> PLAN_APPROVAL"

definition second_action_kind :: "policy_decision \<Rightarrow> action_kind option" where
  "second_action_kind d = find second_action (pd_required_acknowledgements d)"

definition second_action_authority_version :: "action_kind \<Rightarrow> int" where
  "second_action_authority_version k =
     (if k = SAFETY_CRITICAL_ACKNOWLEDGEMENT then SAFETY_CRITICAL_ACKNOWLEDGEMENT_AUTHORITY_VERSION
      else APPROVAL_AUTHORITY_VERSION)"

definition approval_bundle_state :: "change_plan \<Rightarrow> string" where
  "approval_bundle_state plan =
     (if present (ca_bundle_state (cp_approval plan)) then the (ca_bundle_state (cp_approval plan))
      else case ca_state (cp_approval plan) of
          CONSUMED \<Rightarrow> ''consumed''
        | REJECTED \<Rightarrow> ''rejected''
        | EXPIRED \<Rightarrow> ''expired''
        | INVALIDATED \<Rightarrow> ''invalidated''
        | APPROVED \<Rightarrow> ''fully_approved''
        | _ \<Rightarrow> ''pending_plan_approval'')"

text \<open>\<open>_bind_new_plan_policy\<close>.\<close>

definition bind_new_plan_policy :: "authority \<Rightarrow> change_plan \<Rightarrow> governance_error + change_plan" where
  "bind_new_plan_policy au plan =
     (case cp_policy_decision plan of
        None \<Rightarrow> Inl (GovernanceError (OTHER_ERROR_CODE ''internal_invariant_violation''))
      | Some d \<Rightarrow>
         (let approval = (cp_approval plan)\<lparr>
                ca_authority_version := APPROVAL_AUTHORITY_VERSION,
                ca_policy_decision_hash := Some (pd_policy_decision_hash d),
                ca_policy_class := Some (policy_class_value (pd_policy_class d)),
                ca_bundle_state := Some (if pd_policy_class d = PROHIBITED then ''prohibited''
                                         else ''pending_plan_approval''),
                ca_same_principal_confirmed := None\<rparr>
          in case second_action_kind d of
               None \<Rightarrow> Inr (plan\<lparr>cp_approval := approval\<lparr>ca_acknowledgement := None\<rparr>\<rparr>)
             | Some kind \<Rightarrow>
                 let action = (new_action kind)\<lparr>aa_authority_version := second_action_authority_version kind\<rparr>
                 in if kind = SAFETY_CRITICAL_ACKNOWLEDGEMENT then
                      case safety_critical_binding au (cp_content plan) of
                        None \<Rightarrow> Inl (GovernanceError POLICY_SNAPSHOT_MISMATCH)
                      | Some b \<Rightarrow> Inr (plan\<lparr>cp_approval := approval\<lparr>ca_acknowledgement :=
                                   Some (action\<lparr>aa_projection_hash := Some (ab_projection_hash b)\<rparr>)\<rparr>\<rparr>)
                    else Inr (plan\<lparr>cp_approval := approval\<lparr>ca_acknowledgement := Some action\<rparr>\<rparr>)))"

section \<open>Integrity of a stored approval\<close>

text \<open>A sequence of \<open>if\<close> statements that each return an error: the first that applies.\<close>

definition first_failure :: "(bool \<times> error_code) list \<Rightarrow> error_code option" where
  "first_failure checks = map_option snd (find fst checks)"

definition authority_checks :: "change_approval \<Rightarrow> policy_decision \<Rightarrow> (bool \<times> error_code) list" where
  "authority_checks a d =
     [(ca_authority_version a \<noteq> APPROVAL_AUTHORITY_VERSION, APPROVAL_AUTHORITY_MISMATCH),
      (ca_policy_decision_hash a \<noteq> Some (pd_policy_decision_hash d) \<or>
       ca_policy_class a \<noteq> Some (policy_class_value (pd_policy_class d)), POLICY_SNAPSHOT_MISMATCH)]"

text \<open>The checks of the acknowledgement record \<open>k\<close>; without one they do not apply.\<close>

definition sequence_checks ::
    "authority \<Rightarrow> plan_content \<Rightarrow> change_approval \<Rightarrow> policy_decision \<Rightarrow> (bool \<times> error_code) list" where
  "sequence_checks au c a d =
     (let required = pd_required_acknowledgements d; kind = second_action_kind d;
          binding = safety_critical_binding au c
      in [(required = [] \<or> hd required \<noteq> PLAN_APPROVAL, APPROVAL_SEQUENCE_FAILURE),
          (required \<noteq> (case kind of None \<Rightarrow> [PLAN_APPROVAL] | Some k \<Rightarrow> [PLAN_APPROVAL, k]),
           APPROVAL_SEQUENCE_FAILURE),
          ((kind \<noteq> None) \<noteq> (ca_acknowledgement a \<noteq> None), APPROVAL_SEQUENCE_FAILURE)] @
         (case (ca_acknowledgement a, kind) of
            (Some k, Some r) \<Rightarrow>
              [(aa_kind k \<noteq> r \<or> aa_authority_version k \<noteq> second_action_authority_version r,
                APPROVAL_SEQUENCE_FAILURE)] @
              (if r = SAFETY_CRITICAL_ACKNOWLEDGEMENT then
                 (case binding of
                    None \<Rightarrow> [(True, POLICY_SNAPSHOT_MISMATCH)]
                  | Some b \<Rightarrow>
                      [(aa_projection_hash k \<noteq> Some (ab_projection_hash b), POLICY_SNAPSHOT_MISMATCH),
                       (aa_acknowledged_objects k \<noteq> None \<and> aa_acknowledged_objects k \<noteq> Some (ab_objects b),
                        APPROVAL_SEQUENCE_FAILURE)])
               else [(aa_projection_hash k \<noteq> None \<or> aa_acknowledged_objects k \<noteq> None,
                      APPROVAL_SEQUENCE_FAILURE)])
          | _ \<Rightarrow> []))"

text \<open>The states of approval and acknowledgement that belong to a bundle state.\<close>

definition expected_states :: "policy_decision \<Rightarrow> string \<Rightarrow> (approval_state \<times> approval_state) option" where
  "expected_states d bundle_state =
     (if bundle_state = ''fully_approved'' then Some (APPROVED, APPROVED)
      else if bundle_state = ''consumed'' then Some (CONSUMED, CONSUMED)
      else if bundle_state = ''rejected'' then Some (REJECTED, REJECTED)
      else if bundle_state = ''expired'' then Some (EXPIRED, EXPIRED)
      else if bundle_state = ''invalidated'' then Some (INVALIDATED, INVALIDATED)
      else if map_option pending_state (second_action_kind d) = Some bundle_state
        then Some (APPROVED, EXTERNAL_PENDING)
      else None)"

definition states_agree :: "change_approval \<Rightarrow> policy_decision \<Rightarrow> bool" where
  "states_agree a d \<longleftrightarrow>
     (let bundle_state = (case ca_bundle_state a of None \<Rightarrow> [] | Some s \<Rightarrow> s);
          action_state = map_option aa_state (ca_acknowledgement a)
      in if bundle_state = ''pending_plan_approval''
         then ca_state a \<in> {REQUIRED, EXTERNAL_PENDING} \<and> action_state \<in> {None, Some REQUIRED}
         else case expected_states d bundle_state of
             None \<Rightarrow> False
           | Some (first, second) \<Rightarrow> ca_state a = first \<and> action_state \<in> {None, Some second})"

definition challenge_checks :: "change_plan \<Rightarrow> string \<Rightarrow> policy_decision \<Rightarrow> (bool \<times> error_code) list" where
  "challenge_checks plan calculated d =
     (let a = cp_approval plan; c = cp_content plan;
          granted = ca_bundle_state a \<in> {Some ''fully_approved'', Some ''consumed''}
      in [(ca_state a \<in> {EXTERNAL_PENDING, APPROVED, CONSUMED} \<and>
           (ca_channel a \<noteq> Some APPROVAL_CHANNEL \<or> ca_bound_plan_hash a \<noteq> Some calculated \<or>
            \<not> present (ca_challenge_id a) \<or> \<not> present (ca_challenge_expires_at a) \<or>
            ca_challenge_plan_version a \<noteq> Some (pc_plan_version c) \<or>
            ca_challenge_target_type a \<noteq> Some (pc_target_type c) \<or>
            ca_challenge_target_id a \<noteq> Some (pc_target_id c) \<or>
            ca_challenge_operation a \<noteq> Some (change_kind_value (pc_operation c)) \<or>
            ca_challenge_risk_level a \<noteq> Some (risk_level_value (ri_level (pc_risk c)))),
           APPROVAL_SEQUENCE_FAILURE),
          (granted \<and> (\<not> present (ca_approver_principal a) \<or> \<not> present (ca_approved_at a) \<or>
                     \<not> present (ca_approval_expires_at a)), APPROVAL_SEQUENCE_FAILURE)] @
         (case ca_acknowledgement a of
            None \<Rightarrow> []
          | Some k \<Rightarrow>
              [(aa_state k \<in> {EXTERNAL_PENDING, APPROVED, CONSUMED} \<and>
                (\<not> present (aa_challenge_id k) \<or> \<not> present (aa_challenge_expires_at k)),
                APPROVAL_SEQUENCE_FAILURE),
               (present (aa_challenge_id k) \<and>
                (aa_bound_plan_hash k \<noteq> Some calculated \<or>
                 aa_policy_decision_hash k \<noteq> Some (pd_policy_decision_hash d) \<or>
                 aa_policy_class k \<noteq> Some (policy_class_value (pd_policy_class d)) \<or>
                 aa_risk_delta k \<noteq> Some (risk_delta_value (pd_risk_delta d)) \<or>
                 aa_physical_consequence k \<noteq> Some (consequence_value (pd_physical_consequence d))),
                APPROVAL_SEQUENCE_FAILURE),
               (granted \<and> (\<not> present (aa_granted_at k) \<or>
                  aa_approver_principal k \<noteq> ca_approver_principal a \<or>
                  ca_same_principal_confirmed a \<noteq> Some True), APPROVAL_PRINCIPAL_MISMATCH),
               (second_action_kind d = Some SAFETY_CRITICAL_ACKNOWLEDGEMENT \<and>
                (aa_state k \<in> {APPROVED, CONSUMED} \<and> aa_acknowledged_objects k = None \<or>
                 aa_state k \<in> {REQUIRED, EXTERNAL_PENDING} \<and> aa_acknowledged_objects k \<noteq> None),
                APPROVAL_SEQUENCE_FAILURE)]))"

definition approval_bundle_integrity_error :: "authority \<Rightarrow> change_plan \<Rightarrow> error_code option" where
  "approval_bundle_integrity_error au plan =
     (case cp_policy_decision plan of
        None \<Rightarrow> None
      | Some d \<Rightarrow>
          let a = cp_approval plan in
          (case first_failure (authority_checks a d) of
             Some e \<Rightarrow> Some e
           | None \<Rightarrow>
               if pd_policy_class d = PROHIBITED
               then (if au_prohibited au plan then None else Some APPROVAL_SEQUENCE_FAILURE)
               else first_failure
                 (sequence_checks au (cp_content plan) a d @
                  [(\<not> states_agree a d, APPROVAL_SEQUENCE_FAILURE)] @
                  challenge_checks plan (plan_hash au plan) d)))"

definition require_policy_snapshot :: "authority \<Rightarrow> change_plan \<Rightarrow> governance_error + unit" where
  "require_policy_snapshot au plan =
     and_then (demand (cp_policy_decision plan \<noteq> None) (GovernanceError POLICY_SNAPSHOT_REQUIRED)) (\<lambda>_.
     and_then (policy_snapshot_matches au plan) (\<lambda>matches.
     and_then (demand matches (GovernanceError POLICY_SNAPSHOT_MISMATCH)) (\<lambda>_.
     and_then (au_rollback_source au (cp_content plan)) (\<lambda>_.
       case approval_bundle_integrity_error au plan of
         None \<Rightarrow> Inr () | Some e \<Rightarrow> Inl (GovernanceError e)))))"

end
