(* ===== verification/Approval_Operations.thy ===== *)
theory Approval_Operations
  imports Approval_Service
begin

text \<open>
  The operations on the approval of a plan: expiry, the request (\<open>approve\<close>), the review
  (\<open>issue_external_csrf\<close>), the decision of the administrator (\<open>decide_external_approval\<close>), supersession by
  a later plan (\<open>_supersede_prior\<close>) and the consumption at the dispatch boundary (\<open>_consume_approval\<close>).
\<close>

section \<open>Loading\<close>

definition read_plan :: "string \<Rightarrow> change_plan gov_op" where
  "read_plan plan_id =
     then_eff storage_step
     (bind_eff (read_eff (\<lambda>g. map_of (gv_plans g) plan_id)) (\<lambda>found.
      case found of
        None \<Rightarrow> raise_eff (GovernanceError CHANGE_PLAN_NOT_FOUND)
      | Some plan \<Rightarrow> return_eff plan))"

definition require_plan_safe :: "authority \<Rightarrow> change_plan \<Rightarrow> unit gov_op" where
  "require_plan_safe au plan =
     require (pc_contract_version (cp_content plan) < CONFIGURATION_PLAN_CONTRACT_VERSION \<or>
              au_persisted_safe au plan) (GovernanceError CHANGE_PLAN_STORAGE_ERROR)"

definition load_plan :: "authority \<Rightarrow> string \<Rightarrow> change_plan gov_op" where
  "load_plan au plan_id =
     bind_eff (read_plan plan_id) (\<lambda>plan.
     then_eff (require_plan_safe au plan)
     (then_eff (if cp_policy_decision plan \<noteq> None then lift_eff (require_policy_snapshot au plan)
                else return_eff ())
       (return_eff plan)))"

definition load_for_projection :: "authority \<Rightarrow> string \<Rightarrow> change_plan gov_op" where
  "load_for_projection au plan_id =
     bind_eff (read_plan plan_id) (\<lambda>plan.
     then_eff (require_plan_safe au plan)
     (then_eff (if cp_policy_decision plan \<noteq> None then lift_eff (au_readable au plan) else return_eff ())
       (return_eff plan)))"

section \<open>Expiry\<close>

definition is_terminal_plan :: "change_plan \<Rightarrow> bool" where
  "is_terminal_plan plan \<longleftrightarrow>
     cp_status plan \<in> {VALIDATION_FAILED, APPLIED, FAILED, ROLLED_BACK, ROLLBACK_FAILED, EXPIRED_PLAN,
                      SUPERSEDED_PLAN, REJECTED_PLAN} \<or>
     map_option pd_policy_class (cp_policy_decision plan) = Some PROHIBITED \<and>
       ca_bundle_state (cp_approval plan) = Some ''prohibited'' \<or>
     2 \<le> pc_contract_version (cp_content plan) \<and> cp_status plan = VERIFICATION_FAILED"

text \<open>\<open>self.now() >= datetime.fromisoformat(text)\<close>.\<close>

definition time_reached :: "authority \<Rightarrow> string \<Rightarrow> bool gov_op" where
  "time_reached au limit =
     bind_eff now (\<lambda>t.
     case au_iso au limit of
       None \<Rightarrow> raise_eff GovernanceValueError
     | Some None \<Rightarrow> raise_eff GovernanceTypeError
     | Some (Some e) \<Rightarrow> return_eff (e \<le> t))"

definition plan_expiration_applies :: "authority \<Rightarrow> change_plan \<Rightarrow> bool gov_op" where
  "plan_expiration_applies au plan =
     (if is_terminal_plan plan then return_eff False
      else if pc_contract_version (cp_content plan) = OPERATIONAL_PLAN_CONTRACT_VERSION \<and>
        cp_status plan \<in> {APPLYING, VERIFICATION_REQUIRED} \<and>
        pc_operational (cp_content plan) \<noteq> None \<and> cp_dispatched_once plan then return_eff False
      else time_reached au (pc_expires_at (cp_content plan)))"

definition close_approval :: "approval_state \<Rightarrow> string \<Rightarrow> change_approval \<Rightarrow> change_approval" where
  "close_approval st bundle_state a =
     a\<lparr>ca_state := st, ca_bundle_state := Some bundle_state, ca_csrf_digest := None,
       ca_acknowledgement := map_option (\<lambda>k. k\<lparr>aa_state := st, aa_csrf_digest := None\<rparr>)
         (ca_acknowledgement a)\<rparr>"

definition invalidate_approval :: "change_plan \<Rightarrow> change_plan" where
  "invalidate_approval = cp_approval_update (close_approval INVALIDATED ''invalidated'')"

definition expire_if_needed :: "authority \<Rightarrow> change_plan \<Rightarrow> (change_plan \<times> bool) gov_op" where
  "expire_if_needed au plan =
     bind_eff (plan_expiration_applies au plan) (\<lambda>applies.
     if \<not> applies then return_eff (plan, False)
     else
       let expired = (invalidate_approval plan)\<lparr>cp_status := EXPIRED_PLAN\<rparr> in
       bind_eff (if present (ca_challenge_id (cp_approval expired))
                 then record_event au expired ''external_approval_invalidated'' ''rejected'' (Some CHANGE_PLAN_EXPIRED)
                 else return_eff expired) (\<lambda>expired.
       bind_eff (record_event au expired ''change_plan_expired'' ''rejected'' (Some CHANGE_PLAN_EXPIRED)) (\<lambda>expired.
         return_eff (expired, True))))"

text \<open>The action that waits for a decision, its challenge and the end of the challenge.\<close>

definition second_pending :: "change_approval \<Rightarrow> bool" where
  "second_pending a \<longleftrightarrow> map_option aa_state (ca_acknowledgement a) = Some EXTERNAL_PENDING"

definition active_challenge ::
    "change_plan \<Rightarrow> action_kind \<times> string option \<times> string option \<times> string option" where
  "active_challenge plan =
     (let a = cp_approval plan in
      case ca_acknowledgement a of
        Some k \<Rightarrow>
          if ca_state a = APPROVED \<and> aa_state k = EXTERNAL_PENDING
          then (aa_kind k, aa_challenge_id k, aa_challenge_requested_at k, aa_challenge_expires_at k)
          else (PLAN_APPROVAL, ca_challenge_id a, ca_challenge_requested_at a, ca_challenge_expires_at a)
      | None \<Rightarrow> (PLAN_APPROVAL, ca_challenge_id a, ca_challenge_requested_at a, ca_challenge_expires_at a))"

definition challenge_pending :: "change_plan \<Rightarrow> bool" where
  "challenge_pending plan \<longleftrightarrow>
     (if fst (active_challenge plan) = PLAN_APPROVAL then ca_state (cp_approval plan) = EXTERNAL_PENDING
      else second_pending (cp_approval plan))"

definition challenge_has_expired :: "authority \<Rightarrow> change_plan \<Rightarrow> bool gov_op" where
  "challenge_has_expired au plan =
     (case active_challenge plan of (_, _, _, expires_at) \<Rightarrow>
      if \<not> challenge_pending plan then return_eff False
      else if \<not> present expires_at then return_eff True
      else catch_eff (time_reached au (the expires_at)) (\<lambda>_. return_eff True))"

definition invalidate_terminal_challenge ::
    "authority \<Rightarrow> change_plan \<Rightarrow> (change_plan \<times> bool) gov_op" where
  "invalidate_terminal_challenge au plan =
     (if \<not> (is_terminal_plan plan \<and>
            (ca_state (cp_approval plan) = EXTERNAL_PENDING \<or> second_pending (cp_approval plan)))
      then return_eff (plan, False)
      else bind_eff (record_event au (invalidate_approval plan) ''external_approval_invalidated'' ''rejected''
             (Some (if cp_status plan = EXPIRED_PLAN then CHANGE_PLAN_EXPIRED else EXTERNAL_APPROVAL_INVALID)))
             (\<lambda>saved. return_eff (saved, True)))"

definition expire_challenge :: "authority \<Rightarrow> change_plan \<Rightarrow> (change_plan \<times> bool) gov_op" where
  "expire_challenge au plan =
     bind_eff (challenge_has_expired au plan) (\<lambda>expired.
     if \<not> expired then return_eff (plan, False)
     else bind_eff (record_event au (cp_approval_update (close_approval EXPIRED ''expired'') plan)
            ''external_approval_expired'' ''rejected'' (Some EXTERNAL_APPROVAL_EXPIRED))
            (\<lambda>saved. return_eff (saved, True)))"

text \<open>\<open>_resolve_lifecycle\<close>; every read of a plan goes through it.\<close>

definition resolve_lifecycle :: "authority \<Rightarrow> change_plan \<Rightarrow> (change_plan \<times> bool \<times> bool) gov_op" where
  "resolve_lifecycle au plan =
     bind_eff (expire_if_needed au plan) (\<lambda>(plan, plan_expired).
     bind_eff (invalidate_terminal_challenge au plan) (\<lambda>(plan, invalidated).
     if invalidated then return_eff (plan, plan_expired, False)
     else bind_eff (expire_challenge au plan) (\<lambda>(plan, challenge_expired).
          return_eff (plan, plan_expired, challenge_expired))))"

section \<open>The request\<close>

definition approval_kind_of :: "change_plan \<Rightarrow> string" where
  "approval_kind_of plan = (if cp_status plan = ROLLBACK_PENDING then ''rollback'' else ''apply'')"

definition challenge_bound :: "change_plan \<Rightarrow> string \<Rightarrow> bool" where
  "challenge_bound plan calculated \<longleftrightarrow>
     (let a = cp_approval plan; c = cp_content plan in
      challenge_pending plan \<and> cp_status plan \<in> {AWAITING_APPROVAL, ROLLBACK_PENDING} \<and>
      ca_authority_version a = APPROVAL_AUTHORITY_VERSION \<and> ca_channel a = Some APPROVAL_CHANNEL \<and>
      ca_bound_plan_hash a = Some calculated \<and>
      ca_policy_decision_hash a = map_option pd_policy_decision_hash (cp_policy_decision plan) \<and>
      ca_policy_class a = map_option (\<lambda>d. policy_class_value (pd_policy_class d)) (cp_policy_decision plan) \<and>
      ca_challenge_plan_version a = Some (pc_plan_version c) \<and>
      ca_challenge_target_type a = Some (pc_target_type c) \<and>
      ca_challenge_target_id a = Some (pc_target_id c) \<and>
      ca_challenge_operation a = Some (change_kind_value (pc_operation c)) \<and>
      ca_challenge_risk_level a = Some (risk_level_value (ri_level (pc_risk c))) \<and>
      ca_approval_kind a = approval_kind_of plan \<and>
      present (fst (snd (active_challenge plan))) \<and> present (snd (snd (snd (active_challenge plan)))))"

definition active_challenge_matches :: "authority \<Rightarrow> change_plan \<Rightarrow> string \<Rightarrow> bool gov_op" where
  "active_challenge_matches au plan calculated =
     (if \<not> challenge_bound plan calculated then return_eff False
      else bind_eff (challenge_has_expired au plan) (\<lambda>expired. return_eff (\<not> expired)))"

text \<open>What a caller or the review page is told; the fields that name the state of the request.\<close>

record approval_response =
  ar_status :: string
  ar_approval_kind :: string
  ar_approval_action :: action_kind
  ar_bundle_state :: string
  ar_bound_plan_hash :: "string option"
  ar_challenge_id :: "string option"
  ar_requested_at :: "string option"
  ar_challenge_expires_at :: "string option"

definition approval_pending_response :: "change_plan \<Rightarrow> approval_response" where
  "approval_pending_response plan =
     (case active_challenge plan of (action, challenge_id, requested_at, expires_at) \<Rightarrow>
       \<lparr>ar_status = ''approval_pending'', ar_approval_kind = ca_approval_kind (cp_approval plan),
        ar_approval_action = action, ar_bundle_state = approval_bundle_state plan,
        ar_bound_plan_hash = ca_bound_plan_hash (cp_approval plan), ar_challenge_id = challenge_id,
        ar_requested_at = requested_at, ar_challenge_expires_at = expires_at\<rparr>)"

text \<open>\<open>min(self.now() + APPROVAL_CHALLENGE_TTL, datetime.fromisoformat(plan.expires_at)).isoformat()\<close>.\<close>

definition challenge_end :: "authority \<Rightarrow> plan_content \<Rightarrow> string gov_op" where
  "challenge_end au c =
     bind_eff now (\<lambda>t.
     case au_iso au (pc_expires_at c) of
       None \<Rightarrow> raise_eff GovernanceValueError
     | Some None \<Rightarrow> raise_eff GovernanceTypeError
     | Some (Some e) \<Rightarrow> return_eff (au_time_text au (min (t + APPROVAL_CHALLENGE_TTL) e)))"

definition require_configuration_projection :: "authority \<Rightarrow> bool \<Rightarrow> change_plan \<Rightarrow> unit gov_op" where
  "require_configuration_projection au recompute plan =
     require (au_configuration_projection au recompute (cp_content plan))
       (GovernanceError CONFIGURATION_PROJECTION_UNREVIEWABLE)"

definition require_dashboard_projection :: "authority \<Rightarrow> change_plan \<Rightarrow> unit gov_op" where
  "require_dashboard_projection au plan =
     require (au_dashboard_projection au (cp_content plan)) (GovernanceError CONFIGURATION_VALIDATION_FAILED)"

definition reject_with ::
    "authority \<Rightarrow> change_plan \<Rightarrow> string \<Rightarrow> error_code \<Rightarrow> error_code \<Rightarrow> 'a gov_op" where
  "reject_with au plan event recorded raised =
     bind_eff (record_event au plan event ''rejected'' (Some recorded)) (\<lambda>_. raise_eff (GovernanceError raised))"

text \<open>The approval a request creates.\<close>

definition requested_action ::
    "plan_content \<Rightarrow> policy_decision \<Rightarrow> string \<Rightarrow> string option \<Rightarrow> action_kind \<Rightarrow> approval_action" where
  "requested_action c d calculated projection_hash kind =
     (new_action kind)\<lparr>aa_authority_version := second_action_authority_version kind,
       aa_bound_plan_hash := Some calculated,
       aa_policy_decision_hash := Some (pd_policy_decision_hash d),
       aa_policy_class := Some (policy_class_value (pd_policy_class d)),
       aa_risk_delta := Some (risk_delta_value (pd_risk_delta d)),
       aa_physical_consequence := Some (consequence_value (pd_physical_consequence d)),
       aa_projection_hash := projection_hash\<rparr>"

definition requested_approval ::
    "plan_content \<Rightarrow> policy_decision \<Rightarrow> string \<Rightarrow> string \<Rightarrow> string \<Rightarrow> string \<Rightarrow> string \<Rightarrow> string option
     \<Rightarrow> string option \<Rightarrow> change_approval" where
  "requested_approval c d calculated kind challenge requested_at expires note projection_hash =
     new_approval\<lparr>ca_state := EXTERNAL_PENDING, ca_authority_version := APPROVAL_AUTHORITY_VERSION,
       ca_channel := Some APPROVAL_CHANNEL, ca_bound_plan_hash := Some calculated,
       ca_approval_kind := kind, ca_challenge_id := Some challenge,
       ca_challenge_requested_at := Some requested_at, ca_challenge_expires_at := Some expires,
       ca_challenge_plan_version := Some (pc_plan_version c),
       ca_challenge_target_type := Some (pc_target_type c), ca_challenge_target_id := Some (pc_target_id c),
       ca_challenge_operation := Some (change_kind_value (pc_operation c)),
       ca_challenge_risk_level := Some (risk_level_value (ri_level (pc_risk c))), ca_request_note := note,
       ca_policy_decision_hash := Some (pd_policy_decision_hash d),
       ca_policy_class := Some (policy_class_value (pd_policy_class d)),
       ca_bundle_state := Some ''pending_plan_approval'',
       ca_acknowledgement := map_option (requested_action c d calculated projection_hash) (second_action_kind d)\<rparr>"

definition request_challenge ::
    "authority \<Rightarrow> change_plan \<Rightarrow> policy_decision \<Rightarrow> string \<Rightarrow> string \<Rightarrow> approval_response gov_op" where
  "request_challenge au plan d calculated note =
     bind_eff (timestamp_now au) (\<lambda>requested_at.
     bind_eff (challenge_end au (cp_content plan)) (\<lambda>expires.
     bind_eff (if second_action_kind d = Some SAFETY_CRITICAL_ACKNOWLEDGEMENT
               then case safety_critical_binding au (cp_content plan) of
                   None \<Rightarrow> raise_eff (GovernanceError POLICY_SNAPSHOT_MISMATCH)
                 | Some b \<Rightarrow> return_eff (Some (ab_projection_hash b))
               else return_eff None) (\<lambda>projection_hash.
     bind_eff token_urlsafe (\<lambda>challenge.
     let a = requested_approval (cp_content plan) d calculated (approval_kind_of plan) challenge requested_at
               expires (au_sanitize_note au (take_points 500 note)) projection_hash in
     bind_eff (record_event au (plan\<lparr>cp_approval := a\<rparr>) ''external_approval_requested'' ''success'' None) (\<lambda>saved.
       return_eff (approval_pending_response saved))))))"

text \<open>What is left of the request once the plan has passed its checks and has a policy decision.\<close>

definition approve_checked ::
    "authority \<Rightarrow> change_plan \<Rightarrow> policy_decision \<Rightarrow> string \<Rightarrow> string \<Rightarrow> approval_response gov_op" where
  "approve_checked au plan d expected_plan_hash note =
     (let calculated = plan_hash au plan in
      then_eff (require (expected_plan_hash = calculated) (GovernanceError APPROVAL_HASH_MISMATCH))
      (bind_eff (active_challenge_matches au plan calculated) (\<lambda>matches.
       if matches then return_eff (approval_pending_response plan)
       else
         then_eff (require (\<not> (approval_bundle_state plan = ''fully_approved'' \<or> ca_state (cp_approval plan) = CONSUMED))
                     (GovernanceError APPROVAL_ALREADY_CONSUMED))
         (then_eff (require (cp_status plan \<in> {AWAITING_APPROVAL, ROLLBACK_PENDING})
                     (GovernanceError CHANGE_PLAN_NOT_APPROVED))
         (then_eff (require (pc_valid (cp_content plan))
                     (GovernanceError (if CONFIGURATION_PLAN_CONTRACT_VERSION \<le> pc_contract_version (cp_content plan)
                        then CONFIGURATION_VALIDATION_FAILED else AUTOMATION_VALIDATION_FAILED)))
         (bind_eff (if ca_state (cp_approval plan) = EXTERNAL_PENDING
                    then record_event au (invalidate_approval plan) ''external_approval_invalidated'' ''rejected'' None
                    else return_eff plan) (\<lambda>plan.
           request_challenge au plan d calculated note)))))))"

definition superseded_policy :: "change_plan \<Rightarrow> bool" where
  "superseded_policy plan \<longleftrightarrow>
     (case cp_policy_decision plan of None \<Rightarrow> False | Some d \<Rightarrow> pd_policy_version d \<noteq> POLICY_VERSION)"

definition approve :: "authority \<Rightarrow> string \<Rightarrow> string \<Rightarrow> string \<Rightarrow> approval_response gov_op" where
  "approve au plan_id expected_plan_hash note =
     bind_eff (load_for_projection au plan_id) (\<lambda>plan.
     then_eff (if superseded_policy plan \<and> \<not> au_historical au plan then lift_eff (require_policy_snapshot au plan)
               else return_eff ())
     (bind_eff (resolve_lifecycle au plan) (\<lambda>(plan, _).
     then_eff (require (cp_status plan \<noteq> EXPIRED_PLAN) (GovernanceError CHANGE_PLAN_EXPIRED))
     (then_eff (require (\<not> (cp_status plan = REJECTED_PLAN \<or> ca_state (cp_approval plan) = REJECTED))
                 (GovernanceError CHANGE_PLAN_REJECTED))
     (then_eff (require (\<not> (superseded_policy plan \<and> au_prohibited au plan)) (GovernanceError PROHIBITED_CHANGE))
     (then_eff (lift_eff (require_policy_snapshot au plan))
     (case cp_policy_decision plan of
        None \<Rightarrow> raise_eff (GovernanceError POLICY_SNAPSHOT_REQUIRED)
      | Some d \<Rightarrow>
          if pd_policy_class d = PROHIBITED
          then reject_with au plan ''policy_approval_rejected'' PROHIBITED_CHANGE PROHIBITED_CHANGE
          else if \<not> au_actionable au (cp_content plan)
          then reject_with au plan
                 (if au_replan_required au (cp_content plan) then ''helper_dependency_replan_required''
                  else ''helper_dependency_approval_rejected'')
                 OPERATIONAL_VALIDATION_FAILED OPERATIONAL_VALIDATION_FAILED
          else
            then_eff (require (ca_authority_version (cp_approval plan) = APPROVAL_AUTHORITY_VERSION)
                        (GovernanceError APPROVAL_AUTHORITY_MISMATCH))
            (then_eff (require_configuration_projection au True plan)
            (then_eff (require_dashboard_projection au plan)
            (then_eff (lift_eff (au_normalization au (cp_content plan)))
              (approve_checked au plan d expected_plan_hash note)))))))))))"

section \<open>The review\<close>

definition set_csrf :: "action_kind \<Rightarrow> string option \<Rightarrow> string option \<Rightarrow> change_approval \<Rightarrow> change_approval" where
  "set_csrf action digest issued_at a =
     (if second_action action \<and> ca_acknowledgement a \<noteq> None
      then a\<lparr>ca_acknowledgement := map_option
             (\<lambda>k. k\<lparr>aa_csrf_digest := digest, aa_csrf_issued_at := issued_at\<rparr>) (ca_acknowledgement a)\<rparr>
      else a\<lparr>ca_csrf_digest := digest, ca_csrf_issued_at := issued_at\<rparr>)"

definition require_open :: "change_plan \<Rightarrow> unit gov_op" where
  "require_open plan =
     then_eff (require (cp_status plan \<noteq> EXPIRED_PLAN) (GovernanceError CHANGE_PLAN_EXPIRED))
       (require (ca_state (cp_approval plan) \<noteq> EXPIRED) (GovernanceError EXTERNAL_APPROVAL_EXPIRED))"

text \<open>The nonce goes into the form that the administrator is shown; its digest is stored.\<close>

definition issue_external_csrf :: "authority \<Rightarrow> string \<Rightarrow> string \<Rightarrow> string gov_op" where
  "issue_external_csrf au plan_id challenge_id =
     bind_eff (load_plan au plan_id) (\<lambda>plan.
     bind_eff (resolve_lifecycle au plan) (\<lambda>(plan, _).
     then_eff (require_open plan)
     (then_eff (require_configuration_projection au False plan)
     (then_eff (require_dashboard_projection au plan)
     (case active_challenge plan of (action, active_id, _, _) \<Rightarrow>
      then_eff (require (active_id = Some challenge_id) (GovernanceError EXTERNAL_APPROVAL_INVALID))
      (bind_eff (active_challenge_matches au plan (plan_hash au plan)) (\<lambda>matches.
       then_eff (require matches (GovernanceError EXTERNAL_APPROVAL_INVALID))
       (bind_eff token_urlsafe (\<lambda>nonce.
        bind_eff (timestamp_now au) (\<lambda>issued_at.
        let a = set_csrf action (Some (sha256_hex (au_python au) nonce)) (Some issued_at) (cp_approval plan) in
        bind_eff (record_event au (plan\<lparr>cp_approval := a\<rparr>) ''external_approval_viewed'' ''success'' None) (\<lambda>_.
          return_eff nonce)))))))))))"

end
