(* ===== verification/Approval_Decision.thy ===== *)
theory Approval_Decision
  imports Approval_Operations
begin

text \<open>
  The decision of an administrator on a pending approval (\<open>decide_external_approval\<close>), the check a
  dispatch must pass (\<open>_approval_requirement_error\<close>), the consumption of the approval by the F3 runtime
  (\<open>_consume_approval\<close>) and the supersession of a plan by a later one (\<open>_supersede_prior\<close>).
\<close>

section \<open>The decision\<close>

record admin_decision =
  de_plan_id :: string
  de_challenge_id :: string
  de_expected_plan_hash :: string
  de_approval_kind :: string
  de_csrf_nonce :: string
  de_decision :: string
  de_approver_principal :: string
  de_approval_action :: string
  de_acknowledged_objects :: "string list"
  de_acknowledged_projection_hash :: string

definition reject_external :: "authority \<Rightarrow> change_plan \<Rightarrow> error_code \<Rightarrow> 'a gov_op" where
  "reject_external au plan code = reject_with au plan ''external_approval_decision_failed'' code code"

definition check_external :: "authority \<Rightarrow> change_plan \<Rightarrow> bool \<Rightarrow> error_code \<Rightarrow> unit gov_op" where
  "check_external au plan ok code = (if ok then return_eff () else reject_external au plan code)"

definition decided_response :: "string \<Rightarrow> change_plan \<Rightarrow> action_kind \<Rightarrow> approval_response" where
  "decided_response status plan action =
     \<lparr>ar_status = status, ar_approval_kind = ca_approval_kind (cp_approval plan),
      ar_approval_action = action, ar_bundle_state = approval_bundle_state plan,
      ar_bound_plan_hash = None, ar_challenge_id = None, ar_requested_at = None,
      ar_challenge_expires_at = None\<rparr>"

text \<open>The whole bundle is granted: the plan may be dispatched, or its rollback.\<close>

definition fully_approved :: "change_plan \<Rightarrow> change_plan" where
  "fully_approved plan =
     (let plan = plan\<lparr>cp_approval := (cp_approval plan)\<lparr>ca_bundle_state := Some ''fully_approved''\<rparr>\<rparr> in
      if ca_approval_kind (cp_approval plan) = ''apply'' then plan\<lparr>cp_status := APPROVED_PLAN\<rparr>
      else plan\<lparr>cp_rollback_approved_at := ca_approved_at (cp_approval plan)\<rparr>)"

definition with_action :: "approval_action \<Rightarrow> change_plan \<Rightarrow> change_plan" where
  "with_action k plan = cp_approval_update (\<lambda>a. a\<lparr>ca_acknowledgement := Some k\<rparr>) plan"

text \<open>The changes of a plan that a decision makes.\<close>

definition plan_granted :: "string \<Rightarrow> string \<Rightarrow> change_plan \<Rightarrow> change_plan" where
  "plan_granted approver t plan =
     cp_approval_update (\<lambda>a. a\<lparr>ca_state := APPROVED, ca_approved_at := Some t,
       ca_approval_expires_at := Some (pc_expires_at (cp_content plan)), ca_channel := Some APPROVAL_CHANNEL,
       ca_approver_principal := Some approver,
       ca_principal_separation_enforced := Some (principal_separation_proven approver)\<rparr>) plan"

definition requested_second :: "action_kind \<Rightarrow> string \<Rightarrow> string \<Rightarrow> approval_action \<Rightarrow> approval_action" where
  "requested_second kind challenge requested_at k =
     k\<lparr>aa_state := EXTERNAL_PENDING, aa_challenge_id := Some challenge,
       aa_challenge_requested_at := Some requested_at,
       aa_authority_version := second_action_authority_version kind\<rparr>"

definition bound_second :: "policy_decision \<Rightarrow> string \<Rightarrow> string \<Rightarrow> approval_action \<Rightarrow> approval_action" where
  "bound_second d calculated expires k =
     k\<lparr>aa_bound_plan_hash := Some calculated,
       aa_policy_decision_hash := Some (pd_policy_decision_hash d),
       aa_policy_class := Some (policy_class_value (pd_policy_class d)),
       aa_risk_delta := Some (risk_delta_value (pd_risk_delta d)),
       aa_physical_consequence := Some (consequence_value (pd_physical_consequence d)),
       aa_challenge_expires_at := Some expires\<rparr>"

definition second_awaited :: "action_kind \<Rightarrow> approval_action \<Rightarrow> change_plan \<Rightarrow> change_plan" where
  "second_awaited kind k plan =
     cp_approval_update (\<lambda>a. a\<lparr>ca_bundle_state := Some (pending_state kind),
       ca_same_principal_confirmed := None\<rparr>) (with_action k plan)"

definition second_granted ::
    "(string \<times> string) list option \<Rightarrow> string \<Rightarrow> string \<Rightarrow> approval_action \<Rightarrow> change_plan \<Rightarrow> change_plan" where
  "second_granted objects approver t k plan =
     fully_approved (cp_approval_update (\<lambda>a. a\<lparr>ca_same_principal_confirmed := Some True\<rparr>)
       (with_action (k\<lparr>aa_acknowledged_objects := objects, aa_state := APPROVED, aa_granted_at := Some t,
          aa_approver_principal := Some approver\<rparr>) plan))"

definition plan_rejected :: "string \<Rightarrow> change_plan \<Rightarrow> change_plan" where
  "plan_rejected approver plan =
     (cp_approval_update (\<lambda>a. a\<lparr>ca_state := REJECTED, ca_bundle_state := Some ''rejected'',
        ca_channel := Some APPROVAL_CHANNEL, ca_approver_principal := Some approver,
        ca_principal_separation_enforced := Some (principal_separation_proven approver),
        ca_acknowledgement := map_option
          (\<lambda>k. k\<lparr>aa_state := REJECTED, aa_approver_principal := Some approver\<rparr>) (ca_acknowledgement a)\<rparr>)
        plan)\<lparr>cp_status := REJECTED_PLAN\<rparr>"

text \<open>The second action becomes the active one, bound to the plan and its decision.\<close>

definition projection_bound :: "authority \<Rightarrow> plan_content \<Rightarrow> approval_action \<Rightarrow> bool" where
  "projection_bound au c k \<longleftrightarrow>
     (case safety_critical_binding au c of
        None \<Rightarrow> False | Some b \<Rightarrow> aa_projection_hash k = Some (ab_projection_hash b))"

definition activate_second ::
    "authority \<Rightarrow> change_plan \<Rightarrow> policy_decision \<Rightarrow> string \<Rightarrow> action_kind \<Rightarrow> approval_response gov_op" where
  "activate_second au plan d calculated kind =
     (case ca_acknowledgement (cp_approval plan) of
        None \<Rightarrow> reject_external au plan APPROVAL_SEQUENCE_FAILURE
      | Some k \<Rightarrow>
          then_eff (check_external au plan (aa_kind k = kind) APPROVAL_SEQUENCE_FAILURE)
          (bind_eff (timestamp_now au) (\<lambda>requested_at.
           bind_eff token_urlsafe (\<lambda>challenge.
           let k = requested_second kind challenge requested_at k in
           then_eff (check_external au (with_action k plan)
              (kind \<noteq> SAFETY_CRITICAL_ACKNOWLEDGEMENT \<or> projection_bound au (cp_content plan) k) POLICY_SNAPSHOT_MISMATCH)
           (bind_eff (challenge_end au (cp_content plan)) (\<lambda>expires.
            let plan = second_awaited kind (bound_second d calculated expires k) plan in
            bind_eff (record_event au plan ''external_approval_granted'' ''success'' None) (\<lambda>plan.
            bind_eff (record_event au plan (action_value kind @ ''_requested'') ''success'' None) (\<lambda>plan.
              return_eff (approval_pending_response plan)))))))))"

definition grant_plan_approval ::
    "authority \<Rightarrow> change_plan \<Rightarrow> policy_decision \<Rightarrow> string \<Rightarrow> string \<Rightarrow> approval_response gov_op" where
  "grant_plan_approval au plan d calculated approver =
     bind_eff (timestamp_now au) (\<lambda>t.
     let plan = plan_granted approver t plan in
     case second_action_kind d of
       Some kind \<Rightarrow> activate_second au plan d calculated kind
     | None \<Rightarrow>
         bind_eff (record_event au (fully_approved plan) ''external_approval_granted'' ''success'' None) (\<lambda>plan.
           return_eff (decided_response ''approved'' plan PLAN_APPROVAL)))"

text \<open>The rows the form acknowledged must be exactly those the plan requires.\<close>

definition objects_acknowledged :: "authority \<Rightarrow> acknowledgement_binding \<Rightarrow> admin_decision \<Rightarrow> bool" where
  "objects_acknowledged au b de \<longleftrightarrow>
     de_acknowledged_projection_hash de = ab_projection_hash b \<and> distinct (de_acknowledged_objects de) \<and>
     sort (de_acknowledged_objects de) = sort (acknowledgement_tokens au b)"

definition grant_second_action ::
    "authority \<Rightarrow> change_plan \<Rightarrow> action_kind \<Rightarrow> string \<Rightarrow> admin_decision \<Rightarrow> approval_response gov_op" where
  "grant_second_action au plan action approver de =
     (case ca_acknowledgement (cp_approval plan) of
        None \<Rightarrow> reject_external au plan APPROVAL_SEQUENCE_FAILURE
      | Some k \<Rightarrow>
          then_eff (check_external au plan (aa_kind k = action) APPROVAL_SEQUENCE_FAILURE)
          (bind_eff
            (if action = SAFETY_CRITICAL_ACKNOWLEDGEMENT then
               (case safety_critical_binding au (cp_content plan) of
                  None \<Rightarrow> reject_external au plan POLICY_SNAPSHOT_MISMATCH
                | Some b \<Rightarrow>
                    then_eff (check_external au plan (aa_projection_hash k = Some (ab_projection_hash b))
                                POLICY_SNAPSHOT_MISMATCH)
                      (if objects_acknowledged au b de then return_eff (Some (ab_objects b))
                       else reject_with au plan ''safety_critical_acknowledgement_failed''
                              SAFETY_CRITICAL_ACKNOWLEDGEMENT_MISMATCH SAFETY_CRITICAL_ACKNOWLEDGEMENT_MISMATCH))
             else return_eff (aa_acknowledged_objects k)) (\<lambda>objects.
           bind_eff (timestamp_now au) (\<lambda>t.
           let plan = second_granted objects approver t k plan in
           bind_eff (record_event au plan (action_value (aa_kind k) @ ''_granted'') ''success'' None) (\<lambda>plan.
             return_eff (decided_response ''approved'' plan action))))))"

definition reject_approval :: "authority \<Rightarrow> change_plan \<Rightarrow> action_kind \<Rightarrow> string \<Rightarrow> approval_response gov_op" where
  "reject_approval au plan action approver =
     (let plan = plan_rejected approver plan
      in bind_eff (record_event au plan ''external_approval_rejected'' ''rejected'' (Some CHANGE_PLAN_REJECTED)) (\<lambda>plan.
           return_eff (decided_response ''rejected'' plan action)))"

text \<open>The decision on the active action, once the form has proved genuine.\<close>

definition decide_action ::
    "authority \<Rightarrow> change_plan \<Rightarrow> policy_decision \<Rightarrow> string \<Rightarrow> action_kind \<Rightarrow> admin_decision
     \<Rightarrow> approval_response gov_op" where
  "decide_action au plan d calculated action de =
     (let plan = cp_approval_update (set_csrf action None None) plan;
          approver = take_points 160 (de_approver_principal de)
      in
      then_eff (check_external au plan
          (de_acknowledged_objects de = [] \<and> de_acknowledged_projection_hash de = [] \<or>
           action = SAFETY_CRITICAL_ACKNOWLEDGEMENT \<and> de_decision de = ''approve'') EXTERNAL_APPROVAL_INVALID)
      (if second_action action \<and>
          (ca_acknowledgement (cp_approval plan) = None \<or> ca_approver_principal (cp_approval plan) \<noteq> Some approver)
       then reject_with au plan (action_value action @ ''_failed'') APPROVAL_PRINCIPAL_MISMATCH APPROVAL_PRINCIPAL_MISMATCH
       else if de_decision de = ''approve'' then
         (if action = PLAN_APPROVAL then grant_plan_approval au plan d calculated approver
          else grant_second_action au plan action approver de)
       else if de_decision de = ''reject'' then reject_approval au plan action approver
       else reject_external au plan EXTERNAL_APPROVAL_INVALID))"

definition expected_csrf :: "action_kind \<Rightarrow> change_approval \<Rightarrow> string option" where
  "expected_csrf action a =
     (case ca_acknowledgement a of
        Some k \<Rightarrow> if second_action action then aa_csrf_digest k else ca_csrf_digest a
      | None \<Rightarrow> ca_csrf_digest a)"

definition decide_loaded :: "authority \<Rightarrow> change_plan \<Rightarrow> admin_decision \<Rightarrow> approval_response gov_op" where
  "decide_loaded au plan de =
     (let calculated = plan_hash au plan; a = cp_approval plan in
      case active_challenge plan of (action, active_id, _, _) \<Rightarrow>
      then_eff (check_external au plan (de_approval_action de = action_value action) APPROVAL_SEQUENCE_FAILURE)
      (bind_eff (if active_id = Some (de_challenge_id de) then active_challenge_matches au plan calculated
                 else return_eff False) (\<lambda>matches.
       then_eff (check_external au plan matches EXTERNAL_APPROVAL_INVALID)
       (then_eff (check_external au plan
           (de_expected_plan_hash de = calculated \<and> ca_bound_plan_hash a = Some calculated) APPROVAL_HASH_MISMATCH)
       (case cp_policy_decision plan of
          None \<Rightarrow> reject_external au plan POLICY_SNAPSHOT_MISMATCH
        | Some d \<Rightarrow>
            then_eff (check_external au plan
                (ca_policy_decision_hash a = Some (pd_policy_decision_hash d) \<and>
                 ca_policy_class a = Some (policy_class_value (pd_policy_class d))) POLICY_SNAPSHOT_MISMATCH)
            (then_eff (check_external au plan (de_approval_kind de = ca_approval_kind a) EXTERNAL_APPROVAL_INVALID)
            (then_eff (check_external au plan
                (present (expected_csrf action a) \<and>
                 expected_csrf action a = Some (sha256_hex (au_python au) (de_csrf_nonce de))) EXTERNAL_APPROVAL_INVALID)
            (then_eff (check_external au plan
                (\<not> (de_decision de = ''approve'' \<and> action = PLAN_APPROVAL \<and>
                    pc_contract_version (cp_content plan) = CONFIGURATION_PLAN_CONTRACT_VERSION \<and>
                    \<not> au_configuration_projection au False (cp_content plan))) EXTERNAL_APPROVAL_INVALID)
              (decide_action au plan d calculated action de)))))))))"

definition decide_external_approval :: "authority \<Rightarrow> admin_decision \<Rightarrow> approval_response gov_op" where
  "decide_external_approval au de =
     bind_eff (load_plan au (de_plan_id de)) (\<lambda>plan.
     bind_eff (resolve_lifecycle au plan) (\<lambda>(plan, _).
     then_eff (require_open plan)
     (then_eff (lift_eff (require_policy_snapshot au plan))
     (then_eff (require_configuration_projection au False plan)
     (then_eff (require_dashboard_projection au plan)
     (then_eff (check_external au plan
         (de_approver_principal de \<noteq> [] \<and> de_approver_principal de \<noteq> LEGACY_ANONYMOUS_APPROVER_PRINCIPAL)
         EXTERNAL_APPROVAL_INVALID)
       (decide_loaded au plan de)))))))"

section \<open>Dispatch\<close>

definition external_principal_authority_valid :: "change_approval \<Rightarrow> bool" where
  "external_principal_authority_valid a \<longleftrightarrow>
     ca_principal_separation_enforced a = Some True \<and>
     ca_approver_principal a \<noteq> Some LEGACY_ANONYMOUS_APPROVER_PRINCIPAL"

definition safety_critical_dispatch_error :: "authority \<Rightarrow> change_plan \<Rightarrow> policy_decision \<Rightarrow> error_code option" where
  "safety_critical_dispatch_error au plan d =
     (if SAFETY_CRITICAL_ACKNOWLEDGEMENT \<notin> set (pd_required_acknowledgements d) then None
      else case ca_acknowledgement (cp_approval plan) of
        None \<Rightarrow> Some SAFETY_CRITICAL_ACKNOWLEDGEMENT_REQUIRED
      | Some k \<Rightarrow> first_failure
         ([(aa_kind k \<noteq> SAFETY_CRITICAL_ACKNOWLEDGEMENT \<or>
            aa_authority_version k \<noteq> SAFETY_CRITICAL_ACKNOWLEDGEMENT_AUTHORITY_VERSION \<or>
            aa_state k \<noteq> APPROVED \<or> \<not> present (aa_granted_at k) \<or> \<not> present (aa_challenge_id k) \<or>
            aa_bound_plan_hash k \<noteq> Some (plan_hash au plan) \<or>
            aa_policy_decision_hash k \<noteq> Some (pd_policy_decision_hash d), SAFETY_CRITICAL_ACKNOWLEDGEMENT_REQUIRED)] @
          (case safety_critical_binding au (cp_content plan) of
             None \<Rightarrow> [(True, SAFETY_CRITICAL_ACKNOWLEDGEMENT_MISMATCH)]
           | Some b \<Rightarrow> [(aa_projection_hash k \<noteq> Some (ab_projection_hash b) \<or>
                         aa_acknowledged_objects k \<noteq> Some (ab_objects b), SAFETY_CRITICAL_ACKNOWLEDGEMENT_MISMATCH)]) @
          [(\<not> present (aa_approver_principal k) \<or> aa_approver_principal k \<noteq> ca_approver_principal (cp_approval plan) \<or>
            ca_same_principal_confirmed (cp_approval plan) \<noteq> Some True, APPROVAL_PRINCIPAL_MISMATCH)]))"

text \<open>The checks after the expiry of the approval has been looked at.\<close>

definition requirement_checks ::
    "authority \<Rightarrow> change_plan \<Rightarrow> policy_decision \<Rightarrow> string \<Rightarrow> bool \<Rightarrow> error_code option" where
  "requirement_checks au plan d approval_kind unexpired =
     (let a = cp_approval plan in
      case first_failure
        ([(ca_authority_version a \<noteq> APPROVAL_AUTHORITY_VERSION, APPROVAL_AUTHORITY_MISMATCH),
          (ca_state a \<noteq> APPROVED \<or> ca_channel a \<noteq> Some APPROVAL_CHANNEL \<or> ca_approval_kind a \<noteq> approval_kind \<or>
           \<not> external_principal_authority_valid a \<or> \<not> present (ca_approver_principal a) \<or>
           ca_bound_plan_hash a \<noteq> Some (plan_hash au plan) \<or>
           ca_policy_decision_hash a \<noteq> Some (pd_policy_decision_hash d) \<or>
           ca_policy_class a \<noteq> Some (policy_class_value (pd_policy_class d)) \<or> \<not> unexpired,
           EXTERNAL_APPROVAL_REQUIRED)] @
         (if ELEVATED_RISK_ACKNOWLEDGEMENT \<in> set (pd_required_acknowledgements d) then
            (case ca_acknowledgement a of
               None \<Rightarrow> [(True, ELEVATED_RISK_ACKNOWLEDGEMENT_REQUIRED)]
             | Some k \<Rightarrow>
                 [(aa_state k \<noteq> APPROVED \<or> \<not> present (aa_granted_at k), ELEVATED_RISK_ACKNOWLEDGEMENT_REQUIRED),
                  (aa_approver_principal k \<noteq> ca_approver_principal a \<or> ca_same_principal_confirmed a \<noteq> Some True,
                   APPROVAL_PRINCIPAL_MISMATCH)])
          else [])) of
        Some e \<Rightarrow> Some e
      | None \<Rightarrow>
          (case safety_critical_dispatch_error au plan d of
             Some e \<Rightarrow> Some e
           | None \<Rightarrow> first_failure
               [(cp_status plan \<noteq> (if approval_kind = ''apply'' then APPROVED_PLAN else ROLLBACK_PENDING),
                 EXTERNAL_APPROVAL_REQUIRED),
                (approval_bundle_state plan \<noteq> ''fully_approved'', EXTERNAL_APPROVAL_REQUIRED)]))"

definition unexpired_approval :: "authority \<Rightarrow> change_approval \<Rightarrow> bool gov_op" where
  "unexpired_approval au a =
     (if \<not> present (ca_approval_expires_at a) then return_eff False
      else catch_eff
        (bind_eff (time_reached au (the (ca_approval_expires_at a))) (\<lambda>reached. return_eff (\<not> reached)))
        (\<lambda>e. if e = GovernanceValueError then return_eff False else raise_eff e))"

definition approval_requirement_error :: "authority \<Rightarrow> change_plan \<Rightarrow> string \<Rightarrow> error_code option gov_op" where
  "approval_requirement_error au plan approval_kind =
     (case cp_policy_decision plan of
        None \<Rightarrow> return_eff (Some POLICY_SNAPSHOT_REQUIRED)
      | Some d \<Rightarrow>
          bind_eff (lift_eff (policy_snapshot_matches au plan)) (\<lambda>matches.
          if \<not> matches then return_eff (Some POLICY_SNAPSHOT_MISMATCH)
          else if pd_policy_class d = PROHIBITED then return_eff (Some PROHIBITED_CHANGE)
          else if \<not> au_configuration_projection au False (cp_content plan)
          then return_eff (Some CONFIGURATION_PROJECTION_UNREVIEWABLE)
          else bind_eff (unexpired_approval au (cp_approval plan)) (\<lambda>unexpired.
            return_eff (requirement_checks au plan d approval_kind unexpired))))"

definition require_dispatch_approval :: "authority \<Rightarrow> change_plan \<Rightarrow> string \<Rightarrow> unit gov_op" where
  "require_dispatch_approval au plan approval_kind =
     bind_eff (approval_requirement_error au plan approval_kind) (\<lambda>error.
     case error of
       None \<Rightarrow> return_eff ()
     | Some e \<Rightarrow> reject_with au plan ''change_apply_rejected'' e e)"

definition consumed_approval :: "string \<Rightarrow> change_approval \<Rightarrow> change_approval" where
  "consumed_approval t a =
     a\<lparr>ca_state := CONSUMED, ca_consumed_at := Some t, ca_bundle_state := Some ''consumed'',
       ca_acknowledgement := map_option (\<lambda>k. k\<lparr>aa_state := CONSUMED, aa_consumed_at := Some t\<rparr>)
         (ca_acknowledgement a)\<rparr>"

definition consume_approval_bundle :: "authority \<Rightarrow> change_plan \<Rightarrow> change_plan gov_op" where
  "consume_approval_bundle au plan =
     then_eff (lift_eff (require_policy_snapshot au plan))
     (then_eff (require_dispatch_approval au plan (ca_approval_kind (cp_approval plan)))
     (bind_eff (timestamp_now au) (\<lambda>t.
       return_eff (cp_approval_update (consumed_approval t) plan))))"

fun approval_state_value :: "approval_state \<Rightarrow> string" where
  "approval_state_value REQUIRED = ''required''"
| "approval_state_value EXTERNAL_PENDING = ''external_pending''"
| "approval_state_value APPROVED = ''approved''"
| "approval_state_value REJECTED = ''rejected''"
| "approval_state_value CONSUMED = ''consumed''"
| "approval_state_value EXPIRED = ''expired''"
| "approval_state_value INVALIDATED = ''invalidated''"

definition optional_bool :: "bool option \<Rightarrow> json" where
  "optional_bool b = (case b of None \<Rightarrow> JNull | Some b \<Rightarrow> JBool b)"

definition safety_critical_bundle_fields :: "approval_action \<Rightarrow> dict" where
  "safety_critical_bundle_fields k =
     (case aa_projection_hash k of None \<Rightarrow> [] | Some h \<Rightarrow> [(''safety_critical_projection_hash'', JStr h)]) @
     (case aa_acknowledged_objects k of None \<Rightarrow> []
      | Some rows \<Rightarrow> [(''acknowledged_objects'', JList (map (\<lambda>(op, obj).
          JDict [(''operation_id'', JStr op), (''object_id'', JStr obj)]) rows))])"

definition approval_bundle_hash :: "authority \<Rightarrow> change_plan \<Rightarrow> string" where
  "approval_bundle_hash au plan =
     (let a = cp_approval plan in stable_hash au (JDict
       [(''authority_version'', JInt (ca_authority_version a)),
        (''channel'', optional_text (ca_channel a)),
        (''approver_principal'', optional_text (ca_approver_principal a)),
        (''principal_separation_enforced'', optional_bool (ca_principal_separation_enforced a)),
        (''bound_plan_hash'', optional_text (ca_bound_plan_hash a)),
        (''approval_kind'', JStr (ca_approval_kind a)),
        (''approval_expires_at'', optional_text (ca_approval_expires_at a)),
        (''policy_decision_hash'', optional_text (ca_policy_decision_hash a)),
        (''policy_class'', optional_text (ca_policy_class a)),
        (''bundle_state'', optional_text (ca_bundle_state a)),
        (''same_principal_confirmed'', optional_bool (ca_same_principal_confirmed a)),
        (''elevated'',
         (case ca_acknowledgement a of
            None \<Rightarrow> JNull
          | Some k \<Rightarrow> JDict
             ([(''action_kind'', JStr (action_value (aa_kind k))),
               (''state'', JStr (approval_state_value (aa_state k))),
               (''principal'', optional_text (aa_approver_principal k)),
               (''bound_plan_hash'', optional_text (aa_bound_plan_hash k)),
               (''policy_decision_hash'', optional_text (aa_policy_decision_hash k))] @
              safety_critical_bundle_fields k)))]))"

text \<open>
  The dispatch of one child of an execution task.  \<open>witnessed\<close> tells whether the children or the task hold
  the evidence that this very execution consumed the approval before: then the call changes nothing.
\<close>

record child_declaration =
  cd_plan_id :: string
  cd_plan_hash :: string
  cd_approval_bundle_hash :: string
  cd_execution_request_id :: string

datatype consumption = Consumed | Replayed

definition consume_approval :: "authority \<Rightarrow> child_declaration \<Rightarrow> bool \<Rightarrow> consumption gov_op" where
  "consume_approval au cd witnessed =
     bind_eff (load_plan au (cd_plan_id cd)) (\<lambda>plan.
     then_eff (require (plan_hash au plan = cd_plan_hash cd) (GovernanceError APPROVAL_HASH_MISMATCH))
     (if ca_state (cp_approval plan) = CONSUMED then
        then_eff (require witnessed (GovernanceError APPROVAL_ALREADY_CONSUMED)) (return_eff Replayed)
      else
        then_eff (lift_eff (require_policy_snapshot au plan))
        (then_eff (require_dispatch_approval au plan ''apply'')
        (then_eff (require (approval_bundle_hash au plan = cd_approval_bundle_hash cd)
                    (GovernanceError APPROVAL_HASH_MISMATCH))
        (bind_eff (consume_approval_bundle au plan) (\<lambda>plan.
         let plan = plan\<lparr>cp_status := APPLYING, cp_execution_outcome := Some ''dispatching'',
               cp_apply_request_id := Some (cd_execution_request_id cd)\<rparr>
         in bind_eff (record_event au plan ''external_approval_consumed'' ''success'' None) (\<lambda>_.
              return_eff Consumed)))))))"

section \<open>Supersession\<close>

definition SUPPORTED_HELPER_TYPES :: "string list" where
  "SUPPORTED_HELPER_TYPES = [''input_boolean'', ''input_number'']"

definition resolved_resource_type :: "string \<Rightarrow> string option \<Rightarrow> governance_error + string" where
  "resolved_resource_type resource_type helper_type =
     (if resource_type = ''helper'' then
        (case helper_type of
           None \<Rightarrow> Inl (GovernanceError CONFIGURATION_VALIDATION_FAILED)
         | Some t \<Rightarrow> and_then (demand (t \<in> set SUPPORTED_HELPER_TYPES)
                      (GovernanceError CONFIGURATION_VALIDATION_FAILED)) (\<lambda>_. Inr t))
      else and_then (demand (\<not> present helper_type) (GovernanceError CONFIGURATION_VALIDATION_FAILED))
             (\<lambda>_. Inr resource_type))"

definition operation_target_key :: "configuration_operation \<Rightarrow> governance_error + (string \<times> string)" where
  "operation_target_key op =
     and_then (resolved_resource_type (co_resource_type op) (co_helper_type op)) (\<lambda>t. Inr (t, co_target_id op))"

definition plan_target_keys :: "plan_content \<Rightarrow> governance_error + (string \<times> string) list" where
  "plan_target_keys c =
     (if pc_contract_version c = OPERATIONAL_PLAN_CONTRACT_VERSION then
        Inr (if pc_operation c = CREATE_FULL_BACKUP then [(''operational_backup'', ''global'')]
             else [(''operational_'' @ change_kind_value (pc_operation c), pc_target_id c)])
      else if pc_contract_version c = CONFIGURATION_PLAN_CONTRACT_VERSION then
        collect operation_target_key (pc_operations c)
      else Inr [(pc_target_type c, pc_target_id c)])"

definition projection_failure :: "governance_error \<Rightarrow> bool" where
  "projection_failure e \<longleftrightarrow>
     e \<in> set (map GovernanceError [POLICY_SNAPSHOT_MISMATCH, APPROVAL_AUTHORITY_MISMATCH,
       APPROVAL_PRINCIPAL_MISMATCH, APPROVAL_SEQUENCE_FAILURE])"

text \<open>
  One turn of the loop.  A load that fails with a projection failure, or with the refusal of a rollback
  source (\<open>source_refusal\<close>), leaves the record alone.
\<close>

definition supersede_plan ::
    "authority \<Rightarrow> (governance_error \<Rightarrow> bool) \<Rightarrow> string \<Rightarrow> (string \<times> string) list \<Rightarrow> string \<Rightarrow> unit gov_op" where
  "supersede_plan au source_refusal new_plan_id new_targets plan_id =
     bind_eff (catch_eff (bind_eff (load_plan au plan_id) (\<lambda>plan. return_eff (Some plan)))
        (\<lambda>e. if projection_failure e \<or> source_refusal e then return_eff None else raise_eff e)) (\<lambda>loaded.
     case loaded of
       None \<Rightarrow> return_eff ()
     | Some plan \<Rightarrow>
         if pc_plan_id (cp_content plan) = new_plan_id then return_eff ()
         else
           bind_eff (lift_eff (plan_target_keys (cp_content plan))) (\<lambda>targets.
           if set targets \<inter> set new_targets = {} then return_eff ()
           else
             bind_eff (resolve_lifecycle au plan) (\<lambda>(plan, _).
             if is_terminal_plan plan \<or>
                cp_status plan \<notin> {AWAITING_APPROVAL, APPROVED_PLAN, ROLLBACK_PENDING} then return_eff ()
             else
               let plan = (invalidate_approval plan)\<lparr>cp_status := SUPERSEDED_PLAN\<rparr> in
               bind_eff (if present (ca_challenge_id (cp_approval plan))
                         then record_event au plan ''external_approval_invalidated'' ''rejected'' None
                         else return_eff plan) (\<lambda>plan.
               bind_eff (record_event au plan ''change_plan_superseded'' ''rejected'' None) (\<lambda>_. return_eff ())))))"

fun supersede_each ::
    "authority \<Rightarrow> (governance_error \<Rightarrow> bool) \<Rightarrow> string \<Rightarrow> (string \<times> string) list \<Rightarrow> string list \<Rightarrow> unit gov_op" where
  "supersede_each au source_refusal new_plan_id new_targets [] = return_eff ()"
| "supersede_each au source_refusal new_plan_id new_targets (plan_id # plan_ids) =
     then_eff (supersede_plan au source_refusal new_plan_id new_targets plan_id)
       (supersede_each au source_refusal new_plan_id new_targets plan_ids)"

text \<open>\<open>plan_ids\<close> is what \<open>active_plan_ids\<close> gives.\<close>

definition supersede_prior ::
    "authority \<Rightarrow> (governance_error \<Rightarrow> bool) \<Rightarrow> plan_content \<Rightarrow> string list \<Rightarrow> unit gov_op" where
  "supersede_prior au source_refusal new_plan plan_ids =
     bind_eff (lift_eff (plan_target_keys new_plan)) (\<lambda>new_targets.
     then_eff storage_step
       (supersede_each au source_refusal (pc_plan_id new_plan) new_targets plan_ids))"

section \<open>Reading\<close>

definition get_plan :: "authority \<Rightarrow> string \<Rightarrow> change_plan gov_op" where
  "get_plan au plan_id =
     bind_eff (load_for_projection au plan_id) (\<lambda>plan.
     bind_eff (resolve_lifecycle au plan) (\<lambda>(plan, _). return_eff plan))"

end
