(* ===== verification/Approval_Steps.thy ===== *)
theory Approval_Steps
  imports Approval_Decision
begin

text \<open>
  What an operation may do to a stored plan: \<open>plan_step\<close>, one change of a plan that the code saves, with
  the call that makes it.  The lemmas of this theory reduce each operation to these steps, so that a
  property of every history of calls is an induction over steps and never looks at the operations again.
\<close>

section \<open>Outcomes: where an effect ends, and how it gets there\<close>

definition outcome ::
    "('s \<Rightarrow> 's \<Rightarrow> bool) \<Rightarrow> ('s \<Rightarrow> bool) \<Rightarrow> ('s, 'e, 'a) effect \<Rightarrow> ('a \<Rightarrow> 's \<Rightarrow> bool) \<Rightarrow> bool" where
  "outcome R P m Q \<longleftrightarrow> (\<forall>s r t. P s \<longrightarrow> m s = (r, t) \<longrightarrow> R s t \<and> (\<forall>x. r = Inr x \<longrightarrow> Q x t))"

lemma outcomeI:
  "(\<And>s r t. P s \<Longrightarrow> m s = (r, t) \<Longrightarrow> R s t \<and> (\<forall>x. r = Inr x \<longrightarrow> Q x t)) \<Longrightarrow> outcome R P m Q"
  by (simp add: outcome_def)

lemma outcome_relation: "outcome R P m Q \<Longrightarrow> P s \<Longrightarrow> m s = (r, t) \<Longrightarrow> R s t"
  by (simp add: outcome_def)

lemma outcome_result: "outcome R P m Q \<Longrightarrow> P s \<Longrightarrow> m s = (Inr x, t) \<Longrightarrow> Q x t"
  by (simp add: outcome_def)

lemma outcome_conseq:
  "outcome R P m Q \<Longrightarrow> (\<And>s. P' s \<Longrightarrow> P s) \<Longrightarrow> (\<And>x s. Q x s \<Longrightarrow> Q' x s) \<Longrightarrow> outcome R P' m Q'"
  unfolding outcome_def by blast

context guarantee_relation
begin

lemma outcome_bind:
  assumes "outcome R P m W" and "\<And>x. outcome R (W x) (f x) Q"
  shows "outcome R P (bind_eff m f) Q"
proof (rule outcomeI)
  fix s r u
  assume P: "P s" and run: "bind_eff m f s = (r, u)"
  show "R s u \<and> (\<forall>x. r = Inr x \<longrightarrow> Q x u)"
  proof (cases m s rule: effect_cases)
    case (raised e t)
    with run have "u = t" "r = Inl e" by (auto simp: bind_eff_def)
    with raised P assms(1) show ?thesis by (auto dest: outcome_relation)
  next
    case (returned x t)
    with run have "f x t = (r, u)" by (simp add: bind_eff_def)
    moreover have "R s t" "W x t" using returned P assms(1) by (auto dest: outcome_relation outcome_result)
    ultimately show ?thesis using assms(2) [of x] unfolding outcome_def by (blast intro: trans)
  qed
qed

lemma outcome_then:
  "outcome R P m (\<lambda>_. W) \<Longrightarrow> outcome R W k Q \<Longrightarrow> outcome R P (then_eff m k) Q"
  unfolding then_eff_def by (rule outcome_bind)

lemma outcome_return: "(\<And>s. P s \<Longrightarrow> Q x s) \<Longrightarrow> outcome R P (return_eff x) Q"
  by (simp add: outcome_def return_eff_def refl)

lemma outcome_raise: "outcome R P (raise_eff e) Q"
  by (simp add: outcome_def raise_eff_def refl)

lemma outcome_require: "(b \<Longrightarrow> outcome R P k Q) \<Longrightarrow> outcome R P (then_eff (require b e) k) Q"
  by (cases b) (simp_all add: outcome_raise)

lemma outcome_lift_then:
  "(\<And>x. z = Inr x \<Longrightarrow> outcome R P k Q) \<Longrightarrow> outcome R P (then_eff (lift_eff z) k) Q"
  by (cases z) (simp_all add: then_eff_def bind_eff_def lift_eff_def outcome_def refl)

lemma outcome_lift_bind:
  "(\<And>x. z = Inr x \<Longrightarrow> outcome R P (f x) Q) \<Longrightarrow> outcome R P (bind_eff (lift_eff z) f) Q"
  by (cases z) (simp_all add: bind_eff_def lift_eff_def outcome_def refl)

lemma outcome_if:
  "(b \<Longrightarrow> outcome R P m Q) \<Longrightarrow> (\<not> b \<Longrightarrow> outcome R P k Q) \<Longrightarrow> outcome R P (if b then m else k) Q"
  by simp

lemma outcome_option:
  "(z = None \<Longrightarrow> outcome R P n Q) \<Longrightarrow> (\<And>x. z = Some x \<Longrightarrow> outcome R P (f x) Q) \<Longrightarrow>
   outcome R P (case z of None \<Rightarrow> n | Some x \<Rightarrow> f x) Q"
  by (cases z) simp_all

text \<open>A call that only looks: what it returns is all that matters.\<close>

lemma outcome_quiet:
  assumes "guarantees (same f) m" and "\<And>s t. f s = f t \<Longrightarrow> R s t" and "\<And>s t. f s = f t \<Longrightarrow> P s \<Longrightarrow> P t"
    and "yields V m" and "\<And>x. V x \<Longrightarrow> outcome R P (k x) Q"
  shows "outcome R P (bind_eff m k) Q"
proof (rule outcome_bind [where W = "\<lambda>x s. P s \<and> V x"])
  show "outcome R P m (\<lambda>x s. P s \<and> V x)"
  proof (rule outcomeI)
    fix s r t
    assume "P s" "m s = (r, t)"
    moreover from this assms(1) have "f t = f s" by (auto dest: guaranteesD simp: same_def)
    ultimately show "R s t \<and> (\<forall>x. r = Inr x \<longrightarrow> P t \<and> V x)"
      using assms(2) [of s t] assms(3) [of s t] assms(4) by (auto dest: yieldsD)
  qed
  show "outcome R (\<lambda>s. P s \<and> V x) (k x) Q" for x
    using assms(5) [of x] by (auto simp: outcome_def)
qed

end

section \<open>Quiet calls\<close>

definition held :: "governance \<Rightarrow> (string \<times> change_plan) list \<times> (nat \<Rightarrow> string)" where
  "held g = (gv_plans g, gv_tokens g)"

abbreviation quiet :: "'a gov_op \<Rightarrow> bool" where
  "quiet \<equiv> guarantees (same held)"

named_theorems quiet_rules \<open>operations that leave the stored plans alone\<close>

lemma quiet_now [quiet_rules]: "quiet now"
  unfolding now_def by (intro guarantee_rules untouched.update_guar) (simp add: same_def held_def)

lemma quiet_timestamp [quiet_rules]: "quiet (timestamp_now au)"
  unfolding timestamp_now_def by (intro guarantee_rules quiet_rules)

lemma quiet_token [quiet_rules]: "quiet token_urlsafe"
  unfolding token_urlsafe_def by (intro guarantee_rules untouched.update_guar) (simp add: same_def held_def)

lemma quiet_storage [quiet_rules]: "quiet storage_step"
  unfolding storage_step_def by (intro guarantee_rules untouched.update_guar) (simp add: same_def held_def)

lemma quiet_after_save [quiet_rules]: "quiet after_save"
  unfolding after_save_def by (intro guarantee_rules)

lemma quiet_read_plan [quiet_rules]: "quiet (read_plan i)"
  unfolding read_plan_def by (intro guarantee_rules quiet_rules)

lemma quiet_load_plan [quiet_rules]: "quiet (load_plan au i)"
  unfolding load_plan_def require_plan_safe_def by (intro guarantee_rules quiet_rules)

lemma quiet_load_for_projection [quiet_rules]: "quiet (load_for_projection au i)"
  unfolding load_for_projection_def require_plan_safe_def by (intro guarantee_rules quiet_rules)

lemma quiet_time_reached [quiet_rules]: "quiet (time_reached au t)"
  unfolding time_reached_def by (intro guarantee_rules quiet_rules)

lemma quiet_expiration [quiet_rules]: "quiet (plan_expiration_applies au p)"
  unfolding plan_expiration_applies_def by (intro guarantee_rules quiet_rules)

lemma quiet_challenge_expired [quiet_rules]: "quiet (challenge_has_expired au p)"
  unfolding challenge_has_expired_def by (intro guarantee_rules quiet_rules)

lemma quiet_challenge_matches [quiet_rules]: "quiet (active_challenge_matches au p h)"
  unfolding active_challenge_matches_def by (intro guarantee_rules quiet_rules)

lemma quiet_challenge_end [quiet_rules]: "quiet (challenge_end au c)"
  unfolding challenge_end_def by (intro guarantee_rules quiet_rules)

lemma quiet_unexpired [quiet_rules]: "quiet (unexpired_approval au a)"
  unfolding unexpired_approval_def by (intro guarantee_rules quiet_rules)

lemma quiet_requirement_error [quiet_rules]: "quiet (approval_requirement_error au p k)"
  unfolding approval_requirement_error_def by (intro guarantee_rules quiet_rules)

text \<open>A sequence of checks passes when none of them fails.\<close>

lemma first_failure_simps [simp]:
  "first_failure [] = None"
  "first_failure ((b, e) # xs) = (if b then Some e else first_failure xs)"
  by (simp_all add: first_failure_def)

lemma first_failure_append [simp]:
  "first_failure (xs @ ys) = (case first_failure xs of None \<Rightarrow> first_failure ys | Some e \<Rightarrow> Some e)"
  by (induction xs) (auto simp: first_failure_def)

text \<open>What these calls return.\<close>

lemma timestamp_yields: "yields (\<lambda>t. t \<in> range (au_time_text au)) (timestamp_now au)"
  unfolding timestamp_now_def by (intro yield_rules) simp

lemma challenge_end_yields: "yields (\<lambda>t. t \<in> range (au_time_text au)) (challenge_end au c)"
  unfolding challenge_end_def
  by (intro yield_rules) (auto intro!: yield_rules split: option.split)

lemma challenge_matches_yields: "yields (\<lambda>b. b \<longrightarrow> challenge_bound p h) (active_challenge_matches au p h)"
  unfolding active_challenge_matches_def by (auto intro!: yield_rules)

lemma requirement_error_yields:
  "yields (\<lambda>e. e = None \<longrightarrow> (\<exists>d. cp_policy_decision p = Some d \<and> requirement_checks au p d k True = None))
     (approval_requirement_error au p k)"
proof -
  have unexpired: "requirement_checks au p d k True = None" if "requirement_checks au p d k b = None" for b d
    using that by (cases b) (simp_all add: requirement_checks_def Let_def split: if_splits)
  show ?thesis
    unfolding approval_requirement_error_def
    by (auto intro!: yield_rules yields_lift split: option.split dest: unexpired)
qed

section \<open>Steps of a plan\<close>

text \<open>
  The calls that reach the governance service, and the outcome of an execution that its projection writes
  into the plan.
\<close>

datatype governance_call =
    RequestApproval string string string
  | ReviewApproval string string
  | DecideApproval admin_decision
  | ReadPlan string
  | SupersedePlans "governance_error \<Rightarrow> bool" plan_content "string list"
  | DispatchChild child_declaration bool
  | SettleExecution string plan_status "string option"

definition settled_statuses :: "plan_status list" where
  "settled_statuses = [APPLIED, VERIFICATION_REQUIRED, FAILED, VERIFICATION_FAILED]"

definition binding_hash :: "authority \<Rightarrow> plan_content \<Rightarrow> policy_decision \<Rightarrow> string option" where
  "binding_hash au c d =
     (if second_action_kind d = Some SAFETY_CRITICAL_ACKNOWLEDGEMENT
      then map_option ab_projection_hash (safety_critical_binding au c) else None)"

text \<open>An administrator decides on the pending challenge of a plan.\<close>

definition decides ::
    "authority \<Rightarrow> governance_call \<Rightarrow> change_plan \<Rightarrow> policy_decision \<Rightarrow> admin_decision \<Rightarrow> action_kind \<Rightarrow> bool" where
  "decides au call p d de action \<longleftrightarrow>
     call = DecideApproval de \<and> cp_policy_decision p = Some d \<and> pd_policy_class d \<noteq> PROHIBITED \<and>
     approval_bundle_integrity_error au p = None \<and>
     challenge_bound p (plan_hash au p) \<and> fst (active_challenge p) = action \<and>
     de_plan_id de = pc_plan_id (cp_content p) \<and> de_approval_action de = action_value action \<and>
     de_expected_plan_hash de = plan_hash au p \<and> de_approver_principal de \<noteq> [] \<and>
     de_approver_principal de \<noteq> LEGACY_ANONYMOUS_APPROVER_PRINCIPAL"

definition approver_of :: "admin_decision \<Rightarrow> string" where
  "approver_of de = take_points 160 (de_approver_principal de)"

text \<open>What a granted second action records: exactly the objects of the plan's binding, all acknowledged.\<close>

definition objects_fit ::
    "authority \<Rightarrow> plan_content \<Rightarrow> action_kind \<Rightarrow> admin_decision \<Rightarrow> approval_action
     \<Rightarrow> (string \<times> string) list option \<Rightarrow> bool" where
  "objects_fit au c action de k objects \<longleftrightarrow>
     (if action = SAFETY_CRITICAL_ACKNOWLEDGEMENT
      then case safety_critical_binding au c of
          None \<Rightarrow> False | Some b \<Rightarrow> objects = Some (ab_objects b) \<and> objects_acknowledged au b de
      else objects = aa_acknowledged_objects k)"

inductive plan_step ::
    "authority \<Rightarrow> string set \<Rightarrow> governance_call \<Rightarrow> change_plan \<Rightarrow> change_plan \<Rightarrow> bool"
    for au tokens call where
  annotated: "plan_step au tokens call p (p\<lparr>cp_updated_at := t, cp_events := es\<rparr>)"
| expired: "plan_step au tokens call p ((invalidate_approval p)\<lparr>cp_status := EXPIRED_PLAN\<rparr>)"
| superseded: "plan_step au tokens call p ((invalidate_approval p)\<lparr>cp_status := SUPERSEDED_PLAN\<rparr>)"
| invalidated: "plan_step au tokens call p (invalidate_approval p)"
| lapsed: "plan_step au tokens call p (cp_approval_update (close_approval EXPIRED ''expired'') p)"
| nonce: "plan_step au tokens call p (cp_approval_update (set_csrf action digest issued_at) p)"
| requested:
    "call = RequestApproval (pc_plan_id (cp_content p)) (plan_hash au p) note \<Longrightarrow>
     cp_policy_decision p = Some d \<Longrightarrow> pd_policy_class d \<noteq> PROHIBITED \<Longrightarrow>
     cp_status p \<in> {AWAITING_APPROVAL, ROLLBACK_PENDING} \<Longrightarrow>
     challenge \<in> tokens \<Longrightarrow> expires \<in> range (au_time_text au) \<Longrightarrow>
     plan_step au tokens call p (p\<lparr>cp_approval := requested_approval (cp_content p) d (plan_hash au p)
       (approval_kind_of p) challenge requested_at expires request_note (binding_hash au (cp_content p) d)\<rparr>)"
| granted:
    "decides au call p d de PLAN_APPROVAL \<Longrightarrow> de_decision de = ''approve'' \<Longrightarrow>
     second_action_kind d = None \<Longrightarrow> t \<in> range (au_time_text au) \<Longrightarrow>
     plan_step au tokens call p (fully_approved (plan_granted (approver_of de) t p))"
| awaiting:
    "decides au call p d de PLAN_APPROVAL \<Longrightarrow> de_decision de = ''approve'' \<Longrightarrow>
     second_action_kind d = Some kind \<Longrightarrow> ca_acknowledgement (cp_approval p) = Some k \<Longrightarrow>
     t \<in> range (au_time_text au) \<Longrightarrow> challenge \<in> tokens \<Longrightarrow> expires \<in> range (au_time_text au) \<Longrightarrow>
     plan_step au tokens call p (second_awaited kind
       (bound_second d (plan_hash au p) expires (requested_second kind challenge requested_at k))
       (plan_granted (approver_of de) t p))"
| acknowledged:
    "decides au call p d de action \<Longrightarrow> action \<noteq> PLAN_APPROVAL \<Longrightarrow> de_decision de = ''approve'' \<Longrightarrow>
     ca_acknowledgement (cp_approval p) = Some k \<Longrightarrow> ca_approver_principal (cp_approval p) = Some (approver_of de) \<Longrightarrow>
     objects_fit au (cp_content p) action de k objects \<Longrightarrow>
     t \<in> range (au_time_text au) \<Longrightarrow>
     plan_step au tokens call p (second_granted objects (approver_of de) t k p)"
| rejected:
    "decides au call p d de action \<Longrightarrow> plan_step au tokens call p (plan_rejected (approver_of de) p)"
| consumed:
    "call = DispatchChild cd witnessed \<Longrightarrow> cd_plan_id cd = pc_plan_id (cp_content p) \<Longrightarrow>
     cp_policy_decision p = Some d \<Longrightarrow> requirement_checks au p d ''apply'' True = None \<Longrightarrow>
     plan_step au tokens call p (p\<lparr>cp_approval := consumed_approval t (cp_approval p), cp_status := APPLYING,
       cp_execution_outcome := outcome_text, cp_apply_request_id := request_id\<rparr>)"
| settled:
    "call = SettleExecution (pc_plan_id (cp_content p)) st res \<Longrightarrow> st \<in> set settled_statuses \<Longrightarrow>
     plan_step au tokens call p (p\<lparr>cp_status := st, cp_execution_outcome := res\<rparr>)"

abbreviation plan_steps ::
    "authority \<Rightarrow> string set \<Rightarrow> governance_call \<Rightarrow> change_plan \<Rightarrow> change_plan \<Rightarrow> bool" where
  "plan_steps au tokens call \<equiv> (plan_step au tokens call)\<^sup>*\<^sup>*"

lemmas plan_change_defs =
  invalidate_approval_def close_approval_def fully_approved_def plan_granted_def second_awaited_def
  bound_second_def requested_second_def with_action_def second_granted_def plan_rejected_def set_csrf_def
  consumed_approval_def Let_def

lemma step_content [simp]:
  "plan_step au tokens call p q \<Longrightarrow> cp_content q = cp_content p \<and> cp_policy_decision q = cp_policy_decision p"
  by (induction rule: plan_step.induct) (simp_all add: plan_change_defs)

lemma steps_content: "plan_steps au tokens call p q \<Longrightarrow> cp_content q = cp_content p"
  by (induction rule: rtranclp_induct) simp_all

lemma plan_hash_cong:
  "cp_content q = cp_content p \<Longrightarrow> cp_policy_decision q = cp_policy_decision p \<Longrightarrow>
   ca_approval_kind (cp_approval q) = ca_approval_kind (cp_approval p) \<Longrightarrow>
   ca_authority_version (cp_approval q) = ca_authority_version (cp_approval p) \<Longrightarrow>
   plan_hash au q = plan_hash au p"
  by (simp add: plan_hash_def)

text \<open>No approval of a plan of the prohibited class is ever pending or granted.\<close>

definition barred :: "change_plan \<Rightarrow> bool" where
  "barred p \<longleftrightarrow>
     (map_option pd_policy_class (cp_policy_decision p) = Some PROHIBITED \<longrightarrow>
      ca_state (cp_approval p) \<noteq> EXTERNAL_PENDING \<and> ca_state (cp_approval p) \<noteq> APPROVED)"

lemma barred_step: "plan_step au tokens call p q \<Longrightarrow> barred p \<Longrightarrow> barred q"
  by (induction rule: plan_step.induct) (auto simp: barred_def decides_def plan_change_defs)

lemma barred_steps: "plan_steps au tokens call p q \<Longrightarrow> barred p \<Longrightarrow> barred q"
  by (induction rule: rtranclp_induct) (auto intro: barred_step)

end
