(* ===== verification/Approval_Simulation.thy ===== *)
theory Approval_Simulation
  imports Approval_Steps
begin

text \<open>
  Every operation changes every stored plan along \<open>plan_step\<close>, and no plan appears or disappears: the
  refinement of the operations by the steps, one lemma for each operation.
\<close>

section \<open>The repository moves along steps\<close>

definition moves ::
    "authority \<Rightarrow> string set \<Rightarrow> governance_call \<Rightarrow> governance \<Rightarrow> governance \<Rightarrow> bool" where
  "moves au tokens call g h \<longleftrightarrow> gv_tokens h = gv_tokens g \<and>
     (\<forall>i. rel_option (plan_steps au tokens call) (map_of (gv_plans g) i) (map_of (gv_plans h) i))"

lemma rel_option_trans:
  assumes "rel_option r\<^sup>*\<^sup>* x y" and "rel_option r\<^sup>*\<^sup>* y z"
  shows "rel_option r\<^sup>*\<^sup>* x z"
  using assms by (cases x; cases y; cases z) auto

interpretation evolving: guarantee_relation "moves au tokens call" for au tokens call
proof unfold_locales
  show "moves au tokens call s s" for s
    by (simp add: moves_def option.rel_refl)
  show "moves au tokens call s t \<Longrightarrow> moves au tokens call t u \<Longrightarrow> moves au tokens call s u" for s t u
    unfolding moves_def by (metis rel_option_trans)
qed

definition keyed :: "governance \<Rightarrow> bool" where
  "keyed g \<longleftrightarrow> list_all (\<lambda>i. map_option (\<lambda>p. pc_plan_id (cp_content p)) (map_of (gv_plans g) i) = Some i)
     (map fst (gv_plans g))"

lemma keyed_iff: "keyed g \<longleftrightarrow> (\<forall>i p. map_of (gv_plans g) i = Some p \<longrightarrow> pc_plan_id (cp_content p) = i)"
proof
  assume "keyed g"
  then show "\<forall>i p. map_of (gv_plans g) i = Some p \<longrightarrow> pc_plan_id (cp_content p) = i"
    unfolding keyed_def list_all_iff by (metis (mono_tags, lifting) domI dom_map_of_conv_image_fst list.set_map
      option.inject option.map(2))
next
  assume "\<forall>i p. map_of (gv_plans g) i = Some p \<longrightarrow> pc_plan_id (cp_content p) = i"
  then show "keyed g"
    unfolding keyed_def list_all_iff by (metis (no_types, lifting) list.set_map map_of_eq_None_iff not_None_eq
      option.map(2))
qed

text \<open>A plan that a call works on: the stored one has come to it by steps.\<close>

definition holds ::
    "authority \<Rightarrow> string set \<Rightarrow> governance_call \<Rightarrow> change_plan \<Rightarrow> governance \<Rightarrow> bool" where
  "holds au tokens call p g \<longleftrightarrow> range (gv_tokens g) \<subseteq> tokens \<and>
     (\<exists>q. map_of (gv_plans g) (pc_plan_id (cp_content p)) = Some q \<and> barred q \<and>
       plan_steps au tokens call q p)"

lemma holds_barred: "holds au tokens call p g \<Longrightarrow> barred p"
  by (auto simp: holds_def intro: barred_steps)

lemma holds_step: "holds au tokens call p g \<Longrightarrow> plan_step au tokens call p q \<Longrightarrow> holds au tokens call q g"
  by (auto simp: holds_def intro: rtranclp.rtrancl_into_rtrancl)

definition annotates :: "change_plan \<Rightarrow> change_plan \<Rightarrow> bool" where
  "annotates p q \<longleftrightarrow> (\<exists>t es. q = p\<lparr>cp_updated_at := t, cp_events := es\<rparr>)"

lemma annotates_simps:
  assumes "annotates p q"
  shows "cp_content q = cp_content p" and "cp_status q = cp_status p"
    and "cp_policy_decision q = cp_policy_decision p" and "cp_approval q = cp_approval p"
  using assms by (auto simp: annotates_def)

lemma annotates_step: "annotates p q \<Longrightarrow> plan_step au tokens call p q"
  by (auto simp: annotates_def intro: plan_step.annotated)

lemma held_moves: "held g = held h \<Longrightarrow> moves au tokens call g h"
  by (simp add: held_def moves_def option.rel_refl)

lemma held_holds: "held g = held h \<Longrightarrow> holds au tokens call p g \<Longrightarrow> holds au tokens call p h"
  by (simp add: held_def holds_def)

lemma save_plan_moves:
  assumes "holds au tokens call p g" and "save_plan au p g = (r, h)"
  shows "moves au tokens call g h \<and> (\<forall>q. r = Inr q \<longrightarrow> annotates p q \<and> holds au tokens call q h)"
proof -
  obtain t where t: "fst (timestamp_now au g) = Inr t" "held (snd (timestamp_now au g)) = held g"
    by (auto simp: timestamp_now_def now_def effect_basic_defs held_def)
  define q where "q = p\<lparr>cp_updated_at := t\<rparr>"
  have q: "annotates p q" by (auto simp: annotates_def q_def intro!: exI [of _ "cp_events p"])
  obtain o' where o': "map_of (gv_plans g) (pc_plan_id (cp_content p)) = Some o'" "plan_steps au tokens call o' p"
      "barred o'"
    using assms(1) by (auto simp: holds_def)
  have step: "plan_step au tokens call p q"
    using q by (rule annotates_step)
  consider "held h = held g" "\<exists>e. r = Inl e"
    | "held h = (AList.update (pc_plan_id (cp_content p)) q (gv_plans g), gv_tokens g)" "r = Inr q"
    using assms(2) t unfolding save_plan_def q_def
    by (auto simp: effect_basic_defs storage_step_def held_def Let_def split: prod.splits sum.splits if_splits)
  then show ?thesis
  proof cases
    case 1
    then show ?thesis by (auto intro: held_moves)
  next
    case 2
    have "plan_steps au tokens call o' q" using o'(2) step by (rule rtranclp.rtrancl_into_rtrancl)
    with 2 o' have "moves au tokens call g h"
      by (auto simp: moves_def held_def update_conv' option.rel_refl)
    moreover have "holds au tokens call q h"
      using 2 assms(1) o' annotates_simps(1) [OF q] barred_steps [OF \<open>plan_steps au tokens call o' q\<close>]
      by (auto simp: holds_def held_def update_conv')
    ultimately show ?thesis using 2 q by simp
  qed
qed

text \<open>
  The rules that walk an operation: \<open>walks au tokens call p m Q\<close> starts with \<open>p\<close> at hand.
\<close>

abbreviation walks ::
    "authority \<Rightarrow> string set \<Rightarrow> governance_call \<Rightarrow> change_plan \<Rightarrow> 'a gov_op \<Rightarrow> ('a \<Rightarrow> governance \<Rightarrow> bool) \<Rightarrow> bool" where
  "walks au tokens call p \<equiv> outcome (moves au tokens call) (holds au tokens call p)"

lemma walks_step:
  "plan_step au tokens call p q \<Longrightarrow> walks au tokens call q m Q \<Longrightarrow> walks au tokens call p m Q"
  by (erule outcome_conseq) (auto intro: holds_step)

lemma walks_quiet:
  "quiet m \<Longrightarrow> yields V m \<Longrightarrow> (\<And>x. V x \<Longrightarrow> walks au tokens call p (k x) Q) \<Longrightarrow>
   walks au tokens call p (bind_eff m k) Q"
  by (rule evolving.outcome_quiet [where f = held]) (assumption | (erule held_moves held_holds, assumption?))+

lemma yields_any: "yields (\<lambda>_. True) m"
  by (simp add: yields_def)

lemmas walks_look = walks_quiet [OF _ yields_any]

lemma walks_quiet_then:
  "quiet m \<Longrightarrow> walks au tokens call p k Q \<Longrightarrow> walks au tokens call p (then_eff m k) Q"
  unfolding then_eff_def by (rule walks_look) simp_all

lemma walks_token:
  "(\<And>x. x \<in> tokens \<Longrightarrow> walks au tokens call p (k x) Q) \<Longrightarrow>
   walks au tokens call p (bind_eff token_urlsafe k) Q"
proof (rule evolving.outcome_bind [where W = "\<lambda>x g. x \<in> tokens \<and> holds au tokens call p g"])
  show "walks au tokens call p token_urlsafe (\<lambda>x g. x \<in> tokens \<and> holds au tokens call p g)"
  proof (rule outcomeI)
    fix g r h
    assume "holds au tokens call p g" "token_urlsafe g = (r, h)"
    moreover from this(2) have "held h = held g" "r = Inr (gv_tokens g (gv_token_count g))"
      by (auto simp: token_urlsafe_def effect_basic_defs held_def)
    ultimately show "moves au tokens call g h \<and> (\<forall>x. r = Inr x \<longrightarrow> x \<in> tokens \<and> holds au tokens call p h)"
      by (auto simp: holds_def held_def moves_def option.rel_refl)
  qed
qed (auto simp: outcome_def)

lemma walks_save:
  "walks au tokens call p (save_plan au p) (\<lambda>q g. annotates p q \<and> holds au tokens call q g)"
  by (rule outcomeI) (rule save_plan_moves)

lemma walks_record:
  assumes "\<And>q. annotates p q \<Longrightarrow> walks au tokens call q (k q) Q"
  shows "walks au tokens call p (bind_eff (record_event au p ev st er) k) Q"
proof (rule evolving.outcome_bind [where W = "\<lambda>q g. annotates p q \<and> holds au tokens call q g"])
  show "walks au tokens call p (record_event au p ev st er)
          (\<lambda>q g. annotates p q \<and> holds au tokens call q g)"
    unfolding record_event_def
  proof (rule walks_look [OF quiet_timestamp], rule walks_look [OF untouched.read_guar])
    fix t e
    let ?p = "p\<lparr>cp_events := cp_events p @ [e]\<rparr>"
    have ann: "annotates p ?p" by (auto simp: annotates_def intro!: exI [of _ "cp_updated_at p"])
    have saved: "walks au tokens call ?p (save_plan au ?p) (\<lambda>q g. annotates p q \<and> holds au tokens call q g)"
      by (rule outcome_conseq [OF walks_save]) (auto simp: annotates_def)
    show "walks au tokens call p
            (bind_eff (save_plan au ?p) (\<lambda>saved. then_eff after_save (return_eff saved)))
            (\<lambda>q g. annotates p q \<and> holds au tokens call q g)"
    proof (rule walks_step [OF annotates_step [OF ann]], rule evolving.outcome_bind [OF saved])
      fix q
      show "outcome (moves au tokens call) (\<lambda>g. annotates p q \<and> holds au tokens call q g)
              (then_eff after_save (return_eff q)) (\<lambda>q g. annotates p q \<and> holds au tokens call q g)"
      proof (cases "annotates p q")
        case True
        then show ?thesis
          by (simp add: walks_quiet_then quiet_after_save evolving.outcome_return)
      next
        case False
        then show ?thesis by (simp add: outcome_def)
      qed
    qed
  qed
  show "outcome (moves au tokens call) (\<lambda>g. annotates p q \<and> holds au tokens call q g) (k q) Q" for q
    using assms [of q] by (auto simp: outcome_def)
qed

lemma walks_reject: "walks au tokens call p (reject_with au p ev recorded raised) Q"
  unfolding reject_with_def by (intro walks_record evolving.outcome_raise)

lemma walks_reject_external: "walks au tokens call p (reject_external au p code) Q"
  unfolding reject_external_def by (rule walks_reject)

lemma walks_check_external:
  "(ok \<Longrightarrow> walks au tokens call p k Q) \<Longrightarrow>
   walks au tokens call p (then_eff (check_external au p ok code) k) Q"
  unfolding check_external_def
  by (cases ok) (auto simp: then_eff_def intro: evolving.outcome_bind [OF walks_reject_external] outcomeI)

section \<open>Expiry\<close>

text \<open>An operation that returns the plan it worked on, with something else.\<close>

abbreviation keeps ::
    "authority \<Rightarrow> string set \<Rightarrow> governance_call \<Rightarrow> change_plan \<Rightarrow> (change_plan \<times> 'a) gov_op \<Rightarrow> bool" where
  "keeps au tokens call p m \<equiv>
     walks au tokens call p m (\<lambda>z g. cp_content (fst z) = cp_content p \<and> holds au tokens call (fst z) g)"

lemma walks_keeps:
  assumes "keeps au tokens call p m"
    and "\<And>q x. cp_content q = cp_content p \<Longrightarrow> walks au tokens call q (k (q, x)) Q"
  shows "walks au tokens call p (bind_eff m k) Q"
proof (rule evolving.outcome_bind [OF assms(1)])
  fix z
  show "outcome (moves au tokens call)
      (\<lambda>g. cp_content (fst z) = cp_content p \<and> holds au tokens call (fst z) g) (k z) Q"
    using assms(2) [of "fst z" "snd z"] by (auto simp: outcome_def)
qed

lemma keeps_return: "cp_content q = cp_content p \<Longrightarrow> walks au tokens call q (return_eff (q, x))
    (\<lambda>z g. cp_content (fst z) = cp_content p \<and> holds au tokens call (fst z) g)"
  by (rule evolving.outcome_return) simp

lemma expire_if_needed_keeps: "keeps au tokens call p (expire_if_needed au p)"
  unfolding expire_if_needed_def Let_def
proof (rule walks_look [OF quiet_expiration], rule evolving.outcome_if)
  show "walks au tokens call p (return_eff (p, False))
      (\<lambda>z g. cp_content (fst z) = cp_content p \<and> holds au tokens call (fst z) g)"
    by (rule keeps_return) simp
  let ?q = "(invalidate_approval p)\<lparr>cp_status := EXPIRED_PLAN\<rparr>"
  have content: "cp_content ?q = cp_content p" by (simp add: invalidate_approval_def)
  have rest: "walks au tokens call q
      (bind_eff (record_event au q ''change_plan_expired'' ''rejected'' (Some CHANGE_PLAN_EXPIRED))
        (\<lambda>q. return_eff (q, True)))
      (\<lambda>z g. cp_content (fst z) = cp_content p \<and> holds au tokens call (fst z) g)"
    if "cp_content q = cp_content p" for q
    by (intro walks_record keeps_return) (simp add: annotates_simps that)
  show "walks au tokens call p
      (bind_eff
        (if present (ca_challenge_id (cp_approval ?q))
         then record_event au ?q ''external_approval_invalidated'' ''rejected'' (Some CHANGE_PLAN_EXPIRED)
         else return_eff ?q)
        (\<lambda>q. bind_eff (record_event au q ''change_plan_expired'' ''rejected'' (Some CHANGE_PLAN_EXPIRED))
          (\<lambda>q. return_eff (q, True))))
      (\<lambda>z g. cp_content (fst z) = cp_content p \<and> holds au tokens call (fst z) g)"
    by (rule walks_step [OF plan_step.expired])
      (auto intro!: walks_record rest simp: annotates_simps content)
qed

lemma invalidate_terminal_challenge_keeps:
  "keeps au tokens call p (invalidate_terminal_challenge au p)"
  unfolding invalidate_terminal_challenge_def
  by (rule evolving.outcome_if, rule keeps_return, simp, rule walks_step [OF plan_step.invalidated],
      rule walks_record, rule keeps_return, simp add: annotates_simps invalidate_approval_def)

lemma expire_challenge_keeps: "keeps au tokens call p (expire_challenge au p)"
  unfolding expire_challenge_def
  by (rule walks_look [OF quiet_challenge_expired], rule evolving.outcome_if, rule keeps_return, simp,
      rule walks_step [OF plan_step.lapsed], rule walks_record, rule keeps_return, simp add: annotates_simps)

lemma resolve_lifecycle_keeps: "keeps au tokens call p (resolve_lifecycle au p)"
  unfolding resolve_lifecycle_def
proof (rule walks_keeps [OF expire_if_needed_keeps], unfold prod.case,
    rule walks_keeps [OF invalidate_terminal_challenge_keeps], unfold prod.case, rule evolving.outcome_if)
  fix q q' :: change_plan and e :: bool
  assume c: "cp_content q = cp_content p" "cp_content q' = cp_content q"
  let ?Q = "\<lambda>z g. cp_content (fst z) = cp_content p \<and> holds au tokens call (fst z) g"
  show "walks au tokens call q' (return_eff (q', e, False)) ?Q" by (rule keeps_return) (simp add: c)
  show "walks au tokens call q' (bind_eff (expire_challenge au q') (\<lambda>(r, x). return_eff (r, e, x))) ?Q"
    by (rule walks_keeps [OF expire_challenge_keeps], unfold prod.case, rule keeps_return, simp add: c)
qed

section \<open>Loading\<close>

definition all_plans :: "(change_plan \<Rightarrow> bool) \<Rightarrow> governance \<Rightarrow> bool" where
  "all_plans ok g \<longleftrightarrow> (\<forall>i p. map_of (gv_plans g) i = Some p \<longrightarrow> ok p)"

abbreviation ready :: "string set \<Rightarrow> governance \<Rightarrow> bool" where
  "ready tokens g \<equiv> keyed g \<and> range (gv_tokens g) \<subseteq> tokens \<and> all_plans barred g"

lemma ready_held: "held g = held h \<Longrightarrow> ready tokens g \<Longrightarrow> ready tokens h"
  by (simp add: held_def keyed_def all_plans_def)

lemma ready_moves:
  assumes "moves au tokens call g h" and "ready tokens g"
  shows "ready tokens h"
proof -
  have "pc_plan_id (cp_content q) = i \<and> barred q" if "map_of (gv_plans h) i = Some q" for i q
  proof -
    have "rel_option (plan_steps au tokens call) (map_of (gv_plans g) i) (Some q)"
      using assms(1) that unfolding moves_def by metis
    then obtain p where "map_of (gv_plans g) i = Some p" "plan_steps au tokens call p q"
      by (auto simp: option_rel_Some2)
    with assms(2) show ?thesis using steps_content barred_steps by (auto simp: keyed_iff all_plans_def)
  qed
  with assms show ?thesis by (auto simp: keyed_iff moves_def all_plans_def)
qed

lemma quiet_loads:
  assumes "quiet m" and "ready tokens g" and "m g = (Inr p, h)" and "map_of (gv_plans g) i = Some p"
  shows "pc_plan_id (cp_content p) = i \<and> holds au tokens call p h"
proof -
  have "held h = held g" using assms(1,3) by (auto dest: guaranteesD simp: same_def)
  with assms(2,4) show ?thesis by (auto simp: keyed_iff holds_def held_def all_plans_def)
qed

lemma walks_loaded:
  assumes "quiet m" and "\<And>g p h. m g = (Inr p, h) \<Longrightarrow> map_of (gv_plans g) i = Some p \<and> F p"
    and "\<And>p. pc_plan_id (cp_content p) = i \<Longrightarrow> F p \<Longrightarrow> walks au tokens call p (k p) Q"
  shows "outcome (moves au tokens call) (ready tokens) (bind_eff m k) Q"
proof (rule evolving.outcome_bind
    [where W = "\<lambda>p g. F p \<and> pc_plan_id (cp_content p) = i \<and> holds au tokens call p g"])
  show "outcome (moves au tokens call) (ready tokens) m
      (\<lambda>p g. F p \<and> pc_plan_id (cp_content p) = i \<and> holds au tokens call p g)"
  proof (rule outcomeI)
    fix g r h
    assume "ready tokens g" "m g = (r, h)"
    moreover from this assms(1) have "held g = held h" by (auto dest: guaranteesD simp: same_def)
    ultimately show "moves au tokens call g h \<and>
        (\<forall>p. r = Inr p \<longrightarrow> F p \<and> pc_plan_id (cp_content p) = i \<and> holds au tokens call p h)"
      using quiet_loads [OF assms(1), where g = g and h = h and i = i and tokens = tokens] assms(2) [of g _ h] held_moves [of g h] by simp
  qed
  show "outcome (moves au tokens call)
      (\<lambda>g. F p \<and> pc_plan_id (cp_content p) = i \<and> holds au tokens call p g) (k p) Q" for p
  proof (cases "F p \<and> pc_plan_id (cp_content p) = i")
    case True
    then show ?thesis using assms(3) [of p] by simp
  next
    case False
    then show ?thesis unfolding outcome_def by blast
  qed
qed

definition loadable :: "authority \<Rightarrow> change_plan \<Rightarrow> bool" where
  "loadable au p \<longleftrightarrow> (cp_policy_decision p = None \<or> require_policy_snapshot au p = Inr ())"

lemma load_plan_found:
  assumes "load_plan au i g = (Inr p, h)"
  shows "map_of (gv_plans g) i = Some p \<and> loadable au p"
  using assms unfolding load_plan_def read_plan_def storage_step_def require_plan_safe_def loadable_def
  by (auto simp: effect_basic_defs split: if_splits option.splits sum.splits)

lemma load_for_projection_found:
  assumes "load_for_projection au i g = (Inr p, h)"
  shows "map_of (gv_plans g) i = Some p \<and> True"
  using assms unfolding load_for_projection_def read_plan_def storage_step_def require_plan_safe_def
  by (auto simp: effect_basic_defs split: if_splits option.splits sum.splits)

lemma walks_load:
  assumes "\<And>p. pc_plan_id (cp_content p) = i \<Longrightarrow> loadable au p \<Longrightarrow> walks au tokens call p (k p) Q"
  shows "outcome (moves au tokens call) (ready tokens) (bind_eff (load_plan au i) k) Q"
  by (rule walks_loaded [where F = "loadable au", OF quiet_load_plan]) (auto dest: load_plan_found intro: assms)

lemma walks_load_for_projection:
  assumes "\<And>p. pc_plan_id (cp_content p) = i \<Longrightarrow> walks au tokens call p (k p) Q"
  shows "outcome (moves au tokens call) (ready tokens) (bind_eff (load_for_projection au i) k) Q"
  by (rule walks_loaded [where F = "\<lambda>_. True", OF quiet_load_for_projection])
    (auto dest: load_for_projection_found intro: assms)

section \<open>The rules that walk an operation\<close>

named_theorems walk_rules \<open>one rule for each construct of an operation that works on a plan\<close>

abbreviation anything :: "'a \<Rightarrow> governance \<Rightarrow> bool" where
  "anything \<equiv> \<lambda>_ _. True"

lemma walks_done [walk_rules]: "walks au tokens call p (return_eff x) anything"
  by (rule evolving.outcome_return) simp

lemma step_self: "plan_step au tokens call p p"
proof -
  have "annotates p p" unfolding annotates_def
    by (intro exI [of _ "cp_updated_at p"] exI [of _ "cp_events p"]) simp
  then show ?thesis by (rule annotates_step)
qed

lemma walks_record_step [walk_rules]:
  "plan_step au tokens call p q \<Longrightarrow> (\<And>r. annotates q r \<Longrightarrow> walks au tokens call r (k r) Q) \<Longrightarrow>
   walks au tokens call p (bind_eff (record_event au q ev st er) k) Q"
  by (rule walks_step) (auto intro: walks_record)

lemma walks_barred: "(barred p \<Longrightarrow> walks au tokens call p m Q) \<Longrightarrow> walks au tokens call p m Q"
  by (auto simp: outcome_def dest: holds_barred)

lemma walks_open [walk_rules]:
  "walks au tokens call p k Q \<Longrightarrow> walks au tokens call p (then_eff (require_open q) k) Q"
  unfolding require_open_def by (rule walks_quiet_then) (intro guarantee_rules)

lemma walks_projections [walk_rules]:
  "walks au tokens call p k Q \<Longrightarrow> walks au tokens call p (then_eff (require_configuration_projection au b q) k) Q"
  "walks au tokens call p k Q \<Longrightarrow> walks au tokens call p (then_eff (require_dashboard_projection au q) k) Q"
  unfolding require_configuration_projection_def require_dashboard_projection_def
  by (auto intro: evolving.outcome_require)

lemma walks_lift_when [walk_rules]:
  "walks au tokens call p k Q \<Longrightarrow>
   walks au tokens call p (then_eff (if b then lift_eff z else return_eff ()) k) Q"
  by (rule walks_quiet_then) (intro guarantee_rules)

lemma walks_bind_if [walk_rules]:
  "(b \<Longrightarrow> walks au tokens call p (bind_eff m k) Q) \<Longrightarrow> (\<not> b \<Longrightarrow> walks au tokens call p (bind_eff n k) Q) \<Longrightarrow>
   walks au tokens call p (bind_eff (if b then m else n) k) Q"
  by simp

lemma walks_bind_return [walk_rules]:
  "walks au tokens call p (k x) Q \<Longrightarrow> walks au tokens call p (bind_eff (return_eff x) k) Q"
  by simp

lemma walks_pair [walk_rules]:
  "walks au tokens call p (f a b) Q \<Longrightarrow> walks au tokens call p (case (a, b) of (x, y) \<Rightarrow> f x y) Q"
  by simp

lemma walks_active [walk_rules]:
  "(\<And>a b c d. active_challenge q = (a, b, c, d) \<Longrightarrow> walks au tokens call p (f a b c d) Q) \<Longrightarrow>
   walks au tokens call p (case active_challenge q of (a, b, c, d) \<Rightarrow> f a b c d) Q"
  by (cases "active_challenge q") simp

lemma walks_let [walk_rules]: "walks au tokens call p (f x) Q \<Longrightarrow> walks au tokens call p (let y = x in f y) Q"
  by simp

lemma walks_then_return [walk_rules]:
  "walks au tokens call p k Q \<Longrightarrow> walks au tokens call p (then_eff (return_eff x) k) Q"
  by (simp add: then_eff_def)

lemmas [walk_rules] =
  evolving.outcome_require evolving.outcome_lift_then evolving.outcome_option evolving.outcome_raise
  evolving.outcome_if walks_reject walks_reject_external walks_check_external walks_token
  walks_look [OF quiet_timestamp] walks_quiet [OF quiet_challenge_matches challenge_matches_yields]
  walks_keeps [OF resolve_lifecycle_keeps]

end
