(* ===== verification/Approval_Refinement.thy ===== *)
theory Approval_Refinement
  imports Approval_Simulation
begin

text \<open>
  The operations of a history: each call of the governance service moves the repository along the steps of
  its plans.
\<close>

section \<open>The request\<close>

lemma approval_kind_invalidated [simp]: "approval_kind_of (invalidate_approval p) = approval_kind_of p"
  by (simp add: approval_kind_of_def invalidate_approval_def)

lemma request_challenge_walks:
  assumes "call = RequestApproval (pc_plan_id (cp_content p)) (plan_hash au p) note"
    and "cp_policy_decision p = Some d" and "pd_policy_class d \<noteq> PROHIBITED"
    and "cp_status p \<in> {AWAITING_APPROVAL, ROLLBACK_PENDING}" and "h = plan_hash au p"
  shows "walks au tokens call p (request_challenge au p d h n) anything"
  unfolding request_challenge_def Let_def assms(5)
proof (rule walks_look [OF quiet_timestamp], rule walks_quiet [OF quiet_challenge_end challenge_end_yields])
  fix requested_at expires
  assume "expires \<in> range (au_time_text au)"
  then have step: "plan_step au tokens call p (p\<lparr>cp_approval := requested_approval (cp_content p) d
      (plan_hash au p) (approval_kind_of p) challenge requested_at expires request_note
      (binding_hash au (cp_content p) d)\<rparr>)" if "challenge \<in> tokens" for challenge request_note
    using assms that by (intro plan_step.requested) auto
  let ?ask = "\<lambda>projection_hash. bind_eff token_urlsafe (\<lambda>challenge.
       bind_eff (record_event au (p\<lparr>cp_approval := requested_approval (cp_content p) d (plan_hash au p)
          (approval_kind_of p) challenge requested_at expires (au_sanitize_note au (take_points 500 n))
          projection_hash\<rparr>) ''external_approval_requested'' ''success'' None) (\<lambda>saved.
         return_eff (approval_pending_response saved)))"
  have ask: "walks au tokens call p (?ask (binding_hash au (cp_content p) d)) anything"
    by (rule walks_token, rule walks_step, erule step, rule walks_record, rule walks_done)
  then show "walks au tokens call p
     (bind_eff (if second_action_kind d = Some SAFETY_CRITICAL_ACKNOWLEDGEMENT
               then case safety_critical_binding au (cp_content p) of
                   None \<Rightarrow> raise_eff (GovernanceError POLICY_SNAPSHOT_MISMATCH)
                 | Some b \<Rightarrow> return_eff (Some (ab_projection_hash b))
               else return_eff None) ?ask) anything"
    by (cases "safety_critical_binding au (cp_content p)") (auto simp: binding_hash_def evolving.outcome_raise)
qed

lemma approve_checked_walks:
  assumes "call = RequestApproval (pc_plan_id (cp_content p)) h note"
    and "cp_policy_decision p = Some d" and "pd_policy_class d \<noteq> PROHIBITED"
  shows "walks au tokens call p (approve_checked au p d h n) anything"
  unfolding approve_checked_def Let_def
proof (rule evolving.outcome_require, rule walks_look [OF quiet_challenge_matches], rule evolving.outcome_if,
    rule walks_done, (rule evolving.outcome_require)+)
  assume h: "h = plan_hash au p" and status: "cp_status p \<in> {AWAITING_APPROVAL, ROLLBACK_PENDING}"
  have ask: "walks au tokens call q (request_challenge au q d (plan_hash au p) n) anything"
    if "cp_content q = cp_content p" "cp_policy_decision q = cp_policy_decision p" "cp_status q = cp_status p"
      "plan_hash au q = plan_hash au p" for q
    using assms h status that by (intro request_challenge_walks) auto
  have invalid: "plan_hash au (invalidate_approval p) = plan_hash au p"
    by (rule plan_hash_cong) (simp_all add: plan_change_defs)
  have "walks au tokens call p
      (bind_eff (record_event au (invalidate_approval p) ''external_approval_invalidated'' ''rejected'' None)
        (\<lambda>q. request_challenge au q d (plan_hash au p) n)) anything"
  proof (rule walks_step [OF plan_step.invalidated], rule walks_record, rule ask)
    fix q
    assume q: "annotates (invalidate_approval p) q"
    show "cp_content q = cp_content p" "cp_policy_decision q = cp_policy_decision p" "cp_status q = cp_status p"
      using annotates_simps [OF q] by (simp_all add: invalidate_approval_def)
    have "plan_hash au q = plan_hash au (invalidate_approval p)"
      using annotates_simps [OF q] by (intro plan_hash_cong) simp_all
    then show "plan_hash au q = plan_hash au p" by (simp only: invalid)
  qed
  with ask [of p] show "walks au tokens call p
      (bind_eff (if ca_state (cp_approval p) = EXTERNAL_PENDING
                 then record_event au (invalidate_approval p) ''external_approval_invalidated'' ''rejected'' None
                 else return_eff p) (\<lambda>q. request_challenge au q d (plan_hash au p) n)) anything"
    by simp
qed

lemma approve_moves:
  "outcome (moves au tokens (RequestApproval i h n)) (ready tokens) (approve au i h n) anything"
  unfolding approve_def
  by (rule walks_load_for_projection, intro walk_rules approve_checked_walks) auto

section \<open>The review\<close>

lemma step_nonce:
  "plan_step au tokens call p (p\<lparr>cp_approval := set_csrf action digest issued_at (cp_approval p)\<rparr>)"
proof -
  have "p\<lparr>cp_approval := set_csrf action digest issued_at (cp_approval p)\<rparr> =
      cp_approval_update (set_csrf action digest issued_at) p" by (cases p) simp
  then show ?thesis by (simp only: plan_step.nonce)
qed

lemma issue_csrf_moves:
  "outcome (moves au tokens (ReviewApproval i c)) (ready tokens) (issue_external_csrf au i c) anything"
  unfolding issue_external_csrf_def
  by (rule walks_load, intro walk_rules step_nonce)

section \<open>The decision\<close>

text \<open>The nonce of a form takes no part in what an approval is checked for.\<close>

abbreviation nonce_cleared :: "action_kind \<Rightarrow> change_plan \<Rightarrow> change_plan" where
  "nonce_cleared action \<equiv> cp_approval_update (set_csrf action None None)"

lemma set_csrf_fields [simp]:
  "ca_state (set_csrf x y z a) = ca_state a" "ca_authority_version (set_csrf x y z a) = ca_authority_version a"
  "ca_channel (set_csrf x y z a) = ca_channel a" "ca_bound_plan_hash (set_csrf x y z a) = ca_bound_plan_hash a"
  "ca_approver_principal (set_csrf x y z a) = ca_approver_principal a"
  "ca_approved_at (set_csrf x y z a) = ca_approved_at a"
  "ca_approval_expires_at (set_csrf x y z a) = ca_approval_expires_at a"
  "ca_approval_kind (set_csrf x y z a) = ca_approval_kind a"
  "ca_challenge_id (set_csrf x y z a) = ca_challenge_id a"
  "ca_challenge_requested_at (set_csrf x y z a) = ca_challenge_requested_at a"
  "ca_challenge_expires_at (set_csrf x y z a) = ca_challenge_expires_at a"
  "ca_challenge_plan_version (set_csrf x y z a) = ca_challenge_plan_version a"
  "ca_challenge_target_type (set_csrf x y z a) = ca_challenge_target_type a"
  "ca_challenge_target_id (set_csrf x y z a) = ca_challenge_target_id a"
  "ca_challenge_operation (set_csrf x y z a) = ca_challenge_operation a"
  "ca_challenge_risk_level (set_csrf x y z a) = ca_challenge_risk_level a"
  "ca_policy_decision_hash (set_csrf x y z a) = ca_policy_decision_hash a"
  "ca_policy_class (set_csrf x y z a) = ca_policy_class a"
  "ca_bundle_state (set_csrf x y z a) = ca_bundle_state a"
  "ca_same_principal_confirmed (set_csrf x y z a) = ca_same_principal_confirmed a"
  by (simp_all add: set_csrf_def)

lemma set_csrf_action_state [simp]:
  "map_option aa_state (ca_acknowledgement (set_csrf x y z a)) = map_option aa_state (ca_acknowledgement a)"
  by (auto simp: set_csrf_def option.map_comp comp_def)

lemma set_csrf_acknowledgement:
  "\<exists>f. ca_acknowledgement (set_csrf x y z a) = map_option f (ca_acknowledgement a) \<and>
     (\<forall>k. f k = k \<or> f k = k\<lparr>aa_csrf_digest := y, aa_csrf_issued_at := z\<rparr>)"
proof (cases "second_action x \<and> ca_acknowledgement a \<noteq> None")
  case True
  then show ?thesis by (auto simp: set_csrf_def intro!: exI [of _ "\<lambda>k. k\<lparr>aa_csrf_digest := y, aa_csrf_issued_at := z\<rparr>"])
next
  case False
  then show ?thesis by (auto simp: set_csrf_def option.map_ident intro!: exI [of _ "\<lambda>k. k"])
qed

lemma active_challenge_nonce [simp]:
  "active_challenge (cp_approval_update (set_csrf x y z) p) = active_challenge p"
  by (auto simp: active_challenge_def set_csrf_def Let_def split: option.split)

lemma second_pending_nonce [simp]: "second_pending (set_csrf x y z a) = second_pending a"
  by (auto simp: second_pending_def set_csrf_def option.map_comp comp_def)

lemma challenge_bound_nonce [simp]:
  "challenge_bound (cp_approval_update (set_csrf x y z) p) h = challenge_bound p h"
  by (simp add: challenge_bound_def challenge_pending_def approval_kind_of_def Let_def)

lemma plan_hash_nonce [simp]: "plan_hash au (cp_approval_update (set_csrf x y z) p) = plan_hash au p"
  by (rule plan_hash_cong) simp_all

lemma sequence_checks_nonce: "sequence_checks au c (set_csrf x y z a) d = sequence_checks au c a d"
  by (cases "ca_acknowledgement a"; cases "second_action x"; cases "second_action_kind d";
      cases "safety_critical_binding au c") (simp_all add: sequence_checks_def set_csrf_def Let_def)

lemma states_agree_nonce: "states_agree (set_csrf x y z a) d = states_agree a d"
  by (simp only: states_agree_def set_csrf_fields set_csrf_action_state)

lemma challenge_checks_nonce:
  "challenge_checks (cp_approval_update (set_csrf x y z) p) h d = challenge_checks p h d"
  by (cases "ca_acknowledgement (cp_approval p)"; cases "second_action x")
    (simp_all add: challenge_checks_def set_csrf_def Let_def)

lemma integrity_nonce:
  assumes "cp_policy_decision p = Some d" and "pd_policy_class d \<noteq> PROHIBITED"
  shows "approval_bundle_integrity_error au (cp_approval_update (set_csrf x y z) p) =
    approval_bundle_integrity_error au p"
  using assms
  by (simp add: approval_bundle_integrity_error_def authority_checks_def sequence_checks_nonce
      states_agree_nonce challenge_checks_nonce Let_def)

text \<open>The decision on the active action.\<close>

lemma activate_second_walks:
  assumes "decides au call p d de PLAN_APPROVAL" and "de_decision de = ''approve''"
    and "second_action_kind d = Some kind" and "t \<in> range (au_time_text au)"
    and "plan_hash au p = h" and "ca_acknowledgement (cp_approval p) = Some k" and "aa_kind k = kind"
    and "kind \<noteq> SAFETY_CRITICAL_ACKNOWLEDGEMENT \<or> projection_bound au (cp_content p) k"
  shows "walks au tokens call p (activate_second au (plan_granted (approver_of de) t p) d h kind) anything"
proof -
  have ack: "ca_acknowledgement (cp_approval (plan_granted (approver_of de) t p)) = Some k"
    and content: "cp_content (plan_granted (approver_of de) t p) = cp_content p"
    using assms by (simp_all add: plan_granted_def)
  have bound: "kind \<noteq> SAFETY_CRITICAL_ACKNOWLEDGEMENT \<or>
      projection_bound au (cp_content p) (requested_second kind c r k)" for c r
    using assms by (simp add: projection_bound_def requested_second_def split: option.splits)
  have step: "plan_step au tokens call p (second_awaited kind
       (bound_second d h expires (requested_second kind challenge requested_at k))
       (plan_granted (approver_of de) t p))"
    if "challenge \<in> tokens" "expires \<in> range (au_time_text au)" for challenge expires requested_at
    using assms that by (auto intro!: plan_step.awaiting)
  show ?thesis
    unfolding activate_second_def ack option.case content
    using bound
    by (auto simp: assms(7) check_external_def then_eff_def intro!: walks_look [OF quiet_timestamp] walks_token
        walks_quiet [OF quiet_challenge_end challenge_end_yields] walks_record_step step step_self walks_done)
qed

lemma grant_plan_approval_walks:
  assumes "decides au call p d de PLAN_APPROVAL" and "de_decision de = ''approve''" and "plan_hash au p = h"
    and "\<And>k. second_action_kind d = Some k \<Longrightarrow> \<exists>a. ca_acknowledgement (cp_approval p) = Some a \<and> aa_kind a = k \<and>
      (k \<noteq> SAFETY_CRITICAL_ACKNOWLEDGEMENT \<or> projection_bound au (cp_content p) a)"
  shows "walks au tokens call p (grant_plan_approval au p d h (approver_of de)) anything"
  unfolding grant_plan_approval_def
proof (rule walks_quiet [OF quiet_timestamp timestamp_yields], rule walks_let)
  fix t
  assume t: "t \<in> range (au_time_text au)"
  show "walks au tokens call p
      (case second_action_kind d of
         None \<Rightarrow> bind_eff (record_event au (fully_approved (plan_granted (approver_of de) t p))
             ''external_approval_granted'' ''success'' None)
           (\<lambda>plan. return_eff (decided_response ''approved'' plan PLAN_APPROVAL))
       | Some kind \<Rightarrow> activate_second au (plan_granted (approver_of de) t p) d h kind) anything"
  proof (cases "second_action_kind d")
    case None
    then show ?thesis using assms(1,2) t by (auto intro!: walk_rules plan_step.granted)
  next
    case (Some k)
    then show ?thesis using assms activate_second_walks [OF assms(1,2) Some t assms(3)] by fastforce
  qed
qed

lemma grant_second_action_walks:
  assumes "decides au call p d de action" and "action \<noteq> PLAN_APPROVAL" and "de_decision de = ''approve''"
    and "ca_approver_principal (cp_approval p) = Some (approver_of de)"
  shows "walks au tokens call p (grant_second_action au p action (approver_of de) de) anything"
proof -
  let ?fits = "objects_fit au (cp_content p) action de"
  have finish: "outcome (moves au tokens call) (\<lambda>g. ?fits k objects \<and> holds au tokens call p g)
     (bind_eff (timestamp_now au) (\<lambda>t.
       let plan = second_granted objects (approver_of de) t k p in
       bind_eff (record_event au plan ev ''success'' None) (\<lambda>plan.
         return_eff (decided_response ''approved'' plan action)))) anything"
    if k: "ca_acknowledgement (cp_approval p) = Some k" for k objects ev
  proof (cases "?fits k objects")
    case True
    have "walks au tokens call p (bind_eff (timestamp_now au) (\<lambda>t.
       let plan = second_granted objects (approver_of de) t k p in
       bind_eff (record_event au plan ev ''success'' None) (\<lambda>plan.
         return_eff (decided_response ''approved'' plan action)))) anything"
      by (rule walks_quiet [OF quiet_timestamp timestamp_yields], intro walk_rules plan_step.acknowledged)
        (use assms k True in simp_all)
    then show ?thesis by (simp add: True)
  next
    case False
    then show ?thesis by (simp add: outcome_def)
  qed
  show ?thesis
    unfolding grant_second_action_def
  proof (rule evolving.outcome_option, rule walks_reject_external, rule walks_check_external,
      rule evolving.outcome_bind [OF _ finish])
    fix k
    assume k: "ca_acknowledgement (cp_approval p) = Some k"
    show "walks au tokens call p
        (if action = SAFETY_CRITICAL_ACKNOWLEDGEMENT then
           (case safety_critical_binding au (cp_content p) of
              None \<Rightarrow> reject_external au p POLICY_SNAPSHOT_MISMATCH
            | Some b \<Rightarrow>
                then_eff (check_external au p (aa_projection_hash k = Some (ab_projection_hash b))
                            POLICY_SNAPSHOT_MISMATCH)
                  (if objects_acknowledged au b de then return_eff (Some (ab_objects b))
                   else reject_with au p ''safety_critical_acknowledgement_failed''
                          SAFETY_CRITICAL_ACKNOWLEDGEMENT_MISMATCH SAFETY_CRITICAL_ACKNOWLEDGEMENT_MISMATCH))
         else return_eff (aa_acknowledged_objects k))
        (\<lambda>objects g. ?fits k objects \<and> holds au tokens call p g)"
      by (intro evolving.outcome_if evolving.outcome_option walks_reject_external walks_check_external
          evolving.outcome_return walks_reject) (simp_all add: objects_fit_def)
  qed
qed

lemma reject_approval_walks:
  assumes "decides au call p d de action"
  shows "walks au tokens call p (reject_approval au p action (approver_of de)) anything"
  unfolding reject_approval_def by (intro walk_rules plan_step.rejected, rule assms)

lemma decide_action_walks:
  assumes "decides au call p d de action" and "plan_hash au p = h"
    and acts: "\<And>k. action = PLAN_APPROVAL \<Longrightarrow> second_action_kind d = Some k \<Longrightarrow>
      \<exists>a. ca_acknowledgement (cp_approval p) = Some a \<and> aa_kind a = k \<and>
        (k \<noteq> SAFETY_CRITICAL_ACKNOWLEDGEMENT \<or> projection_bound au (cp_content p) a)"
  shows "walks au tokens call p (decide_action au p d h action de) anything"
proof -
  let ?p = "nonce_cleared action p"
  have p: "cp_policy_decision p = Some d" "pd_policy_class d \<noteq> PROHIBITED"
    using assms(1) by (simp_all add: decides_def)
  have decides: "decides au call ?p d de action"
    using assms(1) by (simp add: decides_def integrity_nonce [OF p])
  have acts': "\<exists>a. ca_acknowledgement (cp_approval ?p) = Some a \<and> aa_kind a = k \<and>
      (k \<noteq> SAFETY_CRITICAL_ACKNOWLEDGEMENT \<or> projection_bound au (cp_content ?p) a)"
    if "action = PLAN_APPROVAL" "second_action_kind d = Some k" for k
    using acts [OF that] that(1) by (simp add: set_csrf_def second_action_def)
  show ?thesis
    unfolding decide_action_def Let_def approver_of_def [symmetric]
  proof (rule walks_step [OF plan_step.nonce], rule walks_check_external, rule evolving.outcome_if,
      rule walks_reject, rule evolving.outcome_if, rule evolving.outcome_if)
    assume "de_decision de = ''approve''" "action = PLAN_APPROVAL"
    then show "walks au tokens call ?p (grant_plan_approval au ?p d h (approver_of de)) anything"
      using decides acts' assms(2) by (intro grant_plan_approval_walks) auto
  next
    assume "\<not> (second_action action \<and> (ca_acknowledgement (cp_approval ?p) = None \<or>
       ca_approver_principal (cp_approval ?p) \<noteq> Some (approver_of de)))"
      and "de_decision de = ''approve''" "action \<noteq> PLAN_APPROVAL"
    then show "walks au tokens call ?p (grant_second_action au ?p action (approver_of de) de) anything"
      using decides by (intro grant_second_action_walks) (simp_all add: second_action_def)
  next
    show "walks au tokens call ?p
        (if de_decision de = ''reject'' then reject_approval au ?p action (approver_of de)
         else reject_external au ?p EXTERNAL_APPROVAL_INVALID) anything"
      using decides by (intro evolving.outcome_if walks_reject_external reject_approval_walks)
  qed
qed

text \<open>Integrity gives the second action the form the decision relies on.\<close>

lemma integrity_second:
  assumes "approval_bundle_integrity_error au p = None" and "cp_policy_decision p = Some d"
    and "pd_policy_class d \<noteq> PROHIBITED" and "second_action_kind d = Some k"
  shows "\<exists>a. ca_acknowledgement (cp_approval p) = Some a \<and> aa_kind a = k \<and>
    (k \<noteq> SAFETY_CRITICAL_ACKNOWLEDGEMENT \<or> projection_bound au (cp_content p) a)"
proof -
  have "first_failure (sequence_checks au (cp_content p) (cp_approval p) d) = None"
    using assms(1-3) by (simp add: approval_bundle_integrity_error_def Let_def split: option.splits)
  then show ?thesis
    using assms(4)
    by (auto simp: sequence_checks_def projection_bound_def Let_def split: if_splits option.splits)
qed

lemma pending_approval:
  "challenge_bound p h \<Longrightarrow> ca_state (cp_approval p) \<in> {EXTERNAL_PENDING, APPROVED}"
  by (auto simp: challenge_bound_def challenge_pending_def active_challenge_def Let_def
      split: if_splits option.splits)

lemma decides_intro:
  assumes "challenge_bound p (plan_hash au p)" and "barred p" and "cp_policy_decision p = Some d"
    and "require_policy_snapshot au p = Inr ()" and "fst (active_challenge p) = action"
    and "call = DecideApproval de" and "de_plan_id de = pc_plan_id (cp_content p)"
    and "de_approval_action de = action_value action" and "de_expected_plan_hash de = plan_hash au p"
    and "de_approver_principal de \<noteq> []" and "de_approver_principal de \<noteq> LEGACY_ANONYMOUS_APPROVER_PRINCIPAL"
  shows "decides au call p d de action"
proof -
  have "pd_policy_class d \<noteq> PROHIBITED"
    using pending_approval [OF assms(1)] assms(2,3) by (auto simp: barred_def)
  moreover have "approval_bundle_integrity_error au p = None"
    using assms(4) by (auto simp: require_policy_snapshot_def and_then_def demand_def split: sum.splits option.splits if_splits)
  ultimately show ?thesis using assms by (simp add: decides_def)
qed

lemma decide_loaded_walks:
  assumes "call = DecideApproval de" and "de_plan_id de = pc_plan_id (cp_content p)"
    and snapshot: "require_policy_snapshot au p = Inr ()"
    and "de_approver_principal de \<noteq> []" and "de_approver_principal de \<noteq> LEGACY_ANONYMOUS_APPROVER_PRINCIPAL"
  shows "walks au tokens call p (decide_loaded au p de) anything"
proof (rule walks_barred)
  assume barred: "barred p"
  have act: "walks au tokens call p (decide_action au p d (plan_hash au p) action de) anything"
    if "challenge_bound p (plan_hash au p)" "cp_policy_decision p = Some d" "fst (active_challenge p) = action"
      "de_approval_action de = action_value action" "de_expected_plan_hash de = plan_hash au p" for d action
  proof -
    have decides: "decides au call p d de action"
      using that assms barred by (intro decides_intro)
    show ?thesis
      by (rule decide_action_walks [OF decides refl])
        (use decides integrity_second [of au p d] in \<open>auto simp: decides_def\<close>)
  qed
  show ?thesis
    unfolding decide_loaded_def
  proof (intro walk_rules)
    fix action active_id r e d matches
    assume "active_challenge p = (action, active_id, r, e)" "matches \<longrightarrow> challenge_bound p (plan_hash au p)"
      "matches" "cp_policy_decision p = Some d" "de_approval_action de = action_value action"
      "de_expected_plan_hash de = plan_hash au p \<and> ca_bound_plan_hash (cp_approval p) = Some (plan_hash au p)"
    then show "walks au tokens call p (decide_action au p d (plan_hash au p) action de) anything"
      by (intro act) simp_all
  qed simp_all
qed

lemma decide_moves:
  "outcome (moves au tokens (DecideApproval de)) (ready tokens) (decide_external_approval au de) anything"
  unfolding decide_external_approval_def
  by (rule walks_load, intro walk_rules decide_loaded_walks) auto

section \<open>Dispatch\<close>

lemma walks_dispatch:
  assumes "\<And>d. cp_policy_decision p = Some d \<Longrightarrow> requirement_checks au p d kind True = None \<Longrightarrow> walks au tokens call p k Q"
  shows "walks au tokens call p (then_eff (require_dispatch_approval au p kind) k) Q"
proof -
  have "walks au tokens call p (bind_eff (approval_requirement_error au p kind) (\<lambda>error.
      bind_eff (case error of None \<Rightarrow> return_eff ()
                | Some e \<Rightarrow> reject_with au p ''change_apply_rejected'' e e) (\<lambda>_. k))) Q"
  proof (rule walks_quiet [OF quiet_requirement_error requirement_error_yields])
    fix error :: "error_code option"
    assume none: "error = None \<longrightarrow> (\<exists>d. cp_policy_decision p = Some d \<and> requirement_checks au p d kind True = None)"
    show "walks au tokens call p (bind_eff (case error of None \<Rightarrow> return_eff ()
        | Some e \<Rightarrow> reject_with au p ''change_apply_rejected'' e e) (\<lambda>_. k)) Q"
    proof (cases error)
      case None
      then show ?thesis using none assms by auto
    next
      case (Some e)
      have "walks au tokens call p (reject_with au p ''change_apply_rejected'' e e) (\<lambda>_ _. False)"
        by (rule walks_reject)
      then show ?thesis
        unfolding Some option.case by (rule evolving.outcome_bind) (simp add: outcome_def)
    qed
  qed
  then show ?thesis by (simp add: then_eff_def require_dispatch_approval_def bind_assoc)
qed

lemma consume_moves:
  "outcome (moves au tokens (DispatchChild cd w)) (ready tokens) (consume_approval au cd w) anything"
  unfolding consume_approval_def consume_approval_bundle_def
proof (rule walks_load, intro walk_rules walks_dispatch)
  fix p d
  assume p: "pc_plan_id (cp_content p) = cd_plan_id cd" "cp_policy_decision p = Some d"
    "requirement_checks au p d ''apply'' True = None"
  let ?k = "\<lambda>plan. let plan = plan\<lparr>cp_status := APPLYING, cp_execution_outcome := Some ''dispatching'',
      cp_apply_request_id := Some (cd_execution_request_id cd)\<rparr>
    in bind_eff (record_event au plan ''external_approval_consumed'' ''success'' None) (\<lambda>_. return_eff Consumed)"
  have step: "plan_step au tokens (DispatchChild cd w) p
      ((cp_approval_update (consumed_approval t) p)\<lparr>cp_status := APPLYING, cp_execution_outcome := Some ''dispatching'',
        cp_apply_request_id := Some (cd_execution_request_id cd)\<rparr>)" for t
  proof -
    have "(cp_approval_update (consumed_approval t) p)\<lparr>cp_status := APPLYING, cp_execution_outcome := Some ''dispatching'',
        cp_apply_request_id := Some (cd_execution_request_id cd)\<rparr> =
      p\<lparr>cp_approval := consumed_approval t (cp_approval p), cp_status := APPLYING,
        cp_execution_outcome := Some ''dispatching'', cp_apply_request_id := Some (cd_execution_request_id cd)\<rparr>"
      by (cases p) simp
    then show ?thesis using p by (simp only:) (rule plan_step.consumed, auto)
  qed
  have "walks au tokens (DispatchChild cd w) p
     (then_eff (lift_eff (require_policy_snapshot au p))
       (then_eff (require_dispatch_approval au p (ca_approval_kind (cp_approval p)))
         (bind_eff (timestamp_now au) (\<lambda>t. ?k (cp_approval_update (consumed_approval t) p))))) anything"
    by (intro walk_rules walks_dispatch step)
  then show "walks au tokens (DispatchChild cd w) p
     (bind_eff
       (then_eff (lift_eff (require_policy_snapshot au p))
         (then_eff (require_dispatch_approval au p (ca_approval_kind (cp_approval p)))
           (bind_eff (timestamp_now au) (\<lambda>t. return_eff (cp_approval_update (consumed_approval t) p))))) ?k) anything"
    by (simp add: then_eff_def bind_assoc)
qed

section \<open>Supersession and reading\<close>

lemma read_moves: "outcome (moves au tokens (ReadPlan i)) (ready tokens) (get_plan au i) anything"
  unfolding get_plan_def by (rule walks_load_for_projection, intro walk_rules)

lemma supersede_plan_moves:
  "outcome (moves au tokens call) (ready tokens) (supersede_plan au refusal new_id targets i) anything"
proof -
  have work: "walks au tokens call p
      (if pc_plan_id (cp_content p) = new_id then return_eff ()
       else bind_eff (lift_eff (plan_target_keys (cp_content p))) (\<lambda>ts.
         if set ts \<inter> set targets = {} then return_eff ()
         else bind_eff (resolve_lifecycle au p) (\<lambda>(plan, _).
           if is_terminal_plan plan \<or> cp_status plan \<notin> {AWAITING_APPROVAL, APPROVED_PLAN, ROLLBACK_PENDING}
           then return_eff ()
           else let plan = (invalidate_approval plan)\<lparr>cp_status := SUPERSEDED_PLAN\<rparr> in
             bind_eff (if present (ca_challenge_id (cp_approval plan))
                       then record_event au plan ''external_approval_invalidated'' ''rejected'' None
                       else return_eff plan) (\<lambda>plan.
             bind_eff (record_event au plan ''change_plan_superseded'' ''rejected'' None) (\<lambda>_. return_eff ()))))) anything" for p
    by (intro walk_rules evolving.outcome_lift_bind) (rule plan_step.superseded step_self)+
  let ?load = "catch_eff (bind_eff (load_plan au i) (\<lambda>plan. return_eff (Some plan)))
        (\<lambda>e. if projection_failure e \<or> refusal e then return_eff None else raise_eff e)"
  have quiet: "quiet ?load" by (intro guarantee_rules quiet_rules)
  have found: "map_of (gv_plans g) i = Some p" if "?load g = (Inr (Some p), h)" for g p h
    using that load_plan_found [of au i g p]
    by (auto simp: effect_basic_defs split: prod.splits sum.splits if_splits)
  have "outcome (moves au tokens call) (ready tokens) ?load
      (\<lambda>z g. \<forall>p. z = Some p \<longrightarrow> holds au tokens call p g)"
  proof (rule outcomeI)
    fix g r h
    assume g: "ready tokens g" "?load g = (r, h)"
    have held: "held g = held h" using guaranteesD [OF quiet g(2)] by (simp add: same_def)
    have "holds au tokens call p h" if "r = Inr (Some p)" for p
      using found [of g p h] g that held by (auto simp: holds_def keyed_iff all_plans_def held_def)
    then show "moves au tokens call g h \<and> (\<forall>x. r = Inr x \<longrightarrow> (\<forall>p. x = Some p \<longrightarrow> holds au tokens call p h))"
      using held_moves [OF held] by simp
  qed
  then show ?thesis
    unfolding supersede_plan_def
  proof (rule evolving.outcome_bind)
    fix z
    show "outcome (moves au tokens call) (\<lambda>g. \<forall>p. z = Some p \<longrightarrow> holds au tokens call p g)
      (case z of None \<Rightarrow> return_eff () | Some p \<Rightarrow>
      (if pc_plan_id (cp_content p) = new_id then return_eff ()
       else bind_eff (lift_eff (plan_target_keys (cp_content p))) (\<lambda>ts.
         if set ts \<inter> set targets = {} then return_eff ()
         else bind_eff (resolve_lifecycle au p) (\<lambda>(plan, _).
           if is_terminal_plan plan \<or> cp_status plan \<notin> {AWAITING_APPROVAL, APPROVED_PLAN, ROLLBACK_PENDING}
           then return_eff ()
           else let plan = (invalidate_approval plan)\<lparr>cp_status := SUPERSEDED_PLAN\<rparr> in
             bind_eff (if present (ca_challenge_id (cp_approval plan))
                       then record_event au plan ''external_approval_invalidated'' ''rejected'' None
                       else return_eff plan) (\<lambda>plan.
             bind_eff (record_event au plan ''change_plan_superseded'' ''rejected'' None) (\<lambda>_. return_eff ())))))) anything"
    proof (cases z)
      case None
      then show ?thesis by (simp add: evolving.outcome_return)
    next
      case (Some p)
      show ?thesis unfolding Some option.case by (rule outcome_conseq [OF work [of p]]) simp_all
    qed
  qed
qed

lemma stays_ready:
  assumes "outcome (moves au tokens call) (ready tokens) m anything"
  shows "outcome (moves au tokens call) (ready tokens) m (\<lambda>_. ready tokens)"
  using assms ready_moves unfolding outcome_def by metis

lemma supersede_each_moves:
  "outcome (moves au tokens call) (ready tokens) (supersede_each au refusal new_id targets is) anything"
proof (induction "is")
  case Nil
  then show ?case by (simp add: evolving.outcome_return)
next
  case (Cons i "is")
  then show ?case
    by (simp add: evolving.outcome_then [OF stays_ready [OF supersede_plan_moves]])
qed

lemma quiet_then:
  "quiet m \<Longrightarrow> outcome (moves au tokens call) (ready tokens) k Q \<Longrightarrow>
   outcome (moves au tokens call) (ready tokens) (then_eff m k) Q"
  unfolding then_eff_def
  by (rule evolving.outcome_quiet [where f = held and V = "\<lambda>_. True"], assumption, erule held_moves,
      erule (1) ready_held, rule yields_any, assumption)

lemma supersede_moves:
  "outcome (moves au tokens call) (ready tokens) (supersede_prior au refusal c is) anything"
  unfolding supersede_prior_def
  by (intro evolving.outcome_lift_bind quiet_then quiet_storage supersede_each_moves)

end
