(* ===== verification/Approval_History.thy ===== *)
theory Approval_History
  imports Approval_Refinement
begin

text \<open>
  Histories: sequences of calls of the governance service, in any order and with any arguments, on a
  repository whose reads and saves may fail.  A property of plans that every step keeps holds after every
  history (\<open>approval_invariant\<close>).
\<close>

section \<open>Calls\<close>

text \<open>
  The projection of an execution writes the outcome of the execution into the plan; which one is up to the
  executor.
\<close>

definition settle_execution :: "authority \<Rightarrow> string \<Rightarrow> plan_status \<Rightarrow> string option \<Rightarrow> unit gov_op" where
  "settle_execution au i st res =
     then_eff (require (st \<in> set settled_statuses) GovernanceValueError)
     (bind_eff (load_plan au i) (\<lambda>plan.
      bind_eff (record_event au (plan\<lparr>cp_status := st, cp_execution_outcome := res\<rparr>) ''execution_settled'' ''success'' None)
        (\<lambda>_. return_eff ())))"

definition silently :: "'a gov_op \<Rightarrow> consumption option gov_op" where
  "silently m = bind_eff m (\<lambda>_. return_eff None)"

fun perform :: "authority \<Rightarrow> governance_call \<Rightarrow> consumption option gov_op" where
  "perform au (RequestApproval i h note) = silently (approve au i h note)"
| "perform au (ReviewApproval i c) = silently (issue_external_csrf au i c)"
| "perform au (DecideApproval de) = silently (decide_external_approval au de)"
| "perform au (ReadPlan i) = silently (get_plan au i)"
| "perform au (SupersedePlans refusal c is) = silently (supersede_prior au refusal c is)"
| "perform au (DispatchChild cd witnessed) =
     bind_eff (consume_approval au cd witnessed) (\<lambda>c. return_eff (Some c))"
| "perform au (SettleExecution i st res) = silently (settle_execution au i st res)"

fun run_calls ::
    "authority \<Rightarrow> governance_call list \<Rightarrow> governance \<Rightarrow> (governance_error + consumption option) list \<times> governance" where
  "run_calls au [] g = ([], g)"
| "run_calls au (call # calls) g =
     (let (r, g') = perform au call g; (rs, g'') = run_calls au calls g' in (r # rs, g''))"

definition world_after :: "authority \<Rightarrow> governance_call list \<Rightarrow> governance \<Rightarrow> governance" where
  "world_after au calls g = snd (run_calls au calls g)"

definition dispatched :: "authority \<Rightarrow> governance_call list \<Rightarrow> governance \<Rightarrow> nat \<Rightarrow> bool" where
  "dispatched au calls g n \<longleftrightarrow> n < length calls \<and> fst (run_calls au calls g) ! n = Inr (Some Consumed)"

lemma world_after_simps [simp]:
  "world_after au [] g = g"
  "world_after au (call # calls) g = world_after au calls (snd (perform au call g))"
  by (simp_all add: world_after_def split_beta Let_def)

lemma world_after_append: "world_after au (xs @ ys) g = world_after au ys (world_after au xs g)"
  by (induction xs arbitrary: g) simp_all

lemma result_at:
  "n < length calls \<Longrightarrow>
   fst (run_calls au calls g) ! n = fst (perform au (calls ! n) (world_after au (take n calls) g))"
proof (induction calls arbitrary: n g)
  case (Cons call calls)
  then show ?case by (cases n) (simp_all add: split_beta Let_def)
qed simp

section \<open>Every call moves the repository along steps\<close>

lemma settle_moves:
  "outcome (moves au tokens (SettleExecution i st res)) (ready tokens) (settle_execution au i st res) anything"
  unfolding settle_execution_def
  by (rule evolving.outcome_require, rule walks_load, intro walk_rules, rule plan_step.settled) auto

lemma silently_moves:
  "outcome (moves au tokens call) (ready tokens) m anything \<Longrightarrow>
   outcome (moves au tokens call) (ready tokens) (silently m) anything"
  unfolding silently_def by (rule evolving.outcome_bind) (auto intro: evolving.outcome_return outcome_conseq
    [OF evolving.outcome_return])

lemma perform_moves: "outcome (moves au tokens call) (ready tokens) (perform au call) anything"
proof (cases call)
  case (DispatchChild cd w)
  have "outcome (moves au tokens (DispatchChild cd w)) (\<lambda>_. True) (return_eff (Some c)) anything" for c
    by (rule evolving.outcome_return) simp
  then show ?thesis unfolding DispatchChild perform.simps by (rule evolving.outcome_bind [OF consume_moves])
qed (simp_all add: silently_moves approve_moves issue_csrf_moves decide_moves read_moves supersede_moves settle_moves)

lemma perform_ready:
  assumes "ready tokens g"
  shows "moves au tokens call g (snd (perform au call g))" and "ready tokens (snd (perform au call g))"
proof -
  show m: "moves au tokens call g (snd (perform au call g))"
    by (rule outcome_relation [OF perform_moves [of au tokens call] assms]) (rule surjective_pairing)
  show "ready tokens (snd (perform au call g))" by (rule ready_moves [OF m assms])
qed

lemma ready_after: "ready tokens g \<Longrightarrow> ready tokens (world_after au calls g)"
proof (induction calls arbitrary: g)
  case (Cons call calls)
  then show ?case unfolding world_after_simps by (intro Cons.IH perform_ready(2))
qed simp

text \<open>
  An invariant of plans over histories: \<open>ok h p\<close> may refer to the calls \<open>h\<close> made so far.  It must survive
  a further call that leaves the plan alone, and each step of the latest call.
\<close>

locale approval_invariant =
  fixes au :: authority and tokens :: "string set" and ok :: "governance_call list \<Rightarrow> change_plan \<Rightarrow> bool"
  assumes grows: "ok h p \<Longrightarrow> ok (h @ [call]) p"
    and steps: "ok (h @ [call]) p \<Longrightarrow> plan_step au tokens call p q \<Longrightarrow> ok (h @ [call]) q"
begin

lemma all_steps: "plan_steps au tokens call p q \<Longrightarrow> ok (h @ [call]) p \<Longrightarrow> ok (h @ [call]) q"
  by (induction rule: rtranclp_induct) (auto intro: steps)

lemma always:
  assumes "ready tokens g" and "all_plans (ok []) g"
  shows "all_plans (ok calls) (world_after au calls g)"
proof (induction calls rule: rev_induct)
  case Nil
  then show ?case using assms by simp
next
  case (snoc call calls)
  let ?g = "world_after au calls g"
  have "moves au tokens call ?g (world_after au (calls @ [call]) g)"
    using perform_ready(1) [OF ready_after [OF assms(1)]] by (simp add: world_after_append)
  then show ?case
    using snoc unfolding all_plans_def moves_def by (metis all_steps grows option_rel_Some2)
qed

end

section \<open>A consumed approval is never consumed again\<close>

text \<open>What a call that dispatches has seen and left.\<close>

lemma requirement_passed:
  assumes "require_dispatch_approval au p kind g = (Inr (), h)"
  shows "\<exists>d. cp_policy_decision p = Some d \<and> requirement_checks au p d kind True = None"
proof -
  obtain e t where e: "approval_requirement_error au p kind g = (Inr e, t)"
    and rest: "(case e of None \<Rightarrow> return_eff ()
                | Some e \<Rightarrow> reject_with au p ''change_apply_rejected'' e e) t = (Inr (), h)"
    using assms unfolding require_dispatch_approval_def by (rule bind_eff_okD)
  have "e = None" using rest
    by (cases e) (auto simp: reject_with_def elim!: bind_eff_okD)
  with yieldsD [OF requirement_error_yields e] show ?thesis by simp
qed

lemma record_event_stores:
  assumes "record_event au p ev st er g = (Inr q, h)"
  shows "cp_status q = cp_status p" and "map_of (gv_plans h) (pc_plan_id (cp_content p)) = Some q"
  using assms unfolding record_event_def save_plan_def storage_step_def after_save_def Let_def
  by (auto elim!: bind_eff_okD then_eff_okD simp: update_conv' read_eff_def update_eff_def)

lemma dispatch_inspects:
  assumes "consume_approval au cd w g = (Inr Consumed, h)" and "ready tokens g"
  shows "\<exists>p d. map_of (gv_plans g) (cd_plan_id cd) = Some p \<and> plan_hash au p = cd_plan_hash cd \<and>
      loadable au p \<and> cp_policy_decision p = Some d \<and> requirement_checks au p d ''apply'' True = None"
    and "\<exists>q. map_of (gv_plans h) (cd_plan_id cd) = Some q \<and> cp_status q = APPLYING"
proof -
  obtain p g1 g2 q g3 r where load: "load_plan au (cd_plan_id cd) g = (Inr p, g1)"
    and hash: "plan_hash au p = cd_plan_hash cd"
    and req: "require_dispatch_approval au p ''apply'' g1 = (Inr (), g2)"
    and used: "consume_approval_bundle au p g2 = (Inr q, g3)"
    and saved: "record_event au (q\<lparr>cp_status := APPLYING, cp_execution_outcome := Some ''dispatching'',
        cp_apply_request_id := Some (cd_execution_request_id cd)\<rparr>)
          ''external_approval_consumed'' ''success'' None g3 = (Inr r, h)"
    using assms(1) unfolding consume_approval_def
    by (auto elim!: bind_eff_okD simp: then_eff_def split: if_splits)
  have found: "map_of (gv_plans g) (cd_plan_id cd) = Some p" using load_plan_found [OF load] by simp
  then show "\<exists>p d. map_of (gv_plans g) (cd_plan_id cd) = Some p \<and> plan_hash au p = cd_plan_hash cd \<and>
      loadable au p \<and> cp_policy_decision p = Some d \<and> requirement_checks au p d ''apply'' True = None"
    using hash requirement_passed [OF req] load_plan_found [OF load] by blast
  have "cp_content q = cp_content p"
    using used unfolding consume_approval_bundle_def by (auto elim!: bind_eff_okD simp: then_eff_def)
  moreover have "pc_plan_id (cp_content p) = cd_plan_id cd" using found assms(2) by (simp add: keyed_iff)
  ultimately show "\<exists>q. map_of (gv_plans h) (cd_plan_id cd) = Some q \<and> cp_status q = APPLYING"
    using record_event_stores [OF saved] by auto
qed

lemma first_of_None [simp]: "(case x of None \<Rightarrow> y | Some e \<Rightarrow> Some e) = None \<longleftrightarrow> x = None \<and> y = None"
  by (cases x) simp_all

lemma requirement_facts:
  assumes "requirement_checks au p d ''apply'' True = None"
  shows "cp_status p = APPROVED_PLAN" and "safety_critical_dispatch_error au p d = None"
    and "ca_state (cp_approval p) = APPROVED" and "external_principal_authority_valid (cp_approval p)"
    and "present (ca_approver_principal (cp_approval p))"
    and "ca_bound_plan_hash (cp_approval p) = Some (plan_hash au p)"
    and "approval_bundle_state p = ''fully_approved''"
  using assms unfolding requirement_checks_def Let_def first_of_None first_failure_append
  by (simp_all split: if_splits)

text \<open>Once a plan has left the states that wait for an approval or hold one, it stays out of them.\<close>

definition closed_for_dispatch :: "change_plan \<Rightarrow> bool" where
  "closed_for_dispatch p \<longleftrightarrow> cp_status p \<notin> {AWAITING_APPROVAL, ROLLBACK_PENDING, APPROVED_PLAN}"

lemma decides_open: "decides au call p d de action \<Longrightarrow> \<not> closed_for_dispatch p"
  by (auto simp: decides_def challenge_bound_def closed_for_dispatch_def Let_def)

lemma closed_step:
  "plan_step au tokens call p q \<Longrightarrow> closed_for_dispatch p \<Longrightarrow> closed_for_dispatch q"
  by (induction rule: plan_step.induct)
    (auto dest: decides_open simp: closed_for_dispatch_def invalidate_approval_def settled_statuses_def)

interpretation closing: approval_invariant au tokens "\<lambda>_ p. pc_plan_id (cp_content p) = i \<longrightarrow> closed_for_dispatch p"
  for au tokens i
  by unfold_locales (auto intro: closed_step)

lemma dispatch_call:
  assumes "dispatched au calls g n" and "calls ! n = DispatchChild cd w"
  shows "consume_approval au cd w (world_after au (take n calls) g) =
    (Inr Consumed, world_after au (take (Suc n) calls) g)"
proof -
  have "fst (perform au (DispatchChild cd w) (world_after au (take n calls) g)) = Inr (Some Consumed)"
    using assms result_at [of n calls au g] by (simp add: dispatched_def)
  moreover have "snd (perform au (DispatchChild cd w) (world_after au (take n calls) g)) =
      world_after au (take (Suc n) calls) g"
    using assms by (simp add: dispatched_def take_Suc_conv_app_nth world_after_append)
  ultimately show ?thesis
    by (cases "consume_approval au cd w (world_after au (take n calls) g)" rule: prod.exhaust)
      (auto simp: bind_eff_def return_eff_def split: sum.splits)
qed

end
