(* ===== verification/Approval_Authority.thy ===== *)
theory Approval_Authority
  imports Approval_History
begin

text \<open>
  Agreement between the dispatch of a plan and the decisions of an administrator: what is dispatched was
  approved before, for exactly this plan, and where the policy asks for a second action the same
  administrator gave it after the first.
\<close>

section \<open>Decisions in a history\<close>

definition decided_before :: "governance_call list \<Rightarrow> admin_decision \<Rightarrow> admin_decision \<Rightarrow> bool" where
  "decided_before h de de' \<longleftrightarrow> (\<exists>xs ys zs. h = xs @ DecideApproval de # ys @ DecideApproval de' # zs)"

lemma decided_before_grows: "decided_before h de de' \<Longrightarrow> decided_before (h @ [call]) de de'"
  unfolding decided_before_def by (metis append.assoc append_Cons)

lemma decided_before_now:
  "DecideApproval de \<in> set h \<Longrightarrow> decided_before (h @ [DecideApproval de']) de de'"
  unfolding decided_before_def by (metis append.assoc append_Cons append_Nil split_list)

lemma decided_before_index:
  assumes "decided_before h de de'"
  shows "\<exists>i j. i < j \<and> j < length h \<and> h ! i = DecideApproval de \<and> h ! j = DecideApproval de'"
proof -
  obtain xs ys zs where h: "h = xs @ DecideApproval de # ys @ DecideApproval de' # zs"
    using assms by (auto simp: decided_before_def)
  show ?thesis
    by (rule exI [of _ "length xs"], rule exI [of _ "length xs + Suc (length ys)"]) (simp add: h nth_append)
qed

text \<open>The decision of an administrator who is known, for a plan and its hash, on one of the actions.\<close>

definition approves :: "admin_decision \<Rightarrow> string \<Rightarrow> string \<Rightarrow> action_kind \<Rightarrow> bool" where
  "approves de plan_id hash action \<longleftrightarrow>
     de_plan_id de = plan_id \<and> de_expected_plan_hash de = hash \<and> de_decision de = ''approve'' \<and>
     de_approval_action de = action_value action \<and> de_approver_principal de \<noteq> [] \<and>
     de_approver_principal de \<noteq> LEGACY_ANONYMOUS_APPROVER_PRINCIPAL"

text \<open>What the approval of a plan says of the calls made so far.\<close>

definition granted_first :: "change_plan \<Rightarrow> admin_decision \<Rightarrow> bool" where
  "granted_first p de \<longleftrightarrow>
     (\<exists>hash. ca_bound_plan_hash (cp_approval p) = Some hash \<and>
       approves de (pc_plan_id (cp_content p)) hash PLAN_APPROVAL) \<and>
     ca_approver_principal (cp_approval p) = Some (approver_of de)"

definition granted_second :: "authority \<Rightarrow> change_plan \<Rightarrow> approval_action \<Rightarrow> admin_decision \<Rightarrow> bool" where
  "granted_second au p k de \<longleftrightarrow>
     (\<exists>hash. ca_bound_plan_hash (cp_approval p) = Some hash \<and>
       approves de (pc_plan_id (cp_content p)) hash (aa_kind k)) \<and>
     ca_approver_principal (cp_approval p) = Some (approver_of de) \<and>
     (aa_kind k = SAFETY_CRITICAL_ACKNOWLEDGEMENT \<longrightarrow>
       (\<exists>b. safety_critical_binding au (cp_content p) = Some b \<and> objects_acknowledged au b de))"

definition authorised :: "authority \<Rightarrow> governance_call list \<Rightarrow> change_plan \<Rightarrow> bool" where
  "authorised au h p \<longleftrightarrow>
     (ca_state (cp_approval p) = APPROVED \<longrightarrow> (\<exists>de. DecideApproval de \<in> set h \<and> granted_first p de)) \<and>
     (\<forall>k. ca_acknowledgement (cp_approval p) = Some k \<and> aa_state k = APPROVED \<longrightarrow>
       (\<exists>de de'. decided_before h de de' \<and> granted_first p de \<and> granted_second au p k de'))"

lemma authorised_grows: "authorised au h p \<Longrightarrow> authorised au (h @ [call]) p"
  unfolding authorised_def by (metis Un_iff decided_before_grows set_append)

section \<open>Steps keep authority\<close>

text \<open>A step after which nothing is granted.\<close>

lemma authorised_ungranted:
  "ca_state (cp_approval p) \<noteq> APPROVED \<Longrightarrow>
   (\<And>k. ca_acknowledgement (cp_approval p) = Some k \<Longrightarrow> aa_state k \<noteq> APPROVED) \<Longrightarrow> authorised au h p"
  by (auto simp: authorised_def)

text \<open>A step that leaves alone what the grants refer to.\<close>

definition same_grants :: "change_plan \<Rightarrow> change_plan \<Rightarrow> bool" where
  "same_grants p q \<longleftrightarrow> cp_content q = cp_content p \<and>
     ca_state (cp_approval q) = ca_state (cp_approval p) \<and>
     ca_bound_plan_hash (cp_approval q) = ca_bound_plan_hash (cp_approval p) \<and>
     ca_approver_principal (cp_approval q) = ca_approver_principal (cp_approval p) \<and>
     map_option (\<lambda>k. (aa_kind k, aa_state k)) (ca_acknowledgement (cp_approval q)) =
       map_option (\<lambda>k. (aa_kind k, aa_state k)) (ca_acknowledgement (cp_approval p))"

lemma same_grants_authorised:
  assumes "same_grants p q" and "authorised au h p"
  shows "authorised au h q"
proof -
  have first: "granted_first q de = granted_first p de" for de
    using assms(1) by (simp add: same_grants_def granted_first_def)
  have second: "granted_second au q k' de = granted_second au p k de" if "aa_kind k' = aa_kind k" for k k' de
    using assms(1) that by (simp add: same_grants_def granted_second_def)
  have "\<exists>k. ca_acknowledgement (cp_approval p) = Some k \<and> aa_state k = aa_state k' \<and> aa_kind k' = aa_kind k"
    if "ca_acknowledgement (cp_approval q) = Some k'" for k'
    using assms(1) that by (cases "ca_acknowledgement (cp_approval p)") (simp_all add: same_grants_def)
  then show ?thesis
    using assms first second unfolding authorised_def same_grants_def by metis
qed

text \<open>While the plan approval is pending, no second action is granted.\<close>

lemma integrity_states:
  assumes "approval_bundle_integrity_error au p = None" and "cp_policy_decision p = Some d"
    and "pd_policy_class d \<noteq> PROHIBITED"
  shows "states_agree (cp_approval p) d"
  using assms by (simp add: approval_bundle_integrity_error_def Let_def split: if_splits)

lemma expected_not_pending: "expected_states d s \<noteq> Some (EXTERNAL_PENDING, st)"
  by (simp add: expected_states_def)

lemma states_agree_pending:
  assumes "states_agree a d" and "ca_state a = EXTERNAL_PENDING"
  shows "map_option aa_state (ca_acknowledgement a) \<in> {None, Some REQUIRED}"
  using assms expected_not_pending unfolding states_agree_def Let_def
  by (simp only: split: if_splits option.splits prod.splits)

lemma pending_ungranted:
  assumes "decides au call p d de PLAN_APPROVAL" and "ca_acknowledgement (cp_approval p) = Some k"
  shows "aa_state k = REQUIRED"
proof -
  have "ca_state (cp_approval p) = EXTERNAL_PENDING"
    using assms by (simp add: decides_def challenge_bound_def challenge_pending_def Let_def)
  then show ?thesis
    using assms states_agree_pending [of "cp_approval p" d] integrity_states [of au p d]
    by (auto simp: decides_def)
qed

text \<open>The pending second action belongs to a plan approval that was granted.\<close>

lemma second_challenge:
  assumes "decides au call p d de action" and "action \<noteq> PLAN_APPROVAL" and "ca_acknowledgement (cp_approval p) = Some k"
  shows "ca_state (cp_approval p) = APPROVED" and "aa_kind k = action" and "aa_state k = EXTERNAL_PENDING"
  using assms by (auto simp: decides_def active_challenge_def Let_def split: if_splits)

lemma decides_hash: "decides au call p d de action \<Longrightarrow> ca_bound_plan_hash (cp_approval p) = Some (plan_hash au p)"
  by (simp add: decides_def challenge_bound_def Let_def)

lemma decides_approves:
  "decides au call p d de action \<Longrightarrow> de_decision de = ''approve'' \<Longrightarrow>
   approves de (pc_plan_id (cp_content p)) (plan_hash au p) action"
  by (simp add: decides_def approves_def)

lemma decides_call: "decides au call p d de action \<Longrightarrow> call = DecideApproval de"
  by (simp add: decides_def)

lemmas ungranted_defs = plan_change_defs requested_approval_def new_approval_def requested_action_def new_action_def

lemma authorised_step:
  assumes "plan_step au tokens call p q" and "authorised au (h @ [call]) p"
  shows "authorised au (h @ [call]) q"
  using assms
proof (induction rule: plan_step.induct)
  case (annotated p t es)
  then show ?case by (rule same_grants_authorised [rotated]) (simp add: same_grants_def)
next
  case (nonce p action digest issued_at)
  then show ?case
    by (rule same_grants_authorised [rotated]) (auto simp: same_grants_def set_csrf_def option.map_comp comp_def)
next
  case (settled p st res)
  show ?case by (rule same_grants_authorised [OF _ settled(3)]) (simp add: same_grants_def)
next
  case (granted p d de t)
  let ?q = "fully_approved (plan_granted (approver_of de) t p)"
  have "DecideApproval de \<in> set (h @ [call])" using decides_call [OF granted(1)] by simp
  moreover have "granted_first ?q de"
    using decides_hash [OF granted(1)] decides_approves [OF granted(1,2)]
    by (simp add: granted_first_def plan_change_defs)
  moreover have "aa_state k \<noteq> APPROVED" if "ca_acknowledgement (cp_approval p) = Some k" for k
    using pending_ungranted [OF granted(1) that] by simp
  ultimately show ?case unfolding authorised_def by (auto simp: plan_change_defs)
next
  case (awaiting p d de kind k t challenge expires requested_at)
  let ?q = "second_awaited kind (bound_second d (plan_hash au p) expires (requested_second kind challenge requested_at k))
      (plan_granted (approver_of de) t p)"
  have "DecideApproval de \<in> set (h @ [call])" using decides_call [OF awaiting(1)] by simp
  moreover have "granted_first ?q de"
    using decides_hash [OF awaiting(1)] decides_approves [OF awaiting(1,2)]
    by (simp add: granted_first_def plan_change_defs)
  ultimately show ?case unfolding authorised_def by (auto simp: plan_change_defs)
next
  case (acknowledged p d de action k objects t)
  let ?k = "k\<lparr>aa_acknowledged_objects := objects, aa_state := APPROVED, aa_granted_at := Some t,
          aa_approver_principal := Some (approver_of de)\<rparr>"
  let ?q = "second_granted objects (approver_of de) t k p"
  note second = second_challenge [OF acknowledged(1,2,4)]
  obtain de1 where de1: "DecideApproval de1 \<in> set (h @ [call])" "granted_first p de1"
    using acknowledged.prems second(1) by (auto simp: authorised_def)
  have "de_approval_action de1 \<noteq> de_approval_action de"
    using de1(2) acknowledged(1,2) unfolding granted_first_def approves_def decides_def
    by (metis action_value_inject)
  then have "DecideApproval de1 \<in> set h" using de1(1) decides_call [OF acknowledged(1)] by auto
  then have before: "decided_before (h @ [call]) de1 de"
    unfolding decides_call [OF acknowledged(1)] by (rule decided_before_now)
  have first: "granted_first ?q de1"
    using de1(2) by (simp add: granted_first_def plan_change_defs)
  have "granted_second au ?q ?k de"
    using decides_hash [OF acknowledged(1)] decides_approves [OF acknowledged(1,3)] second(2) acknowledged(5,6)
    by (auto simp: granted_second_def plan_change_defs objects_fit_def split: option.splits)
  moreover have "ca_acknowledgement (cp_approval ?q) = Some ?k" by (simp add: plan_change_defs)
  moreover have "DecideApproval de1 \<in> set (h @ [call])" by (rule de1(1))
  ultimately show ?case using before first unfolding authorised_def by auto
qed (rule authorised_ungranted; auto simp: ungranted_defs)+

interpretation authority: approval_invariant au tokens "authorised au" for au tokens
  by unfold_locales (rule authorised_grows, assumption, rule authorised_step)

end
