(* ===== verification/Approval_Integrity.thy ===== *)
theory Approval_Integrity
  imports Approval_Authority
begin

text \<open>
  The integrity check of a stored approval, restated as a conjunction, and its preservation by every step:
  no operation, and no failure in the middle of one, leaves a plan that the next load refuses.
\<close>

section \<open>The check as a conjunction\<close>

text \<open>
  The objects a second action holds: for a safety-critical one those of its binding, from its grant on; for
  another one none.
\<close>

definition projected :: "authority \<Rightarrow> plan_content \<Rightarrow> action_kind \<Rightarrow> approval_action \<Rightarrow> bool" where
  "projected au c r k \<longleftrightarrow>
     (if r = SAFETY_CRITICAL_ACKNOWLEDGEMENT then
        case safety_critical_binding au c of
          None \<Rightarrow> False
        | Some b \<Rightarrow>
            aa_projection_hash k = Some (ab_projection_hash b) \<and>
            (aa_acknowledged_objects k = None \<or> aa_acknowledged_objects k = Some (ab_objects b))
      else aa_projection_hash k = None \<and> aa_acknowledged_objects k = None)"

definition acknowledged_in_time :: "approval_action \<Rightarrow> bool" where
  "acknowledged_in_time k \<longleftrightarrow>
     (aa_state k \<in> {APPROVED, CONSUMED} \<longrightarrow> aa_acknowledged_objects k \<noteq> None) \<and>
     (aa_state k \<in> {REQUIRED, EXTERNAL_PENDING} \<longrightarrow> aa_acknowledged_objects k = None)"

definition sequence_intact :: "authority \<Rightarrow> plan_content \<Rightarrow> change_approval \<Rightarrow> policy_decision \<Rightarrow> bool" where
  "sequence_intact au c a d \<longleftrightarrow>
     (case ca_acknowledgement a of
        None \<Rightarrow> second_action_kind d = None \<and> pd_required_acknowledgements d = [PLAN_APPROVAL]
      | Some k \<Rightarrow> (case second_action_kind d of
            None \<Rightarrow> False
          | Some r \<Rightarrow> pd_required_acknowledgements d = [PLAN_APPROVAL, r] \<and> aa_kind k = r \<and>
              aa_authority_version k = second_action_authority_version r \<and> projected au c r k))"

definition challenge_fields :: "plan_content \<Rightarrow> string \<Rightarrow> change_approval \<Rightarrow> bool" where
  "challenge_fields c h a \<longleftrightarrow>
     ca_channel a = Some APPROVAL_CHANNEL \<and> ca_bound_plan_hash a = Some h \<and>
     present (ca_challenge_id a) \<and> present (ca_challenge_expires_at a) \<and>
     ca_challenge_plan_version a = Some (pc_plan_version c) \<and>
     ca_challenge_target_type a = Some (pc_target_type c) \<and>
     ca_challenge_target_id a = Some (pc_target_id c) \<and>
     ca_challenge_operation a = Some (change_kind_value (pc_operation c)) \<and>
     ca_challenge_risk_level a = Some (risk_level_value (ri_level (pc_risk c)))"

definition action_bound :: "policy_decision \<Rightarrow> string \<Rightarrow> approval_action \<Rightarrow> bool" where
  "action_bound d h k \<longleftrightarrow>
     aa_bound_plan_hash k = Some h \<and> aa_policy_decision_hash k = Some (pd_policy_decision_hash d) \<and>
     aa_policy_class k = Some (policy_class_value (pd_policy_class d)) \<and>
     aa_risk_delta k = Some (risk_delta_value (pd_risk_delta d)) \<and>
     aa_physical_consequence k = Some (consequence_value (pd_physical_consequence d))"

definition bundle_granted :: "change_approval \<Rightarrow> bool" where
  "bundle_granted a \<longleftrightarrow> ca_bundle_state a \<in> {Some ''fully_approved'', Some ''consumed''}"

definition action_intact :: "policy_decision \<Rightarrow> string \<Rightarrow> change_approval \<Rightarrow> approval_action \<Rightarrow> bool" where
  "action_intact d h a k \<longleftrightarrow>
     (aa_state k \<in> {EXTERNAL_PENDING, APPROVED, CONSUMED} \<longrightarrow>
       present (aa_challenge_id k) \<and> present (aa_challenge_expires_at k)) \<and>
     (present (aa_challenge_id k) \<longrightarrow> action_bound d h k) \<and>
     (bundle_granted a \<longrightarrow> present (aa_granted_at k) \<and> aa_approver_principal k = ca_approver_principal a \<and>
       ca_same_principal_confirmed a = Some True) \<and>
     (second_action_kind d = Some SAFETY_CRITICAL_ACKNOWLEDGEMENT \<longrightarrow> acknowledged_in_time k)"

definition challenge_intact :: "plan_content \<Rightarrow> string \<Rightarrow> change_approval \<Rightarrow> policy_decision \<Rightarrow> bool" where
  "challenge_intact c h a d \<longleftrightarrow>
     (ca_state a \<in> {EXTERNAL_PENDING, APPROVED, CONSUMED} \<longrightarrow> challenge_fields c h a) \<and>
     (bundle_granted a \<longrightarrow> present (ca_approver_principal a) \<and> present (ca_approved_at a) \<and>
       present (ca_approval_expires_at a)) \<and>
     (case ca_acknowledgement a of None \<Rightarrow> True | Some k \<Rightarrow> action_intact d h a k)"

definition approval_intact ::
    "authority \<Rightarrow> plan_content \<Rightarrow> string \<Rightarrow> change_approval \<Rightarrow> policy_decision \<Rightarrow> bool" where
  "approval_intact au c h a d \<longleftrightarrow>
     ca_authority_version a = APPROVAL_AUTHORITY_VERSION \<and>
     ca_policy_decision_hash a = Some (pd_policy_decision_hash d) \<and>
     ca_policy_class a = Some (policy_class_value (pd_policy_class d)) \<and>
     sequence_intact au c a d \<and> states_agree a d \<and> challenge_intact c h a d"

abbreviation intact :: "authority \<Rightarrow> change_plan \<Rightarrow> policy_decision \<Rightarrow> bool" where
  "intact au p d \<equiv> approval_intact au (cp_content p) (plan_hash au p) (cp_approval p) d"

lemma if_Some_None: "(if b then Some e else x) = None \<longleftrightarrow> \<not> b \<and> x = None"
  by simp

lemma sequence_none: "first_failure (sequence_checks au c a d) = None \<longleftrightarrow> sequence_intact au c a d"
  by (cases "ca_acknowledgement a"; cases "second_action_kind d"; cases "safety_critical_binding au c")
    (auto simp: sequence_checks_def sequence_intact_def projected_def Let_def)

lemma challenge_none:
  "first_failure (challenge_checks p h d) = None \<longleftrightarrow> challenge_intact (cp_content p) h (cp_approval p) d"
  unfolding challenge_checks_def challenge_intact_def action_intact_def challenge_fields_def action_bound_def
    acknowledged_in_time_def bundle_granted_def Let_def
  by (cases "ca_acknowledgement (cp_approval p)")
    (simp_all only: option.case append.simps first_failure_simps if_Some_None
      de_Morgan_conj de_Morgan_disj not_not imp_conv_disj conj_assoc disj_assoc simp_thms)

lemma integrity_iff:
  assumes "cp_policy_decision p = Some d" and "pd_policy_class d \<noteq> PROHIBITED"
  shows "approval_bundle_integrity_error au p = None \<longleftrightarrow> intact au p d"
  using assms sequence_none [of au "cp_content p" "cp_approval p" d] challenge_none [of p "plan_hash au p" d]
  by (auto simp: approval_bundle_integrity_error_def authority_checks_def approval_intact_def Let_def if_Some_None)

section \<open>Changes of an approval\<close>

lemmas intact_defs = approval_intact_def sequence_intact_def challenge_intact_def action_intact_def
  bundle_granted_def acknowledged_in_time_def projected_def

lemma states_agree_awaiting:
  "ca_bundle_state a = Some (pending_state r) \<Longrightarrow> second_action_kind d = Some r \<Longrightarrow> r \<noteq> PLAN_APPROVAL \<Longrightarrow>
   ca_state a = APPROVED \<Longrightarrow> map_option aa_state (ca_acknowledgement a) = Some EXTERNAL_PENDING \<Longrightarrow> states_agree a d"
  by (cases r) (simp_all add: states_agree_def expected_states_def)

lemma second_not_plan: "second_action_kind d = Some r \<Longrightarrow> r \<noteq> PLAN_APPROVAL"
  by (auto simp: second_action_kind_def second_action_def find_Some_iff)

lemma sequence_intact_map:
  assumes "sequence_intact au c a d" and "ca_acknowledgement b = map_option f (ca_acknowledgement a)"
    and "\<And>k. aa_kind (f k) = aa_kind k \<and> aa_authority_version (f k) = aa_authority_version k \<and>
      aa_projection_hash (f k) = aa_projection_hash k \<and> aa_acknowledged_objects (f k) = aa_acknowledged_objects k"
  shows "sequence_intact au c b d"
proof -
  have "projected au c r (f k) = projected au c r k" for r k
    using assms(3) [of k] by (cases "safety_critical_binding au c") (simp_all add: projected_def)
  then show ?thesis
    using assms by (cases "ca_acknowledgement a"; cases "second_action_kind d") (simp_all add: sequence_intact_def)
qed

text \<open>An approval that ends, whatever it was, with the acknowledgement ending in the same way.\<close>

lemma ended_intact:
  assumes a: "approval_intact au c h a d"
    and st: "st \<in> {INVALIDATED, EXPIRED, REJECTED}" "ca_state b = st" "\<not> bundle_granted b" "states_agree b d"
    and ack: "ca_acknowledgement b = map_option f (ca_acknowledgement a)"
    and f: "\<And>k. aa_kind (f k) = aa_kind k \<and> aa_authority_version (f k) = aa_authority_version k \<and>
      aa_projection_hash (f k) = aa_projection_hash k \<and> aa_acknowledged_objects (f k) = aa_acknowledged_objects k \<and>
      aa_state (f k) = st \<and> aa_challenge_id (f k) = aa_challenge_id k \<and> action_bound d h (f k) = action_bound d h k"
    and same: "ca_authority_version b = ca_authority_version a" "ca_policy_class b = ca_policy_class a"
      "ca_policy_decision_hash b = ca_policy_decision_hash a"
  shows "approval_intact au c h b d"
proof -
  have "sequence_intact au c b d"
    by (rule sequence_intact_map [where a = a and f = f]) (use a ack f in \<open>simp_all add: approval_intact_def\<close>)
  moreover have "action_intact d h b (f k)" if "ca_acknowledgement a = Some k" for k
  proof -
    have "present (aa_challenge_id k) \<longrightarrow> action_bound d h k"
      using a that by (simp add: approval_intact_def challenge_intact_def action_intact_def)
    then have "present (aa_challenge_id (f k)) \<longrightarrow> action_bound d h (f k)"
      using f [of k] by simp
    moreover have "aa_state (f k) \<notin> {REQUIRED, EXTERNAL_PENDING, APPROVED, CONSUMED}"
      using f [of k] st(1) by auto
    ultimately show ?thesis
      using st(3) by (simp add: action_intact_def acknowledged_in_time_def)
  qed
  then have "challenge_intact c h b d"
    using st ack by (auto simp: challenge_intact_def split: option.split)
  ultimately show ?thesis using a st same by (simp add: approval_intact_def)
qed

lemma closed_intact:
  assumes "approval_intact au c h a d" and "(st, bs) \<in> {(INVALIDATED, ''invalidated''), (EXPIRED, ''expired'')}"
  shows "approval_intact au c h (close_approval st bs a) d"
proof (rule ended_intact [OF assms(1), where st = st and f = "\<lambda>k. k\<lparr>aa_state := st, aa_csrf_digest := None\<rparr>"])
  show "states_agree (close_approval st bs a) d"
    using assms(2) by (cases "ca_acknowledgement a")
      (auto simp: close_approval_def states_agree_def expected_states_def)
qed (use assms(2) in \<open>auto simp: close_approval_def bundle_granted_def action_bound_def\<close>)

lemma rejected_intact:
  assumes "intact au p d"
  shows "intact au (plan_rejected approver p) d"
proof -
  let ?q = "plan_rejected approver p"
  have "plan_hash au ?q = plan_hash au p" by (rule plan_hash_cong) (simp_all add: plan_rejected_def)
  moreover have "cp_content ?q = cp_content p" by (simp add: plan_rejected_def)
  moreover have "approval_intact au (cp_content p) (plan_hash au p) (cp_approval ?q) d"
  proof (rule ended_intact [OF assms, where st = REJECTED and
        f = "\<lambda>k. k\<lparr>aa_state := REJECTED, aa_approver_principal := Some approver\<rparr>"])
    show "states_agree (cp_approval ?q) d"
      by (cases "ca_acknowledgement (cp_approval p)")
        (simp_all add: plan_rejected_def states_agree_def expected_states_def)
  qed (simp_all add: plan_rejected_def bundle_granted_def action_bound_def)
  ultimately show ?thesis by simp
qed

lemma sequence_required:
  "sequence_intact au c a d \<Longrightarrow>
   pd_required_acknowledgements d = (case second_action_kind d of None \<Rightarrow> [PLAN_APPROVAL] | Some r \<Rightarrow> [PLAN_APPROVAL, r]) \<and>
   (second_action_kind d = Some SAFETY_CRITICAL_ACKNOWLEDGEMENT \<longrightarrow> safety_critical_binding au c \<noteq> None)"
  by (cases "ca_acknowledgement a"; cases "second_action_kind d")
    (auto simp: sequence_intact_def projected_def split: option.splits)

lemma requested_intact:
  assumes "approval_intact au c h a d" and "challenge \<noteq> []" and "expires \<noteq> []"
  shows "approval_intact au c h' (requested_approval c d h' kind challenge t expires note (binding_hash au c d)) d"
proof -
  let ?b = "requested_approval c d h' kind challenge t expires note (binding_hash au c d)"
  have fields: "ca_state ?b = EXTERNAL_PENDING" "ca_bundle_state ?b = Some ''pending_plan_approval''"
      "ca_acknowledgement ?b = map_option (requested_action c d h' (binding_hash au c d)) (second_action_kind d)"
    by (simp_all add: requested_approval_def)
  have action: "aa_kind (requested_action c d h' ph r) = r" "aa_state (requested_action c d h' ph r) = REQUIRED"
      "aa_authority_version (requested_action c d h' ph r) = second_action_authority_version r"
      "aa_projection_hash (requested_action c d h' ph r) = ph" "aa_challenge_id (requested_action c d h' ph r) = None"
      "aa_acknowledged_objects (requested_action c d h' ph r) = None" for ph r
    by (simp_all add: requested_action_def new_action_def)
  have "states_agree ?b d"
    by (cases "second_action_kind d") (simp_all add: states_agree_def fields action)
  moreover have "sequence_intact au c ?b d"
  proof -
    have "sequence_intact au c a d" using assms(1) by (simp add: approval_intact_def)
    note required = sequence_required [OF this]
    show ?thesis
      unfolding sequence_intact_def fields
      using required by (cases "second_action_kind d") (auto simp: action projected_def binding_hash_def)
  qed
  moreover have "challenge_fields c h' ?b"
    using assms(2,3) by (simp add: challenge_fields_def requested_approval_def present_def)
  then have "challenge_intact c h' ?b d"
    by (cases "second_action_kind d")
      (simp_all add: challenge_intact_def action_intact_def acknowledged_in_time_def bundle_granted_def fields action
        present_def)
  ultimately show ?thesis by (simp add: approval_intact_def) (simp add: requested_approval_def)
qed

section \<open>Grants\<close>

lemma decides_intact:
  assumes "decides au call p d de action"
  shows "intact au p d" and "challenge_fields (cp_content p) (plan_hash au p) (cp_approval p)"
    and "ca_state (cp_approval p) \<in> {EXTERNAL_PENDING, APPROVED}" and "approver_of de \<noteq> []"
proof -
  show i: "intact au p d" using assms integrity_iff [of p d au] by (simp add: decides_def)
  show s: "ca_state (cp_approval p) \<in> {EXTERNAL_PENDING, APPROVED}"
    using assms pending_approval [of p "plan_hash au p"] by (simp add: decides_def)
  show "challenge_fields (cp_content p) (plan_hash au p) (cp_approval p)"
    using i s by (auto simp: approval_intact_def challenge_intact_def)
  have "de_approver_principal de \<noteq> []" using assms by (simp add: decides_def)
  then show "approver_of de \<noteq> []"
    by (cases "de_approver_principal de") (simp_all add: approver_of_def numeral_eq_Suc)
qed

lemma fully_approved_approval:
  "cp_approval (fully_approved p) = (cp_approval p)\<lparr>ca_bundle_state := Some ''fully_approved''\<rparr>"
  "cp_content (fully_approved p) = cp_content p" "cp_policy_decision (fully_approved p) = cp_policy_decision p"
  by (simp_all add: fully_approved_def Let_def)

lemma granted_intact:
  assumes "decides au call p d de PLAN_APPROVAL" and "second_action_kind d = None" and "t \<noteq> []"
    and "pc_expires_at (cp_content p) \<noteq> []"
  shows "intact au (fully_approved (plan_granted (approver_of de) t p)) d"
proof -
  let ?q = "fully_approved (plan_granted (approver_of de) t p)"
  note p = decides_intact [OF assms(1)]
  have q: "cp_content ?q = cp_content p" by (simp add: fully_approved_approval plan_granted_def)
  have h: "plan_hash au ?q = plan_hash au p"
    by (rule plan_hash_cong) (simp_all add: fully_approved_approval plan_granted_def)
  have none: "ca_acknowledgement (cp_approval p) = None"
    using p(1) assms(2) by (auto simp: approval_intact_def sequence_intact_def split: option.splits)
  have "states_agree (cp_approval ?q) d"
    by (simp add: fully_approved_approval plan_granted_def none states_agree_def expected_states_def)
  moreover have "sequence_intact au (cp_content p) (cp_approval ?q) d"
    using p(1) by (simp add: approval_intact_def sequence_intact_def fully_approved_approval plan_granted_def none)
  moreover have "challenge_intact (cp_content p) (plan_hash au p) (cp_approval ?q) d"
    using p(2,4) assms(3,4)
    by (simp add: challenge_intact_def challenge_fields_def fully_approved_approval plan_granted_def none present_def)
  ultimately show ?thesis
    using p(1) by (simp add: approval_intact_def q h) (simp add: fully_approved_approval plan_granted_def)
qed

lemma awaiting_intact:
  assumes "decides au call p d de PLAN_APPROVAL" and "second_action_kind d = Some kind"
    and "ca_acknowledgement (cp_approval p) = Some k" and "challenge \<noteq> []" and "expires \<noteq> []"
  shows "intact au (second_awaited kind
      (bound_second d (plan_hash au p) expires (requested_second kind challenge r k))
      (plan_granted (approver_of de) t p)) d"
proof -
  let ?k = "bound_second d (plan_hash au p) expires (requested_second kind challenge r k)"
  let ?q = "second_awaited kind ?k (plan_granted (approver_of de) t p)"
  note p = decides_intact [OF assms(1)]
  have q: "cp_content ?q = cp_content p" by (simp add: second_awaited_def with_action_def plan_granted_def)
  have h: "plan_hash au ?q = plan_hash au p"
    by (rule plan_hash_cong) (simp_all add: second_awaited_def with_action_def plan_granted_def)
  have a: "ca_acknowledgement (cp_approval ?q) = Some ?k" "ca_state (cp_approval ?q) = APPROVED"
      "ca_bundle_state (cp_approval ?q) = Some (pending_state kind)"
    by (simp_all add: second_awaited_def with_action_def plan_granted_def)
  have k: "aa_state ?k = EXTERNAL_PENDING" "aa_kind ?k = aa_kind k" "aa_projection_hash ?k = aa_projection_hash k"
      "aa_acknowledged_objects ?k = aa_acknowledged_objects k" "aa_authority_version ?k = second_action_authority_version kind"
      "aa_challenge_id ?k = Some challenge" "aa_challenge_expires_at ?k = Some expires" "action_bound d (plan_hash au p) ?k"
    by (simp_all add: bound_second_def requested_second_def action_bound_def)
  have second: "kind \<noteq> PLAN_APPROVAL" by (rule second_not_plan [OF assms(2)])
  have "pending_state kind \<notin> {''fully_approved'', ''consumed''}" by (cases kind) simp_all
  then have ungranted: "\<not> bundle_granted (cp_approval ?q)" by (simp add: bundle_granted_def a)
  have old: "aa_kind k = kind" "projected au (cp_content p) kind k"
      "pd_required_acknowledgements d = [PLAN_APPROVAL, kind]"
    using p(1) assms(2,3) by (simp_all add: approval_intact_def sequence_intact_def)
  have "projected au (cp_content p) kind ?k"
    using old(2) unfolding projected_def k .
  then have "sequence_intact au (cp_content p) (cp_approval ?q) d"
    using old by (simp add: sequence_intact_def a assms(2) k)
  moreover have "states_agree (cp_approval ?q) d"
    by (rule states_agree_awaiting [OF a(3) assms(2) second a(2)]) (simp add: a k)
  moreover have "kind = SAFETY_CRITICAL_ACKNOWLEDGEMENT \<longrightarrow> aa_acknowledged_objects k = None"
    using p(1) assms(2,3) pending_ungranted [OF assms(1,3)]
    by (simp add: approval_intact_def challenge_intact_def action_intact_def acknowledged_in_time_def)
  then have "kind = SAFETY_CRITICAL_ACKNOWLEDGEMENT \<longrightarrow> acknowledged_in_time ?k"
    by (simp add: acknowledged_in_time_def bound_second_def requested_second_def)
  then have "action_intact d (plan_hash au p) (cp_approval ?q) ?k"
    using ungranted assms(4,5) by (simp add: action_intact_def k assms(2) present_def)
  moreover have "challenge_fields (cp_content p) (plan_hash au p) (cp_approval ?q)"
    using p(2) by (simp add: challenge_fields_def second_awaited_def with_action_def plan_granted_def)
  moreover note ungranted
  ultimately show ?thesis
    using p(1) by (simp add: approval_intact_def q h challenge_intact_def a)
      (simp add: second_awaited_def with_action_def plan_granted_def)
qed

lemma acknowledged_intact:
  assumes "decides au call p d de action" and "action \<noteq> PLAN_APPROVAL"
    and "ca_acknowledgement (cp_approval p) = Some k"
    and "ca_approver_principal (cp_approval p) = Some (approver_of de)"
    and "objects_fit au (cp_content p) action de k objects" and "t \<noteq> []"
    and "present (ca_approved_at (cp_approval p))" and "present (ca_approval_expires_at (cp_approval p))"
  shows "intact au (second_granted objects (approver_of de) t k p) d"
proof -
  let ?k = "k\<lparr>aa_acknowledged_objects := objects, aa_state := APPROVED, aa_granted_at := Some t,
          aa_approver_principal := Some (approver_of de)\<rparr>"
  let ?q = "second_granted objects (approver_of de) t k p"
  note p = decides_intact [OF assms(1)] and second = second_challenge [OF assms(1,2,3)]
  have a: "cp_approval ?q = (cp_approval p)\<lparr>ca_acknowledgement := Some ?k, ca_same_principal_confirmed := Some True,
      ca_bundle_state := Some ''fully_approved''\<rparr>"
    by (simp add: second_granted_def fully_approved_approval with_action_def)
  have q: "cp_content ?q = cp_content p" by (simp add: second_granted_def fully_approved_approval with_action_def)
  have h: "plan_hash au ?q = plan_hash au p"
    by (rule plan_hash_cong) (simp_all add: a, simp_all add: second_granted_def fully_approved_approval with_action_def)
  have old: "second_action_kind d = Some action" "projected au (cp_content p) action k"
      "pd_required_acknowledgements d = [PLAN_APPROVAL, action]"
      "aa_authority_version k = second_action_authority_version action"
      "present (aa_challenge_id k)" "present (aa_challenge_expires_at k)" "action_bound d (plan_hash au p) k"
    using p(1) assms(3) second
    by (auto simp: approval_intact_def sequence_intact_def challenge_intact_def action_intact_def split: option.splits)
  have objects: "projected au (cp_content p) action ?k" "action = SAFETY_CRITICAL_ACKNOWLEDGEMENT \<longrightarrow> objects \<noteq> None"
    using old(2) assms(5) by (auto simp: projected_def objects_fit_def split: option.splits if_splits)
  have "sequence_intact au (cp_content p) (cp_approval ?q) d"
    unfolding sequence_intact_def a using old objects(1) second(2) by simp
  moreover have "states_agree (cp_approval ?q) d"
    by (simp add: a states_agree_def expected_states_def second(1))
  moreover have "action_intact d (plan_hash au p) (cp_approval ?q) ?k"
    using old objects assms(4,6)
    by (simp add: action_intact_def acknowledged_in_time_def action_bound_def a present_def)
  then have "challenge_intact (cp_content p) (plan_hash au p) (cp_approval ?q) d"
    using p(2,4) assms(4,7,8) by (simp add: challenge_intact_def a challenge_fields_def present_def)
  ultimately show ?thesis
    using p(1) by (simp add: approval_intact_def q h) (simp add: a)
qed

text \<open>A granted approval that is consumed.\<close>

lemma consumed_intact:
  assumes "intact au p d" and "requirement_checks au p d ''apply'' True = None"
  shows "approval_intact au (cp_content p) (plan_hash au p) (consumed_approval t (cp_approval p)) d"
proof -
  let ?a = "cp_approval p" and ?b = "consumed_approval t (cp_approval p)"
  note facts = requirement_facts [OF assms(2)]
  have agree: "states_agree ?a d" using assms(1) by (simp add: approval_intact_def)
  have granted: "ca_bundle_state ?a = Some ''fully_approved''"
  proof (cases "present (ca_bundle_state ?a)")
    case True
    then show ?thesis using facts(7) by (auto simp: approval_bundle_state_def present_def split: option.splits)
  next
    case False
    have "pending_state r \<noteq> []" for r by (cases r) simp_all
    with False agree show ?thesis
      by (auto simp: states_agree_def expected_states_def present_def Let_def split: option.splits if_splits)
  qed
  have action: "aa_state k = APPROVED" if "ca_acknowledgement ?a = Some k" for k
    using agree that by (simp add: states_agree_def expected_states_def granted)
  have "sequence_intact au (cp_content p) ?b d"
    by (rule sequence_intact_map [where a = ?a and f = "\<lambda>k. k\<lparr>aa_state := CONSUMED, aa_consumed_at := Some t\<rparr>"])
      (use assms(1) in \<open>simp_all add: approval_intact_def consumed_approval_def\<close>)
  moreover have "states_agree ?b d"
    by (cases "ca_acknowledgement ?a") (simp_all add: consumed_approval_def states_agree_def expected_states_def)
  moreover have "challenge_fields (cp_content p) (plan_hash au p) ?b"
    using assms(1) facts(3)
    by (simp add: approval_intact_def challenge_intact_def challenge_fields_def consumed_approval_def)
  moreover have "action_intact d (plan_hash au p) ?b (k\<lparr>aa_state := CONSUMED, aa_consumed_at := Some t\<rparr>)"
    if "ca_acknowledgement ?a = Some k" for k
    using assms(1) that action [OF that] granted
    by (simp add: approval_intact_def challenge_intact_def action_intact_def bundle_granted_def
        acknowledged_in_time_def action_bound_def consumed_approval_def)
  ultimately show ?thesis
    using assms(1) granted
    by (simp add: approval_intact_def challenge_intact_def bundle_granted_def split: option.split)
      (auto simp: consumed_approval_def)
qed

section \<open>Steps keep integrity\<close>

text \<open>
  A sound plan: the integrity check passes, its approval is for what its status waits for, a granted approval
  says who granted it when and until when, and the plan has an end.
\<close>

definition sound :: "authority \<Rightarrow> change_plan \<Rightarrow> bool" where
  "sound au p \<longleftrightarrow>
     pred_option (\<lambda>d. pd_policy_class d \<noteq> PROHIBITED \<longrightarrow> approval_bundle_integrity_error au p = None)
       (cp_policy_decision p) \<and>
     barred p \<and>
     (cp_status p \<in> {AWAITING_APPROVAL, ROLLBACK_PENDING} \<longrightarrow>
       ca_approval_kind (cp_approval p) = approval_kind_of p) \<and>
     (ca_state (cp_approval p) = APPROVED \<longrightarrow>
       present (ca_approver_principal (cp_approval p)) \<and> present (ca_approved_at (cp_approval p)) \<and>
       present (ca_approval_expires_at (cp_approval p))) \<and>
     pc_expires_at (cp_content p) \<noteq> []"

definition sound_rest :: "change_plan \<Rightarrow> bool" where
  "sound_rest p \<longleftrightarrow>
     (cp_status p \<in> {AWAITING_APPROVAL, ROLLBACK_PENDING} \<longrightarrow>
       ca_approval_kind (cp_approval p) = approval_kind_of p) \<and>
     (ca_state (cp_approval p) = APPROVED \<longrightarrow>
       present (ca_approver_principal (cp_approval p)) \<and> present (ca_approved_at (cp_approval p)) \<and>
       present (ca_approval_expires_at (cp_approval p))) \<and>
     pc_expires_at (cp_content p) \<noteq> []"

lemma sound_iff:
  "sound au p \<longleftrightarrow> (\<forall>d. cp_policy_decision p = Some d \<longrightarrow> pd_policy_class d \<noteq> PROHIBITED \<longrightarrow> intact au p d) \<and>
     barred p \<and> sound_rest p"
  by (cases "cp_policy_decision p") (auto simp: sound_def sound_rest_def integrity_iff)

lemma same_approval_intact:
  "intact au p d \<Longrightarrow> cp_content q = cp_content p \<Longrightarrow> cp_policy_decision q = cp_policy_decision p \<Longrightarrow>
   ca_approval_kind (cp_approval q) = ca_approval_kind (cp_approval p) \<Longrightarrow>
   ca_authority_version (cp_approval q) = ca_authority_version (cp_approval p) \<Longrightarrow>
   approval_intact au (cp_content p) (plan_hash au p) (cp_approval q) d \<Longrightarrow> intact au q d"
  using plan_hash_cong [of q p au] by simp

lemma sound_rest_step:
  assumes "plan_step au tokens call p q" and "sound_rest p" and "[] \<notin> range (au_time_text au)"
  shows "sound_rest q"
  using assms
proof (induction rule: plan_step.induct)
  case (granted p d de t)
  then have "t \<noteq> []" by metis
  with granted show ?case
    using decides_intact(4) [OF granted(1)] by (auto simp: sound_rest_def plan_change_defs approval_kind_of_def present_def)
next
  case (awaiting p d de kind k t challenge expires requested_at)
  then have "t \<noteq> []" by metis
  with awaiting show ?case
    using decides_intact(4) [OF awaiting(1)] by (auto simp: sound_rest_def plan_change_defs approval_kind_of_def present_def)
qed (auto simp: sound_rest_def plan_change_defs approval_kind_of_def requested_approval_def settled_statuses_def)

lemma intact_step:
  assumes "plan_step au tokens call p q" and "sound au p"
    and "cp_policy_decision p = Some d" and "pd_policy_class d \<noteq> PROHIBITED"
    and "[] \<notin> tokens" and "[] \<notin> range (au_time_text au)"
  shows "intact au q d"
  using assms
proof (induction rule: plan_step.induct)
  case (annotated p t es)
  then have "intact au p d" by (simp add: sound_iff)
  then show ?case by (rule same_approval_intact) (simp_all add: \<open>intact au p d\<close>)
next
  case (settled p st res)
  then have "intact au p d" by (simp add: sound_iff)
  then show ?case by (rule same_approval_intact) (simp_all add: \<open>intact au p d\<close>)
next
  case (expired p)
  then have "intact au p d" by (simp add: sound_iff)
  then show ?case by (rule same_approval_intact)
    (simp_all add: invalidate_approval_def closed_intact \<open>intact au p d\<close>, simp_all add: close_approval_def)
next
  case (superseded p)
  then have "intact au p d" by (simp add: sound_iff)
  then show ?case by (rule same_approval_intact)
    (simp_all add: invalidate_approval_def closed_intact \<open>intact au p d\<close>, simp_all add: close_approval_def)
next
  case (invalidated p)
  then have "intact au p d" by (simp add: sound_iff)
  then show ?case by (rule same_approval_intact)
    (simp_all add: invalidate_approval_def closed_intact \<open>intact au p d\<close>, simp_all add: close_approval_def)
next
  case (lapsed p)
  then have "intact au p d" by (simp add: sound_iff)
  then show ?case by (rule same_approval_intact)
    (simp_all add: closed_intact \<open>intact au p d\<close>, simp_all add: close_approval_def)
next
  case (nonce p action digest issued_at)
  then show ?case
    using integrity_nonce [of p d au action digest issued_at] integrity_iff [of p d au]
      integrity_iff [of "cp_approval_update (set_csrf action digest issued_at) p" d au]
    by (simp add: sound_iff)
next
  case (requested p rnote d' challenge expires requested_at request_note)
  then have p: "intact au p d" "d' = d" "ca_approval_kind (cp_approval p) = approval_kind_of p"
    by (auto simp: sound_iff sound_rest_def)
  let ?a = "requested_approval (cp_content p) d (plan_hash au p) (approval_kind_of p) challenge requested_at
      expires request_note (binding_hash au (cp_content p) d)"
  have "approval_intact au (cp_content p) (plan_hash au p) ?a d"
    using p(1) by (rule requested_intact) (use requested in metis)+
  then show ?case unfolding p(2)
    by (intro same_approval_intact [OF p(1)])
      (use p in \<open>simp_all add: requested_approval_def approval_intact_def\<close>)
next
  case (granted p d' de t)
  then have p: "d' = d" "t \<noteq> []" "pc_expires_at (cp_content p) \<noteq> []"
    by (simp add: decides_def, metis) (use granted in \<open>simp add: sound_iff sound_rest_def\<close>)
  show ?case by (rule granted_intact [OF granted(1) [unfolded p(1)] granted(3) [unfolded p(1)] p(2,3)])
next
  case (awaiting p d' de kind k t challenge expires requested_at)
  then have p: "d' = d" "challenge \<noteq> []" "expires \<noteq> []" by (simp add: decides_def, metis, metis)
  show ?case
    unfolding p(1) by (rule awaiting_intact [OF awaiting(1) [unfolded p(1)] awaiting(3) [unfolded p(1)] awaiting(4) p(2,3)])
next
  case (acknowledged p d' de action k objects t)
  then have p: "d' = d" "t \<noteq> []" by (simp add: decides_def, metis)
  have "present (ca_approved_at (cp_approval p))" "present (ca_approval_expires_at (cp_approval p))"
    using acknowledged second_challenge(1) [OF acknowledged(1,2,4)] by (simp_all add: sound_iff sound_rest_def)
  then show ?case
    by (rule acknowledged_intact [OF acknowledged(1) [unfolded p(1)] acknowledged(2,4,5,6) p(2)])
next
  case (rejected p d' de action)
  then have "intact au p d" by (simp add: sound_iff)
  then show ?case by (rule rejected_intact)
next
  case (consumed cd w p d' t o' r)
  then have p: "intact au p d" "d' = d" by (simp_all add: sound_iff)
  then show ?case
    by (intro same_approval_intact [OF p(1)])
      (use consumed consumed_intact [OF p(1)] in \<open>simp_all add: consumed_approval_def\<close>)
qed

lemma sound_step:
  assumes "plan_step au tokens call p q" and "sound au p"
    and "[] \<notin> tokens" and "[] \<notin> range (au_time_text au)"
  shows "sound au q"
proof -
  have "intact au q d" if "cp_policy_decision q = Some d" "pd_policy_class d \<noteq> PROHIBITED" for d
    using intact_step [OF assms(1,2) _ that(2) assms(3,4)] that(1) step_content [OF assms(1)] by simp
  moreover have "barred q" using barred_step [OF assms(1)] assms(2) by (simp add: sound_iff)
  moreover have "sound_rest q" using sound_rest_step [OF assms(1) _ assms(4)] assms(2) by (simp add: sound_iff)
  ultimately show ?thesis by (simp add: sound_iff)
qed

interpretation soundness: approval_invariant au tokens
  "\<lambda>_ p. [] \<notin> tokens \<and> [] \<notin> range (au_time_text au) \<longrightarrow> sound au p" for au tokens
  by unfold_locales (simp, blast intro: sound_step)

section \<open>New plans\<close>

text \<open>A plan as its creation stores it: bound to the decision of the policy in force.\<close>

definition freshly_bound :: "authority \<Rightarrow> change_plan \<Rightarrow> bool" where
  "freshly_bound au p \<longleftrightarrow>
     cp_status p = AWAITING_APPROVAL \<and> pc_expires_at (cp_content p) \<noteq> [] \<and>
     (case evaluate_change_policy au (cp_content p) of
        Inl _ \<Rightarrow> False
      | Inr d \<Rightarrow> bind_new_plan_policy au (p\<lparr>cp_policy_decision := Some d, cp_approval := new_approval\<rparr>) = Inr p)"

lemma required_second:
  assumes "evaluate_change_policy au c = Inr d" and "pd_policy_class d \<noteq> PROHIBITED"
  shows "pd_required_acknowledgements d =
    (case second_action_kind d of None \<Rightarrow> [PLAN_APPROVAL] | Some r \<Rightarrow> [PLAN_APPROVAL, r])"
  using assms
  by (auto simp: evaluate_change_policy_def Let_def and_then_def demand_def required_actions_def
      second_action_kind_def second_action_def split: if_splits policy_class.splits)

lemma first_stage_intact:
  assumes "evaluate_change_policy au c = Inr d" and "pd_policy_class d \<noteq> PROHIBITED"
    and "ca_authority_version a = APPROVAL_AUTHORITY_VERSION"
    and "ca_policy_decision_hash a = Some (pd_policy_decision_hash d)"
    and "ca_policy_class a = Some (policy_class_value (pd_policy_class d))"
    and "ca_state a = REQUIRED" and "ca_bundle_state a = Some ''pending_plan_approval''"
    and "ca_acknowledgement a = map_option (\<lambda>r. (new_action r)\<lparr>
        aa_authority_version := second_action_authority_version r,
        aa_projection_hash := binding_hash au c d\<rparr>) (second_action_kind d)"
    and "second_action_kind d = Some SAFETY_CRITICAL_ACKNOWLEDGEMENT \<longrightarrow> safety_critical_binding au c \<noteq> None"
  shows "approval_intact au c h a d"
proof -
  have "sequence_intact au c a d"
    using assms(8,9) required_second [OF assms(1,2)] unfolding sequence_intact_def
    by (cases "second_action_kind d") (auto simp: new_action_def projected_def binding_hash_def)
  moreover have "states_agree a d"
    using assms(6-8) by (cases "second_action_kind d") (simp_all add: states_agree_def new_action_def)
  moreover have "challenge_intact c h a d"
    using assms(6-8) by (cases "second_action_kind d")
      (simp_all add: challenge_intact_def action_intact_def acknowledged_in_time_def bundle_granted_def new_action_def
        present_def)
  ultimately show ?thesis using assms(3-5) by (simp add: approval_intact_def)
qed

lemma bound_plan:
  assumes "cp_policy_decision r = Some d" and "cp_approval r = new_approval" and "bind_new_plan_policy au r = Inr q"
  shows "cp_policy_decision q = Some d" and "ca_state (cp_approval q) = REQUIRED"
    and "ca_approval_kind (cp_approval q) = ''apply''"
    and "ca_authority_version (cp_approval q) = APPROVAL_AUTHORITY_VERSION"
    and "ca_policy_decision_hash (cp_approval q) = Some (pd_policy_decision_hash d)"
    and "ca_policy_class (cp_approval q) = Some (policy_class_value (pd_policy_class d))"
    and "pd_policy_class d \<noteq> PROHIBITED \<Longrightarrow> ca_bundle_state (cp_approval q) = Some ''pending_plan_approval''"
    and "ca_acknowledgement (cp_approval q) = map_option (\<lambda>k. (new_action k)\<lparr>
        aa_authority_version := second_action_authority_version k,
        aa_projection_hash := binding_hash au (cp_content r) d\<rparr>) (second_action_kind d)"
    and "second_action_kind d = Some SAFETY_CRITICAL_ACKNOWLEDGEMENT \<Longrightarrow>
        safety_critical_binding au (cp_content r) \<noteq> None"
  using assms unfolding bind_new_plan_policy_def
  by (auto simp: Let_def new_approval_def binding_hash_def new_action_def split: option.splits if_splits)

lemma freshly_bound_sound:
  assumes "freshly_bound au p"
  shows "sound au p"
proof -
  obtain d where d: "evaluate_change_policy au (cp_content p) = Inr d"
    and bound: "bind_new_plan_policy au (p\<lparr>cp_policy_decision := Some d, cp_approval := new_approval\<rparr>) = Inr p"
    using assms by (auto simp: freshly_bound_def split: sum.splits)
  note new = bound_plan [OF _ _ bound, of d, simplified]
  have "intact au p d" if "pd_policy_class d \<noteq> PROHIBITED"
    using first_stage_intact [OF d that] new that by simp
  then show ?thesis
    using new assms by (auto simp: sound_iff sound_rest_def barred_def freshly_bound_def approval_kind_of_def)
qed

end
