(* ===== verification/Approval_Examples.thy ===== *)
theory Approval_Examples
  imports Approval_Integrity
begin

text \<open>
  A plan that changes a front door lock, from its creation to its dispatch: the request, the review and the
  approval of an administrator, the review and the acknowledgement of the protected object, the dispatch.
  The digests and times of this example are constants, which is all the model asks of them.
\<close>

section \<open>The parameters\<close>

definition sample_digest :: string where "sample_digest = replicate 64 CHR ''a''"

definition sample_effect :: policy_classification where
  "sample_effect = \<lparr>cl_policy_class = ELEVATED_ADMIN, cl_risk_delta = HIGH_DELTA,
     cl_physical_consequence = SAFETY_CRITICAL, cl_reason_codes = [''safety''],
     cl_safety_critical_acknowledgement = True\<rparr>"

definition sample_authority :: authority where
  "sample_authority =
     \<lparr>au_python = \<lparr>float_text = (\<lambda>_. ''0''), sha256_hex = (\<lambda>_. sample_digest), digit_class = (\<lambda>_. None)\<rparr>,
      au_iso = (\<lambda>s. Some (Some (if s = ''end'' then 100 else 50))), au_time_text = (\<lambda>_. ''soon''),
      au_normalize_automation = (\<lambda>v _. v), au_plan_policy = (\<lambda>_. [sample_effect]), au_owner_exact = (\<lambda>_. False),
      au_compare = (\<lambda>op. Inr \<lparr>ec_protected = True, ec_projection_hash = sample_digest,
         ec_acknowledgement_objects = [co_target_id op]\<rparr>),
      au_persisted_safe = (\<lambda>_. True), au_configuration_projection = (\<lambda>_ _. True),
      au_dashboard_projection = (\<lambda>_. True), au_normalization = (\<lambda>_. Inr ()), au_actionable = (\<lambda>_. True),
      au_replan_required = (\<lambda>_. False), au_rollback_source = (\<lambda>_. Inr ()), au_readable = (\<lambda>_. Inr ()),
      au_historical = (\<lambda>_. False), au_prohibited = (\<lambda>_. False), au_sanitize_note = (\<lambda>_. None)\<rparr>"

definition sample_risk :: risk_assessment where
  "sample_risk = \<lparr>ri_level = HIGH_RISK, ri_reasons = [], ri_apply_allowed = True, ri_evidence = [], ri_warnings = []\<rparr>"

definition sample_content :: plan_content where
  "sample_content =
     \<lparr>pc_plan_id = ''p'', pc_plan_version = 1, pc_created_at = ''soon'', pc_expires_at = ''end'',
      pc_title = ''Front door'', pc_description = [], pc_requested_by = ''agent'',
      pc_target_type = ''configuration_plan'', pc_target_id = ''p'', pc_operation = CONFIGURATION_PLAN,
      pc_proposed_config = JDict [], pc_normalized_proposed_config = JDict [], pc_current_state_fingerprint = ''f'',
      pc_proposed_config_hash = ''h'', pc_risk = sample_risk, pc_normalization_version = 2, pc_valid = True,
      pc_contract_version = 2,
      pc_operations = [\<lparr>co_operation_id = ''op'', co_order = 0, co_depends_on = [],
        co_resource_type = ''automation'', co_action = ''update'', co_target_id = ''door'', co_helper_type = None,
        co_proposed_config = JDict [], co_normalized_proposed_config = JDict [],
        co_current_state_fingerprint = ''f'', co_proposed_config_hash = ''h'', co_normalization_version = 2,
        co_risk = sample_risk, co_semantic_projection_hash = None, co_called_scripts = None, co_evidence = JNull\<rparr>],
      pc_plan_family = ''configuration_change'', pc_operational = None, pc_rollback_expected_fingerprint = None,
      pc_evidence = JNull\<rparr>"

definition sample_decision :: policy_decision where
  "sample_decision = \<lparr>pd_policy_version = POLICY_VERSION, pd_policy_class = ELEVATED_ADMIN,
     pd_risk_delta = HIGH_DELTA, pd_physical_consequence = SAFETY_CRITICAL, pd_reason_codes = [''safety''],
     pd_required_acknowledgements = [PLAN_APPROVAL, SAFETY_CRITICAL_ACKNOWLEDGEMENT],
     pd_policy_subject_hash = sample_digest, pd_policy_decision_hash = sample_digest\<rparr>"

definition sample_plan :: change_plan where
  "sample_plan = \<lparr>cp_content = sample_content, cp_updated_at = ''soon'', cp_status = AWAITING_APPROVAL,
     cp_policy_decision = Some sample_decision,
     cp_approval = new_approval\<lparr>ca_policy_decision_hash := Some sample_digest,
       ca_policy_class := Some ''elevated_admin'', ca_bundle_state := Some ''pending_plan_approval'',
       ca_acknowledgement := Some ((new_action SAFETY_CRITICAL_ACKNOWLEDGEMENT)\<lparr>
         aa_authority_version := 4, aa_projection_hash := Some sample_digest\<rparr>)\<rparr>,
     cp_dispatched_once = False, cp_rollback_approved_at = None,
     cp_apply_request_id = None, cp_execution_outcome = None, cp_events = []\<rparr>"

definition sample_governance :: "change_plan \<Rightarrow> nat \<Rightarrow> nat \<Rightarrow> nat \<Rightarrow> governance" where
  "sample_governance p clock tokens reads = \<lparr>gv_plans = [(''p'', p)], gv_clock = clock, gv_times = (\<lambda>_. 0),
     gv_token_count = tokens, gv_tokens = (\<lambda>_. ''token''), gv_storage_count = reads,
     gv_storage_faults = (\<lambda>_. False), gv_after_faults = (\<lambda>_. False), gv_request_id = ''r'', gv_caller_id = ''c''\<rparr>"

lemma sample_fields [simp]:
  "sha256_hex (au_python sample_authority) s = sample_digest"
  "au_iso sample_authority s = Some (Some (if s = ''end'' then 100 else 50))" "au_time_text sample_authority t = ''soon''"
  "au_plan_policy sample_authority c = [sample_effect]" "au_owner_exact sample_authority c = False"
  "au_compare sample_authority op = Inr \<lparr>ec_protected = True, ec_projection_hash = sample_digest,
         ec_acknowledgement_objects = [co_target_id op]\<rparr>"
  "au_persisted_safe sample_authority p = True" "au_configuration_projection sample_authority b c = True"
  "au_dashboard_projection sample_authority c = True" "au_normalization sample_authority c = Inr ()"
  "au_actionable sample_authority c = True" "au_rollback_source sample_authority c = Inr ()"
  "au_readable sample_authority p = Inr ()" "au_sanitize_note sample_authority n = None"
  by (simp_all add: sample_authority_def)

lemma sample_hash [simp]: "stable_hash sample_authority v = sample_digest"
  by (simp add: stable_hash_def)

lemma sample_evaluated [simp]: "evaluate_change_policy sample_authority c = Inr sample_decision"
proof -
  have "bytewise [''safety''] = [''safety'']" "valid_decision sample_decision" by code_simp+
  then show ?thesis
    by (simp add: evaluate_change_policy_def Let_def top_by_def required_actions_def sample_decision_def
        sample_effect_def and_then_def demand_def)
qed

lemma sample_plan_hash [simp]: "plan_hash sample_authority p = sample_digest"
  by (simp add: plan_hash_def Let_def split: option.split)

lemma sample_binding [simp]:
  "safety_critical_binding sample_authority sample_content =
     Some \<lparr>ab_projection_hash = sample_digest, ab_objects = [(''op'', ''door'')]\<rparr>"
  by (simp add: safety_critical_binding_def plan_acknowledgement_binding_def protected_rows_def sorted_operations_def
      sample_content_def and_then_def MAX_ACKNOWLEDGED_OBJECTS_def Let_def)

lemma sample_second [simp]: "second_action_kind sample_decision = Some SAFETY_CRITICAL_ACKNOWLEDGEMENT"
  by (simp add: second_action_kind_def second_action_def sample_decision_def)


lemma sample_content_fields [simp]:
  "pc_plan_id sample_content = ''p''" "pc_contract_version sample_content = 2"
  "pc_expires_at sample_content = ''end''" "pc_valid sample_content"
  by (simp_all add: sample_content_def)

lemma sample_class [simp]: "pd_policy_class sample_decision = ELEVATED_ADMIN" "pd_policy_version sample_decision = POLICY_VERSION"
  by (simp_all add: sample_decision_def)

lemma digest_present [simp]: "present (Some sample_digest)"
  by (simp add: present_def sample_digest_def)

section \<open>Runs in the example\<close>

lemma governance_fields [simp]:
  "gv_plans (sample_governance p c t r) = [(''p'', p)]" "gv_clock (sample_governance p c t r) = c"
  "gv_times (sample_governance p c t r) = (\<lambda>_. 0)" "gv_token_count (sample_governance p c t r) = t"
  "gv_tokens (sample_governance p c t r) = (\<lambda>_. ''token'')" "gv_storage_count (sample_governance p c t r) = r"
  "gv_storage_faults (sample_governance p c t r) = (\<lambda>_. False)"
  "gv_after_faults (sample_governance p c t r) = (\<lambda>_. False)"
  "gv_request_id (sample_governance p c t r) = ''r''" "gv_caller_id (sample_governance p c t r) = ''c''"
  "gv_plans_update (AList.update ''p'' q) (sample_governance p c t r) = sample_governance q c t r"
  "gv_clock_update f (sample_governance p c t r) = sample_governance p (f c) t r"
  "gv_token_count_update f (sample_governance p c t r) = sample_governance p c (f t) r"
  "gv_storage_count_update f (sample_governance p c t r) = sample_governance p c t (f r)"
  by (simp_all add: sample_governance_def)

text \<open>A plan with one more event.\<close>

definition stamped :: "string \<Rightarrow> change_plan \<Rightarrow> change_plan" where
  "stamped ev p = p\<lparr>cp_events := cp_events p @ [\<lparr>ce_event = ev, ce_timestamp = ''soon'', ce_request_id = ''r'',
     ce_caller_id = ''c'', ce_result_status = ''success'', ce_error_code = None\<rparr>], cp_updated_at := ''soon''\<rparr>"

lemma basic_sample [simp]:
  "now (sample_governance p c t r) = (Inr 0, sample_governance p (Suc c) t r)"
  "token_urlsafe (sample_governance p c t r) = (Inr ''token'', sample_governance p c (Suc t) r)"
  "timestamp_now sample_authority (sample_governance p c t r) = (Inr ''soon'', sample_governance p (Suc c) t r)"
  "storage_step (sample_governance p c t r) = (Inr (), sample_governance p c t (Suc r))"
  "after_save (sample_governance p c t r) = (Inr (), sample_governance p c t r)"
  by (simp_all add: now_def token_urlsafe_def timestamp_now_def storage_step_def after_save_def effect_basic_defs)

lemma record_sample [simp]:
  "cp_content q = sample_content \<Longrightarrow>
   record_event sample_authority q ev ''success'' None (sample_governance p c t r) =
     (Inr (stamped ev q), sample_governance (stamped ev q) (Suc (Suc c)) t (Suc r))"
  by (simp add: record_event_def save_plan_def effect_basic_defs Let_def stamped_def)

lemma read_sample [simp]: "read_plan ''p'' (sample_governance p c t r) = (Inr p, sample_governance p c t (Suc r))"
  by (simp add: read_plan_def effect_basic_defs)

text \<open>A plan of the example that is intact and open, and whose pending challenge, if any, ends soon.\<close>

definition in_force :: "change_plan \<Rightarrow> bool" where
  "in_force p \<longleftrightarrow> cp_content p = sample_content \<and> cp_policy_decision p = Some sample_decision \<and>
     approval_intact sample_authority sample_content sample_digest (cp_approval p) sample_decision \<and>
     \<not> is_terminal_plan p"

definition ends_soon :: "change_plan \<Rightarrow> bool" where
  "ends_soon p \<longleftrightarrow> snd (snd (snd (active_challenge p))) = Some ''soon''"

lemma in_force_fields:
  assumes "in_force p"
  shows "cp_content p = sample_content" and "cp_policy_decision p = Some sample_decision"
    and "ca_authority_version (cp_approval p) = APPROVAL_AUTHORITY_VERSION"
    and "ca_policy_decision_hash (cp_approval p) = Some (pd_policy_decision_hash sample_decision)"
    and "ca_policy_class (cp_approval p) = Some ''elevated_admin''" and "\<not> is_terminal_plan p"
  using assms by (simp_all add: in_force_def approval_intact_def)

lemma in_force_snapshot [simp]: "in_force p \<Longrightarrow> require_policy_snapshot sample_authority p = Inr ()"
  using integrity_iff [of p sample_decision sample_authority]
  by (simp add: in_force_def require_policy_snapshot_def policy_snapshot_matches_def and_then_def demand_def)

lemma load_sample [simp]:
  assumes "in_force p"
  shows "load_plan sample_authority ''p'' (sample_governance p c t r) = (Inr p, sample_governance p c t (Suc r))"
    and "load_for_projection sample_authority ''p'' (sample_governance p c t r) =
      (Inr p, sample_governance p c t (Suc r))"
  using assms by (simp_all add: load_plan_def load_for_projection_def effect_basic_defs require_plan_safe_def)

lemma challenge_sample [simp]:
  assumes "challenge_pending p \<longrightarrow> ends_soon p"
  shows "challenge_has_expired sample_authority p (sample_governance q c t r) =
      (Inr False, sample_governance q (if challenge_pending p then Suc c else c) t r)"
    and "active_challenge_matches sample_authority p h (sample_governance q c t r) =
      (Inr (challenge_bound p h), sample_governance q (if challenge_bound p h \<and> challenge_pending p then Suc c else c) t r)"
proof -
  show first: "challenge_has_expired sample_authority p (sample_governance q c t r) =
      (Inr False, sample_governance q (if challenge_pending p then Suc c else c) t r)"
    using assms by (cases "active_challenge p")
      (auto simp: challenge_has_expired_def effect_basic_defs time_reached_def ends_soon_def present_def)
  show "active_challenge_matches sample_authority p h (sample_governance q c t r) =
      (Inr (challenge_bound p h), sample_governance q (if challenge_bound p h \<and> challenge_pending p then Suc c else c) t r)"
    by (simp add: active_challenge_matches_def effect_basic_defs first)
qed

lemma resolve_sample [simp]:
  assumes "in_force p" and "challenge_pending p \<longrightarrow> ends_soon p"
  shows "resolve_lifecycle sample_authority p (sample_governance q c t r) =
     (Inr (p, False, False), sample_governance q (if challenge_pending p then Suc (Suc c) else Suc c) t r)"
  using assms
  by (simp add: resolve_lifecycle_def effect_basic_defs expire_if_needed_def plan_expiration_applies_def
      in_force_fields time_reached_def OPERATIONAL_PLAN_CONTRACT_VERSION_def invalidate_terminal_challenge_def
      expire_challenge_def)

lemma end_sample [simp]:
  "challenge_end sample_authority sample_content (sample_governance q c t r) =
     (Inr ''soon'', sample_governance q (Suc c) t r)"
  by (simp add: challenge_end_def effect_basic_defs)

lemmas sample_run_defs = silently_def effect_basic_defs require_configuration_projection_def
  require_dashboard_projection_def Let_def require_open_def

section \<open>The calls\<close>

lemma run_request:
  assumes "in_force p" and "cp_status p = AWAITING_APPROVAL" and "\<not> challenge_pending p"
    and "ca_state (cp_approval p) = REQUIRED" and "approval_bundle_state p \<noteq> ''fully_approved''"
  shows "perform sample_authority (RequestApproval ''p'' sample_digest note) (sample_governance p c t r) =
    (Inr None, sample_governance (stamped ''external_approval_requested''
       (p\<lparr>cp_approval := requested_approval sample_content sample_decision sample_digest ''apply'' ''token'' ''soon''
         ''soon'' None (Some sample_digest)\<rparr>)) (c + 5) (Suc t) (r + 2))"
proof -
  have "\<not> challenge_bound p sample_digest" using assms(3) by (simp add: challenge_bound_def)
  then show ?thesis
    using assms in_force_fields [OF assms(1)]
    by (simp add: approve_def sample_run_defs superseded_policy_def approve_checked_def request_challenge_def
        approval_kind_of_def)
qed

lemma run_review:
  assumes "in_force p" and "challenge_pending p" and "challenge_bound p sample_digest"
    and "active_challenge p = (action, Some ''token'', x, Some ''soon'')"
    and "ca_state (cp_approval p) \<noteq> EXPIRED" and "cp_status p \<noteq> EXPIRED_PLAN"
  shows "perform sample_authority (ReviewApproval ''p'' ''token'') (sample_governance p c t r) =
    (Inr None, sample_governance (stamped ''external_approval_viewed''
       (p\<lparr>cp_approval := set_csrf action (Some sample_digest) (Some ''soon'') (cp_approval p)\<rparr>)) (c + 6) (Suc t) (r + 2))"
proof -
  have "ends_soon p" using assms(4) by (simp add: ends_soon_def)
  then show ?thesis
    using assms in_force_fields [OF assms(1)] by (simp add: issue_external_csrf_def sample_run_defs)
qed

definition sample_decide :: "action_kind \<Rightarrow> string list \<Rightarrow> string \<Rightarrow> admin_decision" where
  "sample_decide action objects projection =
     \<lparr>de_plan_id = ''p'', de_challenge_id = ''token'', de_expected_plan_hash = sample_digest,
      de_approval_kind = ''apply'', de_csrf_nonce = ''token'', de_decision = ''approve'',
      de_approver_principal = ''alice'', de_approval_action = action_value action,
      de_acknowledged_objects = objects, de_acknowledged_projection_hash = projection\<rparr>"

lemma sample_approver: "take_points 160 ''alice'' = ''alice''"
  by (simp add: numeral_eq_Suc continuation_byte_def)

lemmas sample_decide_defs = decide_external_approval_def sample_decide_def sample_run_defs decide_loaded_def
  check_external_def expected_csrf_def second_action_def decide_action_def sample_approver
  LEGACY_ANONYMOUS_APPROVER_PRINCIPAL_def

lemma run_decide_plan:
  assumes "in_force p" and "challenge_pending p" and "challenge_bound p sample_digest"
    and "active_challenge p = (PLAN_APPROVAL, Some ''token'', x, Some ''soon'')"
    and "ca_state (cp_approval p) \<noteq> EXPIRED" and "cp_status p \<noteq> EXPIRED_PLAN"
    and "ca_approval_kind (cp_approval p) = ''apply''" and "ca_csrf_digest (cp_approval p) = Some sample_digest"
    and "ca_acknowledgement (cp_approval p) = Some k" and "aa_kind k = SAFETY_CRITICAL_ACKNOWLEDGEMENT"
    and "aa_projection_hash k = Some sample_digest" and "ca_bound_plan_hash (cp_approval p) = Some sample_digest"
  shows "perform sample_authority (DecideApproval (sample_decide PLAN_APPROVAL [] [])) (sample_governance p c t r) =
    (Inr None, sample_governance
      (stamped ''safety_critical_acknowledgement_requested'' (stamped ''external_approval_granted''
        (second_awaited SAFETY_CRITICAL_ACKNOWLEDGEMENT
          (bound_second sample_decision sample_digest ''soon''
            (requested_second SAFETY_CRITICAL_ACKNOWLEDGEMENT ''token'' ''soon'' k))
          (plan_granted ''alice'' ''soon'' (nonce_cleared PLAN_APPROVAL p))))) (c + 10) (Suc t) (r + 3))"
proof -
  note f = in_force_fields [OF assms(1)]
  have soon: "ends_soon p" using assms(4) by (simp add: ends_soon_def)
  have k: "ca_acknowledgement (cp_approval (plan_granted ''alice'' ''soon'' (nonce_cleared PLAN_APPROVAL p))) = Some k"
    using assms(9) by (simp add: plan_granted_def set_csrf_def second_action_def)
  have content: "cp_content (plan_granted ''alice'' ''soon'' (nonce_cleared PLAN_APPROVAL p)) = sample_content"
      "cp_content (stamped e q) = cp_content q" "cp_content (second_awaited kd k' q') = cp_content q'" for e q kd k' q'
    by (simp_all add: plan_granted_def f stamped_def second_awaited_def with_action_def)
  have bound: "projection_bound sample_authority sample_content (requested_second kd ch rq k) = True"
      "aa_kind (requested_second kd ch rq k) = SAFETY_CRITICAL_ACKNOWLEDGEMENT" for kd ch rq
    using assms(10,11) by (simp_all add: projection_bound_def requested_second_def)
  show ?thesis
    using assms f soon by (simp add: sample_decide_defs grant_plan_approval_def activate_second_def k content bound)
qed

lemma run_decide_second:
  assumes "in_force p" and "challenge_pending p" and "challenge_bound p sample_digest"
    and "active_challenge p = (SAFETY_CRITICAL_ACKNOWLEDGEMENT, Some ''token'', x, Some ''soon'')"
    and "ca_state (cp_approval p) \<noteq> EXPIRED" and "cp_status p \<noteq> EXPIRED_PLAN"
    and "ca_approval_kind (cp_approval p) = ''apply''" and "ca_acknowledgement (cp_approval p) = Some k"
    and "aa_kind k = SAFETY_CRITICAL_ACKNOWLEDGEMENT" and "aa_projection_hash k = Some sample_digest"
    and "aa_csrf_digest k = Some sample_digest" and "ca_bound_plan_hash (cp_approval p) = Some sample_digest"
    and "ca_approver_principal (cp_approval p) = Some ''alice''"
  shows "perform sample_authority (DecideApproval
      (sample_decide SAFETY_CRITICAL_ACKNOWLEDGEMENT [take 32 sample_digest] sample_digest)) (sample_governance p c t r) =
    (Inr None, sample_governance (stamped ''safety_critical_acknowledgement_granted''
      (second_granted (Some [(''op'', ''door'')]) ''alice'' ''soon'' (k\<lparr>aa_csrf_digest := None, aa_csrf_issued_at := None\<rparr>)
        (nonce_cleared SAFETY_CRITICAL_ACKNOWLEDGEMENT p))) (c + 6) t (r + 2))"
proof -
  note f = in_force_fields [OF assms(1)]
  have soon: "ends_soon p" using assms(4) by (simp add: ends_soon_def)
  have k: "ca_acknowledgement (set_csrf SAFETY_CRITICAL_ACKNOWLEDGEMENT None None (cp_approval p)) =
      Some (k\<lparr>aa_csrf_digest := None, aa_csrf_issued_at := None\<rparr>)"
    using assms(8) by (simp add: set_csrf_def second_action_def)
  have content: "cp_content (second_granted o1 o2 o3 o4 (nonce_cleared SAFETY_CRITICAL_ACKNOWLEDGEMENT p)) =
      sample_content" for o1 o2 o3 o4
    by (simp add: second_granted_def f fully_approved_approval with_action_def)
  have objects: "objects_acknowledged sample_authority
      \<lparr>ab_projection_hash = sample_digest, ab_objects = [(''op'', ''door'')]\<rparr>
      (sample_decide SAFETY_CRITICAL_ACKNOWLEDGEMENT [take 32 sample_digest] sample_digest)"
    by (simp add: objects_acknowledged_def sample_decide_def acknowledgement_tokens_def acknowledgement_object_token_def)
  show ?thesis
    using assms f soon objects by (simp add: sample_decide_defs grant_second_action_def k content)
qed

definition sample_child :: child_declaration where
  "sample_child = \<lparr>cd_plan_id = ''p'', cd_plan_hash = sample_digest, cd_approval_bundle_hash = sample_digest,
     cd_execution_request_id = ''q''\<rparr>"

lemma run_dispatch:
  assumes "in_force p" and "ca_state (cp_approval p) \<noteq> CONSUMED"
    and "requirement_checks sample_authority p sample_decision ''apply'' True = None"
    and "ca_approval_expires_at (cp_approval p) = Some ''end''" and "ca_approval_kind (cp_approval p) = ''apply''"
  shows "perform sample_authority (DispatchChild sample_child False) (sample_governance p c t r) =
    (Inr (Some Consumed), sample_governance (stamped ''external_approval_consumed''
      ((cp_approval_update (consumed_approval ''soon'') p)\<lparr>cp_status := APPLYING,
        cp_execution_outcome := Some ''dispatching'', cp_apply_request_id := Some ''q''\<rparr>)) (c + 5) t (r + 2))"
proof -
  note f = in_force_fields [OF assms(1)]
  have passed: "approval_requirement_error sample_authority p ''apply'' (sample_governance q c t r) =
      (Inr None, sample_governance q (Suc c) t r)" for q c t r
    using assms(3,4) f by (simp add: approval_requirement_error_def policy_snapshot_matches_def and_then_def
        effect_basic_defs unexpired_approval_def present_def time_reached_def)
  have "approval_bundle_hash sample_authority p = sample_digest" by (simp add: approval_bundle_hash_def Let_def)
  then show ?thesis
    using assms f
    by (simp add: consume_approval_def sample_child_def effect_basic_defs require_dispatch_approval_def passed
        consume_approval_bundle_def Let_def)
qed

end
