(* ===== verification/Approval_Walkthrough.thy ===== *)
theory Approval_Walkthrough
  imports Approval_Examples
begin

text \<open>
  The example from beginning to end: the plan after each call, and the calls that lead from one to the next.
\<close>

section \<open>The plan after each call\<close>

definition requested_plan :: change_plan where
  "requested_plan = stamped ''external_approval_requested'' (sample_plan\<lparr>cp_approval :=
     requested_approval sample_content sample_decision sample_digest ''apply'' ''token'' ''soon'' ''soon'' None
       (Some sample_digest)\<rparr>)"

definition viewed_plan :: change_plan where
  "viewed_plan = stamped ''external_approval_viewed'' (requested_plan\<lparr>cp_approval :=
     set_csrf PLAN_APPROVAL (Some sample_digest) (Some ''soon'') (cp_approval requested_plan)\<rparr>)"

definition awaiting_plan :: change_plan where
  "awaiting_plan = stamped ''safety_critical_acknowledgement_requested'' (stamped ''external_approval_granted''
     (second_awaited SAFETY_CRITICAL_ACKNOWLEDGEMENT
       (bound_second sample_decision sample_digest ''soon'' (requested_second SAFETY_CRITICAL_ACKNOWLEDGEMENT ''token''
         ''soon'' (the (ca_acknowledgement (cp_approval viewed_plan)))))
       (plan_granted ''alice'' ''soon'' (nonce_cleared PLAN_APPROVAL viewed_plan))))"

definition viewed_again_plan :: change_plan where
  "viewed_again_plan = stamped ''external_approval_viewed'' (awaiting_plan\<lparr>cp_approval :=
     set_csrf SAFETY_CRITICAL_ACKNOWLEDGEMENT (Some sample_digest) (Some ''soon'') (cp_approval awaiting_plan)\<rparr>)"

definition granted_plan :: change_plan where
  "granted_plan = stamped ''safety_critical_acknowledgement_granted''
     (second_granted (Some [(''op'', ''door'')]) ''alice'' ''soon''
       ((the (ca_acknowledgement (cp_approval viewed_again_plan)))\<lparr>aa_csrf_digest := None, aa_csrf_issued_at := None\<rparr>)
       (nonce_cleared SAFETY_CRITICAL_ACKNOWLEDGEMENT viewed_again_plan))"

definition dispatched_plan :: change_plan where
  "dispatched_plan = stamped ''external_approval_consumed'' ((cp_approval_update (consumed_approval ''soon'') granted_plan)\<lparr>
     cp_status := APPLYING, cp_execution_outcome := Some ''dispatching'', cp_apply_request_id := Some ''q''\<rparr>)"

definition sample_calls :: "governance_call list" where
  "sample_calls =
     [RequestApproval ''p'' sample_digest [],
      ReviewApproval ''p'' ''token'',
      DecideApproval (sample_decide PLAN_APPROVAL [] []),
      ReviewApproval ''p'' ''token'',
      DecideApproval (sample_decide SAFETY_CRITICAL_ACKNOWLEDGEMENT [take 32 sample_digest] sample_digest),
      DispatchChild sample_child False]"

lemmas stage_defs = stamped_def plan_change_defs second_action_def

lemma sample_content_kept [simp]:
  "cp_content sample_plan = sample_content" "cp_content requested_plan = sample_content"
  "cp_content viewed_plan = sample_content" "cp_content awaiting_plan = sample_content"
  "cp_content viewed_again_plan = sample_content" "cp_content granted_plan = sample_content"
  by (simp_all add: sample_plan_def requested_plan_def viewed_plan_def awaiting_plan_def viewed_again_plan_def
      granted_plan_def stage_defs)

text \<open>The approval at each stage, field by field.\<close>

definition sample_action :: approval_action where
  "sample_action = \<lparr>aa_kind = SAFETY_CRITICAL_ACKNOWLEDGEMENT,
     aa_authority_version = second_action_authority_version SAFETY_CRITICAL_ACKNOWLEDGEMENT, aa_state = REQUIRED,
     aa_bound_plan_hash = Some sample_digest, aa_policy_decision_hash = Some (pd_policy_decision_hash sample_decision),
     aa_policy_class = Some ''elevated_admin'', aa_risk_delta = Some (risk_delta_value (pd_risk_delta sample_decision)),
     aa_physical_consequence = Some (consequence_value (pd_physical_consequence sample_decision)),
     aa_challenge_id = None, aa_challenge_requested_at = None, aa_challenge_expires_at = None, aa_granted_at = None,
     aa_approver_principal = None, aa_consumed_at = None, aa_csrf_digest = None, aa_csrf_issued_at = None,
     aa_projection_hash = Some sample_digest, aa_acknowledged_objects = None\<rparr>"

definition sample_pending :: "string option \<Rightarrow> string option \<Rightarrow> change_approval" where
  "sample_pending csrf issued = \<lparr>ca_state = EXTERNAL_PENDING, ca_authority_version = APPROVAL_AUTHORITY_VERSION,
     ca_channel = Some APPROVAL_CHANNEL, ca_approver_principal = None, ca_principal_separation_enforced = None,
     ca_approved_at = None, ca_approving_caller_id = None, ca_approval_note = None,
     ca_bound_plan_hash = Some sample_digest, ca_consumed_at = None, ca_approval_kind = ''apply'',
     ca_approval_expires_at = None, ca_challenge_id = Some ''token'', ca_challenge_requested_at = Some ''soon'',
     ca_challenge_expires_at = Some ''soon'', ca_challenge_plan_version = Some (pc_plan_version sample_content),
     ca_challenge_target_type = Some (pc_target_type sample_content),
     ca_challenge_target_id = Some (pc_target_id sample_content),
     ca_challenge_operation = Some (change_kind_value (pc_operation sample_content)),
     ca_challenge_risk_level = Some (risk_level_value (ri_level (pc_risk sample_content))), ca_request_note = None,
     ca_csrf_digest = csrf, ca_csrf_issued_at = issued,
     ca_policy_decision_hash = Some (pd_policy_decision_hash sample_decision), ca_policy_class = Some ''elevated_admin'',
     ca_bundle_state = Some ''pending_plan_approval'', ca_same_principal_confirmed = None,
     ca_acknowledgement = Some sample_action\<rparr>"

definition sample_awaiting :: "string option \<Rightarrow> string option \<Rightarrow> change_approval" where
  "sample_awaiting csrf issued = (sample_pending None None)\<lparr>ca_state := APPROVED,
     ca_approver_principal := Some ''alice'', ca_principal_separation_enforced := Some True,
     ca_approved_at := Some ''soon'', ca_approval_expires_at := Some ''end'',
     ca_bundle_state := Some ''pending_safety_critical_acknowledgement'',
     ca_acknowledgement := Some (sample_action\<lparr>aa_state := EXTERNAL_PENDING, aa_challenge_id := Some ''token'',
       aa_challenge_requested_at := Some ''soon'', aa_challenge_expires_at := Some ''soon'',
       aa_csrf_digest := csrf, aa_csrf_issued_at := issued\<rparr>)\<rparr>"

definition sample_granted :: change_approval where
  "sample_granted = (sample_awaiting None None)\<lparr>ca_bundle_state := Some ''fully_approved'',
     ca_same_principal_confirmed := Some True,
     ca_acknowledgement := Some (sample_action\<lparr>aa_state := APPROVED, aa_challenge_id := Some ''token'',
       aa_challenge_requested_at := Some ''soon'', aa_challenge_expires_at := Some ''soon'',
       aa_granted_at := Some ''soon'', aa_approver_principal := Some ''alice'',
       aa_acknowledged_objects := Some [(''op'', ''door'')]\<rparr>)\<rparr>"

lemma alice_known: "principal_separation_proven ''alice''"
  by code_simp

lemmas stage_approval_defs = sample_action_def sample_pending_def sample_awaiting_def sample_granted_def

lemma requested_stage [simp]:
  "cp_approval requested_plan = sample_pending None None" "cp_status requested_plan = AWAITING_APPROVAL"
  "cp_policy_decision requested_plan = Some sample_decision"
  by (simp_all add: requested_plan_def sample_plan_def stage_defs stage_approval_defs requested_approval_def
      requested_action_def new_approval_def new_action_def)

lemma viewed_stage [simp]:
  "cp_approval viewed_plan = sample_pending (Some sample_digest) (Some ''soon'')"
  "cp_status viewed_plan = AWAITING_APPROVAL" "cp_policy_decision viewed_plan = Some sample_decision"
  by (simp_all add: viewed_plan_def stage_defs sample_pending_def)

lemma awaiting_stage [simp]:
  "cp_approval awaiting_plan = sample_awaiting None None" "cp_status awaiting_plan = AWAITING_APPROVAL"
  "cp_policy_decision awaiting_plan = Some sample_decision"
  by (simp_all add: awaiting_plan_def stage_defs stage_approval_defs alice_known)

lemma viewed_again_stage [simp]:
  "cp_approval viewed_again_plan = sample_awaiting (Some sample_digest) (Some ''soon'')"
  "cp_status viewed_again_plan = AWAITING_APPROVAL" "cp_policy_decision viewed_again_plan = Some sample_decision"
  by (simp_all add: viewed_again_plan_def stage_defs sample_awaiting_def)

lemma granted_stage [simp]:
  "cp_approval granted_plan = sample_granted" "cp_status granted_plan = APPROVED_PLAN"
  "cp_policy_decision granted_plan = Some sample_decision"
  by (simp_all add: granted_plan_def stage_defs stage_approval_defs)

section \<open>Every stage is in force\<close>

lemma sample_decided [simp]:
  "pd_required_acknowledgements sample_decision = [PLAN_APPROVAL, SAFETY_CRITICAL_ACKNOWLEDGEMENT]"
  by (simp add: sample_decision_def)

lemmas sample_check_defs = in_force_def intact_defs states_agree_def expected_states_def action_bound_def
  challenge_fields_def is_terminal_plan_def present_def alice_known

lemma fresh_force: "in_force sample_plan"
  by code_simp

lemma pending_force: "in_force requested_plan" "in_force viewed_plan"
  by (simp_all add: sample_check_defs) (simp_all add: stage_approval_defs sample_check_defs)

lemma awaiting_force: "in_force awaiting_plan" "in_force viewed_again_plan"
  by (simp_all add: sample_check_defs) (simp_all add: stage_approval_defs sample_check_defs)

lemma granted_force: "in_force granted_plan"
  by (simp add: sample_check_defs) (simp add: stage_approval_defs sample_check_defs)

section \<open>The calls\<close>

lemmas stage_fact_defs = stage_approval_defs active_challenge_def challenge_pending_def second_pending_def
  challenge_bound_def approval_kind_of_def second_action_def present_def approval_bundle_state_def

lemma pending_challenge [simp]:
  "challenge_pending requested_plan" "challenge_pending viewed_plan"
  "challenge_bound requested_plan sample_digest" "challenge_bound viewed_plan sample_digest"
  "active_challenge requested_plan = (PLAN_APPROVAL, Some ''token'', Some ''soon'', Some ''soon'')"
  "active_challenge viewed_plan = (PLAN_APPROVAL, Some ''token'', Some ''soon'', Some ''soon'')"
  by (simp_all add: stage_fact_defs)

lemma awaiting_challenge [simp]:
  "challenge_pending awaiting_plan" "challenge_pending viewed_again_plan"
  "challenge_bound awaiting_plan sample_digest" "challenge_bound viewed_again_plan sample_digest"
  "active_challenge awaiting_plan = (SAFETY_CRITICAL_ACKNOWLEDGEMENT, Some ''token'', Some ''soon'', Some ''soon'')"
  "active_challenge viewed_again_plan =
    (SAFETY_CRITICAL_ACKNOWLEDGEMENT, Some ''token'', Some ''soon'', Some ''soon'')"
  by (simp_all add: stage_fact_defs)

lemma granted_requirement: "requirement_checks sample_authority granted_plan sample_decision ''apply'' True = None"
  by (simp add: requirement_checks_def safety_critical_dispatch_error_def first_failure_def Let_def
      external_principal_authority_valid_def)
    (simp add: stage_fact_defs alice_known second_action_authority_version_def LEGACY_ANONYMOUS_APPROVER_PRINCIPAL_def)

lemma sample_call_1:
  "perform sample_authority (sample_calls ! 0) (sample_governance sample_plan 0 0 0) =
    (Inr None, sample_governance requested_plan 5 1 2)"
proof -
  have "cp_status sample_plan = AWAITING_APPROVAL" "\<not> challenge_pending sample_plan"
    "ca_state (cp_approval sample_plan) = REQUIRED" "approval_bundle_state sample_plan \<noteq> ''fully_approved''"
    by code_simp+
  then show ?thesis
    using run_request [OF fresh_force] by (simp add: sample_calls_def requested_plan_def)
qed

lemma sample_call_2:
  "perform sample_authority (sample_calls ! 1) (sample_governance requested_plan 5 1 2) =
    (Inr None, sample_governance viewed_plan 11 2 4)"
  using run_review [OF pending_force(1), of PLAN_APPROVAL "Some ''soon''" 5 1 2]
  by (simp add: sample_calls_def viewed_plan_def sample_pending_def)

lemma sample_call_3:
  "perform sample_authority (sample_calls ! 2) (sample_governance viewed_plan 11 2 4) =
    (Inr None, sample_governance awaiting_plan 21 3 7)"
  using run_decide_plan [OF pending_force(2), of "Some ''soon''" sample_action 11 2 4]
  by (simp add: sample_calls_def awaiting_plan_def) (simp add: stage_approval_defs)

lemma sample_call_4:
  "perform sample_authority (sample_calls ! 3) (sample_governance awaiting_plan 21 3 7) =
    (Inr None, sample_governance viewed_again_plan 27 4 9)"
  using run_review [OF awaiting_force(1), of SAFETY_CRITICAL_ACKNOWLEDGEMENT "Some ''soon''" 21 3 7]
  by (simp add: sample_calls_def viewed_again_plan_def sample_awaiting_def)

lemma sample_call_5:
  "perform sample_authority (sample_calls ! 4) (sample_governance viewed_again_plan 27 4 9) =
    (Inr None, sample_governance granted_plan 33 4 11)"
  using run_decide_second [OF awaiting_force(2), of "Some ''soon''"
      "the (ca_acknowledgement (cp_approval viewed_again_plan))" 27 4 9]
  by (simp add: sample_calls_def granted_plan_def) (simp add: stage_approval_defs)

lemma sample_call_6:
  "perform sample_authority (sample_calls ! 5) (sample_governance granted_plan 33 4 11) =
    (Inr (Some Consumed), sample_governance dispatched_plan 38 4 13)"
  using run_dispatch [OF granted_force _ granted_requirement, of 33 4 11]
  by (simp add: sample_calls_def dispatched_plan_def) (simp add: stage_approval_defs)

section \<open>The history\<close>

lemmas sample_run = sample_call_1 sample_call_2 sample_call_3 sample_call_4 sample_call_5 sample_call_6

lemma sample_calls_split:
  "sample_calls = [sample_calls ! 0, sample_calls ! 1, sample_calls ! 2, sample_calls ! 3, sample_calls ! 4, sample_calls ! 5]"
  by (simp add: sample_calls_def)

lemma run_sample_calls:
  "run_calls sample_authority (sample_calls @ later) (sample_governance sample_plan 0 0 0) =
    (let (rs, g) = run_calls sample_authority later (sample_governance dispatched_plan 38 4 13)
     in ([Inr None, Inr None, Inr None, Inr None, Inr None, Inr (Some Consumed)] @ rs, g))"
  by (subst sample_calls_split) (simp add: sample_run [unfolded One_nat_def] split_beta)

lemma sample_dispatched:
  "dispatched sample_authority (sample_calls @ later) (sample_governance sample_plan 0 0 0) 5"
  proof -
  have "length sample_calls = 6" by (simp add: sample_calls_def)
  then show ?thesis by (simp add: dispatched_def run_sample_calls split_beta)
qed
end
