(* ===== verification/Approval_Properties.thy ===== *)
theory Approval_Properties
  imports Approval_Walkthrough
begin

text \<open>
  The properties of plan approvals: a dispatch agrees with what administrators decided, an approval is used
  at most once, and every operation leaves every stored approval intact.
\<close>

section \<open>Dispatch agrees with the decisions\<close>

definition unapproved :: "change_plan \<Rightarrow> bool" where
  "unapproved p \<longleftrightarrow> barred p \<and> ca_state (cp_approval p) \<noteq> APPROVED \<and>
     map_option aa_state (ca_acknowledgement (cp_approval p)) \<noteq> Some APPROVED"

lemma all_plans_list:
  "all_plans ok g \<longleftrightarrow> list_all (\<lambda>i. pred_option ok (map_of (gv_plans g) i)) (map fst (gv_plans g))"
proof
  show "all_plans ok g \<Longrightarrow> list_all (\<lambda>i. pred_option ok (map_of (gv_plans g) i)) (map fst (gv_plans g))"
    by (auto simp: all_plans_def list_all_iff option.pred_set)
next
  assume every: "list_all (\<lambda>i. pred_option ok (map_of (gv_plans g) i)) (map fst (gv_plans g))"
  have "ok p" if "map_of (gv_plans g) i = Some p" for i p
  proof -
    have "i \<in> set (map fst (gv_plans g))" using map_of_SomeD [OF that] by force
    with every that show ?thesis by (auto simp: list_all_iff)
  qed
  then show "all_plans ok g" by (simp add: all_plans_def)
qed

lemma requirement_second:
  assumes "requirement_checks au p d ''apply'' True = None" and "second_action_kind d = Some kind"
    and "ca_acknowledgement (cp_approval p) = Some k"
  shows "aa_state k = APPROVED"
proof -
  have kind: "kind \<in> set (pd_required_acknowledgements d)" "kind \<noteq> PLAN_APPROVAL"
    using assms(2) by (auto simp: second_action_kind_def second_action_def find_Some_iff)
  show ?thesis
  proof (cases kind)
    case ELEVATED_RISK_ACKNOWLEDGEMENT
    then show ?thesis
      using kind assms(1,3) unfolding requirement_checks_def Let_def first_of_None first_failure_append
      by (simp split: if_splits)
  next
    case SAFETY_CRITICAL_ACKNOWLEDGEMENT
    then show ?thesis
      using kind requirement_facts(2) [OF assms(1)] assms(3)
      unfolding safety_critical_dispatch_error_def first_failure_append first_of_None
      by (simp split: if_splits)
  qed (use kind in simp)
qed

lemma snapshot_current:
  assumes "loadable au p" and "cp_policy_decision p = Some d"
  shows "evaluate_change_policy au (cp_content p) = Inr d" and "approval_bundle_integrity_error au p = None"
  using assms
  by (auto simp: loadable_def require_policy_snapshot_def policy_snapshot_matches_def and_then_def demand_def
      split: sum.splits option.splits if_splits)

section \<open>The example at the start\<close>

lemma sample_keyed: "keyed (sample_governance sample_plan 0 0 0)"
  by (simp add: keyed_def)

lemma sample_unapproved: "all_plans unapproved (sample_governance sample_plan 0 0 0)"
  by (simp add: all_plans_list unapproved_def barred_def sample_plan_def new_approval_def new_action_def)

lemma sample_barred: "all_plans barred (sample_governance sample_plan 0 0 0)"
  using sample_unapproved by (simp add: all_plans_def unapproved_def)

lemma sample_fresh: "all_plans (freshly_bound sample_authority) (sample_governance sample_plan 0 0 0)"
  by (simp add: all_plans_list freshly_bound_def sample_plan_def bind_new_plan_policy_def)
    (simp add: new_approval_def new_action_def sample_decision_def second_action_authority_version_def
      SAFETY_CRITICAL_ACKNOWLEDGEMENT_AUTHORITY_VERSION_def APPROVAL_AUTHORITY_VERSION_def)

lemma sample_call_at:
  "(sample_calls @ later) ! 5 = DispatchChild sample_child False"
  "(sample_calls @ [a, b]) ! 7 = b" "length sample_calls = 6"
  by (simp_all add: sample_calls_def)

lemma sample_child_fields: "cd_plan_id sample_child = ''p''" "cd_plan_hash sample_child = sample_digest"
  by (simp_all add: sample_child_def)

text \<open>C37: the approval of a plan is consumed for a dispatch only after an administrator who is known approved it, for exactly the hash that is dispatched; and when the policy in force asks for a second action, the same administrator gave it later, for the same hash, and for a safety-critical change with exactly the objects the plan protects.\<close>

theorem dispatch_is_authorised:
  assumes "keyed g" and "all_plans unapproved g"
    and "dispatched au calls g n" and "calls ! n = DispatchChild cd w"
  shows "\<exists>p d i de. map_of (gv_plans (world_after au (take n calls) g)) (cd_plan_id cd) = Some p \<and>
    plan_hash au p = cd_plan_hash cd \<and> evaluate_change_policy au (cp_content p) = Inr d \<and>
    i < n \<and> calls ! i = DecideApproval de \<and> approves de (cd_plan_id cd) (cd_plan_hash cd) PLAN_APPROVAL \<and>
    (\<forall>kind. second_action_kind d = Some kind \<longrightarrow>
      (\<exists>j de'. i < j \<and> j < n \<and> calls ! j = DecideApproval de' \<and>
        approves de' (cd_plan_id cd) (cd_plan_hash cd) kind \<and> approver_of de' = approver_of de \<and>
        (kind = SAFETY_CRITICAL_ACKNOWLEDGEMENT \<longrightarrow>
          (\<exists>b. safety_critical_binding au (cp_content p) = Some b \<and> objects_acknowledged au b de'))))"
proof -
  let ?h = "take n calls" and ?T = "range (gv_tokens g)"
  have n: "n < length calls" using assms(3) by (simp add: dispatched_def)
  have barred: "all_plans barred g" using assms(2) by (simp add: all_plans_def unapproved_def)
  have ready: "ready ?T (world_after au ?h g)" by (rule ready_after) (simp add: assms(1) barred)
  have "all_plans (authorised au []) g"
    using assms(2) by (auto simp: all_plans_def unapproved_def authorised_def)
  then have auth: "all_plans (authorised au ?h) (world_after au ?h g)"
    using assms(1) barred by (intro authority.always [where tokens = ?T]) simp_all
  obtain p d where p: "map_of (gv_plans (world_after au ?h g)) (cd_plan_id cd) = Some p"
      "plan_hash au p = cd_plan_hash cd" "loadable au p" "cp_policy_decision p = Some d"
    and req: "requirement_checks au p d ''apply'' True = None"
    using dispatch_inspects(1) [OF dispatch_call [OF assms(3,4)] ready] by blast
  note facts = requirement_facts [OF req]
  have pauth: "authorised au ?h p" using auth p(1) by (simp add: all_plans_def)
  have id: "pc_plan_id (cp_content p) = cd_plan_id cd" using p(1) ready by (simp add: keyed_iff)
  have first: "approves de (cd_plan_id cd) (cd_plan_hash cd) PLAN_APPROVAL \<and>
      ca_approver_principal (cp_approval p) = Some (approver_of de)" if "granted_first p de" for de
    using that facts(6) p(2) id by (simp add: granted_first_def)
  have index: "calls ! k = ?h ! k" if "k < n" for k using that by simp
  have allowed: "pd_policy_class d \<noteq> PROHIBITED"
    using facts(3) p ready by (auto simp: all_plans_def barred_def)
  show ?thesis
  proof (cases "second_action_kind d")
    case None
    obtain de where de: "DecideApproval de \<in> set ?h" "granted_first p de"
      using pauth facts(3) by (auto simp: authorised_def)
    obtain i where i: "i < n" "calls ! i = DecideApproval de"
      using de(1) n by (auto simp: in_set_conv_nth)
    show ?thesis
      by (rule exI [of _ p], rule exI [of _ d], rule exI [of _ i], rule exI [of _ de])
        (simp add: p snapshot_current(1) [OF p(3,4)] first [OF de(2)] None i)
  next
    case (Some kind)
    obtain k where k: "ca_acknowledgement (cp_approval p) = Some k" "aa_kind k = kind"
      using integrity_second [OF snapshot_current(2) [OF p(3,4)] p(4) allowed Some] by blast
    have "aa_state k = APPROVED" by (rule requirement_second [OF req Some k(1)])
    then obtain de de' where de: "decided_before ?h de de'" "granted_first p de" "granted_second au p k de'"
      using pauth k(1) by (auto simp: authorised_def)
    obtain i j where ij: "i < j" "j < length ?h" "?h ! i = DecideApproval de" "?h ! j = DecideApproval de'"
      using decided_before_index [OF de(1)] by blast
    have "approves de' (cd_plan_id cd) (cd_plan_hash cd) kind \<and> approver_of de' = approver_of de \<and>
        (kind = SAFETY_CRITICAL_ACKNOWLEDGEMENT \<longrightarrow>
          (\<exists>b. safety_critical_binding au (cp_content p) = Some b \<and> objects_acknowledged au b de'))"
      using de(3) first [OF de(2)] facts(6) p(2) id k(2) by (auto simp: granted_second_def)
    moreover have "i < n" "j < n" "calls ! i = DecideApproval de" "calls ! j = DecideApproval de'"
      using ij n by simp_all
    ultimately show ?thesis
      using ij(1)
      by (intro exI [of _ p] exI [of _ d] exI [of _ i] exI [of _ de])
        (auto simp: p snapshot_current(1) [OF p(3,4)] first [OF de(2)] Some intro!: exI [of _ j] exI [of _ de'])
  qed
qed

theorem dispatch_is_authorised_witness:
  "keyed (sample_governance sample_plan 0 0 0) \<and> all_plans unapproved (sample_governance sample_plan 0 0 0) \<and>
   dispatched sample_authority (sample_calls @ []) (sample_governance sample_plan 0 0 0) 5 \<and>
   (\<exists>p i j de de' b.
      map_of (gv_plans (world_after sample_authority (take 5 (sample_calls @ [])) (sample_governance sample_plan 0 0 0)))
        ''p'' = Some p \<and>
      i < j \<and> j < 5 \<and> (sample_calls @ []) ! i = DecideApproval de \<and> (sample_calls @ []) ! j = DecideApproval de' \<and>
      approves de ''p'' sample_digest PLAN_APPROVAL \<and>
      approves de' ''p'' sample_digest SAFETY_CRITICAL_ACKNOWLEDGEMENT \<and> approver_of de' = approver_of de \<and>
      safety_critical_binding sample_authority (cp_content p) = Some b \<and> objects_acknowledged sample_authority b de')"
proof -
  note applied = dispatch_is_authorised [OF sample_keyed sample_unapproved sample_dispatched sample_call_at(1), of "[]"]
  obtain p d i de where p: "map_of (gv_plans (world_after sample_authority (take 5 (sample_calls @ []))
        (sample_governance sample_plan 0 0 0))) ''p'' = Some p"
    and d: "d = sample_decision" and first: "i < 5" "(sample_calls @ []) ! i = DecideApproval de"
      "approves de ''p'' sample_digest PLAN_APPROVAL"
    and second: "\<forall>kind. second_action_kind d = Some kind \<longrightarrow>
      (\<exists>j de'. i < j \<and> j < 5 \<and> (sample_calls @ []) ! j = DecideApproval de' \<and> approves de' ''p'' sample_digest kind \<and>
        approver_of de' = approver_of de \<and> (kind = SAFETY_CRITICAL_ACKNOWLEDGEMENT \<longrightarrow>
          (\<exists>b. safety_critical_binding sample_authority (cp_content p) = Some b \<and>
            objects_acknowledged sample_authority b de')))"
    using applied unfolding sample_child_fields sample_evaluated by blast
  then show ?thesis
    using sample_keyed sample_unapproved sample_dispatched [of "[]"] second [rule_format, of SAFETY_CRITICAL_ACKNOWLEDGEMENT]
    by (simp only: d sample_second simp_thms) blast
qed

section \<open>An approval is used once\<close>

text \<open>C38: the approval of a plan is consumed at most once: once the dispatch of a child has consumed it, no later call, whatever happens in between, consumes it again.\<close>

theorem approval_consumed_once:
  assumes "keyed g" and "all_plans barred g" and "dispatched au calls g i" and "calls ! i = DispatchChild cd w"
    and "i < j" and "calls ! j = DispatchChild cd' w'" and "cd_plan_id cd' = cd_plan_id cd"
  shows "\<not> dispatched au calls g j"
proof
  let ?T = "range (gv_tokens g)"
  assume again: "dispatched au calls g j"
  have ready: "ready ?T (world_after au (take n calls) g)" for n
    by (rule ready_after) (simp add: assms(1,2))
  note consumed = dispatch_call
  obtain q where q: "map_of (gv_plans (world_after au (take (Suc i) calls) g)) (cd_plan_id cd) = Some q"
      "cp_status q = APPLYING"
    using dispatch_inspects(2) [OF consumed [OF assms(3,4)] ready] by blast
  define g1 where "g1 = world_after au (take (Suc i) calls) g"
  define later where "later = drop (Suc i) (take j calls)"
  have world: "world_after au (take j calls) g = world_after au later g1"
  proof -
    have "take j calls = take (Suc i) calls @ later"
      using assms(5) by (simp add: later_def flip: take_drop) (metis Suc_leI append_take_drop_id min.absorb1 take_take)
    then show ?thesis by (simp add: g1_def world_after_append)
  qed
  have start: "ready ?T g1" unfolding g1_def by (rule ready)
  have "all_plans (\<lambda>p. pc_plan_id (cp_content p) = cd_plan_id cd \<longrightarrow> closed_for_dispatch p) g1"
    using q start by (auto simp: g1_def all_plans_def closed_for_dispatch_def keyed_iff)
  then have closed: "all_plans (\<lambda>p. pc_plan_id (cp_content p) = cd_plan_id cd \<longrightarrow> closed_for_dispatch p)
      (world_after au later g1)"
    by (rule closing.always [OF start])
  obtain p d where "map_of (gv_plans (world_after au later g1)) (cd_plan_id cd) = Some p"
      "requirement_checks au p d ''apply'' True = None"
    using dispatch_inspects(1) [OF consumed [OF again assms(6)] ready] assms(7) world by auto
  moreover from this(1) have "closed_for_dispatch p"
    using closed ready_after [OF start, of au later] by (simp add: all_plans_def keyed_iff)
  ultimately show False
    using requirement_facts(1) by (simp add: closed_for_dispatch_def)
qed

theorem approval_consumed_once_witness:
  "keyed (sample_governance sample_plan 0 0 0) \<and> all_plans barred (sample_governance sample_plan 0 0 0) \<and>
   dispatched sample_authority (sample_calls @ [ReadPlan ''p'', DispatchChild sample_child False])
     (sample_governance sample_plan 0 0 0) 5 \<and>
   \<not> dispatched sample_authority (sample_calls @ [ReadPlan ''p'', DispatchChild sample_child False])
     (sample_governance sample_plan 0 0 0) 7"
  using approval_consumed_once [OF sample_keyed sample_barred sample_dispatched
      sample_call_at(1), of 7 "[ReadPlan ''p'', DispatchChild sample_child False]" sample_child False]
    sample_keyed sample_barred sample_dispatched
  by (simp add: sample_call_at)

section \<open>Every approval stays intact\<close>



section \<open>No dispatch after the end of a plan\<close>

definition clocked :: "governance \<Rightarrow> governance \<Rightarrow> bool" where
  "clocked g h \<longleftrightarrow> gv_times h = gv_times g \<and> gv_clock g \<le> gv_clock h"

interpretation clock: guarantee_relation clocked
  by unfold_locales (auto simp: clocked_def)

lemma clocked_now: "guarantees clocked now"
  unfolding now_def by (intro guarantee_rules clock.update_guar) (simp add: clocked_def)

lemma clocked_storage: "guarantees clocked storage_step"
  unfolding storage_step_def by (intro guarantee_rules clock.update_guar) (simp add: clocked_def)

lemma clocked_load: "guarantees clocked (load_plan au i)"
  unfolding load_plan_def read_plan_def require_plan_safe_def
  by (intro guarantee_rules clocked_storage)

lemma clocked_record: "guarantees clocked (record_event au p ev st er)"
  unfolding record_event_def save_plan_def after_save_def timestamp_now_def Let_def
  by (intro guarantee_rules clock.update_guar clocked_storage clocked_now) (simp add: clocked_def)

lemma clocked_dispatch: "guarantees clocked (require_dispatch_approval au p kind)"
  unfolding require_dispatch_approval_def reject_with_def approval_requirement_error_def unexpired_approval_def
    time_reached_def
  by (intro guarantee_rules clocked_record clocked_now)

lemma clocked_bundle: "guarantees clocked (consume_approval_bundle au p)"
  unfolding consume_approval_bundle_def timestamp_now_def
  by (intro guarantee_rules clocked_dispatch clocked_now)

text \<open>The check reads the clock before the end of the approval.\<close>

lemma unexpired_in_time:
  assumes "unexpired_approval au a g = (Inr True, h)"
  shows "\<exists>limit e. ca_approval_expires_at a = Some limit \<and> au_iso au limit = Some (Some e) \<and>
    gv_times g (gv_clock g) < e \<and> gv_clock h = Suc (gv_clock g)"
  using assms unfolding unexpired_approval_def time_reached_def now_def
  by (auto simp: effect_basic_defs present_def split: if_splits option.splits sum.splits)

lemma requirement_in_time:
  assumes "require_dispatch_approval au p kind g = (Inr (), h)"
  shows "\<exists>limit e. ca_approval_expires_at (cp_approval p) = Some limit \<and> au_iso au limit = Some (Some e) \<and>
    gv_times g (gv_clock g) < e \<and> gv_clock h = Suc (gv_clock g)"
proof -
  obtain e t where e: "approval_requirement_error au p kind g = (Inr e, t)"
    and rest: "(case e of None \<Rightarrow> return_eff ()
                | Some e \<Rightarrow> reject_with au p ''change_apply_rejected'' e e) t = (Inr (), h)"
    using assms unfolding require_dispatch_approval_def by (rule bind_eff_okD)
  have none: "e = None" using rest by (cases e) (auto simp: reject_with_def elim!: bind_eff_okD)
  then have h: "h = t" using rest by simp
  obtain d u where u: "unexpired_approval au (cp_approval p) g = (Inr u, h)" "requirement_checks au p d kind u = None"
    using e unfolding none h approval_requirement_error_def
    by (auto elim!: bind_eff_okD split: option.splits if_splits)
  have "u" using u(2) by (cases u) (simp_all add: requirement_checks_def Let_def split: if_splits)
  then show ?thesis using u(1) unexpired_in_time [of au "cp_approval p" g h] by simp
qed

text \<open>A granted approval ends with its plan.\<close>

definition ends_with_plan :: "change_plan \<Rightarrow> bool" where
  "ends_with_plan p \<longleftrightarrow>
     (ca_state (cp_approval p) = APPROVED \<longrightarrow>
      ca_approval_expires_at (cp_approval p) = Some (pc_expires_at (cp_content p)))"

lemma ends_step: "plan_step au tokens call p q \<Longrightarrow> ends_with_plan p \<Longrightarrow> ends_with_plan q"
  by (induction rule: plan_step.induct)
    (auto simp: ends_with_plan_def plan_change_defs requested_approval_def)

interpretation ending: approval_invariant au tokens "\<lambda>_. ends_with_plan" for au tokens
  by unfold_locales (auto intro: ends_step)



end
